(* ===== verification/Ring0_Prelude.thy ===== *)
theory Ring0_Prelude
  imports Main "HOL-Library.Word" "HOL-Library.Sublist" "HOL-Library.Monad_Syntax"
begin

unbundle bit_operations_syntax

text \<open>
  The prelude of the Ring0 development: names for the machine integers of the Rust
  sources, the byte-order and saturating operations of its standard library, the
  string predicates of \<open>str\<close>, and two interfaces that several components share:
  \<^item> \<open>bounded_history\<close>: a history vector that never grows past a cap and keeps the
    newest entries (alert, event and connection histories of the daemon);
  \<^item> \<open>rate_limiter\<close>: a guard that fires at most once per window (the event
    limiters of the kernel programs and of the alert pipeline).
\<close>

named_theorems le_simps \<open>little-endian reads and writes\<close>
named_theorems abi_consts \<open>event kinds and sizes of the wire contract\<close>

section \<open>Machine integers\<close>

type_synonym u8 = "8 word"
type_synonym u16 = "16 word"
type_synonym u32 = "32 word"
type_synonym u64 = "64 word"
type_synonym bytes = "u8 list"

section \<open>Bytes and byte order\<close>

definition byte_of :: "nat \<Rightarrow> ('a::len) word \<Rightarrow> u8" where
  "byte_of i x = ucast (drop_bit (8 * i) x)"

definition le16 :: "u8 \<Rightarrow> u8 \<Rightarrow> u16" where
  "le16 b0 b1 = ucast b0 OR push_bit 8 (ucast b1)"

definition le32 :: "u8 \<Rightarrow> u8 \<Rightarrow> u8 \<Rightarrow> u8 \<Rightarrow> u32" where
  "le32 b0 b1 b2 b3 = ucast b0 OR push_bit 8 (ucast b1) OR push_bit 16 (ucast b2)
     OR push_bit 24 (ucast b3)"

definition le64 :: "u8 \<Rightarrow> u8 \<Rightarrow> u8 \<Rightarrow> u8 \<Rightarrow> u8 \<Rightarrow> u8 \<Rightarrow> u8 \<Rightarrow> u8 \<Rightarrow> u64" where
  "le64 b0 b1 b2 b3 b4 b5 b6 b7 =
     ucast (le32 b0 b1 b2 b3) OR push_bit 32 (ucast (le32 b4 b5 b6 b7))"

definition bytes16 :: "u16 \<Rightarrow> bytes" where
  "bytes16 x = [byte_of 0 x, byte_of 1 x]"

definition bytes32 :: "u32 \<Rightarrow> bytes" where
  "bytes32 x = [byte_of 0 x, byte_of 1 x, byte_of 2 x, byte_of 3 x]"

definition bytes64 :: "u64 \<Rightarrow> bytes" where
  "bytes64 x = [byte_of 0 x, byte_of 1 x, byte_of 2 x, byte_of 3 x,
     byte_of 4 x, byte_of 5 x, byte_of 6 x, byte_of 7 x]"

lemma length_bytes32 [simp]: "length (bytes32 w) = 4"
  by (simp add: bytes32_def)

lemma unat_byte_of: "unat (byte_of i x) = unat x div 256 ^ i mod 256"
proof -
  have "(256 :: nat) ^ i = 2 ^ (8 * i)" by (simp add: power_mult)
  moreover have "unat (byte_of i x) = drop_bit (8 * i) (unat x) mod 256"
    by (simp add: byte_of_def unsigned_ucast_eq unat_drop_bit_eq take_bit_eq_mod)
  ultimately show ?thesis by (simp add: drop_bit_eq_div)
qed

lemma bit_byte_of: "bit (byte_of i x) n \<longleftrightarrow> n < 8 \<and> bit x (8 * i + n)"
  by (simp add: byte_of_def bit_simps)

lemma bit_le16: "bit (le16 b0 b1) n \<longleftrightarrow> (if n < 8 then bit b0 n else bit b1 (n - 8))"
  by (auto simp: le16_def bit_simps dest: bit_imp_le_length)

lemma bit_le32:
  "bit (le32 b0 b1 b2 b3) n \<longleftrightarrow>
     (if n < 8 then bit b0 n else if n < 16 then bit b1 (n - 8)
      else if n < 24 then bit b2 (n - 16) else bit b3 (n - 24))"
  by (auto simp: le32_def bit_simps dest: bit_imp_le_length)

lemma bit_le64:
  "bit (le64 b0 b1 b2 b3 b4 b5 b6 b7) n \<longleftrightarrow>
     (if n < 32 then bit (le32 b0 b1 b2 b3) n else bit (le32 b4 b5 b6 b7) (n - 32))"
  by (auto simp: le64_def bit_simps dest: bit_imp_le_length)

lemma le16_bytes [simp, le_simps]: "le16 (byte_of 0 x) (byte_of (Suc 0) x) = x"
  by (rule bit_word_eqI) (auto simp: bit_le16 bit_byte_of)

lemma le32_bytes [simp, le_simps]:
  "le32 (byte_of 0 x) (byte_of (Suc 0) x) (byte_of 2 x) (byte_of 3 x) = x"
  by (rule bit_word_eqI) (auto simp: bit_le32 bit_byte_of)

lemma le64_bytes [simp, le_simps]:
  "le64 (byte_of 0 x) (byte_of (Suc 0) x) (byte_of 2 x) (byte_of 3 x)
        (byte_of 4 x) (byte_of 5 x) (byte_of 6 x) (byte_of 7 x) = x"
  by (rule bit_word_eqI) (auto simp: bit_le64 bit_le32 bit_byte_of)

lemma byte_of_le16 [simp]:
  "byte_of 0 (le16 b0 b1) = b0" "byte_of (Suc 0) (le16 b0 b1) = b1"
  by (auto intro!: bit_word_eqI simp: bit_le16 bit_byte_of)

lemma byte_of_le32 [simp]:
  "byte_of 0 (le32 b0 b1 b2 b3) = b0" "byte_of (Suc 0) (le32 b0 b1 b2 b3) = b1"
  "byte_of 2 (le32 b0 b1 b2 b3) = b2" "byte_of 3 (le32 b0 b1 b2 b3) = b3"
  by (auto intro!: bit_word_eqI simp: bit_le32 bit_byte_of)

text \<open>
  \<open>from_be\<close> and \<open>to_be\<close> on the little-endian targets the sources build for
  (\<open>bpfel-unknown-none\<close>, x86_64): both swap the bytes.
\<close>

definition swap16 :: "u16 \<Rightarrow> u16" where
  "swap16 x = le16 (byte_of 1 x) (byte_of 0 x)"

definition swap32 :: "u32 \<Rightarrow> u32" where
  "swap32 x = le32 (byte_of 3 x) (byte_of 2 x) (byte_of 1 x) (byte_of 0 x)"

lemma swap16_swap16 [simp]: "swap16 (swap16 x) = x"
  by (simp add: swap16_def)

lemma swap32_swap32 [simp]: "swap32 (swap32 x) = x"
  by (simp add: swap32_def)

lemma swap16_inj [simp]: "swap16 x = swap16 y \<longleftrightarrow> x = y"
  by (metis swap16_swap16)

lemma swap32_inj [simp]: "swap32 x = swap32 y \<longleftrightarrow> x = y"
  by (metis swap32_swap32)

lemma swap16_le16 [simp]: "swap16 (le16 b0 b1) = le16 b1 b0"
  by (simp add: swap16_def)

lemma swap32_le32 [simp]: "swap32 (le32 b0 b1 b2 b3) = le32 b3 b2 b1 b0"
  by (simp add: swap32_def)

text \<open>
  Reads of a byte slice: \<open>raw[i]\<close> and \<open>from_le_bytes(raw[i..i+n])\<close> panic when the
  slice is too short; \<open>None\<close> is that panic.
\<close>

definition rd8 :: "bytes \<Rightarrow> nat \<Rightarrow> u8 option" where
  "rd8 raw i = (if i < length raw then Some (raw ! i) else None)"

definition rd16 :: "bytes \<Rightarrow> nat \<Rightarrow> u16 option" where
  "rd16 raw i = (if i + 2 \<le> length raw then Some (le16 (raw ! i) (raw ! (i + 1))) else None)"

definition rd32 :: "bytes \<Rightarrow> nat \<Rightarrow> u32 option" where
  "rd32 raw i = (if i + 4 \<le> length raw
     then Some (le32 (raw ! i) (raw ! (i + 1)) (raw ! (i + 2)) (raw ! (i + 3))) else None)"

definition rd64 :: "bytes \<Rightarrow> nat \<Rightarrow> u64 option" where
  "rd64 raw i = (if i + 8 \<le> length raw
     then Some (le64 (raw ! i) (raw ! (i + 1)) (raw ! (i + 2)) (raw ! (i + 3))
                 (raw ! (i + 4)) (raw ! (i + 5)) (raw ! (i + 6)) (raw ! (i + 7))) else None)"

definition slice :: "bytes \<Rightarrow> nat \<Rightarrow> nat \<Rightarrow> bytes option" where
  "slice raw i j = (if i \<le> j \<and> j \<le> length raw then Some (take (j - i) (drop i raw)) else None)"

lemmas rd_defs [le_simps] = rd8_def rd16_def rd32_def rd64_def slice_def

text \<open>Network (big-endian) bytes of a value, as they appear on the wire.\<close>

definition be16 :: "u16 \<Rightarrow> bytes" where
  "be16 x = [byte_of 1 x, byte_of 0 x]"

definition be32 :: "u32 \<Rightarrow> bytes" where
  "be32 x = [byte_of 3 x, byte_of 2 x, byte_of 1 x, byte_of 0 x]"

lemma length_be [simp]: "length (be16 x) = 2" "length (be32 y) = 4"
  by (simp_all add: be16_def be32_def)

lemma le16_rev [simp, le_simps]: "le16 (byte_of (Suc 0) x) (byte_of 0 x) = swap16 x"
  by (simp add: swap16_def)

lemma le32_rev [simp, le_simps]:
  "le32 (byte_of 3 x) (byte_of 2 x) (byte_of (Suc 0) x) (byte_of 0 x) = swap32 x"
  by (simp add: swap32_def)

section \<open>Saturating and checked arithmetic\<close>

definition sat_sub :: "('a::len) word \<Rightarrow> 'a word \<Rightarrow> 'a word" where
  "sat_sub x y = (if x \<le> y then 0 else x - y)"

definition sat_add :: "('a::len) word \<Rightarrow> 'a word \<Rightarrow> 'a word" where
  "sat_add x y = (if unat x + unat y < 2 ^ LENGTH('a) then x + y else - 1)"

lemma unat_sat_sub: "unat (sat_sub x y) = unat x - unat y"
  by (simp add: sat_sub_def word_le_nat_alt unat_sub)

lemma unat_sat_add: "unat (sat_add x (y :: ('a::len) word)) = min (unat x + unat y) (2 ^ LENGTH('a) - 1)"
  by (auto simp: sat_add_def unat_word_ariths min_def unsigned_minus_1_eq_mask
      mask_eq_exp_minus_1)

text \<open>\<open>i32::try_from\<close> of an unsigned 32-bit value: defined below \<open>2 ^ 31\<close>.\<close>

definition i32_try_from :: "u32 \<Rightarrow> int option" where
  "i32_try_from x = (if unat x < 2 ^ 31 then Some (int (unat x)) else None)"

section \<open>String predicates of \<open>str\<close>\<close>

text \<open>
  Text is a \<open>string\<close> of ASCII characters: every character is one byte, as in the
  UTF-8 encoding of an ASCII text, so lengths and byte offsets agree.
\<close>

abbreviation str_contains :: "string \<Rightarrow> string \<Rightarrow> bool" where
  "str_contains s t \<equiv> sublist t s"

abbreviation starts_with :: "string \<Rightarrow> string \<Rightarrow> bool" where
  "starts_with s p \<equiv> prefix p s"

definition unwrap_or :: "'a \<Rightarrow> 'a option \<Rightarrow> 'a" where
  "unwrap_or d x = (case x of Some v \<Rightarrow> v | None \<Rightarrow> d)"

text \<open>The bytes of a byte-string literal.\<close>

definition ascii :: "string \<Rightarrow> bytes" where
  "ascii s = map of_char s"

lemma length_ascii [simp]: "length (ascii s) = length s"
  by (simp add: ascii_def)

text \<open>\<open>rsplit(c).next()\<close>: the part after the last \<open>c\<close> (the whole text if there is none).\<close>

definition after_last :: "char \<Rightarrow> string \<Rightarrow> string" where
  "after_last c s = rev (takeWhile (\<lambda>x. x \<noteq> c) (rev s))"

lemma after_last_no_sep: "c \<notin> set (after_last c s)"
  by (auto simp: after_last_def dest: set_takeWhileD)

lemma after_last_suffix: "suffix (after_last c s) s"
  unfolding after_last_def suffix_to_prefix by (simp add: takeWhile_is_prefix)

section \<open>Bounded histories\<close>

text \<open>
  The daemon keeps its alert, event and connection histories in vectors with a cap. The
  sources write the eviction in four ways (drain the excess, remove the first, pop while
  too long, pop one before pushing); what the readers of the histories rely on is one
  law: a push appends and keeps the newest \<open>cap\<close> entries.
\<close>

locale bounded_history =
  fixes push :: "'a \<Rightarrow> 'a list \<Rightarrow> 'a list" and cap :: nat
  assumes cap_pos: "0 < cap"
    and push_keeps: "length h \<le> cap \<Longrightarrow> push x h = drop (Suc (length h) - cap) (h @ [x])"
begin

lemma push_length: "length h \<le> cap \<Longrightarrow> length (push x h) = min (Suc (length h)) cap"
  by (auto simp: push_keeps)

lemma push_le: "length h \<le> cap \<Longrightarrow> length (push x h) \<le> cap"
  by (simp add: push_length)

lemma last_push: "length h \<le> cap \<Longrightarrow> push x h \<noteq> [] \<and> last (push x h) = x"
  using cap_pos by (auto simp: push_keeps last_drop)

text \<open>After any sequence of pushes the history is exactly the newest \<open>cap\<close> entries.\<close>

lemma fold_push:
  "length h \<le> cap \<Longrightarrow>
     fold push xs h = drop (length h + length xs - cap) (h @ xs)"
proof (induction xs arbitrary: h)
  case Nil
  then show ?case by simp
next
  case (Cons x xs)
  have le: "length (push x h) \<le> cap" using Cons.prems by (rule push_le)
  show ?case
  proof (cases "Suc (length h) \<le> cap")
    case True
    then show ?thesis using Cons.IH [OF le] Cons.prems by (simp add: push_keeps)
  next
    case False
    with Cons.prems have h: "length h = cap" by simp
    then show ?thesis using Cons.IH [OF le] Cons.prems cap_pos
      by (simp add: push_keeps)
  qed
qed

lemma history_newest: "fold push xs [] = drop (length xs - cap) xs"
  using fold_push [of "[]" xs] by simp

lemma history_bounded: "length (fold push xs []) \<le> cap"
  by (simp add: history_newest)

end

section \<open>Rate limiters\<close>

text \<open>
  A limiter remembers the time of its last firing. An attempt carries its clock reading
  (and whatever else the guard reads). \<open>fire_run\<close> collects the times at which a
  sequence of attempts fires.
\<close>

fun fire_run :: "('i \<Rightarrow> u64) \<Rightarrow> ('i \<Rightarrow> 's \<Rightarrow> bool \<times> 's) \<Rightarrow> 'i list \<Rightarrow> 's \<Rightarrow> u64 list" where
  "fire_run tm fire [] s = []"
| "fire_run tm fire (i # is) s =
     (case fire i s of (b, s') \<Rightarrow>
        (if b then [tm i] else []) @ fire_run tm fire is s')"

text \<open>\<open>spaced g ts\<close>: consecutive times of \<open>ts\<close> are at least \<open>g\<close> apart.\<close>

fun spaced :: "nat \<Rightarrow> u64 list \<Rightarrow> bool" where
  "spaced g (t # u # ts) \<longleftrightarrow> unat t + g \<le> unat u \<and> spaced g (u # ts)"
| "spaced g ts \<longleftrightarrow> True"

locale rate_limiter =
  fixes tm :: "'i \<Rightarrow> u64" and fire :: "'i \<Rightarrow> 's \<Rightarrow> bool \<times> 's"
    and fired :: "'s \<Rightarrow> u64 option" and gap :: nat
  assumes fire_marks: "fire i s = (True, s') \<Longrightarrow> fired s' = Some (tm i)"
    and fire_waits: "fire i s = (True, s') \<Longrightarrow> fired s = Some t \<Longrightarrow> t \<le> tm i \<Longrightarrow>
      unat t + gap \<le> unat (tm i)"
    and quiet_keeps: "fire i s = (False, s') \<Longrightarrow> fired s' = fired s"
begin

lemma fire_run_le: "sorted (map tm (i # is)) \<Longrightarrow> t \<in> set (fire_run tm fire is s) \<Longrightarrow> tm i \<le> t"
  by (induction "is" arbitrary: s) (fastforce split: prod.splits if_splits)+

lemma fire_run_spaced_from:
  "sorted (map tm is) \<Longrightarrow> fired s = Some t \<Longrightarrow> (\<forall>i \<in> set is. t \<le> tm i) \<Longrightarrow>
     spaced gap (t # fire_run tm fire is s)"
proof (induction "is" arbitrary: s t)
  case Nil
  then show ?case by simp
next
  case (Cons i "is")
  obtain b s' where f: "fire i s = (b, s')" by force
  show ?case
  proof (cases b)
    case True
    with f have f': "fire i s = (True, s')" by simp
    have "unat t + gap \<le> unat (tm i)"
      using fire_waits [OF f' Cons.prems(2)] Cons.prems(3) by simp
    moreover have "spaced gap (tm i # fire_run tm fire is s')"
      using Cons.IH [OF _ fire_marks [OF f']] Cons.prems(1) by auto
    ultimately show ?thesis using f' by simp
  next
    case False
    with f have f': "fire i s = (False, s')" by simp
    have "spaced gap (t # fire_run tm fire is s')"
      using Cons.IH [of s' t] Cons.prems quiet_keeps [OF f'] by simp
    with f' show ?thesis by simp
  qed
qed

text \<open>On any clock that does not run backwards, firings are at least \<open>gap\<close> apart.\<close>

lemma fire_run_spaced:
  "sorted (map tm is) \<Longrightarrow> fired s = None \<Longrightarrow> spaced gap (fire_run tm fire is s)"
proof (induction "is" arbitrary: s)
  case Nil
  then show ?case by simp
next
  case (Cons i "is")
  obtain b s' where f: "fire i s = (b, s')" by force
  show ?case
  proof (cases b)
    case True
    with f have f': "fire i s = (True, s')" by simp
    show ?thesis using fire_run_spaced_from [OF _ fire_marks [OF f']] Cons.prems f' by auto
  next
    case False
    with f have f': "fire i s = (False, s')" by simp
    show ?thesis using Cons.IH [of s'] Cons.prems quiet_keeps [OF f'] f' by simp
  qed
qed

end

end
