(* ===== verification/Abi.thy ===== *)
theory Abi
  imports Ring0_Prelude
begin

text \<open>
  The wire contract between the kernel programs and the daemon: the event kinds and
  sizes of \<open>ring0-abi/src/lib.rs\<close>, the \<open>repr(C)\<close> event structs of
  \<open>ring0-ebpf/src/main.rs\<close> with their layout, the bytes a kernel program writes
  for an event, and the daemon's size guard \<open>event_len_ok\<close> (\<open>ring0d/src/main.rs\<close>).
  The layout follows the rules of \<open>repr(C)\<close>: a field sits at the next multiple of
  its alignment, the struct is padded to the largest alignment. Padding bytes are
  unspecified, so the writer takes them as an argument.
\<close>

section \<open>Event kinds and canonical sizes\<close>

definition KIND_PACKET :: u8 where "KIND_PACKET = 0"
definition KIND_PROCESS_EXEC :: u8 where "KIND_PROCESS_EXEC = 1"
definition KIND_FILE_ACCESS :: u8 where "KIND_FILE_ACCESS = 2"
definition KIND_CONNECT :: u8 where "KIND_CONNECT = 3"
definition KIND_KILL :: u8 where "KIND_KILL = 4"
definition KIND_UNLINK :: u8 where "KIND_UNLINK = 5"
definition KIND_TLS :: u8 where "KIND_TLS = 6"
definition KIND_DNS :: u8 where "KIND_DNS = 7"
definition KIND_LSM :: u8 where "KIND_LSM = 10"
definition KIND_CANARY :: u8 where "KIND_CANARY = 11"
definition KIND_SETUID :: u8 where "KIND_SETUID = 12"
definition KIND_CAP :: u8 where "KIND_CAP = 13"
definition KIND_PTRACE :: u8 where "KIND_PTRACE = 14"
definition KIND_MEMFD :: u8 where "KIND_MEMFD = 20"
definition KIND_MMAP :: u8 where "KIND_MMAP = 21"
definition KIND_MODULE :: u8 where "KIND_MODULE = 22"
definition KIND_DPI :: u8 where "KIND_DPI = 30"

definition SIZE_PACKET :: nat where "SIZE_PACKET = 40"
definition SIZE_PROCESS_EXEC :: nat where "SIZE_PROCESS_EXEC = 44"
definition SIZE_FILE_ACCESS :: nat where "SIZE_FILE_ACCESS = 92"
definition SIZE_CONNECT :: nat where "SIZE_CONNECT = 32"
definition SIZE_KILL :: nat where "SIZE_KILL = 28"
definition SIZE_UNLINK :: nat where "SIZE_UNLINK = 120"
definition SIZE_LSM :: nat where "SIZE_LSM = 136"
definition SIZE_SETUID :: nat where "SIZE_SETUID = 28"
definition SIZE_CAP :: nat where "SIZE_CAP = 32"
definition SIZE_MEMFD :: nat where "SIZE_MEMFD = 60"
definition SIZE_MMAP :: nat where "SIZE_MMAP = 56"
definition SIZE_MODULE :: nat where "SIZE_MODULE = 92"
definition SIZE_TLS :: nat where "SIZE_TLS = 292"
definition SIZE_DNS :: nat where "SIZE_DNS = 128"
definition SIZE_DPI :: nat where "SIZE_DPI = 36"

lemmas kind_defs [abi_consts] =
  KIND_PACKET_def KIND_PROCESS_EXEC_def KIND_FILE_ACCESS_def KIND_CONNECT_def KIND_KILL_def KIND_UNLINK_def KIND_TLS_def KIND_DNS_def KIND_LSM_def KIND_CANARY_def KIND_SETUID_def KIND_CAP_def KIND_PTRACE_def KIND_MEMFD_def KIND_MMAP_def KIND_MODULE_def KIND_DPI_def

lemmas size_defs [abi_consts] =
  SIZE_PACKET_def SIZE_PROCESS_EXEC_def SIZE_FILE_ACCESS_def SIZE_CONNECT_def SIZE_KILL_def SIZE_UNLINK_def SIZE_LSM_def SIZE_SETUID_def SIZE_CAP_def SIZE_MEMFD_def SIZE_MMAP_def SIZE_MODULE_def SIZE_TLS_def SIZE_DNS_def SIZE_DPI_def

text \<open>The size table: filled by index from an all-\<open>None\<close> array, as the source does.\<close>

definition EVENT_SIZE :: "nat option list" where
  "EVENT_SIZE =
    (let t = replicate 31 None;
         t = t[unat KIND_PACKET := Some SIZE_PACKET];
         t = t[unat KIND_PROCESS_EXEC := Some SIZE_PROCESS_EXEC];
         t = t[unat KIND_FILE_ACCESS := Some SIZE_FILE_ACCESS];
         t = t[unat KIND_CONNECT := Some SIZE_CONNECT];
         t = t[unat KIND_KILL := Some SIZE_KILL];
         t = t[unat KIND_UNLINK := Some SIZE_UNLINK];
         t = t[unat KIND_TLS := Some SIZE_TLS];
         t = t[unat KIND_DNS := Some SIZE_DNS];
         t = t[unat KIND_LSM := Some SIZE_LSM];
         t = t[unat KIND_SETUID := Some SIZE_SETUID];
         t = t[unat KIND_CAP := Some SIZE_CAP];
         t = t[unat KIND_PTRACE := Some SIZE_CAP];
         t = t[unat KIND_MEMFD := Some SIZE_MEMFD];
         t = t[unat KIND_MMAP := Some SIZE_MMAP];
         t = t[unat KIND_MODULE := Some SIZE_MODULE];
         t = t[unat KIND_DPI := Some SIZE_DPI]
     in t)"

definition MAX_KIND :: u8 where "MAX_KIND = 30"

text \<open>\<open>EVENT_SIZE.get(kind).copied().flatten()\<close>.\<close>

definition event_size :: "u8 \<Rightarrow> nat option" where
  "event_size kind = (if unat kind < length EVENT_SIZE then EVENT_SIZE ! unat kind else None)"

definition event_len_ok :: "u8 \<Rightarrow> nat \<Rightarrow> bool" where
  "event_len_ok kind len = (case event_size kind of Some expected \<Rightarrow> expected \<le> len | None \<Rightarrow> True)"

lemma EVENT_SIZE_eval:
  "EVENT_SIZE = [Some 40, Some 44, Some 92, Some 32, Some 28, Some 120, Some 292, Some 128, None, None, Some 136, None, Some 28, Some 32, Some 32, None, None, None, None, None, Some 60, Some 56, Some 92, None, None, None, None, None, None, None, Some 36]"
  by code_simp

record flow_key =
  fk_src_ip :: u32
  fk_dst_ip :: u32
  fk_src_port :: u16
  fk_dst_port :: u16
  fk_protocol :: u8
  fk_pad :: bytes

section \<open>The event structs and their layout\<close>

datatype cty = CU8 | CU16 | CU32 | CU64 | CF32 | CArr nat

fun csize :: "cty \<Rightarrow> nat" where
  "csize CU8 = 1" | "csize CU16 = 2" | "csize CU32 = 4" | "csize CU64 = 8"
| "csize CF32 = 4" | "csize (CArr n) = n"

fun calign :: "cty \<Rightarrow> nat" where
  "calign CU8 = 1" | "calign CU16 = 2" | "calign CU32 = 4" | "calign CU64 = 8"
| "calign CF32 = 4" | "calign (CArr n) = 1"

definition align_up :: "nat \<Rightarrow> nat \<Rightarrow> nat" where
  "align_up a off = (off + a - 1) div a * a"

fun layout :: "nat \<Rightarrow> (string \<times> cty) list \<Rightarrow> (string \<times> nat) list" where
  "layout off [] = []"
| "layout off ((n, t) # fs) =
     (n, align_up (calign t) off) # layout (align_up (calign t) off + csize t) fs"

fun layout_end :: "nat \<Rightarrow> (string \<times> cty) list \<Rightarrow> nat" where
  "layout_end off [] = off"
| "layout_end off ((n, t) # fs) = layout_end (align_up (calign t) off + csize t) fs"

definition struct_align :: "(string \<times> cty) list \<Rightarrow> nat" where
  "struct_align fs = fold (\<lambda>(n, t). max (calign t)) fs 1"

definition struct_size :: "(string \<times> cty) list \<Rightarrow> nat" where
  "struct_size fs = align_up (struct_align fs) (layout_end 0 fs)"

definition PacketEvent_fields :: "(string \<times> cty) list" where
  "PacketEvent_fields = [(''kind'', CU8), (''timestamp'', CU64), (''src_ip'', CU32), (''dst_ip'', CU32), (''src_port'', CU16), (''dst_port'', CU16), (''protocol'', CU8), (''pid'', CU32), (''action'', CU8)]"

definition ProcessExecEvent_fields :: "(string \<times> cty) list" where
  "ProcessExecEvent_fields = [(''kind'', CU8), (''timestamp'', CU64), (''pid'', CU32), (''ppid'', CU32), (''uid'', CU32), (''comm'', CArr 16)]"

definition FileAccessEvent_fields :: "(string \<times> cty) list" where
  "FileAccessEvent_fields = [(''kind'', CU8), (''timestamp'', CU64), (''pid'', CU32), (''uid'', CU32), (''filename'', CArr 64), (''flags'', CU32)]"

definition ConnectEvent_fields :: "(string \<times> cty) list" where
  "ConnectEvent_fields = [(''kind'', CU8), (''timestamp'', CU64), (''pid'', CU32), (''uid'', CU32), (''dst_ip'', CU32), (''dst_port'', CU16), (''protocol'', CU8)]"

definition KillEvent_fields :: "(string \<times> cty) list" where
  "KillEvent_fields = [(''kind'', CU8), (''timestamp'', CU64), (''attacker_pid'', CU32), (''target_pid'', CU32), (''sig'', CU32)]"

definition UnlinkEvent_fields :: "(string \<times> cty) list" where
  "UnlinkEvent_fields = [(''kind'', CU8), (''timestamp'', CU64), (''pid'', CU32), (''uid'', CU32), (''path'', CArr 96)]"

definition LsmEvent_fields :: "(string \<times> cty) list" where
  "LsmEvent_fields = [(''kind'', CU8), (''timestamp'', CU64), (''pid'', CU32), (''uid'', CU32), (''event_type'', CU8), (''denied'', CU8), (''path'', CArr 96), (''dst_ip'', CU32), (''dst_port'', CU16)]"

definition SetuidEvent_fields :: "(string \<times> cty) list" where
  "SetuidEvent_fields = [(''kind'', CU8), (''timestamp'', CU64), (''pid'', CU32), (''old_uid'', CU32), (''new_uid'', CU32)]"

definition CapEvent_fields :: "(string \<times> cty) list" where
  "CapEvent_fields = [(''kind'', CU8), (''timestamp'', CU64), (''pid'', CU32), (''uid'', CU32), (''capability'', CU32), (''target'', CU32)]"

definition MemfdEvent_fields :: "(string \<times> cty) list" where
  "MemfdEvent_fields = [(''kind'', CU8), (''timestamp'', CU64), (''pid'', CU32), (''uid'', CU32), (''flags'', CU32), (''name'', CArr 32)]"

definition MmapEvent_fields :: "(string \<times> cty) list" where
  "MmapEvent_fields = [(''kind'', CU8), (''timestamp'', CU64), (''pid'', CU32), (''uid'', CU32), (''addr'', CU64), (''len'', CU64), (''prot'', CU32), (''flags'', CU32), (''file_fd'', CU64)]"

definition ModuleEvent_fields :: "(string \<times> cty) list" where
  "ModuleEvent_fields = [(''kind'', CU8), (''timestamp'', CU64), (''pid'', CU32), (''uid'', CU32), (''name'', CArr 64), (''flags'', CU32)]"

definition TlsEvent_fields :: "(string \<times> cty) list" where
  "TlsEvent_fields = [(''kind'', CU8), (''timestamp'', CU64), (''flow_id'', CU64), (''pid'', CU32), (''direction'', CU8), (''len'', CU32), (''buf'', CArr 256)]"

definition DnsQueryEvent_fields :: "(string \<times> cty) list" where
  "DnsQueryEvent_fields = [(''kind'', CU8), (''timestamp'', CU64), (''pid'', CU32), (''query_type'', CU16), (''dga_score'', CF32), (''name'', CArr 96)]"

lemmas struct_defs [abi_consts] =
  PacketEvent_fields_def ProcessExecEvent_fields_def FileAccessEvent_fields_def ConnectEvent_fields_def KillEvent_fields_def UnlinkEvent_fields_def LsmEvent_fields_def SetuidEvent_fields_def CapEvent_fields_def MemfdEvent_fields_def MmapEvent_fields_def ModuleEvent_fields_def TlsEvent_fields_def DnsQueryEvent_fields_def

text \<open>The structs the kernel programs write, with the kinds they carry.\<close>

definition kernel_structs :: "(u8 \<times> (string \<times> cty) list) list" where
  "kernel_structs =
    [(KIND_PACKET, PacketEvent_fields),
     (KIND_PROCESS_EXEC, ProcessExecEvent_fields),
     (KIND_FILE_ACCESS, FileAccessEvent_fields),
     (KIND_CONNECT, ConnectEvent_fields),
     (KIND_KILL, KillEvent_fields),
     (KIND_UNLINK, UnlinkEvent_fields),
     (KIND_LSM, LsmEvent_fields),
     (KIND_SETUID, SetuidEvent_fields),
     (KIND_CAP, CapEvent_fields),
     (KIND_MEMFD, MemfdEvent_fields),
     (KIND_MMAP, MmapEvent_fields),
     (KIND_MODULE, ModuleEvent_fields),
     (KIND_TLS, TlsEvent_fields),
     (KIND_DNS, DnsQueryEvent_fields),
     (KIND_PTRACE, CapEvent_fields)]"

section \<open>Events as values and as bytes\<close>

text \<open>
  One constructor per event struct, with the struct's fields in order (the kind byte is
  fixed by the constructor, except for \<open>CapEvent\<close>, which carries \<open>KIND_CAP\<close> or
  \<open>KIND_PTRACE\<close>).
\<close>

datatype kevent =
    PacketEvent u64 u32 u32 u16 u16 u8 u32 u8
  | ProcessExecEvent u64 u32 u32 u32 bytes
  | FileAccessEvent u64 u32 u32 bytes u32
  | ConnectEvent u64 u32 u32 u32 u16 u8
  | KillEvent u64 u32 u32 u32
  | UnlinkEvent u64 u32 u32 bytes
  | LsmEvent u64 u32 u32 u8 u8 bytes u32 u16
  | SetuidEvent u64 u32 u32 u32
  | CapEvent u8 u64 u32 u32 u32 u32
  | MemfdEvent u64 u32 u32 u32 bytes
  | MmapEvent u64 u32 u32 u64 u64 u32 u32 u64
  | ModuleEvent u64 u32 u32 bytes u32
  | TlsEvent u64 u64 u32 u8 u32 bytes
  | DnsQueryEvent u64 u32 u16 u32 bytes

datatype cval = V8 u8 | V16 u16 | V32 u32 | V64 u64 | VArr bytes

fun valign :: "cval \<Rightarrow> nat" where
  "valign (V8 x) = 1" | "valign (V16 x) = 2" | "valign (V32 x) = 4" | "valign (V64 x) = 8"
| "valign (VArr xs) = 1"

fun vbytes :: "cval \<Rightarrow> bytes" where
  "vbytes (V8 x) = [x]" | "vbytes (V16 x) = bytes16 x" | "vbytes (V32 x) = bytes32 x"
| "vbytes (V64 x) = bytes64 x" | "vbytes (VArr xs) = xs"

text \<open>Fields of an event in struct order; \<open>dga_score\<close> is an \<open>f32\<close>, given by its bits.\<close>

fun event_vals :: "kevent \<Rightarrow> cval list" where
  "event_vals (PacketEvent ts si di sp dp pr pid act) =
     [V8 KIND_PACKET, V64 ts, V32 si, V32 di, V16 sp, V16 dp, V8 pr, V32 pid, V8 act]"
| "event_vals (ProcessExecEvent ts pid ppid uid comm) =
     [V8 KIND_PROCESS_EXEC, V64 ts, V32 pid, V32 ppid, V32 uid, VArr comm]"
| "event_vals (FileAccessEvent ts pid uid fn fl) =
     [V8 KIND_FILE_ACCESS, V64 ts, V32 pid, V32 uid, VArr fn, V32 fl]"
| "event_vals (ConnectEvent ts pid uid di dp pr) =
     [V8 KIND_CONNECT, V64 ts, V32 pid, V32 uid, V32 di, V16 dp, V8 pr]"
| "event_vals (KillEvent ts a t sg) = [V8 KIND_KILL, V64 ts, V32 a, V32 t, V32 sg]"
| "event_vals (UnlinkEvent ts pid uid path) =
     [V8 KIND_UNLINK, V64 ts, V32 pid, V32 uid, VArr path]"
| "event_vals (LsmEvent ts pid uid et den path di dp) =
     [V8 KIND_LSM, V64 ts, V32 pid, V32 uid, V8 et, V8 den, VArr path, V32 di, V16 dp]"
| "event_vals (SetuidEvent ts pid ou nu) = [V8 KIND_SETUID, V64 ts, V32 pid, V32 ou, V32 nu]"
| "event_vals (CapEvent k ts pid uid cap t) =
     [V8 k, V64 ts, V32 pid, V32 uid, V32 cap, V32 t]"
| "event_vals (MemfdEvent ts pid uid fl name) =
     [V8 KIND_MEMFD, V64 ts, V32 pid, V32 uid, V32 fl, VArr name]"
| "event_vals (MmapEvent ts pid uid addr len prot fl fd) =
     [V8 KIND_MMAP, V64 ts, V32 pid, V32 uid, V64 addr, V64 len, V32 prot, V32 fl, V64 fd]"
| "event_vals (ModuleEvent ts pid uid name fl) =
     [V8 KIND_MODULE, V64 ts, V32 pid, V32 uid, VArr name, V32 fl]"
| "event_vals (TlsEvent ts flow pid dir len buf) =
     [V8 KIND_TLS, V64 ts, V64 flow, V32 pid, V8 dir, V32 len, VArr buf]"
| "event_vals (DnsQueryEvent ts pid qt dga name) =
     [V8 KIND_DNS, V64 ts, V32 pid, V16 qt, V32 dga, VArr name]"

text \<open>
  The bytes of a struct with eight-byte alignment (every event has an \<open>u64\<close> timestamp):
  fields at their aligned offsets, \<open>pad i\<close> at every padding offset \<open>i\<close>.
\<close>

fun enc :: "(nat \<Rightarrow> u8) \<Rightarrow> nat \<Rightarrow> cval list \<Rightarrow> bytes" where
  "enc pad off [] = map pad [off ..< align_up 8 off]"
| "enc pad off (v # vs) =
     map pad [off ..< align_up (valign v) off] @ vbytes v @
     enc pad (align_up (valign v) off + length (vbytes v)) vs"

definition encode_event :: "(nat \<Rightarrow> u8) \<Rightarrow> kevent \<Rightarrow> bytes" where
  "encode_event pad e = enc pad 0 (event_vals e)"

text \<open>The array fields have the lengths the structs declare.\<close>

fun arrays_ok :: "kevent \<Rightarrow> bool" where
  "arrays_ok (ProcessExecEvent ts pid ppid uid comm) \<longleftrightarrow> length comm = 16"
| "arrays_ok (FileAccessEvent ts pid uid fn fl) \<longleftrightarrow> length fn = 64"
| "arrays_ok (UnlinkEvent ts pid uid path) \<longleftrightarrow> length path = 96"
| "arrays_ok (LsmEvent ts pid uid et den path di dp) \<longleftrightarrow> length path = 96"
| "arrays_ok (CapEvent k ts pid uid cap t) \<longleftrightarrow> k = KIND_CAP \<or> k = KIND_PTRACE"
| "arrays_ok (MemfdEvent ts pid uid fl name) \<longleftrightarrow> length name = 32"
| "arrays_ok (ModuleEvent ts pid uid name fl) \<longleftrightarrow> length name = 64"
| "arrays_ok (TlsEvent ts flow pid dir len buf) \<longleftrightarrow> length buf = 256"
| "arrays_ok (DnsQueryEvent ts pid qt dga name) \<longleftrightarrow> length name = 96"
| "arrays_ok e \<longleftrightarrow> True"

lemma enc_prefix_len [simp]: "length (bytes16 x) = 2" "length (bytes32 y) = 4" "length (bytes64 z) = 8"
  by (simp_all add: bytes16_def bytes32_def bytes64_def)

lemmas enc_simps = encode_event_def align_up_def upt_rec bytes16_def bytes32_def bytes64_def

text \<open>The kind byte comes first, whatever the event.\<close>

lemma encode_event_kind: "rd8 (encode_event pad e) 0 = Some (case hd (event_vals e) of V8 k \<Rightarrow> k)"
  by (cases e) (simp_all add: encode_event_def align_up_def rd8_def)

lemma encode_event_length:
  "arrays_ok e \<Longrightarrow> \<exists>n. event_size (hd (encode_event pad e)) = Some n \<and> n \<le> length (encode_event pad e)
     \<and> length (encode_event pad e) mod 8 = 0"
  by (cases e) (auto simp: encode_event_def align_up_def event_size_def EVENT_SIZE_eval abi_consts)

text \<open>
  The size table covers every struct the kernel programs write: the canonical
  size reaches past the last field and is at most the padded size of the struct, so a
  complete entry passes the guard and every field of an accepted entry is in range.
\<close>

theorem abi_sizes_cover_structs:
  "list_all (\<lambda>(k, fs). (case event_size k of None \<Rightarrow> False
      | Some n \<Rightarrow> layout_end 0 fs \<le> n \<and> n \<le> struct_size fs)) kernel_structs"
  by code_simp

end
