(* ===== verification/Kernel_Net.thy ===== *)
theory Kernel_Net
  imports Abi
begin

text \<open>
  The packet programs of \<open>ring0-ebpf/src/main.rs\<close>: the XDP program, the TC classifier,
  the block check, VLAN parsing, the event limiters and the DNS capture.

  A frame is its list of bytes; pointers into the packet are offsets from \<open>ctx.data()\<close>
  and \<open>data_end\<close> is the length. Every kernel map the programs use is a field of \<open>knet\<close>.
  What the kernel decides is an argument (\<open>kenv\<close>): the clock reading at each call site,
  whether a map update is accepted, whether ring space is granted. The longest-prefix
  lookup of the two CIDR tries is the kernel's own code and is the argument \<open>lpm\<close>;
  \<open>lpm_documented\<close> states its documented behaviour.
\<close>

section \<open>Kernel maps and environment\<close>

text \<open>A trie holds (prefix length, address) keys; a lookup gets a key of the same shape.\<close>

type_synonym lpm_key = "u32 \<times> u32"
type_synonym lpm_get = "lpm_key list \<Rightarrow> lpm_key \<Rightarrow> bool"

text \<open>
  \<open>BPF_MAP_TYPE_LPM_TRIE\<close>: the key data is read in network byte order, so the first
  \<open>n\<close> bits of a stored little-endian word are the top bits of its byte-swapped value.
\<close>

definition lpm_covers :: "lpm_key \<Rightarrow> lpm_key \<Rightarrow> bool" where
  "lpm_covers e k \<longleftrightarrow> unat (fst e) \<le> unat (fst k) \<and>
     drop_bit (32 - unat (fst e)) (swap32 (snd e)) = drop_bit (32 - unat (fst e)) (swap32 (snd k))"

definition lpm_documented :: "lpm_get \<Rightarrow> bool" where
  "lpm_documented lpm \<longleftrightarrow> (\<forall>t k. lpm t k = list_ex (\<lambda>e. lpm_covers e k) t)"

record knet =
  BLOCKED_IPS :: "lpm_key list"
  USER_BLOCKED_IPS :: "lpm_key list"
  BLOCKED_PORTS :: "u16 \<rightharpoonup> u32"
  ESTABLISHED_FLOWS :: "flow_key \<rightharpoonup> u32"
  SAMPLING_ENABLED :: "u32 \<rightharpoonup> u8"
  PACKET_LAST_EMIT :: "u32 \<rightharpoonup> u64"
  PACKET_DROP_LAST_EMIT :: "u32 \<rightharpoonup> u64"
  DNS_LAST_EMIT :: "u32 \<rightharpoonup> u64"
  CAPTURE_ONLY :: "u32 \<rightharpoonup> u8"
  RING_BUF :: "kevent list"

text \<open>The call sites of the helpers a packet run may reach.\<close>

datatype site = SDrop | SDropEvent | SDnsFirst | SDnsSecond | SSample | SSampleEvent

record kenv =
  ktime :: "site \<Rightarrow> u64"
  update_ok :: "site \<Rightarrow> bool"
  reserve_ok :: "site \<Rightarrow> bool"

text \<open>\<open>reserve\<close>, \<open>write\<close>, \<open>submit\<close>: the event reaches the ring if space was granted.\<close>

definition emit :: "bool \<Rightarrow> kevent \<Rightarrow> knet \<Rightarrow> knet" where
  "emit ok e k = (if ok then k\<lparr>RING_BUF := RING_BUF k @ [e]\<rparr> else k)"

section \<open>Reading the packet\<close>

text \<open>\<open>ptr::read_unaligned\<close> at an offset the caller has bounds-checked.\<close>

definition read_u8 :: "bytes \<Rightarrow> nat \<Rightarrow> u8" where
  "read_u8 fr off = fr ! off"

definition read_u16 :: "bytes \<Rightarrow> nat \<Rightarrow> u16" where
  "read_u16 fr off = le16 (fr ! off) (fr ! (off + 1))"

definition read_u32 :: "bytes \<Rightarrow> nat \<Rightarrow> u32" where
  "read_u32 fr off = le32 (fr ! off) (fr ! (off + 1)) (fr ! (off + 2)) (fr ! (off + 3))"

definition is_vlan :: "u16 \<Rightarrow> bool" where
  "is_vlan ethertype \<longleftrightarrow> ethertype = 0x8100 \<or> ethertype = 0x88a8"

text \<open>One of the four unrolled VLAN steps; \<open>None\<close> is the early return \<open>(0, 0)\<close>.\<close>

definition vlan_step :: "bytes \<Rightarrow> nat \<times> u16 \<Rightarrow> (nat \<times> u16) option" where
  "vlan_step fr st = (case st of (l3, ethertype) \<Rightarrow>
     if is_vlan ethertype then
       (if length fr < l3 + 4 then None
        else Some (l3 + 4, swap16 (read_u16 fr (l3 + 2))))
     else Some (l3, ethertype))"

definition l3_info :: "bytes \<Rightarrow> nat \<Rightarrow> nat \<times> u16" where
  "l3_info fr eth =
     (if length fr < eth + 14 then (0, 0)
      else case do {
          let s0 = (eth + 14, swap16 (read_u16 fr (eth + 12)));
          s1 \<leftarrow> vlan_step fr s0;
          s2 \<leftarrow> vlan_step fr s1;
          s3 \<leftarrow> vlan_step fr s2;
          vlan_step fr s3 }
        of None \<Rightarrow> (0, 0) | Some r \<Rightarrow> r)"

section \<open>Event limiters\<close>

definition is_sampling_enabled :: "knet \<Rightarrow> bool" where
  "is_sampling_enabled k \<longleftrightarrow> SAMPLING_ENABLED k 1 = None"

definition should_log_drop :: "u64 \<Rightarrow> bool \<Rightarrow> knet \<Rightarrow> bool \<times> knet" where
  "should_log_drop now ok k =
     (case PACKET_DROP_LAST_EMIT k 0 of
        Some prev \<Rightarrow>
          if now - prev < 100000000 then (False, k)
          else (ok, if ok then k\<lparr>PACKET_DROP_LAST_EMIT := (PACKET_DROP_LAST_EMIT k)(0 \<mapsto> now)\<rparr> else k)
      | None \<Rightarrow>
          (ok, if ok then k\<lparr>PACKET_DROP_LAST_EMIT := (PACKET_DROP_LAST_EMIT k)(0 \<mapsto> now)\<rparr> else k))"

definition should_sample_packet :: "u64 \<Rightarrow> bool \<Rightarrow> knet \<Rightarrow> bool \<times> knet" where
  "should_sample_packet now ok k =
     (if \<not> is_sampling_enabled k then (False, k)
      else case PACKET_LAST_EMIT k 0 of
        Some prev \<Rightarrow>
          if now - prev < 20000000 then (False, k)
          else (ok, if ok then k\<lparr>PACKET_LAST_EMIT := (PACKET_LAST_EMIT k)(0 \<mapsto> now)\<rparr> else k)
      | None \<Rightarrow>
          (ok, if ok then k\<lparr>PACKET_LAST_EMIT := (PACKET_LAST_EMIT k)(0 \<mapsto> now)\<rparr> else k))"

section \<open>DNS capture\<close>

text \<open>The bounded label walk: at most \<open>n\<close> bytes, up to the root label or a pointer.\<close>

fun qname_walk :: "nat \<Rightarrow> bytes \<Rightarrow> bytes" where
  "qname_walk 0 q = []"
| "qname_walk (Suc n) [] = []"
| "qname_walk (Suc n) (b # q) =
     (if b = 0 \<or> b AND 0xC0 = 0xC0 then [] else b # qname_walk n q)"

definition qname_buf :: "bytes \<Rightarrow> nat \<Rightarrow> bytes" where
  "qname_buf fr q = (let w = qname_walk 96 (drop q fr) in w @ replicate (96 - length w) 0)"

definition capture_dns :: "u64 \<Rightarrow> bool \<Rightarrow> bool \<Rightarrow> bytes \<Rightarrow> nat \<Rightarrow> knet \<Rightarrow> knet" where
  "capture_dns now ok rsv fr l4 k =
     (if (case DNS_LAST_EMIT k 0 of Some prev \<Rightarrow> sat_sub now prev < 250000000 | None \<Rightarrow> False) then k
      else if \<not> ok then k
      else
        let k = k\<lparr>DNS_LAST_EMIT := (DNS_LAST_EMIT k)(0 \<mapsto> now)\<rparr>; dns = l4 + 8 in
        if length fr < dns + 12 then k
        else if swap16 (read_u16 fr (dns + 4)) = 0 then k
        else emit rsv (DnsQueryEvent now 0 0 0 (qname_buf fr (dns + 12))) k)"

section \<open>The block check\<close>

datatype xdp_action = XDP_ABORTED | XDP_DROP | XDP_PASS

definition user_dst_blocked :: "lpm_get \<Rightarrow> u32 \<Rightarrow> knet \<Rightarrow> bool" where
  "user_dst_blocked lpm dst_ip k \<longleftrightarrow> lpm (USER_BLOCKED_IPS k) (32, swap32 dst_ip)"

definition check_blocked ::
    "lpm_get \<Rightarrow> knet \<Rightarrow> u32 \<Rightarrow> u32 \<Rightarrow> u16 \<Rightarrow> u16 \<Rightarrow> u8 \<Rightarrow> bool \<Rightarrow> xdp_action" where
  "check_blocked lpm k src_ip dst_ip src_port dst_port proto is_wireguard =
     (if is_wireguard then
        (if user_dst_blocked lpm dst_ip k then XDP_DROP else XDP_PASS)
      else
        let feed_src_blocked = (proto = 6 \<and> lpm (BLOCKED_IPS k) (32, swap32 src_ip));
            ports_blocked = (BLOCKED_PORTS k src_port \<noteq> None \<or> BLOCKED_PORTS k dst_port \<noteq> None)
        in if feed_src_blocked \<or> ports_blocked \<or> user_dst_blocked lpm dst_ip k
           then XDP_DROP else XDP_PASS)"

definition is_wireguard_packet :: "bytes \<Rightarrow> u8 \<Rightarrow> nat \<Rightarrow> bool" where
  "is_wireguard_packet fr proto l4 \<longleftrightarrow>
     proto = 17 \<and> l4 + 9 \<le> length fr \<and> 1 \<le> read_u8 fr (l4 + 8) \<and> read_u8 fr (l4 + 8) \<le> 4"

section \<open>The XDP program\<close>

definition mk_flow :: "u32 \<Rightarrow> u32 \<Rightarrow> u16 \<Rightarrow> u16 \<Rightarrow> u8 \<Rightarrow> flow_key" where
  "mk_flow si di sp dp pr = \<lparr>fk_src_ip = si, fk_dst_ip = di, fk_src_port = sp, fk_dst_port = dp,
     fk_protocol = pr, fk_pad = replicate 7 0\<rparr>"

text \<open>
  Where the IPv4 header starts. \<open>Inl r\<close> is an early return of the program. The Ethernet
  test compares the two bytes of the EtherType as a native (little-endian) word.
\<close>

definition frame_is_eth :: "bytes \<Rightarrow> bool" where
  "frame_is_eth fr \<longleftrightarrow> 14 \<le> length fr \<and> read_u16 fr 12 = 0x0800"

definition locate_ip :: "'r \<Rightarrow> 'r \<Rightarrow> bytes \<Rightarrow> 'r + nat" where
  "locate_ip aborted pass fr =
     (if frame_is_eth fr then
        (case l3_info fr 0 of (l3, ethertype) \<Rightarrow>
           if l3 = 0 then Inl aborted
           else if ethertype \<noteq> 0x0800 then Inl pass
           else if length fr < l3 + 20 then Inl aborted else Inr l3)
      else if length fr < 20 then Inl aborted
      else if drop_bit 4 (read_u8 fr 0) \<noteq> 4 then Inl pass else Inr 0)"

definition has_ports :: "u8 \<Rightarrow> bool" where
  "has_ports proto \<longleftrightarrow> proto = 6 \<or> proto = 17"

text \<open>The two ports, \<open>None\<close> when the transport header is truncated.\<close>

definition read_ports :: "bytes \<Rightarrow> nat \<Rightarrow> u8 \<Rightarrow> (u16 \<times> u16) option" where
  "read_ports fr ip proto =
     (if has_ports proto then
        (if length fr < ip + 20 + 4 then None
         else Some (swap16 (read_u16 fr (ip + 20)), swap16 (read_u16 fr (ip + 22))))
      else Some (0, 0))"

definition log_drop :: "kenv \<Rightarrow> u32 \<Rightarrow> u32 \<Rightarrow> u16 \<Rightarrow> u16 \<Rightarrow> u8 \<Rightarrow> knet \<Rightarrow> knet" where
  "log_drop env si di sp dp proto k =
     (case should_log_drop (ktime env SDrop) (update_ok env SDrop) k of (b, k') \<Rightarrow>
        if b then emit (reserve_ok env SDropEvent)
               (PacketEvent (ktime env SDropEvent) si di sp dp proto 0 1) k'
        else k')"

definition sample_event ::
    "kenv \<Rightarrow> u32 \<Rightarrow> u32 \<Rightarrow> u16 \<Rightarrow> u16 \<Rightarrow> u8 \<Rightarrow> knet \<Rightarrow> knet" where
  "sample_event env si di sp dp proto k =
     (case should_sample_packet (ktime env SSample) (update_ok env SSample) k of (b, k') \<Rightarrow>
        if b then emit (reserve_ok env SSampleEvent)
               (PacketEvent (ktime env SSampleEvent) si di sp dp proto 0 0) k'
        else k')"

text \<open>The two DNS capture blocks of the pass branch (the second repeats the first).\<close>

definition dns_history :: "kenv \<Rightarrow> bytes \<Rightarrow> nat \<Rightarrow> u8 \<Rightarrow> u16 \<Rightarrow> u16 \<Rightarrow> knet \<Rightarrow> knet" where
  "dns_history env fr ip proto sp dp k =
     (let l4 = (if has_ports proto then ip + 20 else 0);
          k = (if proto = 17 \<and> (dp = 53 \<or> sp = 53) \<and> l4 \<noteq> 0
               then capture_dns (ktime env SDnsFirst) (update_ok env SDnsFirst)
                      (reserve_ok env SDnsFirst) fr l4 k else k)
      in if proto = 17 \<and> (dp = 53 \<or> sp = 53)
         then capture_dns (ktime env SDnsSecond) (update_ok env SDnsSecond)
                (reserve_ok env SDnsSecond) fr (ip + 20) k else k)"

definition try_ring0_xdp ::
    "lpm_get \<Rightarrow> kenv \<Rightarrow> u32 \<Rightarrow> bytes \<Rightarrow> knet \<Rightarrow> (xdp_action + xdp_action) \<times> knet" where
  "try_ring0_xdp lpm env ifindex fr k =
     (case locate_ip (Inl XDP_ABORTED) (Inr XDP_PASS) fr of
        Inl r \<Rightarrow> (r, k)
      | Inr ip \<Rightarrow>
        let proto = read_u8 fr (ip + 9);
            src_ip = swap32 (read_u32 fr (ip + 12));
            dst_ip = swap32 (read_u32 fr (ip + 16))
        in case read_ports fr ip proto of
             None \<Rightarrow> (Inl XDP_ABORTED, k)
           | Some (sp, dp) \<Rightarrow>
             let l4 = (if has_ports proto then ip + 20 else 0);
                 is_wg = (l4 \<noteq> 0 \<and> is_wireguard_packet fr proto l4);
                 passive = (CAPTURE_ONLY k ifindex \<noteq> None)
             in if \<not> passive \<and> check_blocked lpm k src_ip dst_ip sp dp proto is_wg = XDP_DROP then
                  (Inr XDP_DROP, log_drop env src_ip dst_ip sp dp proto k)
                else
                  let k = dns_history env fr ip proto sp dp k
                  in if ESTABLISHED_FLOWS k (mk_flow src_ip dst_ip sp dp proto) \<noteq> None
                     then (Inr XDP_PASS, k)
                     else (Inr XDP_PASS, sample_event env src_ip dst_ip sp dp proto k))"

definition ring0_xdp :: "lpm_get \<Rightarrow> kenv \<Rightarrow> u32 \<Rightarrow> bytes \<Rightarrow> knet \<Rightarrow> xdp_action \<times> knet" where
  "ring0_xdp lpm env ifindex fr k =
     (case try_ring0_xdp lpm env ifindex fr k of
        (Inr a, k') \<Rightarrow> (a, k') | (Inl _, k') \<Rightarrow> (XDP_ABORTED, k'))"

section \<open>The TC classifier\<close>

definition try_ring0_tc :: "kenv \<Rightarrow> bytes \<Rightarrow> knet \<Rightarrow> (int + int) \<times> knet" where
  "try_ring0_tc env fr k =
     (case locate_ip (Inl (- 1)) (Inr 0) fr of
        Inl r \<Rightarrow> (r, k)
      | Inr ip \<Rightarrow>
        let src_ip = swap32 (read_u32 fr (ip + 12));
            dst_ip = swap32 (read_u32 fr (ip + 16));
            proto = read_u8 fr (ip + 9)
        in case read_ports fr ip proto of
             None \<Rightarrow> (Inl (- 1), k)
           | Some (sp, dp) \<Rightarrow>
             if ESTABLISHED_FLOWS k (mk_flow src_ip dst_ip sp dp proto) \<noteq> None then (Inr 0, k)
             else (Inr 0, sample_event env src_ip dst_ip sp dp proto k))"

definition ring0_tc :: "kenv \<Rightarrow> bytes \<Rightarrow> knet \<Rightarrow> int \<times> knet" where
  "ring0_tc env fr k =
     (case try_ring0_tc env fr k of (Inr a, k') \<Rightarrow> (a, k') | (Inl _, k') \<Rightarrow> (- 1, k'))"

section \<open>The block check against its specification\<close>

text \<open>An address lies in a CIDR range when the top \<open>p\<close> bits agree.\<close>

definition in_cidr :: "u32 \<times> u8 \<Rightarrow> u32 \<Rightarrow> bool" where
  "in_cidr c a \<longleftrightarrow> drop_bit (32 - unat (snd c)) (fst c) = drop_bit (32 - unat (snd c)) a"

text \<open>The trie key the daemon stores for a CIDR range (\<open>LpmTrieKey::new\<close>).\<close>

definition cidr_key :: "u32 \<times> u8 \<Rightarrow> lpm_key" where
  "cidr_key c = (ucast (snd c), swap32 (fst c))"

lemma unat_ucast_u8 [simp]: "unat (ucast (p :: u8) :: u32) = unat p"
  using unsigned_less [of p, where 'a=nat]
  by (simp add: unsigned_ucast_eq take_bit_nat_eq_self)

lemma lpm_covers_cidr:
  "lpm_covers (cidr_key c) (32, swap32 a) \<longleftrightarrow> unat (snd c) \<le> 32 \<and> in_cidr c a"
  by (simp add: lpm_covers_def cidr_key_def in_cidr_def)

lemma lpm_lookup_cidrs:
  "lpm_documented lpm \<Longrightarrow>
     lpm (map cidr_key cs) (32, swap32 a) \<longleftrightarrow> (\<exists>c \<in> set cs. unat (snd c) \<le> 32 \<and> in_cidr c a)"
  by (auto simp: lpm_documented_def list_ex_iff lpm_covers_cidr)

lemma check_blocked_cases:
  "check_blocked lpm k si di sp dp proto wg = XDP_DROP \<longleftrightarrow>
     user_dst_blocked lpm di k \<or>
     (\<not> wg \<and> (proto = 6 \<and> lpm (BLOCKED_IPS k) (32, swap32 si) \<or>
       BLOCKED_PORTS k sp \<noteq> None \<or> BLOCKED_PORTS k dp \<noteq> None))"
  by (auto simp: check_blocked_def Let_def)

lemma check_blocked_total: "check_blocked lpm k si di sp dp proto wg \<in> {XDP_DROP, XDP_PASS}"
  by (simp add: check_blocked_def Let_def)

lemma pass_iff: "XDP_PASS = check_blocked lpm k si di sp dp proto wg \<longleftrightarrow>
    check_blocked lpm k si di sp dp proto wg \<noteq> XDP_DROP"
  by (simp add: check_blocked_def Let_def)

text \<open>
  With tries that hold CIDR ranges, the fast path drops a packet exactly when
  its destination is user-blocked, or it is no WireGuard packet and it is TCP from a
  feed range or uses a blocked port at either end.
\<close>

theorem check_blocked_spec:
  assumes "lpm_documented lpm"
    and "BLOCKED_IPS k = map cidr_key feed" and "USER_BLOCKED_IPS k = map cidr_key user"
  shows "check_blocked lpm k si di sp dp proto wg = XDP_DROP \<longleftrightarrow>
     (\<exists>c \<in> set user. unat (snd c) \<le> 32 \<and> in_cidr c di) \<or>
     (\<not> wg \<and> (proto = 6 \<and> (\<exists>c \<in> set feed. unat (snd c) \<le> 32 \<and> in_cidr c si) \<or>
       BLOCKED_PORTS k sp \<noteq> None \<or> BLOCKED_PORTS k dp \<noteq> None))"
  using assms by (simp add: check_blocked_cases user_dst_blocked_def lpm_lookup_cidrs)

section \<open>VLAN parsing\<close>

definition vlan_tag :: "u16 \<times> u16 \<Rightarrow> bytes" where
  "vlan_tag t = be16 (fst t) @ be16 (snd t)"

text \<open>A frame: addresses, tags, EtherType and payload.\<close>

definition eth_frame :: "bytes \<Rightarrow> (u16 \<times> u16) list \<Rightarrow> u16 \<Rightarrow> bytes \<Rightarrow> bytes" where
  "eth_frame macs tags et payload = macs @ concat (map vlan_tag tags) @ be16 et @ payload"

text \<open>The reference: skip up to \<open>n\<close> tags by recursion.\<close>

fun skip_vlan :: "nat \<Rightarrow> bytes \<Rightarrow> nat \<times> u16 \<Rightarrow> (nat \<times> u16) option" where
  "skip_vlan 0 fr st = Some st"
| "skip_vlan (Suc n) fr st = Option.bind (vlan_step fr st) (skip_vlan n fr)"

lemma skip_vlan_fun:
  "skip_vlan 0 fr = Some" "skip_vlan (Suc n) fr = (\<lambda>st. Option.bind (vlan_step fr st) (skip_vlan n fr))"
  by (simp_all add: fun_eq_iff)

lemma skip_vlan_4:
  "skip_vlan 4 fr st = Option.bind (vlan_step fr st) (\<lambda>s1. Option.bind (vlan_step fr s1)
     (\<lambda>s2. Option.bind (vlan_step fr s2) (vlan_step fr)))"
  by (simp add: numeral_eq_Suc skip_vlan_fun del: skip_vlan.simps)

lemma l3_info_skip_vlan:
  "l3_info fr eth = (if length fr < eth + 14 then (0, 0)
     else case skip_vlan 4 fr (eth + 14, swap16 (read_u16 fr (eth + 12))) of
       None \<Rightarrow> (0, 0) | Some r \<Rightarrow> r)"
  by (simp add: l3_info_def skip_vlan_4 Let_def)

lemma vlan_step_ge: "vlan_step fr st = Some st' \<Longrightarrow> fst st \<le> fst st' \<and> fst st' \<le> max (fst st) (length fr)"
  by (auto simp: vlan_step_def split: prod.splits if_splits)

lemma skip_vlan_ge:
  "skip_vlan n fr st = Some st' \<Longrightarrow> fst st \<le> fst st' \<and> fst st' \<le> max (fst st) (length fr)"
proof (induction n arbitrary: st)
  case 0
  then show ?case by simp
next
  case (Suc n)
  then obtain s1 where "vlan_step fr st = Some s1" "skip_vlan n fr s1 = Some st'"
    by (auto simp: Option.bind_eq_Some_conv)
  with Suc.IH [of s1] vlan_step_ge [of fr st s1] show ?case by force
qed

text \<open>A non-zero header offset is at least 14 bytes into the frame and within it.\<close>

lemma l3_info_bounds:
  "l3_info fr eth = (l3, et) \<Longrightarrow> l3 \<noteq> 0 \<Longrightarrow> eth + 14 \<le> l3 \<and> l3 \<le> length fr"
  using skip_vlan_ge [of 4 fr "(eth + 14, swap16 (read_u16 fr (eth + 12)))"]
  by (fastforce simp: l3_info_skip_vlan split: if_splits option.splits)

lemma read_u16_at [simp]:
  "swap16 (read_u16 (pre @ be16 x @ rest) (length pre)) = x"
  by (simp add: read_u16_def be16_def nth_append)

definition head_type :: "(u16 \<times> u16) list \<Rightarrow> u16 \<Rightarrow> u16" where
  "head_type tags et = (case tags of [] \<Rightarrow> et | t # _ \<Rightarrow> fst t)"

lemma tags_start:
  obtains q where "concat (map vlan_tag tags) @ be16 et @ p = be16 (head_type tags et) @ q"
  by (cases tags) (auto simp: head_type_def vlan_tag_def)

lemma read_head_type:
  "length pre = n \<Longrightarrow>
     swap16 (read_u16 (pre @ concat (map vlan_tag tags) @ be16 et @ p) n) = head_type tags et"
  using tags_start [of tags et p] by (metis read_u16_at)

lemma skip_vlan_stay: "\<not> is_vlan et \<Longrightarrow> skip_vlan n fr (l3, et) = Some (l3, et)"
  by (induction n) (simp_all add: vlan_step_def)

lemma skip_vlan_tags:
  "list_all (\<lambda>t. is_vlan (fst t)) tags \<Longrightarrow> length tags \<le> n \<Longrightarrow> \<not> is_vlan et \<or> length tags = n \<Longrightarrow>
     skip_vlan n (pre @ concat (map vlan_tag tags) @ be16 et @ p) (length pre + 2, head_type tags et)
       = Some (length pre + 2 + 4 * length tags, et)"
proof (induction tags arbitrary: n pre)
  case Nil
  then show ?case by (cases n) (simp_all add: head_type_def skip_vlan_stay del: skip_vlan.simps(2))
next
  case (Cons t ts)
  then obtain m where n: "n = Suc m" by (cases n) auto
  let ?fr = "pre @ concat (map vlan_tag (t # ts)) @ be16 et @ p"
  have eq: "?fr = (pre @ vlan_tag t) @ concat (map vlan_tag ts) @ be16 et @ p" by simp
  have len: "length (vlan_tag t) = 4" by (simp add: vlan_tag_def)
  have rd: "swap16 (read_u16 ?fr (length pre + 4)) = head_type ts et"
    using read_head_type [of "pre @ vlan_tag t" "length pre + 4" ts et p] len unfolding eq by simp
  have "length pre + 6 \<le> length ?fr" using len by simp
  with rd Cons.prems(1) have "vlan_step ?fr (length pre + 2, head_type (t # ts) et)
      = Some (length (pre @ vlan_tag t) + 2, head_type ts et)"
    by (simp add: vlan_step_def head_type_def [of "t # ts"] len numeral_eq_Suc
        del: append_assoc concat.simps list.map)
  moreover have "skip_vlan m ((pre @ vlan_tag t) @ concat (map vlan_tag ts) @ be16 et @ p)
      (length (pre @ vlan_tag t) + 2, head_type ts et)
      = Some (length (pre @ vlan_tag t) + 2 + 4 * length ts, et)"
    using Cons.prems n by (intro Cons.IH) auto
  ultimately show ?case unfolding n skip_vlan.simps using len by (simp add: eq)
qed

text \<open>
  VLAN parsing: on an Ethernet frame with up to four stacked 802.1Q or 802.1ad
  tags the parser returns the offset behind the last tag and the real EtherType.
\<close>

theorem l3_info_eth_frame:
  assumes "length macs = 12" and "list_all (\<lambda>t. is_vlan (fst t)) tags" and "length tags \<le> 4"
    and "\<not> is_vlan et"
  shows "l3_info (eth_frame macs tags et payload) 0 = (14 + 4 * length tags, et)"
proof -
  have "swap16 (read_u16 (eth_frame macs tags et payload) 12) = head_type tags et"
    unfolding eth_frame_def by (rule read_head_type [OF assms(1)])
  moreover have "14 \<le> length (eth_frame macs tags et payload)"
    using assms(1) by (simp add: eth_frame_def)
  ultimately show ?thesis
    using skip_vlan_tags [OF assms(2,3), of et macs payload] assms(1,4)
    by (simp add: l3_info_skip_vlan eth_frame_def add.commute)
qed

theorem l3_info_eth_frame_witness:
  "l3_info (eth_frame (replicate 12 1) [(0x88a8, 5), (0x8100, 9)] 0x0800 [0x45]) 0 = (22, 0x0800)"
  using l3_info_eth_frame [of "replicate 12 1" "[(0x88a8, 5), (0x8100, 9)]" "0x0800" "[0x45]"]
  by (simp add: is_vlan_def)

section \<open>Verdicts\<close>

text \<open>The header fields a raw IPv4 packet (no link layer) carries, in network byte order.\<close>

definition ipv4_packet ::
    "u8 \<Rightarrow> bytes \<Rightarrow> u8 \<Rightarrow> bytes \<Rightarrow> u32 \<Rightarrow> u32 \<Rightarrow> u16 \<Rightarrow> u16 \<Rightarrow> bytes \<Rightarrow> bytes" where
  "ipv4_packet vihl hdr proto ck si di sp dp payload =
     vihl # hdr @ [proto] @ ck @ be32 si @ be32 di @ be16 sp @ be16 dp @ payload"

text \<open>A handshake initiator, responder, cookie or data message of WireGuard in a datagram.\<close>

definition wg_payload :: "u8 \<Rightarrow> bytes \<Rightarrow> bool" where
  "wg_payload proto payload \<longleftrightarrow>
     proto = 17 \<and> 5 \<le> length payload \<and> 1 \<le> payload ! 4 \<and> payload ! 4 \<le> 4"

lemma list8: "length xs = 8 \<Longrightarrow> \<exists>a b c d e f g h. xs = [a, b, c, d, e, f, g, h]"
  by (auto simp: numeral_eq_Suc length_Suc_conv)

lemma list2: "length xs = 2 \<Longrightarrow> \<exists>a b. xs = [a, b]"
  by (auto simp: numeral_eq_Suc length_Suc_conv)

text \<open>Reading an IPv4 packet back: every field the programs look at.\<close>

lemma ipv4_packet_reads:
  fixes vihl proto :: u8 and hdr ck payload :: bytes and si di :: u32 and sp dp :: u16
  assumes "length hdr = 8" and "length ck = 2"
  defines "fr \<equiv> ipv4_packet vihl hdr proto ck si di sp dp payload"
  shows "length fr = 24 + length payload" "read_u8 fr 0 = vihl" "read_u8 fr 9 = proto"
    "swap32 (read_u32 fr 12) = si" "swap32 (read_u32 fr 16) = di"
    "swap16 (read_u16 fr 20) = sp" "swap16 (read_u16 fr 22) = dp"
    "read_u16 fr 12 = le16 (byte_of 3 si) (byte_of 2 si)"
    "length fr < 29 \<or> read_u8 fr 28 = payload ! 4"
  using list8 [OF assms(1)] list2 [OF assms(2)]
  by (auto simp: fr_def ipv4_packet_def read_u8_def read_u16_def read_u32_def be16_def be32_def)

lemma drop_bit_16_ucast: "ucast (drop_bit 16 (x :: u32)) = (y :: u16) \<Longrightarrow> drop_bit 16 x = ucast y"
  by (rule bit_word_eqI) (auto simp: bit_simps, drule bit_imp_le_length, simp)

text \<open>The verdict and what the run leaves in the maps, by the guards the code tests.\<close>

lemma ring0_xdp_verdict:
  assumes "locate_ip (Inl XDP_ABORTED) (Inr XDP_PASS) fr = Inr ip"
    and "read_ports fr ip (read_u8 fr (ip + 9)) = Some (sp, dp)"
    and "CAPTURE_ONLY k ifindex = None"
  shows "fst (ring0_xdp lpm env ifindex fr k) =
     check_blocked lpm k (swap32 (read_u32 fr (ip + 12))) (swap32 (read_u32 fr (ip + 16))) sp dp
       (read_u8 fr (ip + 9))
       (has_ports (read_u8 fr (ip + 9)) \<and> is_wireguard_packet fr (read_u8 fr (ip + 9)) (ip + 20))"
  using assms
  by (auto simp: pass_iff ring0_xdp_def try_ring0_xdp_def Let_def is_wireguard_packet_def has_ports_def
      split: prod.splits if_splits)

lemma locate_raw:
  assumes "\<not> frame_is_eth fr" "20 \<le> length fr" "drop_bit 4 (read_u8 fr 0) = 4"
  shows "locate_ip a b fr = Inr 0"
  using assms by (simp add: locate_ip_def)


text \<open>
  Claim C20. The Ethernet test reads the EtherType without converting it from network
  order, so it does not recognise IPv4 over Ethernet: a frame of at least 20 bytes whose
  first byte does not have the high nibble 4 passes both programs unchanged, whatever the block
  lists hold.
\<close>

theorem ethernet_frames_unfiltered:
  assumes "20 \<le> length fr" and "drop_bit 4 (hd fr) \<noteq> 4"
  shows "ring0_xdp lpm env ifindex fr k = (XDP_PASS, k) \<and> ring0_tc env fr k = (0, k)"
proof (cases "frame_is_eth fr")
  case True
  then have "swap16 (read_u16 fr 12) = swap16 0x0800" by (simp add: frame_is_eth_def)
  moreover have "swap16 0x0800 = 8" by code_simp
  ultimately have "l3_info fr 0 = (14, 8)"
    using assms(1) by (simp add: l3_info_skip_vlan skip_vlan_stay is_vlan_def)
  with True show ?thesis
    by (simp add: ring0_xdp_def try_ring0_xdp_def ring0_tc_def try_ring0_tc_def locate_ip_def)
next
  case False
  moreover have "read_u8 fr 0 = hd fr" using assms(1) by (cases fr) (auto simp: read_u8_def)
  ultimately show ?thesis using assms
    by (simp add: ring0_xdp_def try_ring0_xdp_def ring0_tc_def try_ring0_tc_def locate_ip_def)
qed

lemma locate_ip_early: "locate_ip (Inl XDP_ABORTED) (Inr XDP_PASS) fr = Inl r \<Longrightarrow>
    r = Inl XDP_ABORTED \<or> r = Inr XDP_PASS"
  by (auto simp: locate_ip_def split: prod.splits if_splits)

lemma ring0_xdp_early:
  "locate_ip (Inl XDP_ABORTED) (Inr XDP_PASS) fr = Inl r \<Longrightarrow>
     fst (ring0_xdp lpm env ifindex fr k) \<noteq> XDP_DROP \<and> snd (ring0_xdp lpm env ifindex fr k) = k"
  using locate_ip_early by (fastforce simp: ring0_xdp_def try_ring0_xdp_def)

lemma ring0_xdp_short:
  "locate_ip (Inl XDP_ABORTED) (Inr XDP_PASS) fr = Inr ip \<Longrightarrow>
   read_ports fr ip (read_u8 fr (ip + 9)) = None \<Longrightarrow> ring0_xdp lpm env ifindex fr k = (XDP_ABORTED, k)"
  by (simp add: ring0_xdp_def try_ring0_xdp_def Let_def)

text \<open>What every helper keeps: the block lists, the flags and the flow table.\<close>

definition net_config :: "knet \<Rightarrow> _" where
  "net_config k = (BLOCKED_IPS k, USER_BLOCKED_IPS k, BLOCKED_PORTS k, ESTABLISHED_FLOWS k,
     SAMPLING_ENABLED k, CAPTURE_ONLY k)"

lemma emit_keeps [simp]: "net_config (emit ok e k) = net_config k"
  by (simp add: emit_def net_config_def)

lemma limiter_keeps [simp]:
  "net_config (snd (should_log_drop now ok k)) = net_config k"
  "net_config (snd (should_sample_packet now ok k)) = net_config k"
  "net_config (capture_dns now ok rsv fr l4 k) = net_config k"
  by (simp_all add: should_log_drop_def should_sample_packet_def capture_dns_def emit_def
      net_config_def Let_def split: option.splits)

text \<open>Each helper appends at most one event.\<close>

definition adds :: "nat \<Rightarrow> knet \<Rightarrow> knet \<Rightarrow> bool" where
  "adds n k k' \<longleftrightarrow> prefix (RING_BUF k) (RING_BUF k') \<and> length (RING_BUF k') \<le> length (RING_BUF k) + n"

lemma adds_refl [simp]: "adds n k k" by (simp add: adds_def)

lemma adds_trans: "adds m k k' \<Longrightarrow> adds n k' k'' \<Longrightarrow> adds (m + n) k k''"
  by (force simp: adds_def intro: prefix_order.trans)

lemma adds_helpers [simp]:
  "adds (Suc 0) k (emit ok e k)"
  "adds 0 k (snd (should_log_drop now ok k))"
  "adds 0 k (snd (should_sample_packet now ok k))"
  "adds (Suc 0) k (capture_dns now ok rsv fr l4 k)"
  by (simp_all add: adds_def should_log_drop_def should_sample_packet_def capture_dns_def emit_def
      Let_def split: option.splits)

lemma adds_emit: "adds 0 k k' \<Longrightarrow> adds (Suc 0) k (emit ok e k')"
  using adds_trans [OF _ adds_helpers(1)] by fastforce

lemma adds_weaken: "adds 0 k k' \<Longrightarrow> adds (Suc 0) k k'"
  by (auto simp: adds_def)

lemma fire_then_emit: "(case p of (b, k') \<Rightarrow> if b then f k' else k') = (if fst p then f (snd p) else snd p)"
  by (simp add: case_prod_beta)

lemma sample_event_keeps [simp]:
  "net_config (sample_event env si di sp dp proto k) = net_config k"
  "adds (Suc 0) k (sample_event env si di sp dp proto k)"
  by (simp_all add: sample_event_def fire_then_emit adds_emit adds_weaken)

lemma log_drop_keeps [simp]:
  "net_config (log_drop env si di sp dp proto k) = net_config k"
  "adds (Suc 0) k (log_drop env si di sp dp proto k)"
  by (simp_all add: log_drop_def fire_then_emit adds_emit adds_weaken)

lemma dns_history_keeps [simp]:
  "net_config (dns_history env fr ip proto sp dp k) = net_config k"
  "adds 2 k (dns_history env fr ip proto sp dp k)"
  using adds_trans [OF adds_helpers(4) adds_helpers(4)]
  by (auto simp: dns_history_def Let_def numeral_2_eq_2 has_ports_def)

lemma ring0_xdp_ports:
  assumes "locate_ip (Inl XDP_ABORTED) (Inr XDP_PASS) fr = Inr ip"
    and "read_ports fr ip (read_u8 fr (ip + 9)) = Some (sp, dp)"
  obtains di si proto where "ring0_xdp lpm env ifindex fr k = (XDP_DROP, log_drop env si di sp dp proto k)
        \<and> CAPTURE_ONLY k ifindex = None"
  | di si proto where "ring0_xdp lpm env ifindex fr k = (XDP_PASS, dns_history env fr ip proto sp dp k)"
  | di si proto where "ring0_xdp lpm env ifindex fr k =
        (XDP_PASS, sample_event env si di sp dp proto (dns_history env fr ip proto sp dp k))"
proof -
  let ?x = "ring0_xdp lpm env ifindex fr k"
  let ?si = "swap32 (read_u32 fr (ip + 12))" and ?di = "swap32 (read_u32 fr (ip + 16))"
  let ?p = "read_u8 fr (ip + 9)"
  have "?x = (XDP_DROP, log_drop env ?si ?di sp dp ?p k) \<and> CAPTURE_ONLY k ifindex = None
      \<or> ?x = (XDP_PASS, dns_history env fr ip ?p sp dp k)
      \<or> ?x = (XDP_PASS, sample_event env ?si ?di sp dp ?p (dns_history env fr ip ?p sp dp k))"
    using assms by (simp add: ring0_xdp_def try_ring0_xdp_def Let_def)
  with that show ?thesis by blast
qed

lemma ring0_xdp_state:
  "net_config (snd (ring0_xdp lpm env ifindex fr k)) = net_config k
     \<and> adds 3 k (snd (ring0_xdp lpm env ifindex fr k))
     \<and> (CAPTURE_ONLY k ifindex \<noteq> None \<longrightarrow> fst (ring0_xdp lpm env ifindex fr k) \<noteq> XDP_DROP)"
proof (cases "locate_ip (Inl XDP_ABORTED) (Inr XDP_PASS) fr")
  case (Inl r)
  from ring0_xdp_early [OF this] show ?thesis by simp
next
  case ip: (Inr ip)
  show ?thesis
  proof (cases "read_ports fr ip (read_u8 fr (ip + 9))")
    case None
    from ring0_xdp_short [OF ip this] show ?thesis by simp
  next
    case (Some ports)
    obtain sp dp where ports: "ports = (sp, dp)" by force
    have up: "adds 3 k k'" if "adds n k k'" "n \<le> 3" for k' n
      using that by (auto simp: adds_def)
    have three: "adds 3 k k'" if "adds 2 k k2" "adds (Suc 0) k2 k'" for k2 k'
      using adds_trans [OF that] by (rule up) simp
    show ?thesis
      by (rule ring0_xdp_ports [OF ip Some [unfolded ports], of lpm env ifindex k])
         (simp_all add: up [of "Suc 0"] up [of 2] three [OF dns_history_keeps(2) sample_event_keeps(2)])
  qed
qed


text \<open>A kernel with empty maps, and an environment that grants everything at time \<open>t\<close>.\<close>

definition net0 :: knet where
  "net0 = \<lparr>BLOCKED_IPS = [], USER_BLOCKED_IPS = [], BLOCKED_PORTS = Map.empty,
     ESTABLISHED_FLOWS = Map.empty, SAMPLING_ENABLED = Map.empty, PACKET_LAST_EMIT = Map.empty,
     PACKET_DROP_LAST_EMIT = Map.empty, DNS_LAST_EMIT = Map.empty, CAPTURE_ONLY = Map.empty,
     RING_BUF = []\<rparr>"

definition lpm_ref :: lpm_get where
  "lpm_ref t k = list_ex (\<lambda>e. lpm_covers e k) t"

lemma lpm_ref_documented: "lpm_documented lpm_ref"
  by (simp add: lpm_documented_def lpm_ref_def)

definition env_at :: "u64 \<Rightarrow> kenv" where
  "env_at t = \<lparr>ktime = (\<lambda>_. t), update_ok = (\<lambda>_. True), reserve_ok = (\<lambda>_. True)\<rparr>"

theorem check_blocked_spec_witness:
  "check_blocked lpm_ref (net0\<lparr>USER_BLOCKED_IPS := map cidr_key [(0x0A000000, 8)]\<rparr>)
     0x01020304 0x0A010203 1000 443 6 False = XDP_DROP"
  using check_blocked_spec [OF lpm_ref_documented,
    of "net0\<lparr>USER_BLOCKED_IPS := map cidr_key [(0x0A000000, 8)]\<rparr>" "[]" "[(0x0A000000, 8)]"
       "0x01020304" "0x0A010203" 1000 443 6 False]
  by (simp add: net0_def in_cidr_def)


theorem ethernet_frames_unfiltered_witness:
  "ring0_xdp lpm_ref (env_at 7) 3 (eth_frame (replicate 12 1) [] 0x0800 (replicate 20 0x45))
     (net0\<lparr>BLOCKED_PORTS := [0x4545 \<mapsto> 1]\<rparr>) = (XDP_PASS, net0\<lparr>BLOCKED_PORTS := [0x4545 \<mapsto> 1]\<rparr>)"
  using ethernet_frames_unfiltered [of "eth_frame (replicate 12 1) [] 0x0800 (replicate 20 0x45)"
    lpm_ref "env_at 7" 3]
  by (simp add: eth_frame_def hd_append)


section \<open>The limiters as rate limiters\<close>

lemma word_gap: "t \<le> (u :: u64) \<Longrightarrow> \<not> u - t < g \<Longrightarrow> unat t + unat g \<le> unat u"
  by (simp add: word_less_nat_alt word_le_nat_alt unat_sub)

interpretation drop_limit: rate_limiter fst "\<lambda>i. should_log_drop (fst i) (snd i)"
    "\<lambda>k. PACKET_DROP_LAST_EMIT k 0" 100000000
  using word_gap [of _ _ 100000000]
  by unfold_locales (auto simp: should_log_drop_def split: option.splits if_splits)

interpretation sample_limit: rate_limiter fst "\<lambda>i. should_sample_packet (fst i) (snd i)"
    "\<lambda>k. PACKET_LAST_EMIT k 0" 20000000
  using word_gap [of _ _ 20000000]
  by unfold_locales (auto simp: should_sample_packet_def split: option.splits if_splits)

text \<open>
  On a clock that does not run backwards, drop events are logged at least 100 ms
  apart and packet samples are taken at least 20 ms apart, whatever the map updates return.
\<close>

theorem packet_events_spaced:
  assumes "sorted (map fst calls)" and "PACKET_DROP_LAST_EMIT k 0 = None" and "PACKET_LAST_EMIT k 0 = None"
  shows "spaced 100000000 (fire_run fst (\<lambda>i. should_log_drop (fst i) (snd i)) calls k)
     \<and> spaced 20000000 (fire_run fst (\<lambda>i. should_sample_packet (fst i) (snd i)) calls k)"
  using assms drop_limit.fire_run_spaced sample_limit.fire_run_spaced by blast

theorem packet_events_spaced_witness:
  "spaced 100000000 (fire_run fst (\<lambda>i. should_log_drop (fst i) (snd i))
       [(0, True), (50000000, True), (200000000, True)] net0)
   \<and> fire_run fst (\<lambda>i. should_log_drop (fst i) (snd i))
       [(0, True), (50000000, True), (200000000, True)] net0 = [0, 200000000]"
  using packet_events_spaced [of "[(0, True), (50000000, True), (200000000, True)]" net0]
  by (simp add: net0_def should_log_drop_def)

end
