(* ===== verification/Kernel_Sys.thy ===== *)
theory Kernel_Sys
  imports Kernel_Net
begin

text \<open>
  The syscall and LSM programs of \<open>ring0-ebpf/src/main.rs\<close>: process execution, the
  generic \<open>sys_enter\<close> dispatcher with its eight handlers, and the LSM hooks. The maps
  and rings they share with the packet programs are the field \<open>net\<close> of \<open>ksys\<close>.
  A run gets what the kernel supplies in a \<open>senv\<close>: the task, the clock, the syscall
  registers, the user and kernel memory behind a probe read, the result of a string copy
  (a helper of the kernel), and whether ring space and map updates are granted.
\<close>

record ksys =
  net :: knet
  LSM_ENFORCE :: "u32 \<rightharpoonup> u8"
  LAST_CONNECT_EMIT :: "u32 \<rightharpoonup> u64"
  BLOCKED_BINARIES :: "bytes \<rightharpoonup> u8"
  LSM_EVENTS :: "kevent list"
  PRIVESC_EVENTS :: "kevent list"
  ROOTKIT_EVENTS :: "kevent list"
  TLS_PID_BUDGET :: "u32 \<rightharpoonup> u32"
  TLS_FLOW_BUDGET :: "u64 \<rightharpoonup> u32"
  TLS_SCRATCH :: bytes

record senv =
  now :: u64
  cur_tgid :: u32
  cur_uid :: u32
  ctx_pid :: u32
  ctx_uid :: u32
  cur_comm :: "bytes option"
  ctx_arg :: "nat \<Rightarrow> u64"
  regs :: "nat \<Rightarrow> u64"
  umem :: "u64 \<Rightarrow> u8 option"
  kmem :: "u64 \<Rightarrow> u8 option"
  user_str :: "u64 \<Rightarrow> nat \<Rightarrow> bytes"
  granted :: bool
  upd_ok :: bool

section \<open>Helpers\<close>

text \<open>Reserve, write and submit on each ring.\<close>

definition emit_ring :: "senv \<Rightarrow> kevent \<Rightarrow> ksys \<Rightarrow> ksys" where
  "emit_ring e ev s = s\<lparr>net := emit (granted e) ev (net s)\<rparr>"

definition emit_lsm :: "senv \<Rightarrow> kevent \<Rightarrow> ksys \<Rightarrow> ksys" where
  "emit_lsm e ev s = (if granted e then s\<lparr>LSM_EVENTS := LSM_EVENTS s @ [ev]\<rparr> else s)"

definition emit_privesc :: "senv \<Rightarrow> kevent \<Rightarrow> ksys \<Rightarrow> ksys" where
  "emit_privesc e ev s = (if granted e then s\<lparr>PRIVESC_EVENTS := PRIVESC_EVENTS s @ [ev]\<rparr> else s)"

definition emit_rootkit :: "senv \<Rightarrow> kevent \<Rightarrow> ksys \<Rightarrow> ksys" where
  "emit_rootkit e ev s = (if granted e then s\<lparr>ROOTKIT_EVENTS := ROOTKIT_EVENTS s @ [ev]\<rparr> else s)"

text \<open>A probe read of \<open>n\<close> bytes fails when a byte is not mapped.\<close>

fun probe_read :: "(u64 \<Rightarrow> u8 option) \<Rightarrow> nat \<Rightarrow> u64 \<Rightarrow> bytes option" where
  "probe_read m 0 p = Some []"
| "probe_read m (Suc n) p = do { b \<leftarrow> m p; bs \<leftarrow> probe_read m n (p + 1); Some (b # bs) }"

definition probe_u16 :: "(u64 \<Rightarrow> u8 option) \<Rightarrow> u64 \<Rightarrow> u16 option" where
  "probe_u16 m p = map_option (\<lambda>b. le16 (b ! 0) (b ! 1)) (probe_read m 2 p)"

definition probe_u32 :: "(u64 \<Rightarrow> u8 option) \<Rightarrow> u64 \<Rightarrow> u32 option" where
  "probe_u32 m p = map_option (\<lambda>b. le32 (b ! 0) (b ! 1) (b ! 2) (b ! 3)) (probe_read m 4 p)"

definition bpf_probe_read_net16 :: "senv \<Rightarrow> u64 \<Rightarrow> u16" where
  "bpf_probe_read_net16 e p = (case probe_u16 (umem e) p of Some raw \<Rightarrow> swap16 raw | None \<Rightarrow> 0)"

definition bpf_probe_read_net32 :: "senv \<Rightarrow> u64 \<Rightarrow> u32" where
  "bpf_probe_read_net32 e p = (case probe_u32 (umem e) p of Some raw \<Rightarrow> swap32 raw | None \<Rightarrow> 0)"

definition bpf_probe_read_user_u16 :: "senv \<Rightarrow> u64 \<Rightarrow> u16" where
  "bpf_probe_read_user_u16 e p = unwrap_or 0 (probe_u16 (umem e) p)"

definition syscall_arg :: "senv \<Rightarrow> nat \<Rightarrow> u64" where
  "syscall_arg e n = (if n \<le> 5 then regs e n else 0)"

section \<open>The syscall handlers\<close>

definition ring0_sched_exec :: "senv \<Rightarrow> ksys \<Rightarrow> ksys" where
  "ring0_sched_exec e s =
     emit_ring e (ProcessExecEvent (now e) (cur_tgid e) 0 (cur_uid e)
       (unwrap_or (replicate 16 0) (cur_comm e))) s"

text \<open>Both path tables, and the comparison loops: every listed byte must agree.\<close>

definition head_matches_blocklist :: "bytes \<Rightarrow> bool" where
  "head_matches_blocklist head =
     fold (\<lambda>p m. if head = p then True else m)
       (map ascii [''/etc/sha'', ''/etc/sud'', ''.ssh/id_'', ''/proc/ka'']) False"

fun bytes_match :: "bytes \<Rightarrow> nat \<Rightarrow> bytes \<Rightarrow> bool" where
  "bytes_match buf i [] = True"
| "bytes_match buf i (b # bs) =
     (if length buf \<le> i then False else if buf ! i \<noteq> b then False else bytes_match buf (Suc i) bs)"

definition path_matches_blocklist :: "bytes \<Rightarrow> bool" where
  "path_matches_blocklist filename =
     list_ex (bytes_match filename 0)
       (map ascii [''/etc/shadow'', ''/etc/sudoers'', ''.ssh/id_rsa'', ''.ssh/id_ed25519'',
         ''/proc/kallsyms'', ''/etc/passwd''])"

text \<open>
  \<open>ring0_handle_openat\<close>: the eight-byte probe is only tested for failure, its result
  is not stored, so the precheck runs on the zeroed buffer.
\<close>

definition ring0_handle_openat :: "senv \<Rightarrow> ksys \<Rightarrow> ksys" where
  "ring0_handle_openat e s =
     (let filename_ptr = syscall_arg e 1; head = replicate 8 0 in
      if filename_ptr = 0 then s
      else if probe_read (umem e) 8 filename_ptr = None then s
      else if \<not> head_matches_blocklist head then s
      else
        let filename = user_str e filename_ptr 64 in
        if path_matches_blocklist filename \<and> cur_uid e \<noteq> 0
        then emit_ring e (FileAccessEvent (now e) (cur_tgid e) (cur_uid e) filename 0) s
        else s)"

definition ring0_handle_connect :: "senv \<Rightarrow> ksys \<Rightarrow> ksys" where
  "ring0_handle_connect e s =
     (let addr_ptr = syscall_arg e 1 in
      if addr_ptr = 0 then s
      else if bpf_probe_read_user_u16 e addr_ptr \<noteq> 2 then s
      else emit_ring e (ConnectEvent (now e) (cur_tgid e) (cur_uid e)
             (bpf_probe_read_net32 e (addr_ptr + 4)) (bpf_probe_read_net16 e (addr_ptr + 2)) 6) s)"

definition ring0_handle_kill :: "senv \<Rightarrow> ksys \<Rightarrow> ksys" where
  "ring0_handle_kill e s =
     (let target_pid = ucast (syscall_arg e 0); sig = ucast (syscall_arg e 1) in
      if (sig = 9 \<or> sig = 15) \<and> 0 < target_pid
      then emit_ring e (KillEvent (now e) (cur_tgid e) target_pid sig) s
      else s)"

definition path_matches_daemon :: "bytes \<Rightarrow> bool" where
  "path_matches_daemon path = bytes_match path 0 (ascii ''/etc/ring0/rules.yaml'' @ [0])"

definition path_matches_socket :: "bytes \<Rightarrow> bool" where
  "path_matches_socket path = bytes_match path 0 (ascii ''/run/ring0d.sock'' @ [0])"

definition ring0_handle_unlinkat :: "senv \<Rightarrow> ksys \<Rightarrow> ksys" where
  "ring0_handle_unlinkat e s =
     (let name_ptr = syscall_arg e 1 in
      if name_ptr = 0 then s
      else let path = user_str e name_ptr 96 in
        if cur_uid e \<noteq> 0 \<and> (path_matches_daemon path \<or> path_matches_socket path)
        then emit_ring e (UnlinkEvent (now e) (cur_tgid e) (cur_uid e) path) s
        else s)"

definition ring0_handle_setuid :: "senv \<Rightarrow> ksys \<Rightarrow> ksys" where
  "ring0_handle_setuid e s =
     (let new_uid = ucast (syscall_arg e 0) in
      if new_uid = 0 \<and> cur_uid e \<noteq> 0
      then emit_privesc e (SetuidEvent (now e) (cur_tgid e) (cur_uid e) new_uid) s
      else s)"

definition ring0_handle_memfd :: "senv \<Rightarrow> ksys \<Rightarrow> ksys" where
  "ring0_handle_memfd e s =
     (let name_ptr = syscall_arg e 0; flags = ucast (syscall_arg e 1);
          name = (if name_ptr \<noteq> 0 then user_str e name_ptr 32 else replicate 32 0)
      in emit_rootkit e (MemfdEvent (now e) (cur_tgid e) (cur_uid e) flags name) s)"

definition ring0_handle_mmap :: "senv \<Rightarrow> ksys \<Rightarrow> ksys" where
  "ring0_handle_mmap e s =
     (let addr = syscall_arg e 0; len = syscall_arg e 1; prot = ucast (syscall_arg e 2);
          flags = ucast (syscall_arg e 3); file_fd = syscall_arg e 4;
          is_wx = (prot AND 2 \<noteq> 0 \<and> prot AND 4 \<noteq> 0);
          is_anon_exec = (flags AND 0x20 \<noteq> 0 \<and> prot AND 4 \<noteq> 0)
      in if is_wx \<or> (is_anon_exec \<and> file_fd = 0xFFFFFFFFFFFFFFFF)
         then emit_rootkit e (MmapEvent (now e) (cur_tgid e) (cur_uid e) addr len prot flags file_fd) s
         else s)"

definition ring0_handle_finit_module :: "senv \<Rightarrow> ksys \<Rightarrow> ksys" where
  "ring0_handle_finit_module e s =
     (let name_ptr = syscall_arg e 1; flags = ucast (syscall_arg e 2);
          name = (if name_ptr \<noteq> 0 then user_str e name_ptr 64 else replicate 64 0)
      in emit_rootkit e (ModuleEvent (now e) (cur_tgid e) (cur_uid e) name flags) s)"

text \<open>The syscall numbers of x86_64 (the handlers decode registers only there).\<close>

definition NR_OPENAT :: u64 where "NR_OPENAT = 257"
definition NR_CONNECT :: u64 where "NR_CONNECT = 42"
definition NR_KILL :: u64 where "NR_KILL = 62"
definition NR_UNLINKAT :: u64 where "NR_UNLINKAT = 263"
definition NR_SETUID :: u64 where "NR_SETUID = 105"
definition NR_MEMFD_CREATE :: u64 where "NR_MEMFD_CREATE = 319"
definition NR_MMAP :: u64 where "NR_MMAP = 9"
definition NR_FINIT_MODULE :: u64 where "NR_FINIT_MODULE = 313"

definition ring0_sys_enter :: "senv \<Rightarrow> ksys \<Rightarrow> ksys" where
  "ring0_sys_enter e s =
     (let nr = ctx_arg e 1 in
      if ctx_arg e 0 = 0 then s
      else if nr = NR_OPENAT then ring0_handle_openat e s
      else if nr = NR_CONNECT then ring0_handle_connect e s
      else if nr = NR_KILL then ring0_handle_kill e s
      else if nr = NR_UNLINKAT then ring0_handle_unlinkat e s
      else if nr = NR_SETUID then ring0_handle_setuid e s
      else if nr = NR_MEMFD_CREATE then ring0_handle_memfd e s
      else if nr = NR_MMAP then ring0_handle_mmap e s
      else if nr = NR_FINIT_MODULE then ring0_handle_finit_module e s
      else s)"

section \<open>The LSM hooks\<close>

text \<open>A hook returns its verdict (\<open>0\<close> allows, \<open>-1\<close> denies) and the new state.\<close>

definition is_lsm_enforced :: "ksys \<Rightarrow> bool" where
  "is_lsm_enforced s \<longleftrightarrow> LSM_ENFORCE s 1 \<noteq> None"

definition ring0_lsm_file_open :: "senv \<Rightarrow> ksys \<Rightarrow> int \<times> ksys" where
  "ring0_lsm_file_open e s =
     (if \<not> is_lsm_enforced s then (0, s) else if ctx_uid e = 0 then (0, s) else (0, s))"

definition binary_key :: "bytes \<Rightarrow> bytes" where
  "binary_key cm = take 16 cm @ replicate (64 - length (take 16 cm)) 0"

definition binary_matches_blocklist :: "ksys \<Rightarrow> bytes \<Rightarrow> bool" where
  "binary_matches_blocklist s cm \<longleftrightarrow> BLOCKED_BINARIES s (binary_key cm) \<noteq> None"

definition ring0_lsm_bprm_check :: "senv \<Rightarrow> ksys \<Rightarrow> int \<times> ksys" where
  "ring0_lsm_bprm_check e s =
     (if \<not> is_lsm_enforced s then (0, s)
      else if ctx_uid e = 0 then (0, s)
      else if binary_matches_blocklist s (unwrap_or (replicate 16 0) (cur_comm e)) then
        (- 1, emit_lsm e (LsmEvent (now e) (ctx_pid e) (ctx_uid e) 1 1 (replicate 96 0) 0 0) s)
      else (0, s))"

definition connect_limited :: "senv \<Rightarrow> ksys \<Rightarrow> bool" where
  "connect_limited e s =
     (case LAST_CONNECT_EMIT s (ctx_pid e) of
        Some t \<Rightarrow> sat_sub (now e) t < 500000000 | None \<Rightarrow> False)"

definition ring0_lsm_socket_connect :: "lpm_get \<Rightarrow> senv \<Rightarrow> ksys \<Rightarrow> int \<times> ksys" where
  "ring0_lsm_socket_connect lpm e s =
     (let addr_ptr = ctx_arg e 1;
          family = unwrap_or 0 (probe_u16 (kmem e) addr_ptr);
          port = unwrap_or 0 (map_option swap16 (probe_u16 (kmem e) (addr_ptr + 2)));
          ip = unwrap_or 0 (map_option swap32 (probe_u32 (kmem e) (addr_ptr + 4)))
      in if ctx_arg e 0 = 0 then (0, s)
         else if addr_ptr = 0 then (0, s)
         else if family \<noteq> 2 then (0, s)
         else if connect_limited e s then (0, s)
         else
           let s1 = (if upd_ok e then s\<lparr>LAST_CONNECT_EMIT :=
                       (LAST_CONNECT_EMIT s)(ctx_pid e \<mapsto> now e)\<rparr> else s);
               blocked = (lpm (USER_BLOCKED_IPS (net s1)) (32, swap32 ip) \<or>
                          BLOCKED_PORTS (net s1) port \<noteq> None);
               s2 = emit_lsm e (LsmEvent (now e) (ctx_pid e) (cur_uid e) 2
                      (if blocked then 1 else 0) (replicate 96 0) ip port) s1
           in if is_lsm_enforced s2 \<and> blocked then (- 1, s2) else (0, s2))"

definition ring0_lsm_ptrace :: "senv \<Rightarrow> ksys \<Rightarrow> int \<times> ksys" where
  "ring0_lsm_ptrace e s =
     (let s1 = emit_privesc e (CapEvent KIND_PTRACE (now e) (ctx_pid e) (ctx_uid e)
                 (ucast (ctx_arg e 1)) 0) s
      in if is_lsm_enforced s1 \<and> ctx_uid e \<noteq> 0 then (- 1, s1) else (0, s1))"

definition ring0_lsm_capable :: "senv \<Rightarrow> ksys \<Rightarrow> int \<times> ksys" where
  "ring0_lsm_capable e s =
     (let cap = ucast (ctx_arg e 2) :: u32 in
      if cap = 21 \<or> cap = 12 \<or> cap = 17 then
        let s1 = emit_privesc e (CapEvent KIND_CAP (now e) (ctx_pid e) (ctx_uid e) cap 0) s
        in if is_lsm_enforced s1 \<and> ctx_uid e \<noteq> 0 then (- 1, s1) else (0, s1)
      else (0, s))"

section \<open>What the handlers do\<close>

lemmas emit_ring_defs = emit_ring_def emit_lsm_def emit_privesc_def emit_rootkit_def emit_def

lemma head_zero: "\<not> head_matches_blocklist (replicate 8 0)"
  by code_simp

lemma openat_keeps: "ring0_handle_openat e s = s"
  using head_zero by (simp add: ring0_handle_openat_def Let_def)

lemmas handler_defs = openat_keeps ring0_handle_connect_def ring0_handle_kill_def
  ring0_handle_unlinkat_def ring0_handle_setuid_def ring0_handle_memfd_def
  ring0_handle_mmap_def ring0_handle_finit_module_def

text \<open>
  The \<open>openat\<close> handler changes nothing and never reports a file access,
  whatever path is opened: its precheck runs on a buffer nothing was read into.
\<close>

theorem openat_never_reports: "ring0_handle_openat e s = s"
  by (rule openat_keeps)

text \<open>The state a hook leaves differs from the old one in the rings and the emission times only.\<close>

definition sys_config :: "ksys \<Rightarrow> _" where
  "sys_config s = (net_config (net s), LSM_ENFORCE s, BLOCKED_BINARIES s, TLS_PID_BUDGET s)"

lemma emit_ring_keeps [simp]:
  "sys_config (emit_ring e ev s) = sys_config s" "sys_config (emit_lsm e ev s) = sys_config s"
  "sys_config (emit_privesc e ev s) = sys_config s" "sys_config (emit_rootkit e ev s) = sys_config s"
  by (simp_all add: emit_ring_defs sys_config_def net_config_def)

lemma emit_enforce [simp]:
  "is_lsm_enforced (emit_lsm e ev s) = is_lsm_enforced s"
  "is_lsm_enforced (emit_privesc e ev s) = is_lsm_enforced s"
  by (simp_all add: emit_ring_defs is_lsm_enforced_def)

text \<open>
  The LSM hooks never deny in audit mode, and outside the connect hook they never
  deny root.
\<close>

theorem lsm_audit_and_root_allowed:
  "\<not> is_lsm_enforced s \<or> ctx_uid e = 0 \<Longrightarrow>
     fst (ring0_lsm_file_open e s) = 0 \<and> fst (ring0_lsm_bprm_check e s) = 0
     \<and> fst (ring0_lsm_ptrace e s) = 0 \<and> fst (ring0_lsm_capable e s) = 0
     \<and> (is_lsm_enforced s \<or> fst (ring0_lsm_socket_connect lpm e s) = 0)"
  by (auto simp: ring0_lsm_file_open_def ring0_lsm_bprm_check_def ring0_lsm_ptrace_def
      ring0_lsm_capable_def ring0_lsm_socket_connect_def Let_def is_lsm_enforced_def emit_ring_defs)

text \<open>The IPv4 destination the connect hook reads from the kernel copy of the address.\<close>

definition connect_dest :: "senv \<Rightarrow> (u32 \<times> u16) option" where
  "connect_dest e =
     (if ctx_arg e 0 = 0 \<or> ctx_arg e 1 = 0 \<or> unwrap_or 0 (probe_u16 (kmem e) (ctx_arg e 1)) \<noteq> 2
      then None
      else Some (unwrap_or 0 (map_option swap32 (probe_u32 (kmem e) (ctx_arg e 1 + 4))),
                 unwrap_or 0 (map_option swap16 (probe_u16 (kmem e) (ctx_arg e 1 + 2)))))"

definition dest_blocked :: "lpm_get \<Rightarrow> ksys \<Rightarrow> u32 \<times> u16 \<Rightarrow> bool" where
  "dest_blocked lpm s d \<longleftrightarrow>
     lpm (USER_BLOCKED_IPS (net s)) (32, swap32 (fst d)) \<or> BLOCKED_PORTS (net s) (snd d) \<noteq> None"

lemma socket_connect_eq:
  "ring0_lsm_socket_connect lpm e s =
     (case connect_dest e of None \<Rightarrow> (0, s)
      | Some d \<Rightarrow> if connect_limited e s then (0, s) else
          (if is_lsm_enforced s \<and> dest_blocked lpm s d then - 1 else 0,
           emit_lsm e (LsmEvent (now e) (ctx_pid e) (cur_uid e) 2
             (if dest_blocked lpm s d then 1 else 0) (replicate 96 0) (fst d) (snd d))
           (if upd_ok e then s\<lparr>LAST_CONNECT_EMIT := (LAST_CONNECT_EMIT s)(ctx_pid e \<mapsto> now e)\<rparr> else s)))"
  by (auto simp: ring0_lsm_socket_connect_def connect_dest_def dest_blocked_def Let_def
      is_lsm_enforced_def emit_ring_defs)


text \<open>
  The rate limit of the connect events is tested before the block lists: any connection
  a task makes within 500 ms of a previous IPv4 connection is allowed without an event, enforcement
  and block lists notwithstanding.
\<close>

theorem connect_limit_bypasses_block:
  assumes "connect_dest e1 \<noteq> None" and "\<not> connect_limited e1 s" and "upd_ok e1"
    and "ctx_pid e2 = ctx_pid e1" and "unat (now e2) < unat (now e1) + 500000000"
  shows "ring0_lsm_socket_connect lpm e2 (snd (ring0_lsm_socket_connect lpm e1 s))
     = (0, snd (ring0_lsm_socket_connect lpm e1 s))"
proof -
  have "sat_sub (now e2) (now e1) < 500000000"
    using assms(5) by (simp add: word_less_nat_alt unat_sat_sub)
  with assms show ?thesis
    by (auto simp: socket_connect_eq connect_limited_def emit_ring_defs split: option.splits)
qed

section \<open>Concrete runs\<close>

text \<open>A task of uid 1000 connecting to 10.1.2.3 port 443, with the address copied to 0x1000.\<close>

definition senv0 :: "u64 \<Rightarrow> senv" where
  "senv0 t = \<lparr>now = t, cur_tgid = 40, cur_uid = 1000, ctx_pid = 41, ctx_uid = 1000,
     cur_comm = Some (replicate 16 65), ctx_arg = (\<lambda>n. if n = 0 then 0x900 else 0x1000),
     regs = (\<lambda>n. 9),
     umem = (\<lambda>p. None),
     kmem = (\<lambda>p. if 0x1000 \<le> p \<and> p < 0x1008
       then Some ([2, 0, 1, 0xBB, 10, 1, 2, 3] ! unat (p - 0x1000)) else None),
     user_str = (\<lambda>p n. replicate n 0), granted = True, upd_ok = True\<rparr>"

definition ksys0 :: "knet \<Rightarrow> ksys" where
  "ksys0 k = \<lparr>net = k, LSM_ENFORCE = [1 \<mapsto> 1], LAST_CONNECT_EMIT = Map.empty,
     BLOCKED_BINARIES = Map.empty, LSM_EVENTS = [], PRIVESC_EVENTS = [], ROOTKIT_EVENTS = [],
     TLS_PID_BUDGET = Map.empty, TLS_FLOW_BUDGET = Map.empty, TLS_SCRATCH = replicate 256 0\<rparr>"

lemma probe_read_2: "probe_read m 2 p = do { b0 \<leftarrow> m p; b1 \<leftarrow> m (p + 1); Some [b0, b1] }"
  by (simp add: numeral_2_eq_2)

lemma probe_read_4: "probe_read m 4 p =
    do { b0 \<leftarrow> m p; b1 \<leftarrow> m (p + 1); b2 \<leftarrow> m (p + 2); b3 \<leftarrow> m (p + 3); Some [b0, b1, b2, b3] }"
  by (simp add: eval_nat_numeral add.assoc)

lemma senv0_dest: "connect_dest (senv0 t) = Some (0x0A010203, 443)"
proof -
  have "probe_u16 (kmem (senv0 t)) 0x1000 = Some (le16 2 0)"
    "probe_u32 (kmem (senv0 t)) 0x1004 = Some (le32 10 1 2 3)"
    "probe_u16 (kmem (senv0 t)) 0x1002 = Some (le16 1 0xBB)"
    by (simp_all add: senv0_def probe_u16_def probe_u32_def probe_read_2 probe_read_4)
  moreover have "le16 2 0 = 2" "swap32 (le32 10 1 2 3) = 0x0A010203" "swap16 (le16 1 0xBB) = 443"
    by code_simp+
  ultimately show ?thesis by (simp add: connect_dest_def senv0_def unwrap_or_def)
qed

theorem lsm_audit_and_root_allowed_witness:
  "fst (ring0_lsm_bprm_check ((senv0 5)\<lparr>ctx_uid := 0\<rparr>)
     ((ksys0 net0)\<lparr>BLOCKED_BINARIES := [binary_key (replicate 16 65) \<mapsto> 1]\<rparr>)) = 0
   \<and> fst (ring0_lsm_bprm_check (senv0 5)
     ((ksys0 net0)\<lparr>BLOCKED_BINARIES := [binary_key (replicate 16 65) \<mapsto> 1]\<rparr>)) = - 1"
  using lsm_audit_and_root_allowed [of "(ksys0 net0)\<lparr>BLOCKED_BINARIES := [binary_key (replicate 16 65) \<mapsto> 1]\<rparr>"
    "(senv0 5)\<lparr>ctx_uid := 0\<rparr>"]
  by (simp add: ring0_lsm_bprm_check_def senv0_def ksys0_def is_lsm_enforced_def unwrap_or_def
      binary_matches_blocklist_def)

lemma senv0_simps [simp]:
  "now (senv0 t) = t" "ctx_pid (senv0 t) = 41" "upd_ok (senv0 t)" "\<not> connect_limited (senv0 t) (ksys0 k)"
  "is_lsm_enforced (ksys0 k)" "net (ksys0 k) = k"
  by (simp_all add: senv0_def ksys0_def connect_limited_def is_lsm_enforced_def)

theorem connect_limit_bypasses_block_witness:
  "(let s = ksys0 (net0\<lparr>BLOCKED_PORTS := [443 \<mapsto> 1]\<rparr>);
        s1 = snd (ring0_lsm_socket_connect lpm_ref (senv0 1000) s)
    in fst (ring0_lsm_socket_connect lpm_ref (senv0 1000) s) = - 1
       \<and> ring0_lsm_socket_connect lpm_ref (senv0 2000) s1 = (0, s1))"
proof -
  let ?s = "ksys0 (net0\<lparr>BLOCKED_PORTS := [443 \<mapsto> 1]\<rparr>)"
  have "fst (ring0_lsm_socket_connect lpm_ref (senv0 1000) ?s) = - 1"
    by (simp add: socket_connect_eq senv0_dest dest_blocked_def)
  then show ?thesis
    using connect_limit_bypasses_block [of "senv0 1000" ?s "senv0 2000" lpm_ref]
    by (simp add: senv0_dest Let_def)
qed

end
