(* ===== verification/Kernel_Tls.thy ===== *)
theory Kernel_Tls
  imports Kernel_Sys
begin

text \<open>
  The TLS uprobes of \<open>ring0-ebpf/src/main.rs\<close> with their per-connection byte budget, and
  the kernel side as a whole: one step per program run (\<open>kernel_step\<close>), with the
  well-formedness of everything the rings hold as its invariant.
\<close>

section \<open>The TLS capture\<close>

definition TLS_DEFAULT_BUDGET :: u32 where "TLS_DEFAULT_BUDGET = 8192"
definition TLS_STRIDE_BYTES :: u32 where "TLS_STRIDE_BYTES = 16 * 1024 * 1024"

text \<open>
  What a uprobe run gets: the thread, the call's register arguments, the bytes a user copy
  leaves in a buffer of length \<open>n\<close>, whether the per-CPU slot, the map insertion and the
  ring space are granted.
\<close>

record uenv =
  u_pid :: u32
  u_now :: u64
  u_arg :: "nat \<Rightarrow> u64 option"
  u_buf :: "u64 \<Rightarrow> nat \<Rightarrow> bytes"
  u_scratch :: bool
  u_insert :: bool
  u_granted :: bool

definition is_http_request_start :: "bytes \<Rightarrow> nat \<Rightarrow> bool" where
  "is_http_request_start buf len =
     (let head = take (min len 8) buf
      in list_ex (\<lambda>m. prefix m head)
           (map ascii [''GET '', ''POST '', ''PUT '', ''HEAD '', ''DELETE '', ''PATCH '',
             ''OPTIONS '', ''CONNECT '']))"

text \<open>The budget entry of a flow: whether to emit, and the entry afterwards.\<close>

definition tls_flow :: "u32 \<Rightarrow> bool \<Rightarrow> u32 \<Rightarrow> bool \<Rightarrow> u32 option \<Rightarrow> bool \<times> u32 option" where
  "tls_flow budget new_request len ins entry =
     (case entry of
        Some v \<Rightarrow>
          if new_request \<and> budget \<le> v then (True, Some len)
          else if v < budget then (True, Some (sat_add v len))
          else if budget + TLS_STRIDE_BYTES \<le> v then (True, Some len)
          else (False, Some (sat_add v len))
      | None \<Rightarrow> (ins, if ins then Some len else None))"

definition tls_len :: "u32 \<Rightarrow> u32" where
  "tls_len raw_len = (if raw_len \<le> 0x01000000 then min raw_len 256 else 0)"

definition flow_id :: "u32 \<Rightarrow> u64 \<Rightarrow> u64" where
  "flow_id pid ssl = push_bit 32 (ucast pid) OR (ssl AND 0xFFFFFFFF)"

definition capture_tls_event :: "uenv \<Rightarrow> u8 \<Rightarrow> ksys \<Rightarrow> ksys" where
  "capture_tls_event e direction s =
     (let pid = u_pid e;
          ssl = unwrap_or 0 (u_arg e 0);
          buf_ptr = unwrap_or 0 (u_arg e 1);
          raw_len = (case u_arg e 2 of Some r \<Rightarrow> ucast r | None \<Rightarrow> 0) :: u32;
          len = tls_len raw_len;
          is_write = (direction = 0);
          key = flow_id pid ssl;
          budget = unwrap_or TLS_DEFAULT_BUDGET (TLS_PID_BUDGET s pid);
          fill = (\<lambda>sp. u_buf e buf_ptr (unat len) @ drop (unat len) sp)
      in if len = 0 \<or> buf_ptr = 0 then s
         else if \<not> u_scratch e then s
         else
           let s = (if is_write then s\<lparr>TLS_SCRATCH := fill (TLS_SCRATCH s)\<rparr> else s);
               new_request = (is_write \<and> is_http_request_start (TLS_SCRATCH s) (unat len))
           in case tls_flow budget new_request len (u_insert e) (TLS_FLOW_BUDGET s key) of
                (emit_it, entry) \<Rightarrow>
                  let s = s\<lparr>TLS_FLOW_BUDGET := (TLS_FLOW_BUDGET s)(key := entry)\<rparr>
                  in if \<not> emit_it then s
                     else
                       let s = (if is_write then s else s\<lparr>TLS_SCRATCH := fill (TLS_SCRATCH s)\<rparr>)
                       in s\<lparr>net := emit (u_granted e)
                              (TlsEvent (u_now e) key pid direction len (TLS_SCRATCH s)) (net s)\<rparr>)"

definition ring0_ssl_write :: "uenv \<Rightarrow> ksys \<Rightarrow> ksys" where
  "ring0_ssl_write e s = capture_tls_event e 0 s"

definition ring0_ssl_read :: "uenv \<Rightarrow> ksys \<Rightarrow> ksys" where
  "ring0_ssl_read e s = capture_tls_event e 1 s"

section \<open>The budget of a flow\<close>

text \<open>A flow's captures: each call's request flag and length, with the decision taken.\<close>

fun tls_run :: "u32 \<Rightarrow> u32 option \<Rightarrow> (bool \<times> u32) list \<Rightarrow> (bool \<times> u32) list" where
  "tls_run budget entry [] = []"
| "tls_run budget entry ((req, len) # calls) =
     (case tls_flow budget req len True entry of
        (em, entry') \<Rightarrow> (em, len) # tls_run budget entry' calls)"

definition call_bytes :: "(bool \<times> u32) list \<Rightarrow> nat" where
  "call_bytes calls = sum_list (map (unat \<circ> snd) calls)"

text \<open>The bytes of the calls that were emitted.\<close>

definition emitted :: "(bool \<times> u32) list \<Rightarrow> nat" where
  "emitted calls = call_bytes (filter fst calls)"

lemma call_bytes_simps [simp]:
  "call_bytes [] = 0" "call_bytes (c # cs) = unat (snd c) + call_bytes cs"
  "emitted [] = 0" "emitted (c # cs) = (if fst c then unat (snd c) else 0) + emitted cs"
  by (simp_all add: call_bytes_def emitted_def)

text \<open>A call's length is 1 to 256; \<open>small\<close> keeps the sums below the word size.\<close>

definition calls_ok :: "(bool \<times> u32) list \<Rightarrow> bool" where
  "calls_ok = list_all (\<lambda>(req, len). 0 < len \<and> len \<le> 256)"

lemma tls_len_ok: "tls_len r \<noteq> 0 \<Longrightarrow> 0 < tls_len r \<and> tls_len r \<le> 256"
  by (auto simp: tls_len_def word_neq_0_conv min_def split: if_splits)

lemma len_bounds: "0 < len \<and> len \<le> (256 :: u32) \<Longrightarrow> 1 \<le> unat len \<and> unat len \<le> 256"
  by (auto simp: word_le_nat_alt word_less_nat_alt)

lemma unat_stride: "unat budget \<le> 1048576 \<Longrightarrow> unat (budget + TLS_STRIDE_BYTES) = unat budget + 16777216"
  by (simp add: TLS_STRIDE_BYTES_def unat_word_ariths)

lemma tls_run_window:
  assumes "unat budget \<le> 1048576"
  shows "calls_ok calls \<Longrightarrow> list_all (\<lambda>c. \<not> fst c) calls \<Longrightarrow>
     unat v + call_bytes calls \<le> unat budget + 16777216 \<Longrightarrow>
     emitted (tls_run budget (Some v) calls) \<le> unat budget + 255 - unat v"
proof (induction calls arbitrary: v)
  case Nil
  then show ?case by simp
next
  case (Cons c calls)
  obtain len where c: "c = (False, len)" using Cons.prems(2) by (cases c) auto
  have len: "1 \<le> unat len" "unat len \<le> 256"
    using Cons.prems(1) c len_bounds [of len] by (auto simp: calls_ok_def)
  have sum: "unat (sat_add v len) = unat v + unat len"
    using Cons.prems(3) c assms by (simp add: unat_sat_add)
  have not_far: "\<not> budget + TLS_STRIDE_BYTES \<le> v"
    using Cons.prems(3) c len unat_stride [OF assms] by (simp add: word_le_nat_alt)
  have "emitted (tls_run budget (Some (sat_add v len)) calls) \<le> unat budget + 255 - unat (sat_add v len)"
    using Cons.prems c sum by (intro Cons.IH) (auto simp: calls_ok_def)
  then show ?case using c len sum not_far
    by (auto simp: tls_flow_def word_less_nat_alt)
qed

lemma tls_run_quiet:
  assumes "unat budget \<le> 1048576"
  shows "calls_ok calls \<Longrightarrow> emitted (tls_run budget (Some v) calls) = 0 \<Longrightarrow>
     unat v < unat budget + 16777216 + 256 \<Longrightarrow>
     unat v + call_bytes calls < unat budget + 16777216 + 256"
proof (induction calls arbitrary: v)
  case Nil
  then show ?case by simp
next
  case (Cons c calls)
  obtain req len where c: "c = (req, len)" by force
  have len: "1 \<le> unat len" "unat len \<le> 256"
    using Cons.prems(1) c len_bounds [of len] by (auto simp: calls_ok_def)
  have near: "unat v < unat budget + 16777216" and quiet: "\<not> fst (tls_flow budget req len True (Some v))"
    using Cons.prems(2) c len unat_stride [OF assms]
    by (auto simp: tls_flow_def word_le_nat_alt split: if_splits)
  have step: "tls_flow budget req len True (Some v) = (False, Some (sat_add v len))"
    using quiet by (auto simp: tls_flow_def split: if_splits)
  have sum: "unat (sat_add v len) = unat v + unat len"
    using near len assms by (simp add: unat_sat_add)
  show ?case
    using Cons.IH [of "sat_add v len"] Cons.prems c step sum near len by (simp add: calls_ok_def)
qed

text \<open>
  Of a new flow without request boundaries at most the budget plus 256 bytes are captured
  within the first stride of 16 MiB, for budgets up to 1 MiB.
\<close>

theorem tls_window_bound:
  assumes "unat budget \<le> 1048576" and "calls_ok calls" and "list_all (\<lambda>c. \<not> fst c) calls"
    and "call_bytes calls \<le> unat budget + 16777216"
  shows "emitted (tls_run budget None calls) \<le> unat budget + 256"
proof (cases calls)
  case Nil
  then show ?thesis by simp
next
  case (Cons c cs)
  obtain len where c: "c = (False, len)" using assms(3) Cons by (cases c) auto
  have len: "1 \<le> unat len" "unat len \<le> 256"
    using assms(2) c Cons len_bounds [of len] by (auto simp: calls_ok_def)
  have "emitted (tls_run budget (Some len) cs) \<le> unat budget + 255 - unat len"
    using assms c Cons by (intro tls_run_window) (auto simp: calls_ok_def)
  then show ?thesis using c Cons len by (simp add: tls_flow_def)
qed

text \<open>
  No flow is muted for good: any run of captures that carries a stride, a budget and
  256 bytes emits at least one event, from whatever entry a flow can have.
\<close>

theorem tls_stride_rearms:
  assumes "unat budget \<le> 1048576" and "calls_ok calls"
    and "unat budget + 16777216 + 256 \<le> call_bytes calls"
  shows "0 < emitted (tls_run budget entry calls)"
proof (cases entry)
  case None
  with assms show ?thesis
    by (cases calls) (auto simp: tls_flow_def calls_ok_def word_less_nat_alt)
next
  case (Some v)
  show ?thesis
  proof (rule ccontr)
    assume "\<not> 0 < emitted (tls_run budget entry calls)"
    then have z: "emitted (tls_run budget (Some v) calls) = 0" using Some by simp
    show False
    proof (cases "unat v < unat budget + 16777216 + 256")
      case True
      with tls_run_quiet [OF assms(1,2) z] assms(3) show False by simp
    next
      case False
      then have "budget + TLS_STRIDE_BYTES \<le> v"
        using unat_stride [OF assms(1)] by (simp add: word_le_nat_alt)
      with z assms show False
        by (cases calls) (auto simp: tls_flow_def calls_ok_def word_less_nat_alt split: if_splits)
    qed
  qed
qed

lemma call_bytes_replicate: "call_bytes (replicate n (req, len)) = n * unat len"
  by (simp add: call_bytes_def sum_list_replicate)

theorem tls_window_bound_witness:
  "emitted (tls_run 8192 None (replicate 1000 (False, 256))) \<le> 8448"
  using tls_window_bound [of 8192 "replicate 1000 (False, 256)"]
  by (simp add: calls_ok_def call_bytes_replicate list_all_iff)

theorem tls_stride_rearms_witness:
  "0 < emitted (tls_run 8192 (Some 8192) (replicate 65569 (False, 256)))"
  using tls_stride_rearms [of 8192 "replicate 65569 (False, 256)" "Some 8192"]
  by (simp add: calls_ok_def call_bytes_replicate list_all_iff)

section \<open>The kernel side as a transition system\<close>

text \<open>Every entry of every ring has array fields of the length its struct declares.\<close>

definition rings :: "ksys \<Rightarrow> kevent list" where
  "rings s = RING_BUF (net s) @ LSM_EVENTS s @ PRIVESC_EVENTS s @ ROOTKIT_EVENTS s"

definition kernel_ok :: "ksys \<Rightarrow> bool" where
  "kernel_ok s \<longleftrightarrow> list_all arrays_ok (rings s) \<and> length (TLS_SCRATCH s) = 256"

text \<open>The helpers fill buffers of the size they are given.\<close>

definition senv_ok :: "senv \<Rightarrow> bool" where
  "senv_ok e \<longleftrightarrow> (\<forall>p n. length (user_str e p n) = n) \<and>
     (case cur_comm e of Some c \<Rightarrow> length c = 16 | None \<Rightarrow> True)"

definition uenv_ok :: "uenv \<Rightarrow> bool" where
  "uenv_ok e \<longleftrightarrow> (\<forall>p n. length (u_buf e p n) = n)"

text \<open>One run of one program.\<close>

inductive kernel_step :: "lpm_get \<Rightarrow> ksys \<Rightarrow> ksys \<Rightarrow> bool" for lpm where
  xdp: "kernel_step lpm s (s\<lparr>net := snd (ring0_xdp lpm env ifindex fr (net s))\<rparr>)"
| tc: "kernel_step lpm s (s\<lparr>net := snd (ring0_tc env fr (net s))\<rparr>)"
| exec: "senv_ok e \<Longrightarrow> kernel_step lpm s (ring0_sched_exec e s)"
| sys_enter: "senv_ok e \<Longrightarrow> kernel_step lpm s (ring0_sys_enter e s)"
| file_open: "senv_ok e \<Longrightarrow> kernel_step lpm s (snd (ring0_lsm_file_open e s))"
| bprm: "senv_ok e \<Longrightarrow> kernel_step lpm s (snd (ring0_lsm_bprm_check e s))"
| connect: "senv_ok e \<Longrightarrow> kernel_step lpm s (snd (ring0_lsm_socket_connect lpm e s))"
| ptrace: "senv_ok e \<Longrightarrow> kernel_step lpm s (snd (ring0_lsm_ptrace e s))"
| capable: "senv_ok e \<Longrightarrow> kernel_step lpm s (snd (ring0_lsm_capable e s))"
| ssl_write: "uenv_ok u \<Longrightarrow> kernel_step lpm s (ring0_ssl_write u s)"
| ssl_read: "uenv_ok u \<Longrightarrow> kernel_step lpm s (ring0_ssl_read u s)"

inductive kernel_run :: "lpm_get \<Rightarrow> ksys \<Rightarrow> ksys \<Rightarrow> bool" for lpm where
  start: "kernel_run lpm s s"
| step: "kernel_run lpm s s' \<Longrightarrow> kernel_step lpm s' s'' \<Longrightarrow> kernel_run lpm s s''"

inductive_cases kernel_stepE: "kernel_step lpm s s'"

lemma ok_emit [simp]:
  "arrays_ok ev \<Longrightarrow> kernel_ok s \<Longrightarrow> kernel_ok (emit_ring e ev s)"
  "arrays_ok ev \<Longrightarrow> kernel_ok s \<Longrightarrow> kernel_ok (emit_lsm e ev s)"
  "arrays_ok ev \<Longrightarrow> kernel_ok s \<Longrightarrow> kernel_ok (emit_privesc e ev s)"
  "arrays_ok ev \<Longrightarrow> kernel_ok s \<Longrightarrow> kernel_ok (emit_rootkit e ev s)"
  by (auto simp: emit_ring_defs kernel_ok_def rings_def)

text \<open>The packet programs: \<open>net_wf\<close> is the share of the invariant that lives in \<open>knet\<close>.\<close>

definition net_wf :: "knet \<Rightarrow> bool" where
  "net_wf k \<longleftrightarrow> list_all arrays_ok (RING_BUF k)"

lemma length_qname_walk: "length (qname_walk n q) \<le> n"
  by (induction n q rule: qname_walk.induct) auto

lemma length_qname_buf [simp]: "length (qname_buf fr q) = 96"
  using length_qname_walk [of 96 "drop q fr"] by (simp add: qname_buf_def Let_def)

lemma net_wf_helpers [simp]:
  "arrays_ok ev \<Longrightarrow> net_wf k \<Longrightarrow> net_wf (emit ok ev k)"
  "net_wf k \<Longrightarrow> net_wf (snd (should_log_drop t ok k))"
  "net_wf k \<Longrightarrow> net_wf (snd (should_sample_packet t ok k))"
  "net_wf k \<Longrightarrow> net_wf (capture_dns t ok rsv fr l4 k)"
  by (auto simp: net_wf_def emit_def should_log_drop_def should_sample_packet_def capture_dns_def
      Let_def split: option.splits)

lemma net_wf_branches [simp]:
  "net_wf k \<Longrightarrow> net_wf (sample_event env si di sp dp proto k)"
  "net_wf k \<Longrightarrow> net_wf (log_drop env si di sp dp proto k)"
  "net_wf k \<Longrightarrow> net_wf (dns_history env fr ip proto sp dp k)"
  by (simp_all add: sample_event_def log_drop_def dns_history_def fire_then_emit Let_def)

lemma net_wf_xdp: "net_wf k \<Longrightarrow> net_wf (snd (ring0_xdp lpm env ifindex fr k))"
proof (cases "locate_ip (Inl XDP_ABORTED) (Inr XDP_PASS) fr")
  case (Inl r)
  then show "net_wf k \<Longrightarrow> ?thesis" using ring0_xdp_early by metis
next
  case ip: (Inr ip)
  assume wf: "net_wf k"
  show ?thesis
  proof (cases "read_ports fr ip (read_u8 fr (ip + 9))")
    case None
    with wf ip show ?thesis by (simp add: ring0_xdp_short)
  next
    case (Some ports)
    obtain sp dp where ports: "ports = (sp, dp)" by force
    show ?thesis
      by (rule ring0_xdp_ports [OF ip Some [unfolded ports], of lpm env ifindex k]) (simp_all add: wf)
  qed
qed

lemma net_wf_tc: "net_wf k \<Longrightarrow> net_wf (snd (ring0_tc env fr k))"
  by (auto simp: ring0_tc_def try_ring0_tc_def Let_def locate_ip_def
      split: sum.splits option.splits prod.splits if_splits)

lemma ok_handlers:
  assumes "senv_ok e" and ok: "kernel_ok s"
  shows "kernel_ok (ring0_sched_exec e s)" "kernel_ok (ring0_handle_connect e s)"
    "kernel_ok (ring0_handle_kill e s)" "kernel_ok (ring0_handle_unlinkat e s)"
    "kernel_ok (ring0_handle_setuid e s)" "kernel_ok (ring0_handle_memfd e s)"
    "kernel_ok (ring0_handle_mmap e s)" "kernel_ok (ring0_handle_finit_module e s)"
  using assms
  by (auto simp: ring0_sched_exec_def ring0_handle_connect_def ring0_handle_kill_def
      ring0_handle_unlinkat_def ring0_handle_setuid_def ring0_handle_memfd_def
      ring0_handle_mmap_def ring0_handle_finit_module_def Let_def senv_ok_def unwrap_or_def
      split: option.splits)

lemma ok_sys_enter: "senv_ok e \<Longrightarrow> kernel_ok s \<Longrightarrow> kernel_ok (ring0_sys_enter e s)"
  by (simp add: ring0_sys_enter_def Let_def ok_handlers openat_keeps)

lemma ok_limit_mark: "kernel_ok (s\<lparr>LAST_CONNECT_EMIT := m\<rparr>) = kernel_ok s"
  by (simp add: kernel_ok_def rings_def)

lemma ok_hooks:
  "kernel_ok s \<Longrightarrow> kernel_ok (snd (ring0_lsm_file_open e s))"
  "kernel_ok s \<Longrightarrow> kernel_ok (snd (ring0_lsm_bprm_check e s))"
  "kernel_ok s \<Longrightarrow> kernel_ok (snd (ring0_lsm_socket_connect lpm e s))"
  "kernel_ok s \<Longrightarrow> kernel_ok (snd (ring0_lsm_ptrace e s))"
  "kernel_ok s \<Longrightarrow> kernel_ok (snd (ring0_lsm_capable e s))"
  by (auto simp: ring0_lsm_file_open_def ring0_lsm_bprm_check_def socket_connect_eq
      ring0_lsm_ptrace_def ring0_lsm_capable_def Let_def ok_limit_mark split: option.splits)

lemma tls_len_256: "unat (tls_len r) \<le> 256"
  using tls_len_ok [of r] by (cases "tls_len r = 0") (auto simp: word_le_nat_alt)

lemma ok_tls: "uenv_ok u \<Longrightarrow> kernel_ok s \<Longrightarrow> kernel_ok (capture_tls_event u dir s)"
  using tls_len_256
  by (simp add: capture_tls_event_def Let_def uenv_ok_def kernel_ok_def rings_def emit_def
      split: prod.splits)

lemma ok_net: "net_wf k \<Longrightarrow> kernel_ok s \<Longrightarrow> kernel_ok (s\<lparr>net := k\<rparr>)"
  by (simp add: net_wf_def kernel_ok_def rings_def)

lemma ok_net_wf: "kernel_ok s \<Longrightarrow> net_wf (net s)"
  by (simp add: net_wf_def kernel_ok_def rings_def)

lemma kernel_step_ok: "kernel_step lpm s s' \<Longrightarrow> kernel_ok s \<Longrightarrow> kernel_ok s'"
proof (induction rule: kernel_step.induct)
qed (simp_all add: ok_net net_wf_xdp net_wf_tc ok_net_wf ok_handlers ok_sys_enter ok_hooks ok_tls
    ring0_ssl_write_def ring0_ssl_read_def)

lemma kernel_run_ok: "kernel_run lpm s s' \<Longrightarrow> kernel_ok s \<Longrightarrow> kernel_ok s'"
  by (induction rule: kernel_run.induct) (auto intro: kernel_step_ok)

text \<open>
  Claim C17. Whatever programs run on the kernel side, in whatever order, every entry of every ring
  passes the daemon's size guard for its kind: no event is lost to the guard and no handler is
  given an entry shorter than the canonical size.
\<close>

theorem kernel_events_accepted:
  assumes "kernel_run lpm s s'" and "kernel_ok s"
  shows "list_all (\<lambda>ev. event_size (hd (encode_event pad ev)) \<noteq> None
     \<and> event_len_ok (hd (encode_event pad ev)) (length (encode_event pad ev))) (rings s')"
  using kernel_run_ok [OF assms] encode_event_length [of _ pad]
  by (fastforce simp: kernel_ok_def list_all_iff event_len_ok_def split: option.splits)

theorem kernel_events_accepted_witness:
  "list_all (\<lambda>ev. event_size (hd (encode_event (\<lambda>_. 7) ev)) \<noteq> None
     \<and> event_len_ok (hd (encode_event (\<lambda>_. 7) ev)) (length (encode_event (\<lambda>_. 7) ev)))
     (rings (ring0_sched_exec (senv0 9) (ksys0 net0)))
   \<and> length (rings (ring0_sched_exec (senv0 9) (ksys0 net0))) = 1"
proof -
  have ok: "senv_ok (senv0 9)" by (simp add: senv_ok_def senv0_def)
  have "kernel_run lpm_ref (ksys0 net0) (ring0_sched_exec (senv0 9) (ksys0 net0))"
    by (rule kernel_run.step [OF kernel_run.start kernel_step.exec [OF ok]])
  moreover have "kernel_ok (ksys0 net0)" by (simp add: kernel_ok_def rings_def ksys0_def net0_def)
  ultimately have "list_all (\<lambda>ev. event_size (hd (encode_event (\<lambda>_. 7) ev)) \<noteq> None
     \<and> event_len_ok (hd (encode_event (\<lambda>_. 7) ev)) (length (encode_event (\<lambda>_. 7) ev)))
     (rings (ring0_sched_exec (senv0 9) (ksys0 net0)))"
    by (rule kernel_events_accepted)
  moreover have "length (rings (ring0_sched_exec (senv0 9) (ksys0 net0))) = 1"
    by (simp add: ring0_sched_exec_def emit_ring_defs rings_def ksys0_def net0_def senv0_def)
  ultimately show ?thesis by (rule conjI)
qed

section \<open>Configuration\<close>

lemma net_config_tc: "net_config (snd (ring0_tc env fr k)) = net_config k"
  by (auto simp: ring0_tc_def try_ring0_tc_def Let_def locate_ip_def
      split: sum.splits option.splits prod.splits if_splits)

lemma sys_config_net [simp]:
  "net_config k = net_config (net s) \<Longrightarrow> sys_config (s\<lparr>net := k\<rparr>) = sys_config s"
  "sys_config (s\<lparr>LAST_CONNECT_EMIT := m\<rparr>) = sys_config s"
  "sys_config (s\<lparr>TLS_SCRATCH := b\<rparr>) = sys_config s"
  "sys_config (s\<lparr>TLS_FLOW_BUDGET := f\<rparr>) = sys_config s"
  by (simp_all add: sys_config_def)

lemma config_handlers:
  "sys_config (ring0_sched_exec e s) = sys_config s" "sys_config (ring0_handle_connect e s) = sys_config s"
  "sys_config (ring0_handle_kill e s) = sys_config s" "sys_config (ring0_handle_unlinkat e s) = sys_config s"
  "sys_config (ring0_handle_setuid e s) = sys_config s" "sys_config (ring0_handle_memfd e s) = sys_config s"
  "sys_config (ring0_handle_mmap e s) = sys_config s"
  "sys_config (ring0_handle_finit_module e s) = sys_config s"
  by (auto simp: ring0_sched_exec_def handler_defs Let_def)

lemma config_sys_enter: "sys_config (ring0_sys_enter e s) = sys_config s"
  by (simp add: ring0_sys_enter_def Let_def config_handlers openat_keeps)

lemma config_hooks:
  "sys_config (snd (ring0_lsm_file_open e s)) = sys_config s"
  "sys_config (snd (ring0_lsm_bprm_check e s)) = sys_config s"
  "sys_config (snd (ring0_lsm_socket_connect lpm e s)) = sys_config s"
  "sys_config (snd (ring0_lsm_ptrace e s)) = sys_config s"
  "sys_config (snd (ring0_lsm_capable e s)) = sys_config s"
  by (auto simp: ring0_lsm_file_open_def ring0_lsm_bprm_check_def socket_connect_eq
      ring0_lsm_ptrace_def ring0_lsm_capable_def Let_def split: option.splits)

lemma config_tls: "sys_config (capture_tls_event u dir s) = sys_config s"
  by (simp add: capture_tls_event_def Let_def split: prod.splits)

lemma kernel_step_config: "kernel_step lpm s s' \<Longrightarrow> sys_config s' = sys_config s"
  by (erule kernel_stepE) (simp_all add: ring0_xdp_state net_config_tc config_handlers
        config_sys_enter config_hooks config_tls ring0_ssl_write_def ring0_ssl_read_def)

text \<open>
  The block lists, flags, flow table and budgets are only written by the daemon: no
  run of kernel programs changes them.
\<close>

theorem kernel_run_config: "kernel_run lpm s s' \<Longrightarrow> sys_config s' = sys_config s"
  by (induction rule: kernel_run.induct) (simp_all add: kernel_step_config)

theorem kernel_run_config_witness:
  "sys_config (ring0_sched_exec (senv0 9) (ksys0 net0)) = sys_config (ksys0 net0)"
  by (rule kernel_run_config [OF kernel_run.step [OF kernel_run.start kernel_step.exec]])
     (simp add: senv_ok_def senv0_def)

end
