(* ===== verification/Rust_Text.thy ===== *)
theory Rust_Text
  imports Ring0_Prelude "HOL-Library.Char_ord"
begin

text \<open>
  The text functions of Rust's \<open>str\<close>, \<open>char\<close>, \<open>Path\<close> and integer parsing that the
  daemon uses, on ASCII text, with the round trips the parsers of \<open>/proc\<close>, rules and
  requests rest on.
\<close>

section \<open>Characters\<close>

definition is_ws :: "char \<Rightarrow> bool" where
  "is_ws c \<longleftrightarrow> (let n = of_char c :: nat in n = 32 \<or> 9 \<le> n \<and> n \<le> 13)"

definition is_digit :: "char \<Rightarrow> bool" where
  "is_digit c \<longleftrightarrow> (let n = of_char c :: nat in 48 \<le> n \<and> n \<le> 57)"

definition digit_val :: "char \<Rightarrow> nat" where
  "digit_val c = of_char c - 48"

definition lower :: "char \<Rightarrow> char" where
  "lower c = (let n = of_char c :: nat in if 65 \<le> n \<and> n \<le> 90 then char_of (n + 32) else c)"

definition to_lowercase :: "string \<Rightarrow> string" where
  "to_lowercase s = map lower s"

lemma lower_idem [simp]: "lower (lower c) = lower c"
  by (simp add: lower_def Let_def)

lemma to_lowercase_idem [simp]: "to_lowercase (to_lowercase s) = to_lowercase s"
  by (simp add: to_lowercase_def)

lemma length_to_lowercase [simp]: "length (to_lowercase s) = length s"
  by (simp add: to_lowercase_def)

section \<open>Splitting\<close>

fun split_on :: "char \<Rightarrow> string \<Rightarrow> string list" where
  "split_on c [] = [[]]"
| "split_on c (x # xs) =
     (if x = c then [] # split_on c xs
      else case split_on c xs of [] \<Rightarrow> [[x]] | w # ws \<Rightarrow> (x # w) # ws)"

fun join_with :: "string \<Rightarrow> string list \<Rightarrow> string" where
  "join_with sep [] = []"
| "join_with sep [w] = w"
| "join_with sep (w # ws) = w @ sep @ join_with sep ws"

lemma split_on_not_Nil [simp]: "split_on c s \<noteq> []"
  by (induction s) (auto split: list.splits)

lemma join_Nil: "ws \<noteq> [] \<Longrightarrow> join_with sep ([] # ws) = sep @ join_with sep ws"
  by (cases ws) simp_all

lemma join_Cons: "join_with sep ((x # w) # ws) = x # join_with sep (w # ws)"
  by (cases ws) simp_all

lemma join_split [simp]: "join_with [c] (split_on c s) = s"
proof (induction s)
  case (Cons x xs)
  then show ?case by (cases "split_on c xs") (auto simp: join_Nil join_Cons)
qed simp

lemma split_on_append: "c \<notin> set w \<Longrightarrow> split_on c (w @ c # s) = w # split_on c s"
  by (induction w) auto

lemma split_on_word: "c \<notin> set w \<Longrightarrow> split_on c w = [w]"
  by (induction w) auto

lemma split_join: "ws \<noteq> [] \<Longrightarrow> (\<forall>w \<in> set ws. c \<notin> set w) \<Longrightarrow> split_on c (join_with [c] ws) = ws"
  by (induction "[c]" ws rule: join_with.induct) (auto simp: split_on_append split_on_word)

lemma split_on_no_sep: "w \<in> set (split_on c s) \<Longrightarrow> c \<notin> set w"
  by (induction s arbitrary: w) (auto split: list.splits if_splits)

text \<open>\<open>trim\<close>, \<open>split_whitespace\<close> and \<open>lines\<close>.\<close>

definition trim_start :: "string \<Rightarrow> string" where
  "trim_start s = dropWhile is_ws s"

definition trim_end :: "string \<Rightarrow> string" where
  "trim_end s = rev (dropWhile is_ws (rev s))"

definition trim :: "string \<Rightarrow> string" where
  "trim s = trim_end (trim_start s)"

fun words_acc :: "string \<Rightarrow> string \<Rightarrow> string list" where
  "words_acc w [] = (if w = [] then [] else [rev w])"
| "words_acc w (c # s) =
     (if is_ws c then (if w = [] then words_acc [] s else rev w # words_acc [] s)
      else words_acc (c # w) s)"

definition split_whitespace :: "string \<Rightarrow> string list" where
  "split_whitespace s = words_acc [] s"

definition strip_cr :: "string \<Rightarrow> string" where
  "strip_cr l = (if l \<noteq> [] \<and> last l = CHR 0x0D then butlast l else l)"

definition text_lines :: "string \<Rightarrow> string list" where
  "text_lines s = (let ls = split_on CHR 0x0A s
                   in map strip_cr (if last ls = [] then butlast ls else ls))"

definition strip_prefix :: "string \<Rightarrow> string \<Rightarrow> string option" where
  "strip_prefix p s = (if prefix p s then Some (drop (length p) s) else None)"

definition trim_end_dots :: "string \<Rightarrow> string" where
  "trim_end_dots s = rev (dropWhile (\<lambda>c. c = CHR ''.'') (rev s))"

text \<open>\<open>split_once\<close>, \<open>trim_matches\<close>, \<open>find\<close> and \<open>match_indices\<close>.\<close>

definition split_once :: "char \<Rightarrow> string \<Rightarrow> (string \<times> string) option" where
  "split_once c s = (if c \<in> set s
     then Some (takeWhile (\<lambda>x. x \<noteq> c) s, tl (dropWhile (\<lambda>x. x \<noteq> c) s)) else None)"

lemma split_once_at: "c \<notin> set a \<Longrightarrow> split_once c (a @ c # b) = Some (a, b)"
proof -
  assume "c \<notin> set a"
  then have "\<forall>x \<in> set a. x \<noteq> c" by auto
  then show ?thesis by (simp add: split_once_def takeWhile_append2 dropWhile_append2)
qed

definition trim_matches :: "string \<Rightarrow> string \<Rightarrow> string" where
  "trim_matches cs s = rev (dropWhile (\<lambda>c. c \<in> set cs) (rev (dropWhile (\<lambda>c. c \<in> set cs) s)))"

fun find_str :: "string \<Rightarrow> string \<Rightarrow> nat option" where
  "find_str pat [] = (if pat = [] then Some 0 else None)"
| "find_str pat (c # s) = (if prefix pat (c # s) then Some 0 else map_option Suc (find_str pat s))"

lemma find_str_Some: "find_str pat s = Some n \<Longrightarrow> n \<le> length s \<and> prefix pat (drop n s)"
  by (induction s arbitrary: n) (auto split: if_splits)

lemma find_str_None: "find_str pat s = None \<longleftrightarrow> \<not> sublist pat s"
  by (induction s) (auto simp: sublist_Cons_right)

text \<open>Occurrences that do not overlap, from the left; \<open>pat\<close> is not empty.\<close>

fun match_from :: "nat \<Rightarrow> string \<Rightarrow> nat \<Rightarrow> string \<Rightarrow> nat list" where
  "match_from i pat skip [] = []"
| "match_from i pat (Suc k) (c # s) = match_from (Suc i) pat k s"
| "match_from i pat 0 (c # s) =
     (if prefix pat (c # s) then i # match_from (Suc i) pat (length pat - 1) s else match_from (Suc i) pat 0 s)"

definition match_indices :: "string \<Rightarrow> string \<Rightarrow> nat list" where
  "match_indices pat s = match_from 0 pat 0 s"

text \<open>\<open>rfind\<close> of a text: the start of its last occurrence.\<close>

fun rfind_str :: "string \<Rightarrow> string \<Rightarrow> nat option" where
  "rfind_str pat [] = (if pat = [] then Some 0 else None)"
| "rfind_str pat (c # s) = (case rfind_str pat s of
     Some n \<Rightarrow> Some (Suc n)
   | None \<Rightarrow> if prefix pat (c # s) then Some 0 else None)"

lemma rfind_None: "rfind_str pat s = None \<longleftrightarrow> (\<forall>n \<le> length s. \<not> prefix pat (drop n s))"
proof (induction s)
  case (Cons c s)
  have split_0: "(\<forall>n \<le> Suc k. P n) \<longleftrightarrow> P 0 \<and> (\<forall>n \<le> k. P (Suc n))" for k P
    by (metis Suc_le_mono le0 not0_implies_Suc)
  show ?case using Cons by (auto simp: split_0 split: option.split)
qed simp

lemma rfind_Some: "rfind_str pat s = Some n \<Longrightarrow> n \<le> length s \<and> prefix pat (drop n s)"
  by (induction s arbitrary: n) (auto split: option.splits if_splits)

text \<open>An occurrence after which there is no other one is the one that is found.\<close>

lemma rfind_append:
  "prefix pat t \<Longrightarrow> t \<noteq> [] \<Longrightarrow> rfind_str pat (tl t) = None \<Longrightarrow> rfind_str pat (s @ t) = Some (length s)"
  by (induction s) (cases t; simp)+

text \<open>A word: not empty, no white space.\<close>

definition is_word :: "string \<Rightarrow> bool" where
  "is_word w \<longleftrightarrow> w \<noteq> [] \<and> list_all (\<lambda>c. \<not> is_ws c) w"

lemma words_acc_word: "list_all (\<lambda>c. \<not> is_ws c) w \<Longrightarrow> words_acc acc (w @ s) = words_acc (rev w @ acc) s"
  by (induction w arbitrary: acc) auto

lemma split_whitespace_words:
  "list_all is_word ws \<Longrightarrow> split_whitespace (join_with '' '' ws) = ws"
proof (induction "'' ''" ws rule: join_with.induct)
  case 1
  then show ?case by (simp add: split_whitespace_def)
next
  case (2 w)
  then show ?case using words_acc_word [of w "[]" "[]"] by (simp add: split_whitespace_def is_word_def)
next
  case (3 w v vs)
  have "is_ws CHR '' ''" by (simp add: is_ws_def)
  with 3 show ?case using words_acc_word [of w "[]"] by (simp add: split_whitespace_def is_word_def)
qed

section \<open>Numbers\<close>

text \<open>\<open>to_string\<close> of an unsigned integer.\<close>

fun show_nat :: "nat \<Rightarrow> string" where
  "show_nat n = (if n < 10 then [char_of (48 + n)] else show_nat (n div 10) @ [char_of (48 + n mod 10)])"

declare show_nat.simps [simp del]

text \<open>\<open>str::parse\<close> of an unsigned type with maximum \<open>m\<close>: an optional sign, digits, no overflow.\<close>

definition digits_val :: "string \<Rightarrow> nat" where
  "digits_val s = foldl (\<lambda>a c. 10 * a + digit_val c) 0 s"

definition strip_plus :: "string \<Rightarrow> string" where
  "strip_plus s = (case s of c # t \<Rightarrow> if c = CHR ''+'' then t else s | [] \<Rightarrow> [])"

definition parse_uint :: "nat \<Rightarrow> string \<Rightarrow> nat option" where
  "parse_uint m s = (let d = strip_plus s in
     if d = [] \<or> \<not> list_all is_digit d then None
     else if digits_val d \<le> m then Some (digits_val d) else None)"

definition parse_u8 :: "string \<Rightarrow> nat option" where "parse_u8 = parse_uint 255"
definition parse_u16 :: "string \<Rightarrow> nat option" where "parse_u16 = parse_uint 65535"
definition parse_u32 :: "string \<Rightarrow> nat option" where "parse_u32 = parse_uint 4294967295"
definition parse_u64 :: "string \<Rightarrow> nat option" where "parse_u64 = parse_uint 18446744073709551615"

lemma digit_char [simp]: "k < 10 \<Longrightarrow> is_digit (char_of (48 + k))" "k < 10 \<Longrightarrow> digit_val (char_of (48 + k)) = k"
  by (simp_all add: is_digit_def digit_val_def)

lemma show_nat_digits: "list_all is_digit (show_nat n)" "show_nat n \<noteq> []" "digits_val (show_nat n) = n"
proof (induction n rule: show_nat.induct)
  case (1 n)
  note IH = this
  case 1
  then show ?case using IH(1) by (subst show_nat.simps) (simp del: of_char_of)
next
  case (1 n)
  case 2
  then show ?case by (subst show_nat.simps) simp
next
  case (1 n)
  note IH = this
  case 3
  then show ?case using IH(3) by (subst show_nat.simps) (simp add: digits_val_def)
qed

lemma strip_plus_digits: "list_all is_digit s \<Longrightarrow> strip_plus s = s"
  by (auto simp: strip_plus_def is_digit_def split: list.splits)

text \<open>Parsing a printed number gives the number back.\<close>

lemma parse_show [simp]: "parse_uint m (show_nat n) = (if n \<le> m then Some n else None)"
  using show_nat_digits [of n] by (simp add: parse_uint_def strip_plus_digits Let_def)

lemma parse_uint_le: "parse_uint m s = Some n \<Longrightarrow> n \<le> m"
  by (auto simp: parse_uint_def Let_def split: if_splits)

lemma digit_not_ws: "is_digit c \<Longrightarrow> \<not> is_ws c"
  by (auto simp: is_digit_def is_ws_def Let_def)

lemma show_nat_word [simp]: "is_word (show_nat n)"
  using show_nat_digits(1,2) [of n] by (auto simp: is_word_def list_all_iff digit_not_ws)

lemma show_nat_inj: "show_nat m = show_nat n \<longleftrightarrow> m = n"
  by (metis show_nat_digits(3))

text \<open>\<open>Ipv4Addr::to_string\<close>.\<close>

definition show_ipv4 :: "u32 \<Rightarrow> string" where
  "show_ipv4 a = join_with ''.'' (map (\<lambda>i. show_nat (unat (byte_of i a))) [3, 2, 1, 0])"

text \<open>\<open>Ipv4Addr::from_str\<close>: four decimal octets, no leading zeros, at most 255.\<close>

definition parse_octet :: "string \<Rightarrow> u8 option" where
  "parse_octet s =
     (if s = [] \<or> 3 < length s \<or> \<not> list_all is_digit s then None
      else if hd s = CHR ''0'' \<and> 1 < length s then None
      else if digits_val s \<le> 255 then Some (of_nat (digits_val s)) else None)"

definition parse_ipv4 :: "string \<Rightarrow> u32 option" where
  "parse_ipv4 s = (case split_on CHR ''.'' s of
     [a, b, c, d] \<Rightarrow> do { w \<leftarrow> parse_octet a; x \<leftarrow> parse_octet b; y \<leftarrow> parse_octet c; z \<leftarrow> parse_octet d;
       Some (le32 z y x w) }
   | _ \<Rightarrow> None)"

text \<open>The printed form of an address is four words of one to three digits; it parses back.\<close>

lemma show_nat_length: "n < 10 ^ Suc k \<Longrightarrow> length (show_nat n) \<le> Suc k"
proof (induction k arbitrary: n)
  case 0
  then show ?case by (subst show_nat.simps) simp
next
  case (Suc k)
  then have "n div 10 < 10 ^ Suc k" by (simp add: div_less_iff_less_mult)
  from Suc.IH [OF this] show ?case by (subst show_nat.simps) simp
qed

lemma show_nat_hd: "0 < n \<Longrightarrow> hd (show_nat n) \<noteq> CHR ''0''"
proof (induction n rule: show_nat.induct)
  case (1 n)
  show ?case
  proof (cases "n < 10")
    case True
    have "char_of (48 + n) \<noteq> CHR ''0''"
    proof
      assume "char_of (48 + n) = CHR ''0''"
      then have "digit_val (char_of (48 + n)) = digit_val CHR ''0''" by simp
      then show False using True 1 by (simp del: of_char_of add: digit_val_def [of "CHR ''0''"])
    qed
    then show ?thesis using True by (subst show_nat.simps) simp
  next
    case False
    with 1 show ?thesis by (subst show_nat.simps) (simp add: show_nat_digits hd_append)
  qed
qed

lemma parse_octet_show: "n < 256 \<Longrightarrow> parse_octet (show_nat n) = Some (of_nat n)"
  using show_nat_digits [of n] show_nat_length [of n 2] show_nat_hd [of n]
  by (cases "n = 0") (auto simp: parse_octet_def show_nat.simps)

lemma octet_lt: "unat (x :: u8) < 256"
  using unsigned_less [of x, where 'a = nat] by simp

lemma show_nat_no_dot: "CHR ''.'' \<notin> set (show_nat n)"
  using show_nat_digits(1) [of n] by (auto simp: list_all_iff is_digit_def)

lemma parse_show_ipv4 [simp]: "parse_ipv4 (show_ipv4 a) = Some a"
proof -
  have "split_on CHR ''.'' (show_ipv4 a) = map (\<lambda>i. show_nat (unat (byte_of i a))) [3, 2, 1, 0]"
    unfolding show_ipv4_def by (rule split_join) (auto simp: show_nat_no_dot)
  then show ?thesis by (simp add: parse_ipv4_def parse_octet_show octet_lt)
qed
lemma show_ipv4_inj: "show_ipv4 a = show_ipv4 b \<longleftrightarrow> a = b"
  by (metis parse_show_ipv4 option.inject)

section \<open>Paths\<close>

text \<open>\<open>Path::file_name\<close>: the last component, unless it is \<open>..\<close> or there is none.\<close>

definition path_components :: "string \<Rightarrow> string list" where
  "path_components s = filter (\<lambda>w. w \<noteq> [] \<and> w \<noteq> ''.'') (split_on CHR ''/'' s)"

definition path_file_name :: "string \<Rightarrow> string option" where
  "path_file_name s = (let ws = path_components s in
     if ws = [] then None else if last ws = ''..'' then None else Some (last ws))"

section \<open>UTF-8\<close>

text \<open>
  \<open>String::from_utf8_lossy\<close>: text is the sequence of its UTF-8 bytes; every maximal
  ill-formed part becomes U+FFFD (three bytes).
\<close>

definition chr8 :: "u8 \<Rightarrow> char" where
  "chr8 b = char_of (unat b)"

definition repl :: string where
  "repl = [chr8 0xEF, chr8 0xBF, chr8 0xBD]"

definition in_range :: "u8 \<Rightarrow> u8 \<Rightarrow> u8 \<Rightarrow> bool" where
  "in_range lo hi b \<longleftrightarrow> lo \<le> b \<and> b \<le> hi"

text \<open>The range of the second byte of a three- or four-byte sequence.\<close>

definition second3 :: "u8 \<Rightarrow> u8 \<Rightarrow> bool" where
  "second3 b = (if b = 0xE0 then in_range 0xA0 0xBF else if b = 0xED then in_range 0x80 0x9F
     else in_range 0x80 0xBF)"

definition second4 :: "u8 \<Rightarrow> u8 \<Rightarrow> bool" where
  "second4 b = (if b = 0xF0 then in_range 0x90 0xBF else if b = 0xF4 then in_range 0x80 0x8F
     else in_range 0x80 0xBF)"

fun from_utf8_lossy :: "bytes \<Rightarrow> string" where
  "from_utf8_lossy [] = []"
| "from_utf8_lossy (b # bs) =
     (if b < 0x80 then chr8 b # from_utf8_lossy bs
      else if in_range 0xC2 0xDF b then
        (case bs of c # cs \<Rightarrow>
           if in_range 0x80 0xBF c then chr8 b # chr8 c # from_utf8_lossy cs
           else repl @ from_utf8_lossy bs
         | [] \<Rightarrow> repl)
      else if in_range 0xE0 0xEF b then
        (case bs of c # cs \<Rightarrow>
           if second3 b c then
             (case cs of d # ds \<Rightarrow>
                if in_range 0x80 0xBF d then chr8 b # chr8 c # chr8 d # from_utf8_lossy ds
                else repl @ from_utf8_lossy cs
              | [] \<Rightarrow> repl)
           else repl @ from_utf8_lossy bs
         | [] \<Rightarrow> repl)
      else if in_range 0xF0 0xF4 b then
        (case bs of c # cs \<Rightarrow>
           if second4 b c then
             (case cs of d # ds \<Rightarrow>
                if in_range 0x80 0xBF d then
                  (case ds of e # es \<Rightarrow>
                     if in_range 0x80 0xBF e
                     then chr8 b # chr8 c # chr8 d # chr8 e # from_utf8_lossy es
                     else repl @ from_utf8_lossy ds
                   | [] \<Rightarrow> repl)
                else repl @ from_utf8_lossy cs
              | [] \<Rightarrow> repl)
           else repl @ from_utf8_lossy bs
         | [] \<Rightarrow> repl)
      else repl @ from_utf8_lossy bs)"

definition from_utf8 :: "bytes \<Rightarrow> string option" where
  "from_utf8 bs = (if from_utf8_lossy bs = map chr8 bs then Some (map chr8 bs) else None)"

text \<open>ASCII text decodes to itself.\<close>

definition is_ascii :: "string \<Rightarrow> bool" where
  "is_ascii s \<longleftrightarrow> list_all (\<lambda>c. (of_char c :: nat) < 128) s"

lemma unat_of_char: "unat (of_char c :: u8) = of_char c"
  by (simp add: of_char_def unsigned_of_nat)

lemma chr8_of_char [simp]: "chr8 (of_char c) = c"
  by (simp add: chr8_def unat_of_char)

lemma chr8_ascii [simp]: "map chr8 (ascii s) = s"
  by (simp add: ascii_def comp_def)

lemma ascii_small: "is_ascii s \<Longrightarrow> b \<in> set (ascii s) \<Longrightarrow> b < 0x80"
  by (auto simp: is_ascii_def ascii_def list_all_iff word_less_nat_alt unat_of_char)

lemma ascii_Cons: "ascii (c # s) = of_char c # ascii s" "ascii [] = []"
  by (simp_all add: ascii_def)

lemma lossy_small: "b < 0x80 \<Longrightarrow> from_utf8_lossy (b # bs) = chr8 b # from_utf8_lossy bs"
  by simp

lemma lossy_ascii_append:
  "is_ascii s \<Longrightarrow> from_utf8_lossy (ascii s @ bs) = s @ from_utf8_lossy bs"
proof (induction s)
  case (Cons c s)
  then have "(of_char c :: u8) < 0x80" using ascii_small [of "c # s" "of_char c"] by (simp add: ascii_Cons)
  moreover have "is_ascii s" using Cons.prems by (simp add: is_ascii_def)
  ultimately show ?case using Cons.IH by (simp add: ascii_Cons lossy_small del: from_utf8_lossy.simps)
qed (simp add: ascii_Cons)

lemma lossy_ascii [simp]: "is_ascii s \<Longrightarrow> from_utf8_lossy (ascii s) = s"
  using lossy_ascii_append [of s "[]"] by simp

lemma from_utf8_ascii [simp]: "is_ascii s \<Longrightarrow> from_utf8 (ascii s) = Some s"
  by (simp add: from_utf8_def)

declare from_utf8_lossy.simps(2) [simp del]

text \<open>\<open>trim_end_matches('\0')\<close> and the text up to the first zero byte of a C buffer.\<close>

definition trim_end_nul :: "string \<Rightarrow> string" where
  "trim_end_nul s = rev (dropWhile (\<lambda>c. c = CHR 0x00) (rev s))"

text \<open>\<open>position(|b| *b == 0)\<close>.\<close>

definition nul_pos :: "bytes \<Rightarrow> nat option" where
  "nul_pos bs = (if 0 \<in> set bs then Some (length (takeWhile (\<lambda>b. b \<noteq> 0) bs)) else None)"

end
