(* ===== verification/Ebpf_Manager.thy ===== *)
theory Ebpf_Manager
  imports Kernel_Tls Rust_Text
begin

text \<open>
  The daemon's side of the kernel maps: \<open>EbpfManager\<close> (\<open>ring0d/src/ebpf.rs\<close>). The
  manager holds the loaded kernel programs (\<open>ebpf\<close>, \<open>None\<close> in fallback mode), the
  mirrors the status views read, and the interfaces attached so far. An operation writes the
  maps the kernel programs of \<open>Kernel_Net\<close>, \<open>Kernel_Sys\<close> and \<open>Kernel_Tls\<close> read.
  Whether the kernel accepts an insertion is its own decision, an argument (\<open>kacc\<close>). The
  order of a hash set is unspecified in Rust; the mirrors keep insertion order here.
\<close>

section \<open>State\<close>

record kacc =
  trie_ok :: "lpm_key list \<Rightarrow> lpm_key \<Rightarrow> bool"
  port_ok :: "u16 \<Rightarrow> bool"
  binary_ok :: "bytes \<Rightarrow> bool"
  flow_ok :: "flow_key \<Rightarrow> bool"
  budget_ok :: "u32 \<Rightarrow> bool"

record emgr =
  ebpf :: "ksys option"
  fallback_blocked_ips :: "string list"
  fallback_blocked_ports :: "u16 list"
  fallback_dns_domains :: "string list"
  attached_interfaces :: "string list"

datatype merror = MapInsert

text \<open>
  Insertion and removal in a longest-prefix trie: entries with the same prefix length that
  agree on those bits are the same entry.
\<close>

definition same_entry :: "lpm_key \<Rightarrow> lpm_key \<Rightarrow> bool" where
  "same_entry a b \<longleftrightarrow> fst a = fst b \<and> lpm_covers a b"

definition trie_insert :: "lpm_key \<Rightarrow> lpm_key list \<Rightarrow> lpm_key list" where
  "trie_insert k t = k # filter (\<lambda>e. \<not> same_entry e k) t"

definition trie_remove :: "lpm_key \<Rightarrow> lpm_key list \<Rightarrow> lpm_key list" where
  "trie_remove k t = filter (\<lambda>e. \<not> same_entry e k) t"

definition host_key :: "u32 \<Rightarrow> lpm_key" where
  "host_key ip = (32, swap32 ip)"

datatype ip_addr = V4 u32 | V6 bytes

section \<open>Addresses\<close>

definition upd_net :: "(knet \<Rightarrow> knet) \<Rightarrow> ksys \<Rightarrow> ksys" where
  "upd_net f s = s\<lparr>net := f (net s)\<rparr>"

definition mirror_ip :: "string \<Rightarrow> emgr \<Rightarrow> emgr" where
  "mirror_ip t m = (if t \<in> set (fallback_blocked_ips m) then m
     else m\<lparr>fallback_blocked_ips := fallback_blocked_ips m @ [t]\<rparr>)"

text \<open>The \<open>?\<close> after each insertion returns before the mirror is updated.\<close>

definition block_ip :: "kacc \<Rightarrow> ip_addr \<Rightarrow> emgr \<Rightarrow> (merror + unit) \<times> emgr" where
  "block_ip acc ip m = (case ip of
     V6 x \<Rightarrow> (Inr (), m)
   | V4 v4 \<Rightarrow>
      (case ebpf m of
         None \<Rightarrow> (Inr (), mirror_ip (show_ipv4 v4) m)
       | Some k \<Rightarrow>
           let key = host_key v4 in
           if \<not> trie_ok acc (BLOCKED_IPS (net k)) key then (Inl MapInsert, m)
           else
             let k1 = upd_net (\<lambda>n. n\<lparr>BLOCKED_IPS := trie_insert key (BLOCKED_IPS n)\<rparr>) k;
                 m1 = m\<lparr>ebpf := Some k1\<rparr>
             in if \<not> trie_ok acc (USER_BLOCKED_IPS (net k1)) key then (Inl MapInsert, m1)
                else
                  let k2 = upd_net (\<lambda>n. n\<lparr>USER_BLOCKED_IPS := trie_insert key (USER_BLOCKED_IPS n)\<rparr>) k1
                  in (Inr (), mirror_ip (show_ipv4 v4) (m1\<lparr>ebpf := Some k2\<rparr>))))"

definition unblock_ip :: "ip_addr \<Rightarrow> emgr \<Rightarrow> emgr" where
  "unblock_ip ip m = (case ip of
     V6 x \<Rightarrow> m
   | V4 v4 \<Rightarrow>
      let key = host_key v4;
          m1 = m\<lparr>ebpf := map_option (upd_net (\<lambda>n. n\<lparr>
                 BLOCKED_IPS := trie_remove key (BLOCKED_IPS n),
                 USER_BLOCKED_IPS := trie_remove key (USER_BLOCKED_IPS n)\<rparr>)) (ebpf m)\<rparr>
      in m1\<lparr>fallback_blocked_ips := filter (\<lambda>x. x \<noteq> show_ipv4 v4) (fallback_blocked_ips m1)\<rparr>)"

definition cidr_text :: "u32 \<times> u8 \<Rightarrow> string" where
  "cidr_text c = show_ipv4 (fst c) @ ''/'' @ show_nat (unat (snd c))"

text \<open>The batch insertion: rejected entries are skipped, the accepted ones counted.\<close>

fun sync_trie :: "kacc \<Rightarrow> (u32 \<times> u8) list \<Rightarrow> lpm_key list \<Rightarrow> nat \<times> lpm_key list" where
  "sync_trie acc [] t = (0, t)"
| "sync_trie acc (c # cs) t =
     (if trie_ok acc t (cidr_key c)
      then (case sync_trie acc cs (trie_insert (cidr_key c) t) of (n, t') \<Rightarrow> (Suc n, t'))
      else sync_trie acc cs t)"

definition add_new :: "'a list \<Rightarrow> 'a list \<Rightarrow> 'a list" where
  "add_new xs ys = fold (\<lambda>y l. if y \<in> set l then l else l @ [y]) ys (fold (\<lambda>y l. if y \<in> set l then l else l @ [y]) xs [])"

definition sync_blocked_cidrs :: "kacc \<Rightarrow> (u32 \<times> u8) list \<Rightarrow> emgr \<Rightarrow> nat \<times> emgr" where
  "sync_blocked_cidrs acc cidrs m =
     (let (added, e) = (case ebpf m of
            None \<Rightarrow> (0, None)
          | Some k \<Rightarrow> (case sync_trie acc cidrs (BLOCKED_IPS (net k)) of
              (n, t) \<Rightarrow> (n, Some (upd_net (\<lambda>x. x\<lparr>BLOCKED_IPS := t\<rparr>) k))))
      in (added, m\<lparr>ebpf := e,
            fallback_blocked_ips := add_new (fallback_blocked_ips m) (map cidr_text cidrs)\<rparr>))"

definition blocked_ips :: "emgr \<Rightarrow> string list" where
  "blocked_ips m = fallback_blocked_ips m"

section \<open>Ports\<close>

definition block_port :: "kacc \<Rightarrow> u16 \<Rightarrow> emgr \<Rightarrow> (merror + unit) \<times> emgr" where
  "block_port acc p m = (case ebpf m of
     Some k \<Rightarrow>
       if port_ok acc p
       then (Inr (), m\<lparr>ebpf := Some (upd_net (\<lambda>n. n\<lparr>BLOCKED_PORTS := (BLOCKED_PORTS n)(p \<mapsto> 1)\<rparr>) k)\<rparr>)
       else (Inl MapInsert, m)
   | None \<Rightarrow>
       (Inr (), if p \<in> set (fallback_blocked_ports m) then m
                else m\<lparr>fallback_blocked_ports := fallback_blocked_ports m @ [p]\<rparr>))"

definition unblock_port :: "u16 \<Rightarrow> emgr \<Rightarrow> emgr" where
  "unblock_port p m = (case ebpf m of
     Some k \<Rightarrow> m\<lparr>ebpf := Some (upd_net (\<lambda>n. n\<lparr>BLOCKED_PORTS := (BLOCKED_PORTS n)(p := None)\<rparr>) k)\<rparr>
   | None \<Rightarrow> m\<lparr>fallback_blocked_ports := filter (\<lambda>x. x \<noteq> p) (fallback_blocked_ports m)\<rparr>)"

fun sync_ports :: "kacc \<Rightarrow> u16 list \<Rightarrow> (u16 \<rightharpoonup> u32) \<Rightarrow> nat \<times> (u16 \<rightharpoonup> u32)" where
  "sync_ports acc [] t = (0, t)"
| "sync_ports acc (p # ps) t =
     (if port_ok acc p
      then (case sync_ports acc ps (t(p \<mapsto> 1)) of (n, t') \<Rightarrow> (Suc n, t'))
      else sync_ports acc ps t)"

definition sync_blocked_ports :: "kacc \<Rightarrow> u16 list \<Rightarrow> emgr \<Rightarrow> nat \<times> emgr" where
  "sync_blocked_ports acc ports m =
     (let (added, e) = (case ebpf m of
            None \<Rightarrow> (0, None)
          | Some k \<Rightarrow> (case sync_ports acc ports (BLOCKED_PORTS (net k)) of
              (n, t) \<Rightarrow> (n, Some (upd_net (\<lambda>x. x\<lparr>BLOCKED_PORTS := t\<rparr>) k))))
      in (added, m\<lparr>ebpf := e, fallback_blocked_ports := add_new (fallback_blocked_ports m) ports\<rparr>))"

definition blocked_port_count :: "emgr \<Rightarrow> nat" where
  "blocked_port_count m = length (fallback_blocked_ports m)"

text \<open>The kernel programs have no \<open>DNS_DOMAIN_BLOCK\<close> map: only the mirror changes.\<close>

definition sync_dns_domains :: "string list \<Rightarrow> emgr \<Rightarrow> nat \<times> emgr" where
  "sync_dns_domains ds m = (0, m\<lparr>fallback_dns_domains := add_new (fallback_dns_domains m) ds\<rparr>)"

definition blocked_domain_count :: "emgr \<Rightarrow> nat" where
  "blocked_domain_count m = length (fallback_dns_domains m)"

section \<open>Binaries, flows, flags and interfaces\<close>

text \<open>A binary's key: at most 63 bytes of its name, zero padded.\<close>

definition name_key :: "bytes \<Rightarrow> bytes" where
  "name_key b = (let n = min (length b) 63 in take n b @ replicate (64 - n) 0)"

definition binary_names :: "string \<Rightarrow> string list" where
  "binary_names name = [name, unwrap_or name (path_file_name name)]"

fun insert_binaries :: "kacc \<Rightarrow> bytes list \<Rightarrow> (bytes \<rightharpoonup> u8) \<Rightarrow> (merror + unit) \<times> (bytes \<rightharpoonup> u8)" where
  "insert_binaries acc [] t = (Inr (), t)"
| "insert_binaries acc (b # bs) t =
     (if binary_ok acc b then insert_binaries acc bs (t(b \<mapsto> 1)) else (Inl MapInsert, t))"

definition block_binary :: "kacc \<Rightarrow> string \<Rightarrow> emgr \<Rightarrow> (merror + unit) \<times> emgr" where
  "block_binary acc name m = (case ebpf m of
     None \<Rightarrow> (Inr (), m)
   | Some k \<Rightarrow>
       (case insert_binaries acc (map (name_key \<circ> ascii) (binary_names name)) (BLOCKED_BINARIES k) of
          (r, t) \<Rightarrow> (r, m\<lparr>ebpf := Some (k\<lparr>BLOCKED_BINARIES := t\<rparr>)\<rparr>)))"

definition unblock_binary :: "string \<Rightarrow> emgr \<Rightarrow> emgr" where
  "unblock_binary name m = m\<lparr>ebpf := map_option (\<lambda>k. k\<lparr>BLOCKED_BINARIES :=
     fold (\<lambda>n t. t(name_key (ascii n) := None)) (binary_names name) (BLOCKED_BINARIES k)\<rparr>) (ebpf m)\<rparr>"

definition binary_blocked :: "emgr \<Rightarrow> string \<Rightarrow> bool" where
  "binary_blocked m path = (case ebpf m of
     Some k \<Rightarrow> BLOCKED_BINARIES k (name_key (ascii path)) \<noteq> None | None \<Rightarrow> False)"

definition enable_lsm_enforcement :: "emgr \<Rightarrow> emgr" where
  "enable_lsm_enforcement m = m\<lparr>ebpf := map_option (\<lambda>k. k\<lparr>LSM_ENFORCE := (LSM_ENFORCE k)(1 \<mapsto> 1)\<rparr>) (ebpf m)\<rparr>"

definition set_sampling_enabled :: "bool \<Rightarrow> emgr \<Rightarrow> emgr" where
  "set_sampling_enabled enabled m = m\<lparr>ebpf := map_option (upd_net (\<lambda>n. n\<lparr>SAMPLING_ENABLED :=
     (SAMPLING_ENABLED n)(1 := if enabled then None else Some 0)\<rparr>)) (ebpf m)\<rparr>"

definition mark_flow_established :: "kacc \<Rightarrow> flow_key \<Rightarrow> emgr \<Rightarrow> (merror + unit) \<times> emgr" where
  "mark_flow_established acc key m = (case ebpf m of
     Some k \<Rightarrow>
       if flow_ok acc key
       then (Inr (), m\<lparr>ebpf := Some (upd_net (\<lambda>n. n\<lparr>ESTABLISHED_FLOWS := (ESTABLISHED_FLOWS n)(key \<mapsto> 1)\<rparr>) k)\<rparr>)
       else (Inl MapInsert, m)
   | None \<Rightarrow> (Inr (), m))"

definition TLS_UNTRUSTED_BUDGET :: u32 where "TLS_UNTRUSTED_BUDGET = 32768"

definition set_pid_budget :: "kacc \<Rightarrow> u32 \<Rightarrow> u32 \<Rightarrow> emgr \<Rightarrow> emgr" where
  "set_pid_budget acc pid budget m = m\<lparr>ebpf := map_option (\<lambda>k. if budget_ok acc pid
     then k\<lparr>TLS_PID_BUDGET := (TLS_PID_BUDGET k)(pid \<mapsto> budget)\<rparr> else k) (ebpf m)\<rparr>"

definition clear_pid_budgets :: "emgr \<Rightarrow> emgr" where
  "clear_pid_budgets m = m\<lparr>ebpf := map_option (\<lambda>k. k\<lparr>TLS_PID_BUDGET := Map.empty\<rparr>) (ebpf m)\<rparr>"

definition clear_tls_budgets :: "emgr \<Rightarrow> emgr" where
  "clear_tls_budgets m = m\<lparr>ebpf := map_option (\<lambda>k. k\<lparr>TLS_FLOW_BUDGET := Map.empty\<rparr>) (ebpf m)\<rparr>"

definition detach :: "emgr \<Rightarrow> emgr" where
  "detach m = m\<lparr>ebpf := None\<rparr>"

text \<open>
  A scan of the up interfaces (name, physical?). \<open>idx\<close> gives the index under which an
  interface can be marked, \<open>None\<close> when \<open>ifindex_of\<close> or the map insertion fails; an interface is remembered whether or not the driver takes the program.
\<close>

definition scan_one :: "(string \<Rightarrow> u32 option) \<Rightarrow> string \<times> bool \<Rightarrow> emgr \<Rightarrow> emgr" where
  "scan_one idx ifc m = (case ifc of (name, physical) \<Rightarrow>
     if name \<in> set (attached_interfaces m) then m
     else case ebpf m of
       None \<Rightarrow> m
     | Some k \<Rightarrow>
         let k' = (if physical then k
                   else case idx name of
                     Some i \<Rightarrow> upd_net (\<lambda>n. n\<lparr>CAPTURE_ONLY := (CAPTURE_ONLY n)(i \<mapsto> 1)\<rparr>) k
                   | None \<Rightarrow> k)
         in m\<lparr>ebpf := Some k', attached_interfaces := attached_interfaces m @ [name]\<rparr>)"

definition scan_interfaces :: "(string \<Rightarrow> u32 option) \<Rightarrow> (string \<times> bool) list \<Rightarrow> emgr \<Rightarrow> emgr" where
  "scan_interfaces idx ifcs m = (if ebpf m = None then m else fold (scan_one idx) ifcs m)"

text \<open>
  \<open>load\<close>: the programs are attached to the default interface, which is remembered
  without a capture-only mark; without programs the manager starts in fallback mode.
\<close>

definition load :: "ksys option \<Rightarrow> string option \<Rightarrow> emgr" where
  "load k dflt = \<lparr>ebpf = k, fallback_blocked_ips = [], fallback_blocked_ports = [],
     fallback_dns_domains = [],
     attached_interfaces = (case (k, dflt) of (Some _, Some i) \<Rightarrow> [i] | _ \<Rightarrow> [])\<rparr>"

section \<open>Tries\<close>

lemma same_entry_covers: "same_entry e k \<Longrightarrow> lpm_covers e a \<longleftrightarrow> lpm_covers k a"
  by (auto simp: same_entry_def lpm_covers_def)

lemma same_entry_refl [simp]: "same_entry k k"
  by (simp add: same_entry_def lpm_covers_def)

lemma covers_insert:
  "list_ex (\<lambda>e. lpm_covers e a) (trie_insert k t) \<longleftrightarrow> lpm_covers k a \<or> list_ex (\<lambda>e. lpm_covers e a) t"
  unfolding trie_insert_def list_ex_iff using same_entry_covers [of _ k a] by fastforce

lemma covers_host [simp]: "lpm_covers (host_key ip) (32, swap32 a) \<longleftrightarrow> a = ip"
  by (auto simp: lpm_covers_def host_key_def)

lemma same_host [simp]: "fst e = 32 \<Longrightarrow> same_entry e (host_key ip) \<longleftrightarrow> e = host_key ip"
  by (cases e) (auto simp: same_entry_def lpm_covers_def host_key_def)

lemma host_key_inj [simp]: "host_key a = host_key b \<longleftrightarrow> a = b"
  by (simp add: host_key_def)

lemma lookup_insert:
  "lpm_documented lpm \<Longrightarrow> lpm (trie_insert (host_key ip) t) (32, swap32 a) \<longleftrightarrow> a = ip \<or> lpm t (32, swap32 a)"
  by (simp add: lpm_documented_def covers_insert)

lemma covers_32: "fst e = 32 \<Longrightarrow> lpm_covers e (32, swap32 a) \<longleftrightarrow> e = host_key a"
  by (cases e) (auto simp: lpm_covers_def host_key_def)

lemma lookup_exact:
  "lpm_documented lpm \<Longrightarrow> list_all (\<lambda>e. fst e = 32) t \<Longrightarrow> lpm t (32, swap32 a) \<longleftrightarrow> host_key a \<in> set t"
  by (auto simp: lpm_documented_def list_ex_iff list_all_iff covers_32)

lemma exact_remove: "list_all (\<lambda>e. fst e = 32) t \<Longrightarrow> list_all (\<lambda>e. fst e = 32) (trie_remove k t)"
  by (auto simp: trie_remove_def list_all_iff)

lemma exact_insert: "list_all (\<lambda>e. fst e = 32) t \<Longrightarrow> list_all (\<lambda>e. fst e = 32) (trie_insert (host_key ip) t)"
  by (auto simp: trie_insert_def list_all_iff host_key_def)

lemma set_exact_remove:
  "list_all (\<lambda>e. fst e = 32) t \<Longrightarrow> set (trie_remove (host_key ip) t) = set t - {host_key ip}"
  by (auto simp: trie_remove_def list_all_iff)

lemma set_exact_insert:
  "list_all (\<lambda>e. fst e = 32) t \<Longrightarrow> set (trie_insert (host_key ip) t) = insert (host_key ip) (set t)"
  by (auto simp: trie_insert_def list_all_iff)

section \<open>Blocking and unblocking an address\<close>

lemma upd_net_simps [simp]: "net (upd_net f k) = f (net k)"
  by (simp add: upd_net_def)

lemma mirror_ip_simps [simp]:
  "ebpf (mirror_ip t m) = ebpf m" "set (fallback_blocked_ips (mirror_ip t m)) = insert t (set (fallback_blocked_ips m))"
  by (auto simp: mirror_ip_def)

lemma block_ip_ok:
  assumes "block_ip acc (V4 ip) m = (Inr (), m')" and "ebpf m = Some k"
  shows "ebpf m' = Some (upd_net (\<lambda>n. n\<lparr>BLOCKED_IPS := trie_insert (host_key ip) (BLOCKED_IPS n),
      USER_BLOCKED_IPS := trie_insert (host_key ip) (USER_BLOCKED_IPS n)\<rparr>) k)"
    "set (fallback_blocked_ips m') = insert (show_ipv4 ip) (set (fallback_blocked_ips m))"
  using assms by (auto simp: block_ip_def Let_def upd_net_def split: if_splits)


text \<open>
  Unblocking takes the user block back: the address is no longer blocked outbound,
  every other address keeps its outbound verdict, and the status view drops it.
\<close>

theorem unblock_ip_releases:
  assumes "lpm_documented lpm" and "ebpf m = Some k"
    and "list_all (\<lambda>e. fst e = 32) (USER_BLOCKED_IPS (net k))"
  shows "case ebpf (unblock_ip (V4 ip) m) of None \<Rightarrow> False | Some k' \<Rightarrow>
     (user_dst_blocked lpm a (net k') \<longleftrightarrow> a \<noteq> ip \<and> user_dst_blocked lpm a (net k))
     \<and> show_ipv4 ip \<notin> set (blocked_ips (unblock_ip (V4 ip) m))"
  using assms
  by (auto simp: unblock_ip_def Let_def user_dst_blocked_def lookup_exact exact_remove
      set_exact_remove blocked_ips_def)

section \<open>The daemon's operations interleaved with the kernel\<close>

datatype mop = OpBlockIp ip_addr | OpUnblockIp ip_addr | OpSyncCidrs "(u32 \<times> u8) list" | OpBlockPort u16
  | OpUnblockPort u16 | OpSyncPorts "u16 list" | OpSyncDns "string list" | OpBlockBinary string
  | OpUnblockBinary string | OpEnableLsm | OpSetSampling bool | OpMarkFlow flow_key | OpSetPidBudget u32 u32
  | OpClearPidBudgets | OpClearTlsBudgets | OpScan "string \<Rightarrow> u32 option" "(string \<times> bool) list" | OpDetach

fun mgr_do :: "kacc \<Rightarrow> mop \<Rightarrow> emgr \<Rightarrow> emgr" where
  "mgr_do acc (OpBlockIp ip) m = snd (block_ip acc ip m)"
| "mgr_do acc (OpUnblockIp ip) m = unblock_ip ip m"
| "mgr_do acc (OpSyncCidrs cs) m = snd (sync_blocked_cidrs acc cs m)"
| "mgr_do acc (OpBlockPort p) m = snd (block_port acc p m)"
| "mgr_do acc (OpUnblockPort p) m = unblock_port p m"
| "mgr_do acc (OpSyncPorts ps) m = snd (sync_blocked_ports acc ps m)"
| "mgr_do acc (OpSyncDns ds) m = snd (sync_dns_domains ds m)"
| "mgr_do acc (OpBlockBinary n) m = snd (block_binary acc n m)"
| "mgr_do acc (OpUnblockBinary n) m = unblock_binary n m"
| "mgr_do acc OpEnableLsm m = enable_lsm_enforcement m"
| "mgr_do acc (OpSetSampling b) m = set_sampling_enabled b m"
| "mgr_do acc (OpMarkFlow f) m = snd (mark_flow_established acc f m)"
| "mgr_do acc (OpSetPidBudget p b) m = set_pid_budget acc p b m"
| "mgr_do acc OpClearPidBudgets m = clear_pid_budgets m"
| "mgr_do acc OpClearTlsBudgets m = clear_tls_budgets m"
| "mgr_do acc (OpScan idx ifcs) m = scan_interfaces idx ifcs m"
| "mgr_do acc OpDetach m = detach m"

inductive ring0_run :: "lpm_get \<Rightarrow> emgr \<Rightarrow> emgr \<Rightarrow> bool" for lpm where
  start: "ring0_run lpm m m"
| daemon: "ring0_run lpm m m' \<Longrightarrow> ring0_run lpm m (mgr_do acc op m')"
| kernel: "ring0_run lpm m m' \<Longrightarrow> ebpf m' = Some k \<Longrightarrow> kernel_step lpm k k' \<Longrightarrow>
    ring0_run lpm m (m'\<lparr>ebpf := Some k'\<rparr>)"

text \<open>The user's trie holds host entries only, and the mirror lists each of them.\<close>

definition user_ok :: "string list \<Rightarrow> lpm_key list \<Rightarrow> bool" where
  "user_ok mirror t \<longleftrightarrow>
     list_all (\<lambda>e. fst e = 32 \<and> show_ipv4 (swap32 (snd e)) \<in> set mirror) t"

definition mgr_ok :: "emgr \<Rightarrow> bool" where
  "mgr_ok m \<longleftrightarrow> distinct (attached_interfaces m) \<and> (case ebpf m of None \<Rightarrow> True
     | Some k \<Rightarrow> kernel_ok k \<and> user_ok (fallback_blocked_ips m) (USER_BLOCKED_IPS (net k)))"

lemma user_ok_mono: "user_ok mi t \<Longrightarrow> set mi \<subseteq> set mi' \<Longrightarrow> user_ok mi' t"
  by (auto simp: user_ok_def list_all_iff)

lemma user_ok_exact: "user_ok mi t \<Longrightarrow> list_all (\<lambda>e. fst e = 32) t"
  by (auto simp: user_ok_def list_all_iff)

lemma user_ok_insert:
  "user_ok mi t \<Longrightarrow> set mi' = insert (show_ipv4 ip) (set mi) \<Longrightarrow> user_ok mi' (trie_insert (host_key ip) t)"
  by (auto simp: user_ok_def list_all_iff trie_insert_def host_key_def)

lemma user_ok_remove:
  assumes "user_ok mi t"
  shows "user_ok (filter (\<lambda>x. x \<noteq> show_ipv4 ip) mi) (trie_remove (host_key ip) t)"
  using assms set_exact_remove [OF user_ok_exact [OF assms]]
  by (auto simp: user_ok_def list_all_iff show_ipv4_inj host_key_def)

lemma kernel_ok_writes [simp]:
  "kernel_ok (k\<lparr>BLOCKED_BINARIES := b\<rparr>) = kernel_ok k" "kernel_ok (k\<lparr>LSM_ENFORCE := l\<rparr>) = kernel_ok k"
  "kernel_ok (k\<lparr>TLS_PID_BUDGET := p\<rparr>) = kernel_ok k" "kernel_ok (k\<lparr>TLS_FLOW_BUDGET := f\<rparr>) = kernel_ok k"
  by (simp_all add: kernel_ok_def rings_def)

lemma kernel_ok_upd_net [simp]:
  "RING_BUF (f (net k)) = RING_BUF (net k) \<Longrightarrow> kernel_ok (upd_net f k) = kernel_ok k"
  by (simp add: kernel_ok_def rings_def upd_net_def)

lemma set_add_new [simp]: "set (add_new xs ys) = set xs \<union> set ys"
proof -
  have "set (fold (\<lambda>y l. if y \<in> set l then l else l @ [y]) zs l) = set l \<union> set zs" for zs and l :: "'a list"
    by (induction zs arbitrary: l) auto
  then show ?thesis by (simp add: add_new_def)
qed

lemma mgr_ok_block_ip: "mgr_ok m \<Longrightarrow> mgr_ok (snd (block_ip acc ip m))"
  by (auto simp: block_ip_def mgr_ok_def Let_def mirror_ip_def user_ok_insert
      intro: user_ok_mono split: ip_addr.splits option.splits)
     (auto simp: user_ok_insert insert_absorb)

lemma mgr_ok_unblock_ip: "mgr_ok m \<Longrightarrow> mgr_ok (unblock_ip ip m)"
  by (auto simp: unblock_ip_def mgr_ok_def Let_def user_ok_remove split: ip_addr.splits option.splits)

lemma mgr_ok_scan_one: "mgr_ok m \<Longrightarrow> mgr_ok (scan_one idx ifc m)"
  by (auto simp: scan_one_def mgr_ok_def Let_def split: prod.splits option.splits)

lemma mgr_ok_scan: "mgr_ok m \<Longrightarrow> mgr_ok (scan_interfaces idx ifcs m)"
proof -
  have "mgr_ok m \<Longrightarrow> mgr_ok (fold (scan_one idx) ifcs m)" for m
    by (induction ifcs arbitrary: m) (auto simp: mgr_ok_scan_one)
  then show "mgr_ok m \<Longrightarrow> ?thesis" by (simp add: scan_interfaces_def)
qed

lemma mgr_ok_writes:
  assumes "mgr_ok m"
  shows "mgr_ok (snd (sync_blocked_cidrs acc cs m))" "mgr_ok (snd (block_port acc p m))"
    "mgr_ok (unblock_port p m)" "mgr_ok (snd (sync_blocked_ports acc ps m))"
    "mgr_ok (snd (sync_dns_domains ds m))" "mgr_ok (snd (block_binary acc n m))"
    "mgr_ok (unblock_binary n m)" "mgr_ok (enable_lsm_enforcement m)"
    "mgr_ok (set_sampling_enabled b m)" "mgr_ok (snd (mark_flow_established acc f m))"
    "mgr_ok (set_pid_budget acc pid bu m)" "mgr_ok (clear_pid_budgets m)" "mgr_ok (clear_tls_budgets m)"
    "mgr_ok (detach m)"
  using assms
  by (auto simp: sync_blocked_cidrs_def block_port_def unblock_port_def sync_blocked_ports_def
      sync_dns_domains_def block_binary_def unblock_binary_def enable_lsm_enforcement_def
      set_sampling_enabled_def mark_flow_established_def set_pid_budget_def clear_pid_budgets_def
      clear_tls_budgets_def detach_def mgr_ok_def Let_def intro: user_ok_mono
      split: option.splits prod.splits)

lemma mgr_ok_do: "mgr_ok m \<Longrightarrow> mgr_ok (mgr_do acc op m)"
  by (cases op) (simp_all add: mgr_ok_block_ip mgr_ok_unblock_ip mgr_ok_scan mgr_ok_writes)

lemma mgr_ok_kernel: "mgr_ok m \<Longrightarrow> ebpf m = Some k \<Longrightarrow> kernel_step lpm k k' \<Longrightarrow> mgr_ok (m\<lparr>ebpf := Some k'\<rparr>)"
  using kernel_step_config [of lpm k k'] kernel_step_ok [of lpm k k']
  by (simp add: mgr_ok_def sys_config_def net_config_def)

lemma ring0_run_ok: "ring0_run lpm m m' \<Longrightarrow> mgr_ok m \<Longrightarrow> mgr_ok m'"
  by (induction rule: ring0_run.induct) (auto intro: mgr_ok_do mgr_ok_kernel)

text \<open>
  Over any interleaving of daemon operations and kernel programs, every address the
  kernel blocks outbound is listed by the daemon's status view, so no block is invisible.
\<close>

theorem user_blocks_reported:
  assumes "ring0_run lpm m m'" and "mgr_ok m" and "lpm_documented lpm" and "ebpf m' = Some k"
    and "user_dst_blocked lpm a (net k)"
  shows "show_ipv4 a \<in> set (blocked_ips m')"
proof -
  have "user_ok (fallback_blocked_ips m') (USER_BLOCKED_IPS (net k))"
    using ring0_run_ok [OF assms(1,2)] assms(4) by (simp add: mgr_ok_def)
  then show ?thesis
    using assms(3,5) user_ok_exact
    by (force simp: user_dst_blocked_def lookup_exact user_ok_def list_all_iff blocked_ips_def host_key_def)
qed

lemma load_ok: "kernel_ok k \<Longrightarrow> USER_BLOCKED_IPS (net k) = [] \<Longrightarrow> mgr_ok (load (Some k) dflt)"
  by (simp add: mgr_ok_def load_def user_ok_def split: option.splits)

definition acc_all :: kacc where
  "acc_all = \<lparr>trie_ok = (\<lambda>_ _. True), port_ok = (\<lambda>_. True), binary_ok = (\<lambda>_. True), flow_ok = (\<lambda>_. True),
     budget_ok = (\<lambda>_. True)\<rparr>"

definition mgr0 :: emgr where
  "mgr0 = load (Some (ksys0 net0)) (Some ''eth0'')"

lemma mgr0_simps [simp]: "ebpf mgr0 = Some (ksys0 net0)" "mgr_ok mgr0"
  by (simp add: mgr0_def load_def)
     (simp add: mgr0_def load_ok kernel_ok_def rings_def ksys0_def net0_def)

lemma block_ip_all: "block_ip acc_all (V4 ip) m = (Inr (), snd (block_ip acc_all (V4 ip) m))"
  by (simp add: block_ip_def acc_all_def Let_def split: option.splits)


theorem unblock_ip_releases_witness:
  "case ebpf (unblock_ip (V4 7) (snd (block_ip acc_all (V4 7) mgr0))) of None \<Rightarrow> False | Some k' \<Rightarrow>
     \<not> user_dst_blocked lpm_ref 7 (net k')"
  using unblock_ip_releases [OF lpm_ref_documented, of "snd (block_ip acc_all (V4 7) mgr0)" _ 7 7]
    block_ip_ok [OF block_ip_all mgr0_simps(1), of 7]
  by (auto simp: trie_insert_def host_key_def ksys0_def net0_def split: option.splits)

theorem user_blocks_reported_witness:
  "show_ipv4 7 \<in> set (blocked_ips (snd (block_ip acc_all (V4 7) mgr0)))"
proof -
  have "ring0_run lpm_ref mgr0 (mgr_do acc_all (OpBlockIp (V4 7)) mgr0)"
    by (rule ring0_run.daemon [OF ring0_run.start])
  then show ?thesis
    using user_blocks_reported [OF _ mgr0_simps(2) lpm_ref_documented, of _ _ 7]
      block_ip_ok [OF block_ip_all mgr0_simps(1), of 7]
    by (simp add: user_dst_blocked_def lookup_insert lpm_ref_documented)
qed

section \<open>Feeds, binaries and interfaces\<close>

lemma sync_trie_lookup:
  assumes "lpm_documented lpm" and "\<forall>t k. trie_ok acc t k"
  shows "fst (sync_trie acc cs t) = length cs \<and> (lpm (snd (sync_trie acc cs t)) (32, swap32 a) \<longleftrightarrow>
     lpm t (32, swap32 a) \<or> (\<exists>c \<in> set cs. unat (snd c) \<le> 32 \<and> in_cidr c a))"
proof (induction cs arbitrary: t)
  case (Cons c cs)
  have "lpm (trie_insert (cidr_key c) t) (32, swap32 a) \<longleftrightarrow>
      unat (snd c) \<le> 32 \<and> in_cidr c a \<or> lpm t (32, swap32 a)"
    using assms(1) by (simp add: lpm_documented_def covers_insert lpm_covers_cidr)
  moreover have "trie_ok acc t (cidr_key c)" using assms(2) by blast
  ultimately show ?case using Cons.IH [of "trie_insert (cidr_key c) t"]
    by (auto split: prod.splits)
qed simp

text \<open>
  Feed ranges block inbound TCP only: after a batch of accepted CIDR ranges a packet is
  dropped exactly if it was dropped before, or it is TCP, no WireGuard, and its source lies in a
  range of the batch. Outbound traffic to a feed-listed server is unaffected.
\<close>

theorem feed_sync_inbound_only:
  assumes "lpm_documented lpm" and "\<forall>t k. trie_ok acc t k" and "ebpf m = Some k"
  shows "fst (sync_blocked_cidrs acc cs m) = length cs \<and>
    (case ebpf (snd (sync_blocked_cidrs acc cs m)) of None \<Rightarrow> False | Some k' \<Rightarrow>
      check_blocked lpm (net k') si di sp dp proto wg = XDP_DROP \<longleftrightarrow>
        check_blocked lpm (net k) si di sp dp proto wg = XDP_DROP
        \<or> \<not> wg \<and> proto = 6 \<and> (\<exists>c \<in> set cs. unat (snd c) \<le> 32 \<and> in_cidr c si))"
  using sync_trie_lookup [OF assms(1,2), of cs "BLOCKED_IPS (net k)" si] assms(3)
  by (auto simp: sync_blocked_cidrs_def check_blocked_cases user_dst_blocked_def split: prod.splits)

theorem feed_sync_inbound_only_witness:
  "case ebpf (snd (sync_blocked_cidrs acc_all [(0x0A000000, 8)] mgr0)) of None \<Rightarrow> False | Some k' \<Rightarrow>
     check_blocked lpm_ref (net k') 0x0A010203 1 80 443 6 False = XDP_DROP"
proof -
  have "in_cidr (0x0A000000, 8) 0x0A010203" by code_simp
  then show ?thesis
    using feed_sync_inbound_only [OF lpm_ref_documented _ mgr0_simps(1), of acc_all "[(0x0A000000, 8)]"
        "0x0A010203" 1 80 443 6 False]
    by (auto simp: acc_all_def split: option.splits)
qed

lemma insert_binaries_in:
  "insert_binaries acc bs t = (Inr (), t') \<Longrightarrow> b \<in> set bs \<or> t b \<noteq> None \<Longrightarrow> t' b \<noteq> None"
  by (induction bs arbitrary: t) (auto split: if_splits)

text \<open>The name a task shows in \<open>comm\<close>: 16 bytes, zero padded.\<close>

definition comm_of :: "string \<Rightarrow> bytes" where
  "comm_of base = ascii base @ replicate (16 - length base) 0"

lemma comm_key: "length base \<le> 15 \<Longrightarrow> binary_key (comm_of base) = name_key (ascii base)"
  by (simp add: binary_key_def comm_of_def name_key_def Let_def replicate_add [symmetric])

text \<open>
  Blocking a binary stops it under enforcement: the daemon sees its path as blocked and
  the exec hook denies every non-root task whose name is the base name, for base names that fit
  the kernel's 15 characters.
\<close>

theorem block_binary_denies_exec:
  assumes "block_binary acc name m = (Inr (), m')" and "ebpf m = Some k" and "is_lsm_enforced k"
    and "path_file_name name = Some base" and "length base \<le> 15"
    and "cur_comm e = Some (comm_of base)" and "ctx_uid e \<noteq> 0"
  shows "binary_blocked m' name \<and> (case ebpf m' of None \<Rightarrow> False
    | Some k' \<Rightarrow> fst (ring0_lsm_bprm_check e k') = - 1)"
proof -
  obtain t where t: "insert_binaries acc (map (name_key \<circ> ascii) (binary_names name)) (BLOCKED_BINARIES k)
      = (Inr (), t)" and m': "m' = m\<lparr>ebpf := Some (k\<lparr>BLOCKED_BINARIES := t\<rparr>)\<rparr>"
    using assms(1,2) by (auto simp: block_binary_def split: prod.splits)
  have "t (name_key (ascii name)) \<noteq> None" "t (name_key (ascii base)) \<noteq> None"
    using insert_binaries_in [OF t] assms(4) by (auto simp: binary_names_def unwrap_or_def)
  then show ?thesis
    using assms m' by (auto simp: binary_blocked_def ring0_lsm_bprm_check_def is_lsm_enforced_def
        unwrap_or_def binary_matches_blocklist_def comm_key)
qed

theorem block_binary_denies_exec_witness:
  "fst (ring0_lsm_bprm_check ((senv0 5)\<lparr>cur_comm := Some (comm_of ''nc'')\<rparr>)
     ((ksys0 net0)\<lparr>BLOCKED_BINARIES := [name_key (ascii ''/bin/nc'') \<mapsto> 1, name_key (ascii ''nc'') \<mapsto> 1]\<rparr>)) = - 1"
proof -
  have f: "path_file_name ''/bin/nc'' = Some ''nc''" by code_simp
  have b: "block_binary acc_all ''/bin/nc'' mgr0 = (Inr (), mgr0\<lparr>ebpf := Some ((ksys0 net0)\<lparr>BLOCKED_BINARIES :=
      [name_key (ascii ''/bin/nc'') \<mapsto> 1, name_key (ascii ''nc'') \<mapsto> 1]\<rparr>)\<rparr>)"
    by (simp add: block_binary_def binary_names_def f unwrap_or_def acc_all_def ksys0_def)
  show ?thesis
    using block_binary_denies_exec [OF b mgr0_simps(1) _ f, of "(senv0 5)\<lparr>cur_comm := Some (comm_of ''nc'')\<rparr>"]
    by (simp add: senv0_def)
qed

lemma scan_fold:
  assumes "distinct (map fst ifcs)" and "ebpf m = Some k"
  shows "\<exists>k'. ebpf (fold (scan_one idx) ifcs m) = Some k' \<and>
     (CAPTURE_ONLY (net k') i \<noteq> None \<longleftrightarrow> CAPTURE_ONLY (net k) i \<noteq> None \<or>
       (\<exists>name. (name, False) \<in> set ifcs \<and> name \<notin> set (attached_interfaces m) \<and> idx name = Some i))"
  using assms
proof (induction ifcs arbitrary: m k)
  case Nil
  then show ?case by simp
next
  case (Cons ifc ifcs)
  obtain name phys where ifc: "ifc = (name, phys)" by force
  show ?case
  proof (cases "name \<in> set (attached_interfaces m)")
    case True
    then have "scan_one idx ifc m = m" by (simp add: scan_one_def ifc)
    then show ?thesis using Cons.IH [of m k] Cons.prems True ifc by auto
  next
    case False
    define k1 where "k1 = (if phys then k else case idx name of
        Some j \<Rightarrow> upd_net (\<lambda>n. n\<lparr>CAPTURE_ONLY := (CAPTURE_ONLY n)(j \<mapsto> 1)\<rparr>) k | None \<Rightarrow> k)"
    let ?m1 = "m\<lparr>ebpf := Some k1, attached_interfaces := attached_interfaces m @ [name]\<rparr>"
    have one: "scan_one idx ifc m = ?m1"
      using False Cons.prems(2) by (simp add: scan_one_def ifc k1_def Let_def)
    have "CAPTURE_ONLY (net k1) i \<noteq> None \<longleftrightarrow>
        CAPTURE_ONLY (net k) i \<noteq> None \<or> \<not> phys \<and> idx name = Some i"
      by (auto simp: k1_def split: option.splits)
    moreover obtain k' where "ebpf (fold (scan_one idx) ifcs ?m1) = Some k'"
      "CAPTURE_ONLY (net k') i \<noteq> None \<longleftrightarrow> CAPTURE_ONLY (net k1) i \<noteq> None \<or>
       (\<exists>n. (n, False) \<in> set ifcs \<and> n \<notin> set (attached_interfaces ?m1) \<and> idx n = Some i)"
      using Cons.IH [of ?m1 k1] Cons.prems(1) by auto
    moreover have "(n, False) \<in> set ifcs \<Longrightarrow> n \<noteq> name" for n
      using Cons.prems(1) ifc by force
    ultimately show ?thesis using False one ifc by auto
  qed
qed

text \<open>
  A scan puts an interface index in capture-only mode exactly when it belongs to a virtual
  interface the manager has not attached before. In particular the default interface, which \<open>load\<close>
  attaches, is never marked, also when it is a tunnel.
\<close>

theorem scan_marks_new_virtual:
  assumes "distinct (map fst ifcs)" and "ebpf m = Some k"
  shows "case ebpf (scan_interfaces idx ifcs m) of None \<Rightarrow> False | Some k' \<Rightarrow>
     CAPTURE_ONLY (net k') i \<noteq> None \<longleftrightarrow> CAPTURE_ONLY (net k) i \<noteq> None \<or>
       list_ex (\<lambda>(name, physical). \<not> physical \<and> name \<notin> set (attached_interfaces m) \<and> idx name = Some i) ifcs"
proof -
  have "list_ex (\<lambda>(name, physical). \<not> physical \<and> name \<notin> set (attached_interfaces m) \<and> idx name = Some i) ifcs
      \<longleftrightarrow> (\<exists>name. (name, False) \<in> set ifcs \<and> name \<notin> set (attached_interfaces m) \<and> idx name = Some i)"
    by (force simp: list_ex_iff)
  then show ?thesis using scan_fold [OF assms, of idx i] assms(2) by (auto simp: scan_interfaces_def)
qed

theorem scan_marks_new_virtual_witness:
  "case ebpf (scan_interfaces (\<lambda>_. Some 4) [(''tun0'', False)] (load (Some (ksys0 net0)) (Some ''tun0''))) of
     None \<Rightarrow> False | Some k' \<Rightarrow> CAPTURE_ONLY (net k') 4 = None"
  using scan_marks_new_virtual [of "[(''tun0'', False)]" "load (Some (ksys0 net0)) (Some ''tun0'')" "ksys0 net0"
      4 "\<lambda>_. Some 4"]
  by (simp add: load_def ksys0_def net0_def split: option.splits)

text \<open>The governor's switch reaches the kernel, and an established flow is not sampled.\<close>

lemma sampling_switch:
  "ebpf m = Some k \<Longrightarrow> (case ebpf (set_sampling_enabled b m) of None \<Rightarrow> False
     | Some k' \<Rightarrow> is_sampling_enabled (net k') \<longleftrightarrow> b)"
  by (simp add: set_sampling_enabled_def is_sampling_enabled_def)

end
