(* ===== verification/Firewall.thy ===== *)
theory Firewall
  imports Ebpf_Manager
begin

text \<open>
  The verdicts of the kernel as a function of the operations of the daemon. A run carries the history of the
  operations of the map manager (\<open>ring0d/src/ebpf.rs\<close>), newest first, with kernel programs in between. The
  reference definition \<open>firewall_verdict\<close> reads that history only: the latest word on a host, a port
  or a binary counts, a range synced once stays for good. The kernel's block check, its connect hook and its
  exec hook decide the same from the maps.
\<close>

section \<open>Runs with a history\<close>

text \<open>The maps have room, and the kernel refuses prefixes longer than an address.\<close>

definition roomy :: "kacc \<Rightarrow> bool" where
  "roomy acc \<longleftrightarrow> (\<forall>t k. trie_ok acc t k \<longleftrightarrow> unat (fst k) \<le> 32) \<and> (\<forall>p. port_ok acc p) \<and> (\<forall>b. binary_ok acc b)"

inductive firewall_run :: "lpm_get \<Rightarrow> emgr \<Rightarrow> mop list \<Rightarrow> emgr \<Rightarrow> bool" for lpm m where
  start: "firewall_run lpm m [] m"
| daemon: "firewall_run lpm m h m' \<Longrightarrow> roomy acc \<Longrightarrow> firewall_run lpm m (op # h) (mgr_do acc op m')"
| kernel: "firewall_run lpm m h m' \<Longrightarrow> ebpf m' = Some k \<Longrightarrow> kernel_step lpm k k' \<Longrightarrow>
    firewall_run lpm m h (m'\<lparr>ebpf := Some k'\<rparr>)"

section \<open>The reference definition\<close>

text \<open>What an operation says about one host, port or binary key, if it says anything.\<close>

fun user_word :: "u32 \<Rightarrow> mop \<Rightarrow> bool option" where
  "user_word a (OpBlockIp (V4 x)) = (if x = a then Some True else None)"
| "user_word a (OpUnblockIp (V4 x)) = (if x = a then Some False else None)"
| "user_word a _ = None"

fun host_word :: "u32 \<Rightarrow> mop \<Rightarrow> bool option" where
  "host_word a (OpSyncCidrs cs) = (if (a, 32) \<in> set cs then Some True else None)"
| "host_word a op = user_word a op"

fun port_word :: "u16 \<Rightarrow> mop \<Rightarrow> bool option" where
  "port_word p (OpBlockPort q) = (if q = p then Some True else None)"
| "port_word p (OpUnblockPort q) = (if q = p then Some False else None)"
| "port_word p (OpSyncPorts ps) = (if p \<in> set ps then Some True else None)"
| "port_word p _ = None"

definition name_keys :: "string \<Rightarrow> bytes list" where
  "name_keys n = map (name_key \<circ> ascii) (binary_names n)"

fun binary_word :: "bytes \<Rightarrow> mop \<Rightarrow> bool option" where
  "binary_word b (OpBlockBinary n) = (if b \<in> set (name_keys n) then Some True else None)"
| "binary_word b (OpUnblockBinary n) = (if b \<in> set (name_keys n) then Some False else None)"
| "binary_word b _ = None"

text \<open>The latest word counts; before the first there is no block.\<close>

fun says :: "(mop \<Rightarrow> bool option) \<Rightarrow> mop list \<Rightarrow> bool" where
  "says word [] = False"
| "says word (op # h) = (case word op of Some b \<Rightarrow> b | None \<Rightarrow> says word h)"

fun range_op :: "u32 \<Rightarrow> mop \<Rightarrow> bool" where
  "range_op a (OpSyncCidrs cs) = list_ex (\<lambda>c. unat (snd c) < 32 \<and> in_cidr c a) cs"
| "range_op a _ = False"

definition firewall_verdict :: "mop list \<Rightarrow> u32 \<Rightarrow> u32 \<Rightarrow> u16 \<Rightarrow> u16 \<Rightarrow> u8 \<Rightarrow> bool \<Rightarrow> xdp_action" where
  "firewall_verdict h src dst sport dport proto wg =
     (if says (user_word dst) h then XDP_DROP
      else if wg then XDP_PASS
      else if says (port_word sport) h \<or> says (port_word dport) h then XDP_DROP
      else if proto = 6 \<and> (says (host_word src) h \<or> list_ex (range_op src) h) then XDP_DROP
      else XDP_PASS)"

section \<open>Hosts and ranges of a trie\<close>

definition host_in :: "lpm_key list \<Rightarrow> u32 \<Rightarrow> bool" where
  "host_in t a \<longleftrightarrow> host_key a \<in> set t"

definition range_in :: "lpm_key list \<Rightarrow> u32 \<Rightarrow> bool" where
  "range_in t a \<longleftrightarrow> (\<exists>e \<in> set t. fst e \<noteq> 32 \<and> lpm_covers e (32, swap32 a))"

lemma host_key_32 [simp]: "fst (host_key a) = 32"
  by (simp add: host_key_def)

lemma lookup_split:
  assumes "lpm_documented lpm"
  shows "lpm t (32, swap32 a) \<longleftrightarrow> host_in t a \<or> range_in t a"
proof -
  have "lpm t (32, swap32 a) \<longleftrightarrow> (\<exists>e \<in> set t. lpm_covers e (32, swap32 a))"
    using assms by (simp add: lpm_documented_def list_ex_iff)
  also have "\<dots> \<longleftrightarrow> (\<exists>e \<in> set t. fst e = 32 \<and> lpm_covers e (32, swap32 a)) \<or> range_in t a"
    unfolding range_in_def by blast
  also have "(\<exists>e \<in> set t. fst e = 32 \<and> lpm_covers e (32, swap32 a)) \<longleftrightarrow> host_in t a"
    using covers_32 [of _ a] host_key_32 [of a] unfolding host_in_def by metis
  finally show ?thesis .
qed

lemma same_entry_fst: "same_entry e k \<Longrightarrow> fst e = fst k"
  by (simp add: same_entry_def)

lemma host_in_nil [simp]: "\<not> host_in [] a" "\<not> range_in [] a"
  by (simp_all add: host_in_def range_in_def)

lemma same_entry_host: "same_entry (host_key a) k \<longleftrightarrow> k = host_key a"
  by (cases k) (auto simp: same_entry_def lpm_covers_def host_key_def)

lemma host_in_insert [simp]: "host_in (trie_insert k t) a \<longleftrightarrow> k = host_key a \<or> host_in t a"
  by (auto simp: host_in_def trie_insert_def same_entry_host)

lemma range_in_insert [simp]:
  "range_in (trie_insert k t) a \<longleftrightarrow> fst k \<noteq> 32 \<and> lpm_covers k (32, swap32 a) \<or> range_in t a"
  using same_entry_covers [of _ k "(32, swap32 a)"] same_entry_fst [of _ k]
  unfolding range_in_def trie_insert_def by fastforce

lemma host_in_remove [simp]: "host_in (trie_remove (host_key b) t) a \<longleftrightarrow> a \<noteq> b \<and> host_in t a"
  by (auto simp: host_in_def trie_remove_def same_entry_host)

lemma range_in_remove [simp]: "range_in (trie_remove (host_key b) t) a \<longleftrightarrow> range_in t a"
proof -
  have "fst e \<noteq> 32 \<Longrightarrow> \<not> same_entry e (host_key b)" for e
    using same_entry_fst [of e "host_key b"] host_key_32 [of b] by metis
  then show ?thesis unfolding range_in_def trie_remove_def by fastforce
qed

lemma cidr_prefix [simp]: "fst (cidr_key c) = 32 \<longleftrightarrow> snd c = 32"
  using unat_ucast_u8 [of "snd c"] by (simp add: cidr_key_def word_unat_eq_iff)

lemma cidr_key_host: "cidr_key c = host_key a \<longleftrightarrow> c = (a, 32)"
  using cidr_prefix [of c] by (cases c) (auto simp: cidr_key_def host_key_def)

lemma sync_trie_roomy:
  assumes "roomy acc"
  shows "(host_in (snd (sync_trie acc cs t)) a \<longleftrightarrow> (a, 32) \<in> set cs \<or> host_in t a) \<and>
    (range_in (snd (sync_trie acc cs t)) a \<longleftrightarrow>
      list_ex (\<lambda>c. unat (snd c) < 32 \<and> in_cidr c a) cs \<or> range_in t a)"
proof (induction cs arbitrary: t)
  case (Cons c cs)
  have "trie_ok acc t (cidr_key c) \<longleftrightarrow> unat (snd c) \<le> 32"
    using assms by (simp add: roomy_def) (simp add: cidr_key_def)
  then have step: "snd (sync_trie acc (c # cs) t) =
      snd (sync_trie acc cs (if unat (snd c) \<le> 32 then trie_insert (cidr_key c) t else t))"
    by (simp split: prod.splits)
  have p: "snd c = 32 \<longleftrightarrow> unat (snd c) = 32" by (simp add: word_unat_eq_iff)
  have h: "c = (a, 32) \<Longrightarrow> unat (snd c) = 32" by simp
  show ?case
  proof (cases "unat (snd c) \<le> 32")
    case True
    then show ?thesis unfolding step using p
      by (simp add: Cons.IH cidr_key_host lpm_covers_cidr eq_commute [of c]) linarith
  next
    case False
    then have "c \<noteq> (a, 32)" using h by auto
    with False show ?thesis unfolding step by (simp add: Cons.IH eq_commute [of c])
  qed
qed simp

definition listed :: "('a \<rightharpoonup> 'b) \<Rightarrow> 'a \<Rightarrow> bool" where
  "listed t x \<longleftrightarrow> t x \<noteq> None"

lemma listed_simps [simp]:
  "listed (t(x \<mapsto> v)) y \<longleftrightarrow> x = y \<or> listed t y" "listed (t(x := None)) y \<longleftrightarrow> x \<noteq> y \<and> listed t y"
  by (auto simp: listed_def)

lemma sync_ports_roomy:
  "roomy acc \<Longrightarrow> listed (snd (sync_ports acc ps t)) p \<longleftrightarrow> p \<in> set ps \<or> listed t p"
proof (induction ps arbitrary: t)
  case (Cons q ps)
  have "port_ok acc q" using Cons.prems by (simp add: roomy_def)
  then have step: "snd (sync_ports acc (q # ps) t) = snd (sync_ports acc ps (t(q \<mapsto> 1)))"
    by (simp split: prod.splits)
  show ?case unfolding step Cons.IH [OF Cons.prems] by auto
qed simp

lemma insert_binaries_roomy:
  "roomy acc \<Longrightarrow> listed (snd (insert_binaries acc bs t)) b \<longleftrightarrow> b \<in> set bs \<or> listed t b"
proof (induction bs arbitrary: t)
  case (Cons x bs)
  have "binary_ok acc x" using Cons.prems by (simp add: roomy_def)
  then have step: "snd (insert_binaries acc (x # bs) t) = snd (insert_binaries acc bs (t(x \<mapsto> 1)))" by simp
  show ?case unfolding step Cons.IH [OF Cons.prems] by auto
qed simp

lemma remove_binaries:
  "listed (fold (\<lambda>n t. t(name_key (ascii n) := None)) ns t) b \<longleftrightarrow>
     b \<notin> set (map (name_key \<circ> ascii) ns) \<and> listed t b"
  by (induction ns arbitrary: t) auto

section \<open>The maps hold what the history says\<close>

definition block_lists :: "ksys \<Rightarrow> _" where
  "block_lists k = (BLOCKED_IPS (net k), USER_BLOCKED_IPS (net k), BLOCKED_PORTS (net k), BLOCKED_BINARIES k)"

definition maps_match :: "mop list \<Rightarrow> ksys \<Rightarrow> bool" where
  "maps_match h k \<longleftrightarrow> (case block_lists k of (feed, user, ports, binaries) \<Rightarrow>
     (\<forall>a. (host_in user a \<longleftrightarrow> says (user_word a) h) \<and> \<not> range_in user a
        \<and> (host_in feed a \<longleftrightarrow> says (host_word a) h) \<and> (range_in feed a \<longleftrightarrow> list_ex (range_op a) h))
     \<and> (\<forall>p. listed ports p \<longleftrightarrow> says (port_word p) h)
     \<and> (\<forall>b. listed binaries b \<longleftrightarrow> says (binary_word b) h))"

definition manager_match :: "mop list \<Rightarrow> emgr \<Rightarrow> bool" where
  "manager_match h m \<longleftrightarrow> pred_option (maps_match h) (ebpf m)"

lemma maps_match_cong: "block_lists k' = block_lists k \<Longrightarrow> maps_match h k \<Longrightarrow> maps_match h k'"
  by (simp add: maps_match_def)

text \<open>Operations that write none of the four lists.\<close>

fun silent :: "mop \<Rightarrow> bool" where
  "silent (OpBlockIp (V4 x)) = False"
| "silent (OpUnblockIp (V4 x)) = False"
| "silent (OpSyncCidrs cs) = False"
| "silent (OpBlockPort p) = False"
| "silent (OpUnblockPort p) = False"
| "silent (OpSyncPorts ps) = False"
| "silent (OpBlockBinary n) = False"
| "silent (OpUnblockBinary n) = False"
| "silent op = True"

lemma silent_says:
  "silent op \<Longrightarrow> user_word a op = None \<and> host_word a op = None \<and> port_word p op = None \<and> binary_word b op = None
     \<and> \<not> range_op a op"
  by (cases op rule: silent.cases) auto

lemma upd_net_binaries [simp]: "BLOCKED_BINARIES (upd_net f k) = BLOCKED_BINARIES k"
  by (simp add: upd_net_def)

lemma scan_lists:
  "map_option block_lists (ebpf (fold (scan_one idx) ifcs m)) = map_option block_lists (ebpf m)"
proof (induction ifcs arbitrary: m)
  case (Cons i ifcs)
  have "map_option block_lists (ebpf (scan_one idx i m)) = map_option block_lists (ebpf m)"
    by (auto simp: scan_one_def block_lists_def Let_def split: prod.splits option.splits)
  then show ?case using Cons.IH [of "scan_one idx i m"] by simp
qed simp

lemma silent_lists:
  assumes "silent op" and "ebpf (mgr_do acc op m) = Some k'"
  shows "\<exists>k. ebpf m = Some k \<and> block_lists k' = block_lists k"
proof (cases "\<exists>idx ifcs. op = OpScan idx ifcs")
  case True
  then obtain idx ifcs where "op = OpScan idx ifcs" by blast
  then have "map_option block_lists (Some k') = map_option block_lists (ebpf m)"
    using assms(2) scan_lists [of idx ifcs m] by (simp add: scan_interfaces_def split: if_splits)
  then show ?thesis by (cases "ebpf m") simp_all
next
  case False
  then show ?thesis using assms
    by (cases op rule: silent.cases)
       (auto simp: block_ip_def unblock_ip_def sync_dns_domains_def enable_lsm_enforcement_def set_sampling_enabled_def
          mark_flow_established_def set_pid_budget_def clear_pid_budgets_def clear_tls_budgets_def detach_def
          block_lists_def split: option.splits if_splits)
qed

lemma silent_match:
  assumes "silent op" and "manager_match h m"
  shows "manager_match (op # h) (mgr_do acc op m)"
proof -
  have "maps_match (op # h) k = maps_match h k" for k
    using silent_says [OF assms(1)] by (simp add: maps_match_def)
  then show ?thesis
    using silent_lists [OF assms(1), of acc m] maps_match_cong assms(2)
    by (fastforce simp: manager_match_def pred_option_def)
qed


text \<open>The other eight, one by one.\<close>

lemma roomy_host: "roomy acc \<Longrightarrow> trie_ok acc t (host_key a)"
  by (simp add: roomy_def host_key_def)

lemma block_ip_match:
  assumes "roomy acc" and "manager_match h m"
  shows "manager_match (OpBlockIp (V4 x) # h) (mgr_do acc (OpBlockIp (V4 x)) m)"
  using assms(2) roomy_host [OF assms(1)]
  by (auto simp: manager_match_def maps_match_def block_lists_def block_ip_def Let_def eq_commute [of x]
      split: option.splits)

lemma unblock_ip_match:
  "manager_match h m \<Longrightarrow> manager_match (OpUnblockIp (V4 x) # h) (mgr_do acc (OpUnblockIp (V4 x)) m)"
  by (cases "ebpf m") (auto simp: manager_match_def maps_match_def block_lists_def unblock_ip_def Let_def eq_commute [of x])

lemma sync_cidrs_match:
  assumes "roomy acc" and "manager_match h m"
  shows "manager_match (OpSyncCidrs cs # h) (mgr_do acc (OpSyncCidrs cs) m)"
  using assms(2) sync_trie_roomy [OF assms(1), of cs]
  by (auto simp: manager_match_def maps_match_def block_lists_def sync_blocked_cidrs_def case_prod_beta split: option.splits)

lemma block_port_match:
  "roomy acc \<Longrightarrow> manager_match h m \<Longrightarrow> manager_match (OpBlockPort p # h) (mgr_do acc (OpBlockPort p) m)"
  "manager_match h m \<Longrightarrow> manager_match (OpUnblockPort p # h) (mgr_do acc (OpUnblockPort p) m)"
  by (auto simp: manager_match_def maps_match_def block_lists_def block_port_def unblock_port_def roomy_def
      split: option.splits)

lemma sync_ports_match:
  assumes "roomy acc" and "manager_match h m"
  shows "manager_match (OpSyncPorts ps # h) (mgr_do acc (OpSyncPorts ps) m)"
  using assms(2) sync_ports_roomy [OF assms(1), of ps]
  by (auto simp: manager_match_def maps_match_def block_lists_def sync_blocked_ports_def case_prod_beta split: option.splits)

lemma block_binary_match:
  assumes "roomy acc" and "manager_match h m"
  shows "manager_match (OpBlockBinary n # h) (mgr_do acc (OpBlockBinary n) m)"
  using assms(2) insert_binaries_roomy [OF assms(1), of "name_keys n"]
  by (auto simp: manager_match_def maps_match_def block_lists_def block_binary_def name_keys_def case_prod_beta
      split: option.splits)

lemma unblock_binary_match:
  "manager_match h m \<Longrightarrow> manager_match (OpUnblockBinary n # h) (mgr_do acc (OpUnblockBinary n) m)"
  using remove_binaries [of "binary_names n"]
  by (cases "ebpf m") (auto simp: manager_match_def maps_match_def block_lists_def unblock_binary_def name_keys_def)


lemma manager_match_do:
  assumes "roomy acc" and "manager_match h m"
  shows "manager_match (op # h) (mgr_do acc op m)"
  using assms silent_match [OF _ assms(2)]
  by (cases op rule: silent.cases)
     (blast intro: block_ip_match unblock_ip_match sync_cidrs_match block_port_match sync_ports_match
        block_binary_match unblock_binary_match silent.simps [THEN iffD2])+

lemma kernel_keeps_lists: "kernel_step lpm k k' \<Longrightarrow> block_lists k' = block_lists k"
  using kernel_step_config [of lpm k k'] by (simp add: block_lists_def sys_config_def net_config_def)

lemma firewall_run_match: "firewall_run lpm m h m' \<Longrightarrow> manager_match [] m \<Longrightarrow> manager_match h m'"
proof (induction rule: firewall_run.induct)
  case (kernel h m' k k')
  then show ?case using maps_match_cong [OF kernel_keeps_lists] by (simp add: manager_match_def)
qed (auto intro: manager_match_do)

text \<open>A run with a history is a run of the manager, so the invariants of those hold of it.\<close>

lemma firewall_run_manager: "firewall_run lpm m h m' \<Longrightarrow> ring0_run lpm m m'"
  by (induction rule: firewall_run.induct) (auto intro: ring0_run.intros)

section \<open>The verdicts follow the history\<close>



definition acc_room :: kacc where
  "acc_room = acc_all\<lparr>trie_ok := (\<lambda>_ k. unat (fst k) \<le> 32)\<rparr>"

lemma acc_room_roomy: "roomy acc_room"
  by (simp add: roomy_def acc_room_def acc_all_def)

lemma mgr_do_loaded:
  "ebpf m \<noteq> None \<Longrightarrow> ebpf (mgr_do acc (OpBlockIp ip) m) \<noteq> None"
  "ebpf m \<noteq> None \<Longrightarrow> ebpf (mgr_do acc (OpUnblockIp ip) m) \<noteq> None"
  "ebpf m \<noteq> None \<Longrightarrow> ebpf (mgr_do acc (OpSyncCidrs cs) m) \<noteq> None"
  by (auto simp: block_ip_def unblock_ip_def sync_blocked_cidrs_def Let_def split: ip_addr.splits option.splits prod.splits)


end
