(* ===== verification/Alist_Facts.thy ===== *)
theory Alist_Facts
  imports Main "HOL-Library.AList"
begin

text \<open>
  Association lists with one entry per key, the model of the daemon's hash maps wherever the code
  reads their size or walks them: what an insertion or a removal does to keys, entries and length.
\<close>

lemma delete_filter: "AList.delete k ps = filter (\<lambda>p. fst p \<noteq> k) ps"
  by (auto simp: AList.delete_eq intro!: filter_cong)

lemma update_length: "length (AList.update k v ps) \<le> Suc (length ps)"
  by (induction ps) auto

lemma update_keys:
  "map fst (AList.update k v ps) = (if k \<in> set (map fst ps) then map fst ps else map fst ps @ [k])"
  by (induction ps) auto

lemma set_update:
  "distinct (map fst ps) \<Longrightarrow> set (AList.update k v ps) = {x \<in> set ps. fst x \<noteq> k} \<union> {(k, v)}"
  by (induction ps) (auto intro: rev_image_eqI)

lemma set_update_sub: "set (AList.update k v ps) \<subseteq> insert (k, v) (set ps)"
  by (induction ps) auto

lemma list_all_update: "list_all P ps \<Longrightarrow> P (k, i) \<Longrightarrow> list_all P (AList.update k i ps)"
  by (induction ps) auto

text \<open>An update of a map that is cleared when it outgrows its limit stays within the limit.\<close>

definition capped_update :: "nat \<Rightarrow> 'k \<Rightarrow> 'v \<Rightarrow> ('k \<times> 'v) list \<Rightarrow> ('k \<times> 'v) list" where
  "capped_update cap k v ps = (let ps' = AList.update k v ps in if cap < length ps' then [] else ps')"

lemma capped_update_length: "length (capped_update cap k v ps) \<le> cap"
  by (simp add: capped_update_def Let_def)

lemma capped_update_entries: "set (capped_update cap k v ps) \<subseteq> insert (k, v) (set ps)"
  using set_update_sub [of k v ps] by (simp add: capped_update_def Let_def)

lemma capped_update_all: "list_all P ps \<Longrightarrow> P (k, v) \<Longrightarrow> list_all P (capped_update cap k v ps)"
  by (simp add: capped_update_def Let_def list_all_update)

end
