(* ===== verification/Lineage.thy ===== *)
theory Lineage
  imports Rust_Text Alist_Facts
begin

text \<open>
  The process lineage tree (\<open>ring0d/src/lineage.rs\<close>): processes and their recent
  connections. The concurrent maps are association lists with one entry per key. The clock and
  what \<open>/proc\<close> answers (the working directory, the stat line) are arguments.
\<close>

section \<open>State\<close>

definition MAX_PROCS :: nat where "MAX_PROCS = 32768"
definition MAX_CONNECTS_PER_PID :: nat where "MAX_CONNECTS_PER_PID = 32"

definition SCRIPT_HOSTS :: "string list" where
  "SCRIPT_HOSTS = [''bash'', ''sh'', ''dash'', ''python'', ''python3'', ''perl'', ''ruby'', ''php'',
     ''node'', ''lua'', ''pwsh'', ''powershell'', ''zsh'', ''fish'', ''curl'', ''wget'', ''busybox'']"

record process_info =
  pi_pid :: u32
  pi_ppid :: u32
  pi_binary :: string
  pi_cmdline :: string
  pi_cwd :: string
  pi_first_seen :: u64
  pi_last_seen :: u64

record connection_ref =
  cr_dst_ip :: u32
  cr_dst_port :: u16
  cr_timestamp :: u64

record lineage_tree =
  procs :: "(u32 \<times> process_info) list"
  connects :: "(u32 \<times> connection_ref list) list"
  last_prune :: u64

definition lineage_new :: lineage_tree where
  "lineage_new = \<lparr>procs = [], connects = [], last_prune = 0\<rparr>"

section \<open>Operations\<close>

definition lookup_proc :: "lineage_tree \<Rightarrow> u32 \<Rightarrow> process_info option" where
  "lookup_proc t pid = map_of (procs t) pid"

text \<open>A connection is kept for 60 s.\<close>

definition prune_connects :: "u64 \<Rightarrow> (u32 \<times> connection_ref list) list \<Rightarrow> (u32 \<times> connection_ref list) list" where
  "prune_connects tm cs =
     (let cutoff = sat_sub tm 60000000000 in
      filter (\<lambda>(pid, q). q \<noteq> [])
        (map (\<lambda>(pid, q). (pid, filter (\<lambda>c. cutoff \<le> cr_timestamp c) q)) cs))"

text \<open>The liveness test of one process: its stat line, the state being the third word.\<close>

definition proc_alive :: "u64 \<Rightarrow> string option \<Rightarrow> process_info \<Rightarrow> bool" where
  "proc_alive tm stat info = (case stat of
     None \<Rightarrow> False
   | Some line \<Rightarrow>
       let ws = split_whitespace line;
           state = (if 2 < length ws then ws ! 2 else ''X'')
       in \<not> starts_with state ''Z'' \<or> sat_sub tm (pi_last_seen info) < 5000000000)"

text \<open>The entry seen longest ago (the first one on a tie).\<close>

fun oldest :: "(u32 \<times> process_info) list \<Rightarrow> process_info option" where
  "oldest [] = None"
| "oldest ((k, i) # ps) = (case oldest ps of
     None \<Rightarrow> Some i
   | Some j \<Rightarrow> if pi_last_seen i \<le> pi_last_seen j then Some i else Some j)"

text \<open>The hard cap; the fuel is the number of entries, each round removes one.\<close>

fun drop_oldest :: "nat \<Rightarrow> (u32 \<times> process_info) list \<Rightarrow> (u32 \<times> process_info) list" where
  "drop_oldest 0 ps = ps"
| "drop_oldest (Suc n) ps =
     (if length ps \<le> MAX_PROCS then ps
      else case oldest ps of
        Some i \<Rightarrow> drop_oldest n (AList.delete (pi_pid i) ps)
      | None \<Rightarrow> ps)"

definition prune :: "(u32 \<Rightarrow> string option) \<Rightarrow> u64 \<Rightarrow> lineage_tree \<Rightarrow> lineage_tree" where
  "prune stat tm t =
     (let t1 = t\<lparr>connects := prune_connects tm (connects t)\<rparr> in
      if length (procs t1) < 1024 then t1
      else
        let ps = filter (\<lambda>(pid, i). proc_alive tm (stat pid) i) (procs t1)
        in t1\<lparr>procs := drop_oldest (length ps) ps\<rparr>)"

text \<open>Every sixty seconds; \<open>tm\<close> is in nanoseconds, \<open>secs\<close> in seconds.\<close>

definition maybe_prune :: "(u32 \<Rightarrow> string option) \<Rightarrow> u64 \<Rightarrow> u64 \<Rightarrow> lineage_tree \<Rightarrow> lineage_tree" where
  "maybe_prune stat tm secs t =
     (if 60 \<le> sat_sub secs (last_prune t) then prune stat tm (t\<lparr>last_prune := secs\<rparr>) else t)"

text \<open>An existing entry keeps its working directory and first sighting.\<close>

definition record_exec ::
    "(u32 \<Rightarrow> string option) \<Rightarrow> u64 \<Rightarrow> string \<Rightarrow> u32 \<Rightarrow> u32 \<Rightarrow> string \<Rightarrow> string \<Rightarrow> lineage_tree \<Rightarrow> lineage_tree" where
  "record_exec stat tm cwd pid ppid binary cmdline t =
     (let t = (if MAX_PROCS \<le> length (procs t) then prune stat tm t else t);
          entry = (case map_of (procs t) pid of
            Some i \<Rightarrow> i
          | None \<Rightarrow> \<lparr>pi_pid = pid, pi_ppid = ppid, pi_binary = binary, pi_cmdline = cmdline,
                     pi_cwd = cwd, pi_first_seen = tm, pi_last_seen = tm\<rparr>);
          entry = entry\<lparr>pi_ppid := ppid, pi_binary := binary, pi_cmdline := cmdline, pi_last_seen := tm\<rparr>
      in t\<lparr>procs := AList.update pid entry (procs t)\<rparr>)"

definition push_connect :: "connection_ref \<Rightarrow> connection_ref list \<Rightarrow> connection_ref list" where
  "push_connect c q = (let q = q @ [c] in drop (length q - MAX_CONNECTS_PER_PID) q)"

definition record_connect :: "u64 \<Rightarrow> u32 \<Rightarrow> u32 \<Rightarrow> u16 \<Rightarrow> lineage_tree \<Rightarrow> lineage_tree" where
  "record_connect tm pid dst_ip dst_port t =
     (let q = (case map_of (connects t) pid of Some q \<Rightarrow> q | None \<Rightarrow> [])
      in t\<lparr>connects := AList.update pid
            (push_connect \<lparr>cr_dst_ip = dst_ip, cr_dst_port = dst_port, cr_timestamp = tm\<rparr> q)
            (connects t)\<rparr>)"

definition latest_connection :: "lineage_tree \<Rightarrow> u32 \<Rightarrow> connection_ref option" where
  "latest_connection t pid = (case map_of (connects t) pid of
     None \<Rightarrow> None | Some q \<Rightarrow> if q = [] then None else Some (last q))"

fun walk_ancestry :: "nat \<Rightarrow> lineage_tree \<Rightarrow> u32 set \<Rightarrow> u32 \<Rightarrow> process_info list" where
  "walk_ancestry 0 t seen cur = []"
| "walk_ancestry (Suc d) t seen cur =
     (if cur \<in> seen then []
      else case lookup_proc t cur of
        None \<Rightarrow> []
      | Some info \<Rightarrow> info #
          (if pi_ppid info = 0 \<or> pi_ppid info = cur \<or> pi_ppid info = 1 then []
           else walk_ancestry d t (insert cur seen) (pi_ppid info)))"

definition ancestry :: "lineage_tree \<Rightarrow> u32 \<Rightarrow> nat \<Rightarrow> process_info list" where
  "ancestry t pid depth = walk_ancestry depth t {} pid"

section \<open>Invariant\<close>

text \<open>One entry per process, stored under its own pid; bounded tables.\<close>

definition procs_ok :: "(u32 \<times> process_info) list \<Rightarrow> bool" where
  "procs_ok ps \<longleftrightarrow> distinct (map fst ps) \<and> list_all (\<lambda>(k, i). pi_pid i = k) ps"

definition lineage_ok :: "lineage_tree \<Rightarrow> bool" where
  "lineage_ok t \<longleftrightarrow> procs_ok (procs t) \<and> length (procs t) \<le> Suc MAX_PROCS
     \<and> list_all (\<lambda>(k, q). length q \<le> MAX_CONNECTS_PER_PID) (connects t)"

lemma procs_ok_filter: "procs_ok ps \<Longrightarrow> procs_ok (filter P ps)"
  by (auto simp: procs_ok_def list_all_iff distinct_map_filter)

lemma oldest_in: "ps \<noteq> [] \<Longrightarrow> \<exists>k i. oldest ps = Some i \<and> (k, i) \<in> set ps"
  by (induction ps rule: oldest.induct) (fastforce split: option.splits)+

lemma drop_oldest_ok: "procs_ok ps \<Longrightarrow> procs_ok (drop_oldest n ps)"
  by (induction n ps rule: drop_oldest.induct)
     (auto simp: delete_filter procs_ok_filter split: option.splits)

lemma drop_oldest_cap:
  "procs_ok ps \<Longrightarrow> length ps \<le> n + MAX_PROCS \<Longrightarrow> length (drop_oldest n ps) \<le> MAX_PROCS"
proof (induction n ps rule: drop_oldest.induct)
  case (2 n ps)
  show ?case
  proof (cases "length ps \<le> MAX_PROCS")
    case False
    then obtain k i where i: "oldest ps = Some i" "(k, i) \<in> set ps"
      using oldest_in [of ps] by fastforce
    with 2(2) have "pi_pid i = k" by (auto simp: procs_ok_def list_all_iff)
    with i have "length (AList.delete (pi_pid i) ps) < length ps"
      unfolding delete_filter by (intro length_filter_less [of "(k, i)"]) auto
    then show ?thesis using 2 False i by (auto simp: delete_filter procs_ok_filter)
  qed simp
qed simp

lemma prune_ok: "lineage_ok t \<Longrightarrow> lineage_ok (prune stat tm t) \<and> length (procs (prune stat tm t)) \<le> MAX_PROCS"
proof -
  assume ok: "lineage_ok t"
  let ?ps = "filter (\<lambda>(pid, i). proc_alive tm (stat pid) i) (procs t)"
  have ps: "procs_ok ?ps" using ok by (simp add: lineage_ok_def procs_ok_filter)
  have cs: "list_all (\<lambda>(k, q). length q \<le> MAX_CONNECTS_PER_PID) (prune_connects tm (connects t))"
    using ok by (force simp: lineage_ok_def prune_connects_def list_all_iff Let_def
        intro: order_trans [OF length_filter_le])
  show ?thesis
    using ok cs drop_oldest_ok [OF ps] drop_oldest_cap [OF ps, of "length ?ps"]
    by (auto simp: prune_def Let_def lineage_ok_def MAX_PROCS_def)
qed

lemma procs_ok_update: "procs_ok ps \<Longrightarrow> pi_pid i = k \<Longrightarrow> procs_ok (AList.update k i ps)"
  by (simp add: procs_ok_def distinct_update list_all_update)

lemma map_of_ok: "procs_ok ps \<Longrightarrow> map_of ps k = Some i \<Longrightarrow> pi_pid i = k"
  by (auto simp: procs_ok_def list_all_iff dest: map_of_SomeD)

lemma record_exec_ok: "lineage_ok t \<Longrightarrow> lineage_ok (record_exec stat tm cwd pid ppid b c t)"
proof -
  assume ok: "lineage_ok t"
  define t1 where "t1 = (if MAX_PROCS \<le> length (procs t) then prune stat tm t else t)"
  have t1: "lineage_ok t1" "length (procs t1) \<le> MAX_PROCS"
    using ok prune_ok [OF ok] by (auto simp: t1_def)
  define e where "e = (case map_of (procs t1) pid of Some i \<Rightarrow> i
      | None \<Rightarrow> \<lparr>pi_pid = pid, pi_ppid = ppid, pi_binary = b, pi_cmdline = c, pi_cwd = cwd,
          pi_first_seen = tm, pi_last_seen = tm\<rparr>)"
  have "pi_pid e = pid"
    using t1(1) by (auto simp: e_def lineage_ok_def map_of_ok split: option.split)
  then have ps: "procs_ok (AList.update pid e' (procs t1))" if "pi_pid e' = pi_pid e" for e'
    using t1(1) that by (auto simp: lineage_ok_def intro: procs_ok_update)
  have "record_exec stat tm cwd pid ppid b c t = t1\<lparr>procs := AList.update pid
      (e\<lparr>pi_ppid := ppid, pi_binary := b, pi_cmdline := c, pi_last_seen := tm\<rparr>) (procs t1)\<rparr>"
    by (simp add: record_exec_def Let_def t1_def e_def)
  moreover have "length (AList.update pid e' (procs t1)) \<le> Suc MAX_PROCS" for e'
    using t1(2) update_length [of pid e' "procs t1"] by simp
  ultimately show ?thesis using t1(1) by (simp add: lineage_ok_def ps)
qed

interpretation connect_history: bounded_history push_connect MAX_CONNECTS_PER_PID
  by unfold_locales (simp_all add: push_connect_def Let_def MAX_CONNECTS_PER_PID_def)

lemma record_connect_ok: "lineage_ok t \<Longrightarrow> lineage_ok (record_connect tm pid ip port t)"
proof -
  assume ok: "lineage_ok t"
  have "length (case map_of (connects t) pid of Some q \<Rightarrow> q | None \<Rightarrow> []) \<le> MAX_CONNECTS_PER_PID"
    using ok by (auto simp: lineage_ok_def list_all_iff dest!: map_of_SomeD split: option.split)
  from connect_history.push_le [OF this] show ?thesis
    using ok by (simp add: record_connect_def lineage_ok_def list_all_update)
qed

lemma maybe_prune_ok: "lineage_ok t \<Longrightarrow> lineage_ok (maybe_prune stat tm secs t)"
  using prune_ok [of "t\<lparr>last_prune := secs\<rparr>" stat tm]
  by (simp add: maybe_prune_def) (simp add: lineage_ok_def)

text \<open>The calls the daemon makes on the tree, with what the clock and \<open>/proc\<close> answer.\<close>

datatype lineage_op =
    RecordExec "u32 \<Rightarrow> string option" u64 string u32 u32 string string
  | RecordConnect u64 u32 u32 u16
  | MaybePrune "u32 \<Rightarrow> string option" u64 u64

fun lineage_do :: "lineage_op \<Rightarrow> lineage_tree \<Rightarrow> lineage_tree" where
  "lineage_do (RecordExec stat tm cwd pid ppid b c) t = record_exec stat tm cwd pid ppid b c t"
| "lineage_do (RecordConnect tm pid ip port) t = record_connect tm pid ip port t"
| "lineage_do (MaybePrune stat tm secs) t = maybe_prune stat tm secs t"

lemma lineage_new_ok: "lineage_ok lineage_new"
  by (simp add: lineage_ok_def lineage_new_def procs_ok_def)

lemma lineage_fold_ok: "lineage_ok t \<Longrightarrow> lineage_ok (fold lineage_do ops t)"
proof (induction ops arbitrary: t)
  case (Cons op ops)
  then show ?case
    by (cases op) (simp_all add: record_exec_ok record_connect_ok maybe_prune_ok)
qed simp

text \<open>
  Memory stays bounded under any churn: after any sequence of executions, connections and
  maintenance the tree holds at most one entry above its cap, each under its own pid, and at most 32
  connections per process, the newest of which is the last one recorded.
\<close>

theorem lineage_bounded:
  "lineage_ok (fold lineage_do ops lineage_new)
   \<and> latest_connection (record_connect tm pid ip port (fold lineage_do ops lineage_new)) pid
     = Some \<lparr>cr_dst_ip = ip, cr_dst_port = port, cr_timestamp = tm\<rparr>"
proof -
  let ?t = "fold lineage_do ops lineage_new"
  have ok: "lineage_ok ?t" by (rule lineage_fold_ok [OF lineage_new_ok])
  then have "length (case map_of (connects ?t) pid of Some q \<Rightarrow> q | None \<Rightarrow> []) \<le> MAX_CONNECTS_PER_PID"
    by (auto simp: lineage_ok_def list_all_iff dest!: map_of_SomeD split: option.split)
  from connect_history.last_push [OF this] ok show ?thesis
    by (simp add: latest_connection_def record_connect_def update_Some_unfold update_conv)
qed

section \<open>Ancestry\<close>

text \<open>Each process is followed by its parent.\<close>

fun linked :: "process_info list \<Rightarrow> bool" where
  "linked (i # j # c) \<longleftrightarrow> pi_ppid i = pi_pid j \<and> linked (j # c)"
| "linked c \<longleftrightarrow> True"

lemma walk_pids:
  assumes "lineage_ok t"
  shows "length (walk_ancestry d t seen cur) \<le> d
    \<and> distinct (map pi_pid (walk_ancestry d t seen cur))
    \<and> set (map pi_pid (walk_ancestry d t seen cur)) \<inter> seen = {}
    \<and> (walk_ancestry d t seen cur \<noteq> [] \<longrightarrow> pi_pid (hd (walk_ancestry d t seen cur)) = cur)
    \<and> linked (walk_ancestry d t seen cur)
    \<and> list_all (\<lambda>i. lookup_proc t (pi_pid i) = Some i) (walk_ancestry d t seen cur)"
proof (induction d arbitrary: seen cur)
  case (Suc d)
  show ?case
  proof (cases "cur \<in> seen \<or> lookup_proc t cur = None")
    case False
    then obtain i where i: "lookup_proc t cur = Some i" "cur \<notin> seen" by auto
    then have pid: "pi_pid i = cur"
      using assms by (auto simp: lookup_proc_def lineage_ok_def map_of_ok)
    let ?w = "walk_ancestry d t (insert cur seen) (pi_ppid i)"
    have "linked ?w \<Longrightarrow> ?w \<noteq> [] \<longrightarrow> pi_pid (hd ?w) = pi_ppid i \<Longrightarrow> linked (i # ?w)"
      by (cases ?w) auto
    with Suc.IH [of "insert cur seen" "pi_ppid i"] i pid show ?thesis by auto
  next
    case True
    then have "walk_ancestry (Suc d) t seen cur = []" by auto
    then show ?thesis by simp
  qed
qed simp

text \<open>
  The ancestry of a process is at most \<open>depth\<close> long, starts with the process itself,
  follows the parent links entry by entry and never repeats a process.
\<close>

theorem ancestry_chain:
  assumes "lineage_ok t"
  shows "length (ancestry t pid depth) \<le> depth \<and> distinct (map pi_pid (ancestry t pid depth))
    \<and> (ancestry t pid depth = [] \<or> pi_pid (hd (ancestry t pid depth)) = pid)
    \<and> linked (ancestry t pid depth)
    \<and> list_all (\<lambda>i. lookup_proc t (pi_pid i) = Some i) (ancestry t pid depth)"
  using walk_pids [OF assms, of depth "{}" pid] by (auto simp: ancestry_def)

theorem ancestry_chain_witness:
  "distinct (map pi_pid (ancestry (record_exec Map.empty 1 [] 10 5 ''/usr/bin/python3'' []
     (record_exec Map.empty 1 [] 5 1 ''/usr/bin/bash'' [] lineage_new)) 10 4))
   \<and> length (ancestry (record_exec Map.empty 1 [] 10 5 ''/usr/bin/python3'' []
     (record_exec Map.empty 1 [] 5 1 ''/usr/bin/bash'' [] lineage_new)) 10 4) = 2"
proof -
  let ?t = "record_exec Map.empty 1 [] 10 5 ''/usr/bin/python3'' []
     (record_exec Map.empty 1 [] 5 1 ''/usr/bin/bash'' [] lineage_new)"
  have "lineage_ok ?t" by (intro record_exec_ok lineage_new_ok)
  from ancestry_chain [OF this, of 10 4]
  have "distinct (map pi_pid (ancestry ?t 10 4))" by simp
  moreover have four: "4 = Suc (Suc (Suc (Suc 0)))" by simp
  have "length (ancestry ?t 10 4) = 2"
    unfolding ancestry_def four by (simp add: record_exec_def lineage_new_def MAX_PROCS_def lookup_proc_def)
  ultimately show ?thesis by (rule conjI)
qed

end
