(* ===== verification/Dpi.thy ===== *)
theory Dpi
  imports Rust_Text
begin

text \<open>
  The payload scanner (\<open>ring0d/src/dpi.rs\<close>). Hyperscan is the argument \<open>hs\<close>: which
  patterns compile, whether a database can be built, and the sequence of pattern ids a scan of a
  payload reports. A compiled database is the list of its (id, pattern) pairs.
\<close>

record dpi_match =
  rule_id :: u32
  signature_name :: string
  severity :: u8

record signature =
  sg_rule_id :: u32
  sg_name :: string
  sg_pattern :: string
  sg_severity :: u8

definition bsl :: string where "bsl = [CHR 0x5C]"

definition SIGNATURES :: "signature list" where
  "SIGNATURES = [
     \<lparr>sg_rule_id = 5001, sg_name = ''ET WEB_SPECIFIC_APPS /bin/sh command execution attempt'',
      sg_pattern = ''/bin/sh'', sg_severity = 3\<rparr>,
     \<lparr>sg_rule_id = 5002, sg_name = ''ET POLICY suspicious cmd.exe execution'',
      sg_pattern = ''cmd'' @ bsl @ ''.exe'', sg_severity = 2\<rparr>,
     \<lparr>sg_rule_id = 5003, sg_name = ''ET WEB_SERVER SQL injection SELECT..FROM'',
      sg_pattern = ''(?i)select'' @ bsl @ ''s+.{0,16}from'', sg_severity = 3\<rparr>,
     \<lparr>sg_rule_id = 5004, sg_name = ''ET WEB_SPECIFIC_APPS PHP webshell eval(base64_decode'',
      sg_pattern = ''eval'' @ bsl @ ''s*'' @ bsl @ ''('' @ bsl @ ''s*base64_decode'', sg_severity = 4\<rparr>,
     \<lparr>sg_rule_id = 5005, sg_name = ''ET SCAN sqlmap user-agent'',
      sg_pattern = ''(?i)user-agent:.*sqlmap'', sg_severity = 2\<rparr>,
     \<lparr>sg_rule_id = 5006, sg_name = ''ET SCAN Nikto user-agent'',
      sg_pattern = ''(?i)user-agent:.*nikto'', sg_severity = 2\<rparr>,
     \<lparr>sg_rule_id = 5007, sg_name = ''ET SCAN Nmap scripted scan'',
      sg_pattern = ''(?i)user-agent:.*nmap'', sg_severity = 2\<rparr>,
     \<lparr>sg_rule_id = 5008, sg_name = ''ET INFO /etc/passwd access attempt'',
      sg_pattern = ''/etc/passwd'', sg_severity = 2\<rparr>,
     \<lparr>sg_rule_id = 5009, sg_name = ''ET INFO /etc/shadow access attempt'',
      sg_pattern = ''/etc/shadow'', sg_severity = 2\<rparr>,
     \<lparr>sg_rule_id = 5010, sg_name = ''ET INFO /etc/hosts access attempt'',
      sg_pattern = ''/etc/hosts'', sg_severity = 2\<rparr>,
     \<lparr>sg_rule_id = 5011, sg_name = ''ET INFO /root/.ssh/id_rsa access attempt'',
      sg_pattern = bsl @ ''.ssh/id_rsa'', sg_severity = 4\<rparr>,
     \<lparr>sg_rule_id = 5012, sg_name = ''ET INFO AWS credentials leak'',
      sg_pattern = ''AKIA[0-9A-Z]{16}'', sg_severity = 4\<rparr>,
     \<lparr>sg_rule_id = 5013, sg_name = ''ET INFO GitHub token leak'',
      sg_pattern = ''ghp_[0-9A-Za-z]{36}'', sg_severity = 4\<rparr>,
     \<lparr>sg_rule_id = 5014, sg_name = ''ET MALWARE webshell one-liner'',
      sg_pattern = ''(?i)(assert|system|exec)'' @ bsl @ ''('' @ bsl @ ''$_'', sg_severity = 4\<rparr>,
     \<lparr>sg_rule_id = 5015, sg_name = ''ET WEB_SERVER PHP code injection'',
      sg_pattern = bsl @ ''$_GET.{0,32}exec'', sg_severity = 4\<rparr>,
     \<lparr>sg_rule_id = 5016, sg_name = ''ET SHELLCODE x86 NOP sled'',
      sg_pattern = bsl @ ''x90{8,}'', sg_severity = 3\<rparr>,
     \<lparr>sg_rule_id = 5017, sg_name = ''ET MALWARE UPX packed binary'',
      sg_pattern = ''UPX!'', sg_severity = 2\<rparr>,
     \<lparr>sg_rule_id = 5018, sg_name = ''ET MALWARE Mimikatz strings'',
      sg_pattern = ''(?i)mimikatz'', sg_severity = 4\<rparr>,
     \<lparr>sg_rule_id = 5019, sg_name = ''ET TROJAN C2 check-in'',
      sg_pattern = ''(?i)(POST|GET).{0,32}(/api/|/c2/)'', sg_severity = 2\<rparr>,
     \<lparr>sg_rule_id = 5020, sg_name = ''ET TROJAN TOR bridge connection'',
      sg_pattern = ''(?i)bridgedb|torproject'', sg_severity = 2\<rparr>]"

definition MAX_SCANS_PER_SEC :: u64 where "MAX_SCANS_PER_SEC = 2000"

type_synonym hs_db = "(nat \<times> string) list"

record hyperscan =
  hs_compile :: "string \<Rightarrow> bool"
  hs_build :: "hs_db \<Rightarrow> bool"
  hs_scan :: "hs_db \<Rightarrow> bytes \<Rightarrow> nat list"

record dpi_engine =
  db :: hs_db
  ids :: "(u32 \<times> string \<times> u8) list"
  dyn_db :: "hs_db option"
  dyn_ids :: "(u32 \<times> string \<times> u8) list"
  scan_bucket :: u64
  scan_count :: u64

section \<open>Building\<close>

text \<open>The patterns that compile keep their position in the input as id.\<close>

definition compile_all :: "hyperscan \<Rightarrow> string list \<Rightarrow> hs_db" where
  "compile_all hs pats = filter (\<lambda>(i, p). hs_compile hs p) (enumerate 0 pats)"

definition dpi_new :: "hyperscan \<Rightarrow> dpi_engine option" where
  "dpi_new hs =
     (let patterns = compile_all hs (map sg_pattern SIGNATURES);
          ids = map (\<lambda>s. (sg_rule_id s, sg_name s, sg_severity s))
                  (filter (\<lambda>s. hs_compile hs (sg_pattern s)) SIGNATURES)
      in if patterns = [] then None
         else if \<not> hs_build hs patterns then None
         else Some \<lparr>db = patterns, ids = ids, dyn_db = None, dyn_ids = [], scan_bucket = 0, scan_count = 0\<rparr>)"

definition signature_count :: "dpi_engine \<Rightarrow> nat" where
  "signature_count e = length (ids e)"

definition dpi_signature_name :: "u32 \<Rightarrow> string option" where
  "dpi_signature_name rid = map_option sg_name (find (\<lambda>s. sg_rule_id s = rid) SIGNATURES)"

text \<open>
  Replacing the dynamic set: the id table is appended to while the patterns compile and is
  cleared only for an empty batch; the database is replaced when the build succeeds.
\<close>

definition set_dynamic_patterns :: "hyperscan \<Rightarrow> (u32 \<times> string \<times> u8) list \<Rightarrow> dpi_engine \<Rightarrow> dpi_engine" where
  "set_dynamic_patterns hs patterns e =
     (if patterns = [] then e\<lparr>dyn_db := None, dyn_ids := []\<rparr>
      else
        let compiled = compile_all hs (map (\<lambda>(sid, pat, sev). pat) patterns);
            e = e\<lparr>dyn_ids := dyn_ids e @ filter (\<lambda>(sid, pat, sev). hs_compile hs pat) patterns\<rparr>
        in if hs_build hs compiled then e\<lparr>dyn_db := Some compiled\<rparr> else e)"

section \<open>Scanning\<close>

definition scan_allowed :: "u64 \<Rightarrow> dpi_engine \<Rightarrow> bool \<times> dpi_engine" where
  "scan_allowed secs e =
     (if scan_bucket e \<noteq> secs then (True, e\<lparr>scan_bucket := secs, scan_count := 1\<rparr>)
      else (scan_count e < MAX_SCANS_PER_SEC, e\<lparr>scan_count := scan_count e + 1\<rparr>))"

definition push_match :: "u32 \<times> string \<times> u8 \<Rightarrow> dpi_match list \<Rightarrow> dpi_match list" where
  "push_match t ms = (case t of (rid, name, sev) \<Rightarrow>
     if list_ex (\<lambda>m. rule_id m = rid) ms then ms
     else ms @ [\<lparr>rule_id = rid, signature_name = name, severity = sev\<rparr>])"

text \<open>The callback: ids outside the table are ignored.\<close>

definition on_match :: "(u32 \<times> string \<times> u8) list \<Rightarrow> nat \<Rightarrow> dpi_match list \<Rightarrow> dpi_match list" where
  "on_match tbl i ms = (if i < length tbl then push_match (tbl ! i) ms else ms)"

definition scan_payload :: "hyperscan \<Rightarrow> u64 \<Rightarrow> bytes \<Rightarrow> dpi_engine \<Rightarrow> dpi_match list \<times> dpi_engine" where
  "scan_payload hs secs payload e =
     (if payload = [] then ([], e)
      else case scan_allowed secs e of (ok, e') \<Rightarrow>
        if \<not> ok then ([], e')
        else
          let ms = fold (on_match (ids e')) (hs_scan hs (db e') payload) []
          in (case dyn_db e' of
                None \<Rightarrow> ms
              | Some d \<Rightarrow> fold (on_match (dyn_ids e')) (hs_scan hs d payload) ms, e'))"

section \<open>What a scan reports\<close>

definition rule_ids :: "dpi_match list \<Rightarrow> u32 set" where
  "rule_ids ms = set (map rule_id ms)"

definition table_ids :: "(u32 \<times> string \<times> u8) list \<Rightarrow> nat list \<Rightarrow> u32 set" where
  "table_ids tbl is = (\<lambda>i. fst (tbl ! i)) ` {i \<in> set is. i < length tbl}"

lemma on_match_inv:
  "distinct (map rule_id ms) \<Longrightarrow> distinct (map rule_id (on_match tbl i ms)) \<and>
     rule_ids (on_match tbl i ms) = rule_ids ms \<union> table_ids tbl [i]"
  by (cases "tbl ! i") (auto simp: on_match_def push_match_def rule_ids_def table_ids_def list_ex_iff)

lemma table_ids_Cons: "table_ids tbl (i # is) = table_ids tbl [i] \<union> table_ids tbl is"
  by (auto simp: table_ids_def)

lemma fold_on_match:
  "distinct (map rule_id ms) \<Longrightarrow> distinct (map rule_id (fold (on_match tbl) is ms)) \<and>
     rule_ids (fold (on_match tbl) is ms) = rule_ids ms \<union> table_ids tbl is"
proof (induction "is" arbitrary: ms)
  case Nil
  then show ?case by (simp add: table_ids_def)
next
  case (Cons i "is")
  from on_match_inv [OF Cons.prems, of tbl i] Cons.IH [of "on_match tbl i ms"] show ?case
    by (auto simp: table_ids_Cons [of tbl i "is"])
qed


section \<open>The scan ceiling\<close>

text \<open>The decisions of \<open>n\<close> attempts in the same second.\<close>

fun allowed_run :: "nat \<Rightarrow> u64 \<Rightarrow> dpi_engine \<Rightarrow> nat" where
  "allowed_run 0 secs e = 0"
| "allowed_run (Suc n) secs e =
     (case scan_allowed secs e of (ok, e') \<Rightarrow> (if ok then 1 else 0) + allowed_run n secs e')"

lemma allowed_run_same:
  "scan_bucket e = secs \<Longrightarrow> unat (scan_count e) + n < 2 ^ 64 \<Longrightarrow>
     allowed_run n secs e \<le> 2000 - unat (scan_count e)"
proof (induction n arbitrary: e)
  case (Suc n)
  let ?e = "e\<lparr>scan_count := scan_count e + 1\<rparr>"
  have c: "unat (scan_count e + 1) = Suc (unat (scan_count e))"
    using Suc.prems(2) by (simp add: unat_word_ariths)
  have "allowed_run n secs ?e \<le> 2000 - unat (scan_count ?e)"
    using Suc.prems c by (intro Suc.IH) auto
  with c Suc.prems(1) show ?case
    by (auto simp: scan_allowed_def MAX_SCANS_PER_SEC_def word_less_nat_alt)
qed simp

text \<open>
  At most 2000 payloads are scanned within one second, from whatever state the counter is
  in (for fewer than \<open>2 ^ 63\<close> attempts in that second).
\<close>

theorem scan_ceiling:
  assumes "n < 2 ^ 63" and "unat (scan_count e) < 2 ^ 63"
  shows "allowed_run n secs e \<le> 2000"
proof (cases n)
  case (Suc k)
  have "allowed_run k secs (e\<lparr>scan_bucket := secs, scan_count := 1\<rparr>) \<le> 2000 - 1"
    using allowed_run_same [of "e\<lparr>scan_bucket := secs, scan_count := 1\<rparr>" secs k] assms(1) Suc by simp
  moreover have "scan_bucket e = secs \<Longrightarrow> allowed_run n secs e \<le> 2000"
    using allowed_run_same [of e secs n] assms by simp
  ultimately show ?thesis using Suc by (cases "scan_bucket e = secs") (auto simp: scan_allowed_def)
qed simp

theorem scan_ceiling_witness:
  "allowed_run 5000 1700000000 \<lparr>db = [], ids = [], dyn_db = None, dyn_ids = [], scan_bucket = 0, scan_count = 0\<rparr> \<le> 2000"
  using scan_ceiling [of 5000 "\<lparr>db = [], ids = [], dyn_db = None, dyn_ids = [], scan_bucket = 0, scan_count = 0\<rparr>" 1700000000]
  by simp

section \<open>Reloading the dynamic set\<close>

lemma compile_all_ok: "list_all (hs_compile hs) pats \<Longrightarrow> compile_all hs pats = enumerate 0 pats"
  by (auto simp: compile_all_def list_all_iff in_set_enumerate_eq intro!: filter_True)

text \<open>
  The id table is not cleared on a reload, so after a second non-empty batch a match of the
  new pattern \<open>i\<close> is reported as rule \<open>i\<close> of the old batch (as long as the old batch had one).
\<close>

theorem reload_misattributes:
  assumes "list_all (\<lambda>(sid, pat, sev). hs_compile hs pat) olds" and "dyn_ids e = []"
    and "list_all (\<lambda>(sid, pat, sev). hs_compile hs pat) news" and "olds \<noteq> []" and "news \<noteq> []"
    and "\<forall>d. hs_build hs d" and "i < length olds" and "hs_scan hs (enumerate 0 (map (fst \<circ> snd) news)) p = [i]"
    and "hs_scan hs (db e) p = []" and "p \<noteq> []" and "scan_bucket e \<noteq> secs"
  shows "map rule_id (fst (scan_payload hs secs p (set_dynamic_patterns hs news (set_dynamic_patterns hs olds e))))
     = [fst (olds ! i)]"
proof -
  have f: "filter (\<lambda>(sid, pat, sev). hs_compile hs pat) olds = olds"
    "filter (\<lambda>(sid, pat, sev). hs_compile hs pat) news = news"
    using assms(1,3) by (auto simp: list_all_iff intro!: filter_True)
  have m: "map (\<lambda>(sid, pat, sev). pat) news = map (fst \<circ> snd) news" by auto
  have "list_all (hs_compile hs) (map (\<lambda>(sid, pat, sev). pat) news)"
    using assms(3) by (auto simp: list_all_iff)
  then show ?thesis
    using assms f
    by (simp add: set_dynamic_patterns_def Let_def scan_payload_def scan_allowed_def compile_all_ok m
        on_match_def nth_append push_match_def split: prod.splits)
qed

theorem reload_misattributes_witness:
  "map rule_id (fst (scan_payload \<lparr>hs_compile = (\<lambda>_. True), hs_build = (\<lambda>_. True),
       hs_scan = (\<lambda>d p. if d = [] then [] else [0])\<rparr> 9 [1]
     (set_dynamic_patterns \<lparr>hs_compile = (\<lambda>_. True), hs_build = (\<lambda>_. True),
       hs_scan = (\<lambda>d p. if d = [] then [] else [0])\<rparr> [(222, ''new'', 4)]
     (set_dynamic_patterns \<lparr>hs_compile = (\<lambda>_. True), hs_build = (\<lambda>_. True),
       hs_scan = (\<lambda>d p. if d = [] then [] else [0])\<rparr> [(111, ''old'', 2)]
       \<lparr>db = [], ids = [], dyn_db = None, dyn_ids = [], scan_bucket = 0, scan_count = 0\<rparr>)))) = [111]"
  using reload_misattributes [of "\<lparr>hs_compile = (\<lambda>_. True), hs_build = (\<lambda>_. True),
       hs_scan = (\<lambda>d p. if d = [] then [] else [0])\<rparr>" "[(111, ''old'', 2)]"
       "\<lparr>db = [], ids = [], dyn_db = None, dyn_ids = [], scan_bucket = 0, scan_count = 0\<rparr>"
       "[(222, ''new'', 4)]" 0 "[1]" 9]
  by simp

end
