(* ===== verification/Risk.thy ===== *)
theory Risk
  imports Lineage Dpi
begin

text \<open>
  The heuristic risk score (\<open>ring0d/src/risk.rs\<close>): six factors from process lineage, network
  and payload, their sum, and the verdict by two thresholds. Scores are \<open>i32\<close>; all values
  stay between 0 and 185, so they are integers here.
\<close>

definition FLAG_THRESHOLD :: int where "FLAG_THRESHOLD = 40"
definition ACTIVE_THRESHOLD :: int where "ACTIVE_THRESHOLD = 70"

datatype response_mode = Notify | BlockNetwork | Freeze | KillProcess

text \<open>\<open>RING0_RESPONSE\<close>: \<open>None\<close> when the variable is not set.\<close>

definition response_from_env :: "string option \<Rightarrow> response_mode" where
  "response_from_env v =
     (if v = Some ''block'' then BlockNetwork else if v = Some ''freeze'' then Freeze
      else if v = Some ''kill'' then KillProcess else Notify)"

datatype verdict = VPass | Flagged | HighRisk

text \<open>Verdicts are ordered by how much they do.\<close>

fun verdict_rank :: "verdict \<Rightarrow> nat" where
  "verdict_rank VPass = 0"
| "verdict_rank Flagged = 1"
| "verdict_rank HighRisk = 2"

instantiation verdict :: linorder
begin

definition less_eq_verdict :: "verdict \<Rightarrow> verdict \<Rightarrow> bool" where
  "a \<le> b \<longleftrightarrow> verdict_rank a \<le> verdict_rank b"

definition less_verdict :: "verdict \<Rightarrow> verdict \<Rightarrow> bool" where
  "a < b \<longleftrightarrow> verdict_rank a < verdict_rank b"

instance
proof
  fix a b :: verdict
  show "a \<le> b \<Longrightarrow> b \<le> a \<Longrightarrow> a = b" by (cases a; cases b) (simp_all add: less_eq_verdict_def)
qed (auto simp: less_eq_verdict_def less_verdict_def)

end

record risk_factors =
  process_path :: int
  script_parent :: int
  new_destination :: int
  nonstandard_port :: int
  signature_match :: int
  file_magic :: int

record risk_result =
  score :: int
  rr_verdict :: verdict
  factors :: risk_factors

definition detect_file_magic :: "bytes \<Rightarrow> string option" where
  "detect_file_magic buf =
     (if prefix (0x7f # ascii ''ELF'') buf then Some ''ELF binary''
      else if prefix (ascii ''MZ'') buf then Some ''PE/DOS binary''
      else if prefix (ascii ''PK'' @ [3, 4]) buf then Some ''ZIP archive''
      else if prefix (ascii ''#!'') buf then Some ''script shebang''
      else if prefix (0x89 # ascii ''PNG'') buf then Some ''PNG image''
      else if prefix [0xff, 0xd8, 0xff] buf then Some ''JPEG image''
      else None)"

definition SUSPICIOUS_PATH_MARKERS :: "string list" where
  "SUSPICIOUS_PATH_MARKERS = [''/tmp/'', ''/dev/shm/'', ''/var/tmp/'', ''/var/run/'', ''/proc/'',
     ''/dev/'', ''/home/'', ''.cache'', ''.local/tmp'']"

definition suspicious_path :: "string \<Rightarrow> string \<Rightarrow> bool" where
  "suspicious_path binary cwd \<longleftrightarrow>
     list_ex (\<lambda>m. str_contains binary m \<or> (starts_with cwd ''/'' \<and> str_contains cwd m)) SUSPICIOUS_PATH_MARKERS
     \<or> (starts_with cwd ''/tmp'' \<or> starts_with cwd ''/dev/shm'')"

definition script_host_parent :: "process_info list \<Rightarrow> bool" where
  "script_host_parent chain \<longleftrightarrow>
     list_ex (\<lambda>a. trim (after_last CHR ''/'' (pi_binary a)) \<in> set SCRIPT_HOSTS) (drop 1 chain)"

definition worst_severity :: "dpi_match list \<Rightarrow> u8" where
  "worst_severity hits = fold max (map severity hits) 0"

definition signature_score :: "u8 \<Rightarrow> int" where
  "signature_score sev = (if sev = 4 then 50 else if sev = 3 then 25 else if sev = 2 then 10 else 0)"

definition risk_factors_of ::
    "lineage_tree \<Rightarrow> u32 \<Rightarrow> u32 option \<Rightarrow> u16 \<Rightarrow> bool \<Rightarrow> bytes \<Rightarrow> dpi_match list \<Rightarrow> bool \<Rightarrow> risk_factors" where
  "risk_factors_of lineage pid dst_ip dst_port is_write payload hits trust_untrusted =
     (let info = lookup_proc lineage pid;
          chain = ancestry lineage pid 4;
          binary = (case info of Some i \<Rightarrow> pi_binary i | None \<Rightarrow> []);
          cwd = (case info of Some i \<Rightarrow> pi_cwd i | None \<Rightarrow> [])
      in \<lparr>process_path = (if suspicious_path binary cwd then 30 else 0) + (if trust_untrusted then 25 else 0),
          script_parent = (if script_host_parent chain then 20 else 0),
          new_destination = (case dst_ip of
              Some ip \<Rightarrow> if map_option cr_dst_ip (latest_connection lineage pid) \<noteq> Some ip then 15 else 0
            | None \<Rightarrow> 15),
          nonstandard_port = (if dst_port \<noteq> 0 \<and> dst_port \<notin> {443, 8443, 80, 8080} then 15 else 0),
          signature_match = signature_score (worst_severity hits),
          file_magic = (if detect_file_magic payload \<noteq> None then (if is_write then 30 else 10) else 0)\<rparr>)"

definition factor_sum :: "risk_factors \<Rightarrow> int" where
  "factor_sum f = process_path f + script_parent f + new_destination f + nonstandard_port f
     + signature_match f + file_magic f"

definition verdict_of :: "int \<Rightarrow> verdict" where
  "verdict_of s = (if s \<ge> ACTIVE_THRESHOLD then HighRisk else if s \<ge> FLAG_THRESHOLD then Flagged else VPass)"

definition risk_score ::
    "lineage_tree \<Rightarrow> u32 \<Rightarrow> u32 option \<Rightarrow> u16 \<Rightarrow> bool \<Rightarrow> bytes \<Rightarrow> dpi_match list \<Rightarrow> bool \<Rightarrow> risk_result" where
  "risk_score lineage pid dst_ip dst_port is_write payload hits trust_untrusted =
     (let f = risk_factors_of lineage pid dst_ip dst_port is_write payload hits trust_untrusted;
          s = factor_sum f
      in \<lparr>score = s, rr_verdict = verdict_of s, factors = f\<rparr>)"

section \<open>Bounds\<close>

lemma risk_range:
  "0 \<le> score (risk_score l pid ip port w pl hits t) \<and> score (risk_score l pid ip port w pl hits t) \<le> 185"
  by (auto simp: risk_score_def risk_factors_of_def factor_sum_def signature_score_def Let_def
      split: option.split)

lemma worst_severity_in: "worst_severity hits = 0 \<or> (\<exists>m \<in> set hits. severity m = worst_severity hits)"
proof -
  have "fold max xs a = a \<or> fold max xs a \<in> set xs" for xs and a :: u8
    by (induction xs arbitrary: a) (auto simp: max_def split: if_splits)
  from this [of "map severity hits" 0] show ?thesis
    by (auto simp: worst_severity_def)
qed

text \<open>The verdict without any payload evidence: context alone.\<close>

definition context_score :: "lineage_tree \<Rightarrow> u32 \<Rightarrow> u32 option \<Rightarrow> u16 \<Rightarrow> bool \<Rightarrow> int" where
  "context_score l pid ip port t = score (risk_score l pid ip port False [] [] t)"

lemma empty_payload: "detect_file_magic [] = None" "worst_severity [] = 0"
  by (simp_all add: detect_file_magic_def worst_severity_def ascii_def)

lemma score_split:
  "score (risk_score l pid ip port w pl hits t) = context_score l pid ip port t
     + signature_score (worst_severity hits)
     + (if detect_file_magic pl \<noteq> None then (if w then 30 else 10) else 0)"
  by (simp add: context_score_def risk_score_def risk_factors_of_def factor_sum_def Let_def
      empty_payload signature_score_def)

section \<open>Laws\<close>

lemma signature_score_mono: "a \<le> b \<Longrightarrow> b \<le> 4 \<Longrightarrow> signature_score a \<le> signature_score b"
proof -
  assume ab: "a \<le> b" "b \<le> 4"
  then have "unat a \<le> unat b" "unat b \<le> 4" by (simp_all add: word_le_nat_alt)
  then have "unat a \<in> {0, 1, 2, 3, 4}" "unat b \<in> {0, 1, 2, 3, 4}" by auto
  with \<open>unat a \<le> unat b\<close> show ?thesis by (auto simp: signature_score_def word_unat_eq_iff)
qed

lemma worst_severity_four: "list_all (\<lambda>h. severity h \<le> 4) hits \<Longrightarrow> worst_severity hits \<le> 4"
  using worst_severity_in [of hits] by (force simp: list_all_iff)

lemma worst_severity_more: "worst_severity hits \<le> worst_severity (added @ hits)"
proof -
  have grows: "a \<le> fold max xs a" for xs and a :: u8
    by (induction xs arbitrary: a) (auto intro: order_trans [OF max.cobounded2])
  have "fold max xs a \<le> fold max xs b" if "a \<le> b" for xs and a b :: u8
    using that by (induction xs arbitrary: a b) (auto intro: max.mono)
  then show ?thesis using grows by (simp add: worst_severity_def)
qed

lemma verdict_mono: "s \<le> s' \<Longrightarrow> verdict_of s \<le> verdict_of s'"
  by (simp add: verdict_of_def less_eq_verdict_def ACTIVE_THRESHOLD_def FLAG_THRESHOLD_def)

lemma context_score_bounds:
  "0 \<le> context_score l pid ip port b" "context_score l pid ip port b \<le> 105"
  "context_score l pid ip port True = context_score l pid ip port False + 25"
  by (auto simp: context_score_def risk_score_def risk_factors_of_def factor_sum_def Let_def
      empty_payload signature_score_def split: option.split)

lemma verdict_of_score: "rr_verdict (risk_score l pid ip port w pl hits t) = verdict_of (score (risk_score l pid ip port w pl hits t))"
  by (simp add: risk_score_def Let_def)

text \<open>
  The score is between 0 and 185 and splits into context (at most 105), the worst signature
  and file magic; the verdict is high-risk exactly from 70 and a pass exactly below 40; distrusting the
  binary adds exactly 25 points.
\<close>

lemma risk_score_laws:
  "0 \<le> score (risk_score l pid ip port w pl hits t)" "score (risk_score l pid ip port w pl hits t) \<le> 185"
  "score (risk_score l pid ip port w pl hits True) = score (risk_score l pid ip port w pl hits False) + 25"
  "rr_verdict (risk_score l pid ip port w pl hits t) = HighRisk \<longleftrightarrow> 70 \<le> score (risk_score l pid ip port w pl hits t)"
  "rr_verdict (risk_score l pid ip port w pl hits t) = VPass \<longleftrightarrow> score (risk_score l pid ip port w pl hits t) < 40"
  using risk_range [of l pid ip port w pl hits t] context_score_bounds(3) [of l pid ip port]
  by (simp_all add: score_split [of l pid ip port w pl hits True] score_split [of l pid ip port w pl hits False]
      verdict_of_score verdict_of_def ACTIVE_THRESHOLD_def FLAG_THRESHOLD_def)

text \<open>
  More evidence never lowers the verdict: neither further matches (of the severities 0 to 4 the rules
  have) nor distrust of the binary.
\<close>

lemma risk_monotone:
  assumes "list_all (\<lambda>h. severity h \<le> 4) (added @ hits)"
  shows "rr_verdict (risk_score l pid ip port w pl hits t) \<le> rr_verdict (risk_score l pid ip port w pl (added @ hits) (t \<or> u))"
proof -
  have "signature_score (worst_severity hits) \<le> signature_score (worst_severity (added @ hits))"
    by (rule signature_score_mono [OF worst_severity_more worst_severity_four [OF assms]])
  moreover have "context_score l pid ip port t \<le> context_score l pid ip port (t \<or> u)"
    using context_score_bounds(3) [of l pid ip port] by (cases t; cases u) simp_all
  ultimately show ?thesis unfolding verdict_of_score by (intro verdict_mono) (simp add: score_split)
qed

end
