(* ===== verification/Correlation.thy ===== *)
theory Correlation
  imports Rust_Text Alist_Facts
begin

text \<open>
  The event correlation engine (\<open>ring0d/src/correlation.rs\<close>): windows of recent executions,
  connections and file accesses per process, and the evaluation that joins them into alerts. The
  concurrent maps are association lists (their iteration order, unspecified in Rust, is the list
  order); every clock reading is an argument.
\<close>

section \<open>State\<close>

definition WINDOW_NS :: u64 where "WINDOW_NS = 30000000000"
definition WINDOW_EXEC_NS :: u64 where "WINDOW_EXEC_NS = 10000000000"
definition WINDOW_CRED_NS :: u64 where "WINDOW_CRED_NS = 5000000000"
definition EMIT_DEDUP_NS :: u64 where "EMIT_DEDUP_NS = 60000000000"

record exec_record =
  er_timestamp :: u64
  er_pid :: u32
  er_ppid :: u32
  er_binary_path :: string
  er_cmdline :: string

record connect_record =
  co_timestamp :: u64
  co_pid :: u32
  co_dst_ip :: u32
  co_dst_port :: u16

record file_record =
  fr_timestamp :: u64
  fr_pid :: u32
  fr_path :: string

record correlation_alert =
  ca_id :: u64
  ca_pattern_id :: u32
  ca_pattern_name :: string
  ca_mitre_tactic :: string
  ca_mitre_technique :: string
  ca_severity :: u8
  ca_root_pid :: u32
  ca_description :: string
  ca_timestamp :: u64

record corr =
  co_execs :: "(u32 \<times> exec_record list) list"
  co_connects :: "(u32 \<times> connect_record list) list"
  co_files :: "(u32 \<times> file_record list) list"
  proc_tree :: "u32 \<rightharpoonup> u32"
  co_alerts :: "correlation_alert list"
  last_emit :: "((u32 \<times> u32) \<times> u64) list"
  next_id :: u64

section \<open>Recording\<close>

definition push_entry :: "u32 \<Rightarrow> 'a \<Rightarrow> (u32 \<times> 'a list) list \<Rightarrow> (u32 \<times> 'a list) list" where
  "push_entry k x m = AList.update k ((case map_of m k of Some l \<Rightarrow> l | None \<Rightarrow> []) @ [x]) m"

definition evict_old :: "('a \<Rightarrow> u64) \<Rightarrow> u64 \<Rightarrow> u64 \<Rightarrow> (u32 \<times> 'a list) list \<Rightarrow> (u32 \<times> 'a list) list" where
  "evict_old ts tm window m =
     filter (\<lambda>(k, v). v \<noteq> []) (map (\<lambda>(k, v). (k, filter (\<lambda>r. sat_sub tm (ts r) < window) v)) m)"

definition push_exec :: "u64 \<Rightarrow> u64 \<Rightarrow> u32 \<Rightarrow> u32 \<Rightarrow> string \<Rightarrow> string \<Rightarrow> corr \<Rightarrow> corr" where
  "push_exec t1 t2 pid ppid binary cmdline c =
     c\<lparr>proc_tree := (proc_tree c)(pid \<mapsto> ppid),
       co_execs := evict_old er_timestamp t2 WINDOW_NS
         (push_entry pid \<lparr>er_timestamp = t1, er_pid = pid, er_ppid = ppid, er_binary_path = binary,
            er_cmdline = cmdline\<rparr> (co_execs c))\<rparr>"

definition push_connect :: "u64 \<Rightarrow> u64 \<Rightarrow> u32 \<Rightarrow> u32 \<Rightarrow> u16 \<Rightarrow> corr \<Rightarrow> corr" where
  "push_connect t1 t2 pid dst_ip dst_port c =
     c\<lparr>co_connects := evict_old co_timestamp t2 WINDOW_NS
         (push_entry pid \<lparr>co_timestamp = t1, co_pid = pid, co_dst_ip = dst_ip, co_dst_port = dst_port\<rparr>
            (co_connects c))\<rparr>"

definition push_file :: "u64 \<Rightarrow> u64 \<Rightarrow> u32 \<Rightarrow> string \<Rightarrow> corr \<Rightarrow> corr" where
  "push_file t1 t2 pid path c =
     c\<lparr>co_files := evict_old fr_timestamp t2 WINDOW_NS
         (push_entry pid \<lparr>fr_timestamp = t1, fr_pid = pid, fr_path = path\<rparr> (co_files c))\<rparr>"

section \<open>Alerts\<close>

definition MAX_ALERTS :: nat where "MAX_ALERTS = 4096"

definition push_history :: "correlation_alert \<Rightarrow> correlation_alert list \<Rightarrow> correlation_alert list" where
  "push_history a h =
     (let h = (if MAX_ALERTS \<le> length h then drop (length h - MAX_ALERTS + 1) h else h) in h @ [a])"

definition push_alert :: "correlation_alert \<Rightarrow> corr \<Rightarrow> corr" where
  "push_alert a c = c\<lparr>co_alerts := push_history a (co_alerts c)\<rparr>"

definition recent_alerts :: "corr \<Rightarrow> correlation_alert list" where
  "recent_alerts c = take 100 (rev (co_alerts c))"

definition should_emit :: "u32 \<Rightarrow> u32 \<Rightarrow> u64 \<Rightarrow> corr \<Rightarrow> bool \<times> corr" where
  "should_emit pattern_id root_pid tm c =
     (case map_of (last_emit c) (pattern_id, root_pid) of
        Some prev \<Rightarrow> if sat_sub tm prev < EMIT_DEDUP_NS then (False, c)
          else (True, c\<lparr>last_emit := (let l = AList.update (pattern_id, root_pid) tm (last_emit c)
                                     in if 8192 < length l then [] else l)\<rparr>)
      | None \<Rightarrow>
          (True, c\<lparr>last_emit := (let l = AList.update (pattern_id, root_pid) tm (last_emit c)
                                 in if 8192 < length l then [] else l)\<rparr>))"

text \<open>Store the alert, and report it unless its chain was reported within the last minute.\<close>

definition raise_alert :: "correlation_alert \<Rightarrow> u64 \<Rightarrow> corr \<times> correlation_alert list \<Rightarrow> corr \<times> correlation_alert list" where
  "raise_alert a tm st = (case st of (c, results) \<Rightarrow>
     (case should_emit (ca_pattern_id a) (ca_root_pid a) tm (push_alert a (c\<lparr>next_id := next_id c + 1\<rparr>)) of
        (b, c') \<Rightarrow> (c', if b then results @ [a] else results)))"

section \<open>Evaluation\<close>

definition children_of :: "corr \<Rightarrow> u32 \<Rightarrow> exec_record list" where
  "children_of c ppid = filter (\<lambda>r. er_ppid r = ppid) (concat (map snd (co_execs c)))"

text \<open>The most recent execution of each child within the window.\<close>

definition child_execs :: "corr \<Rightarrow> u64 \<Rightarrow> u32 \<Rightarrow> exec_record list" where
  "child_execs c tm pid =
     map snd (fold (\<lambda>r m. if er_pid r \<noteq> pid \<and> sat_sub tm (er_timestamp r) < WINDOW_EXEC_NS
                          then AList.update (er_pid r) r m else m) (children_of c pid) [])"

definition recent_connects :: "corr \<Rightarrow> u64 \<Rightarrow> u64 \<Rightarrow> u32 \<Rightarrow> connect_record list" where
  "recent_connects c tm window pid = (case map_of (co_connects c) pid of
     Some v \<Rightarrow> filter (\<lambda>r. sat_sub tm (co_timestamp r) < window) v | None \<Rightarrow> [])"

definition is_shell :: "exec_record \<Rightarrow> bool" where
  "is_shell r \<longleftrightarrow> str_contains (er_binary_path r) ''/sh'' \<or> str_contains (er_binary_path r) ''python''
     \<or> str_contains (er_binary_path r) ''perl''"

definition chain_alert :: "u64 \<Rightarrow> u64 \<Rightarrow> exec_record \<Rightarrow> exec_record list \<Rightarrow> correlation_alert" where
  "chain_alert i tm latest children =
     \<lparr>ca_id = i,
      ca_pattern_id = (if is_shell latest then 1001 else 1002),
      ca_pattern_name = (if is_shell latest then ''Reverse Shell Chain'' else ''Suspicious Process Chain''),
      ca_mitre_tactic = ''Execution'',
      ca_mitre_technique = (if is_shell latest then ''T1059.004'' else ''T1059''),
      ca_severity = 3,
      ca_root_pid = er_ppid latest,
      ca_description = ''PID '' @ show_nat (unat (er_ppid latest)) @ '' ('' @ er_binary_path latest
        @ '') connected outward then spawned child ''
        @ (if children = [] then ''?'' else er_binary_path (last children)),
      ca_timestamp = tm\<rparr>"

definition eval_exec :: "u64 \<Rightarrow> u32 \<times> exec_record list \<Rightarrow> corr \<times> correlation_alert list \<Rightarrow> corr \<times> correlation_alert list" where
  "eval_exec tm entry st = (case entry of (pid, records) \<Rightarrow>
     if records = [] then st
     else
       let latest = last records; c = fst st;
           parent_connects = recent_connects c tm WINDOW_EXEC_NS (er_ppid latest);
           children = child_execs c tm pid
       in if parent_connects \<noteq> [] \<and> children \<noteq> []
          then raise_alert (chain_alert (next_id c) tm latest children) tm st else st)"

definition sensitive_files :: "u64 \<Rightarrow> file_record list \<Rightarrow> file_record list" where
  "sensitive_files tm v =
     filter (\<lambda>f. str_contains (fr_path f) ''/etc/shadow'' \<or> str_contains (fr_path f) ''.ssh/id_'')
       (filter (\<lambda>f. sat_sub tm (fr_timestamp f) < WINDOW_CRED_NS) v)"

definition cred_alert :: "u64 \<Rightarrow> u64 \<Rightarrow> u32 \<Rightarrow> file_record list \<Rightarrow> correlation_alert" where
  "cred_alert i tm pid fs =
     \<lparr>ca_id = i, ca_pattern_id = 1003, ca_pattern_name = ''Credential Harvesting Chain'',
      ca_mitre_tactic = ''Credential Access'', ca_mitre_technique = ''T1003 / T1041'',
      ca_severity = 3, ca_root_pid = pid,
      ca_description = ''PID '' @ show_nat (unat pid) @ '' accessed '' @ fr_path (hd fs)
        @ '' then opened outbound connection'',
      ca_timestamp = tm\<rparr>"

definition eval_file :: "u64 \<Rightarrow> u32 \<times> file_record list \<Rightarrow> corr \<times> correlation_alert list \<Rightarrow> corr \<times> correlation_alert list" where
  "eval_file tm entry st = (case entry of (pid, records) \<Rightarrow>
     let c = fst st; fs = sensitive_files tm records in
     if fs = [] then st
     else if recent_connects c tm WINDOW_CRED_NS pid \<noteq> []
          then raise_alert (cred_alert (next_id c) tm pid fs) tm st else st)"

definition corr_eval :: "u64 \<Rightarrow> corr \<Rightarrow> correlation_alert list \<times> corr" where
  "corr_eval tm c =
     (let st = fold (eval_exec tm) (co_execs c) (c, []);
          st = fold (eval_file tm) (co_files c) st
      in (snd st, fst st))"

section \<open>Histories and windows\<close>

interpretation alert_history: bounded_history push_history MAX_ALERTS
  by unfold_locales (auto simp: push_history_def MAX_ALERTS_def Let_def)

text \<open>What an alert claims about the recorded windows.\<close>

definition windows :: "corr \<Rightarrow> _" where
  "windows c = (co_execs c, co_connects c, co_files c)"

definition fresh_connect :: "corr \<Rightarrow> u64 \<Rightarrow> u64 \<Rightarrow> u32 \<Rightarrow> bool" where
  "fresh_connect c tm window pid \<longleftrightarrow>
     (\<exists>v \<in> set_option (map_of (co_connects c) pid). \<exists>r \<in> set v. sat_sub tm (co_timestamp r) < window)"

definition chain_evidence :: "corr \<Rightarrow> u64 \<Rightarrow> u32 \<Rightarrow> bool" where
  "chain_evidence c tm root \<longleftrightarrow> fresh_connect c tm WINDOW_EXEC_NS root \<and>
     (\<exists>(pid, records) \<in> set (co_execs c). records \<noteq> [] \<and> er_ppid (last records) = root \<and>
        (\<exists>r \<in> \<Union> (set ` snd ` set (co_execs c)). er_ppid r = pid \<and> er_pid r \<noteq> pid
           \<and> sat_sub tm (er_timestamp r) < WINDOW_EXEC_NS))"

definition cred_evidence :: "corr \<Rightarrow> u64 \<Rightarrow> u32 \<Rightarrow> bool" where
  "cred_evidence c tm root \<longleftrightarrow> fresh_connect c tm WINDOW_CRED_NS root \<and>
     (\<exists>(pid, records) \<in> set (co_files c). pid = root \<and> (\<exists>f \<in> set records.
        sat_sub tm (fr_timestamp f) < WINDOW_CRED_NS \<and>
        (str_contains (fr_path f) ''/etc/shadow'' \<or> str_contains (fr_path f) ''.ssh/id_'')))"

definition justified :: "corr \<Rightarrow> u64 \<Rightarrow> correlation_alert \<Rightarrow> bool" where
  "justified c tm a \<longleftrightarrow>
     ca_pattern_id a \<in> {1001, 1002} \<and> chain_evidence c tm (ca_root_pid a)
     \<or> ca_pattern_id a = 1003 \<and> cred_evidence c tm (ca_root_pid a)"

lemma raise_windows: "windows (fst (raise_alert a tm st)) = windows (fst st)"
  by (auto simp: raise_alert_def should_emit_def push_alert_def windows_def
      split: prod.splits option.splits if_splits)

lemma raise_results: "set (snd (raise_alert a tm st)) \<subseteq> insert a (set (snd st))"
  by (auto simp: raise_alert_def split: prod.splits)

lemma recent_connects_fresh: "recent_connects c tm w pid \<noteq> [] \<longleftrightarrow> fresh_connect c tm w pid"
  by (auto simp: recent_connects_def fresh_connect_def filter_empty_conv split: option.splits)

lemma child_execs_in:
  assumes "child_execs c tm pid \<noteq> []"
  shows "\<exists>r \<in> set (children_of c pid). er_pid r \<noteq> pid \<and> sat_sub tm (er_timestamp r) < WINDOW_EXEC_NS"
proof (rule ccontr)
  assume none: "\<not> ?thesis"
  have "fold (\<lambda>r m. if er_pid r \<noteq> pid \<and> sat_sub tm (er_timestamp r) < WINDOW_EXEC_NS
       then AList.update (er_pid r) r m else m) rs m = m"
    if "set rs \<subseteq> set (children_of c pid)" for rs m
    using that none by (induction rs arbitrary: m) auto
  then have "child_execs c tm pid = []" by (simp add: child_execs_def)
  with assms show False by simp
qed

section \<open>Soundness and deduplication of an evaluation\<close>

definition chain_key :: "correlation_alert \<Rightarrow> u32 \<times> u32" where
  "chain_key a = (ca_pattern_id a, ca_root_pid a)"

text \<open>
  The state of an evaluation: windows unchanged, every reported alert justified, marked with the
  evaluation's time and reported once, and room for \<open>n\<close> more marks.
\<close>

definition eval_inv :: "corr \<Rightarrow> u64 \<Rightarrow> nat \<Rightarrow> corr \<times> correlation_alert list \<Rightarrow> bool" where
  "eval_inv c tm n st \<longleftrightarrow> windows (fst st) = windows c
     \<and> list_all (justified c tm) (snd st)
     \<and> list_all (\<lambda>a. map_of (last_emit (fst st)) (chain_key a) = Some tm) (snd st)
     \<and> distinct (map chain_key (snd st)) \<and> length (last_emit (fst st)) + n \<le> 8192"

lemma eval_inv_weaken: "eval_inv c tm (Suc n) st \<Longrightarrow> eval_inv c tm n st"
  by (simp add: eval_inv_def)

lemma windows_more: "windows (push_alert a (c\<lparr>next_id := i\<rparr>)) = windows c"
  "last_emit (push_alert a (c\<lparr>next_id := i\<rparr>)) = last_emit c"
  by (simp_all add: windows_def push_alert_def)

lemma should_emit_cases:
  assumes "length (last_emit c) < 8192"
  obtains "should_emit p r tm c = (False, c)"
  | "should_emit p r tm c = (True, c\<lparr>last_emit := AList.update (p, r) tm (last_emit c)\<rparr>)"
    "map_of (last_emit c) (p, r) \<noteq> Some tm"
proof -
  have len: "\<not> 8192 < length (AList.update (p, r) tm (last_emit c))"
    using assms update_length [of "(p, r)" tm "last_emit c"] by simp
  have now: "sat_sub tm tm < EMIT_DEDUP_NS" by (simp add: sat_sub_def EMIT_DEDUP_NS_def)
  have "should_emit p r tm c = (False, c) \<or>
      should_emit p r tm c = (True, c\<lparr>last_emit := AList.update (p, r) tm (last_emit c)\<rparr>)
      \<and> map_of (last_emit c) (p, r) \<noteq> Some tm"
    using len now by (auto simp: should_emit_def Let_def split: option.splits)
  with that show ?thesis by blast
qed

lemma raise_inv:
  assumes inv: "eval_inv c tm (Suc n) st" and just: "justified c tm a"
  shows "eval_inv c tm n (raise_alert a tm st)"
proof -
  obtain d res where st: "st = (d, res)" by force
  let ?d = "push_alert a (d\<lparr>next_id := next_id d + 1\<rparr>)"
  have len: "length (last_emit ?d) < 8192" using inv st by (simp add: eval_inv_def windows_more)
  show ?thesis
  proof (rule should_emit_cases [OF len, of "ca_pattern_id a" "ca_root_pid a" tm])
    assume "should_emit (ca_pattern_id a) (ca_root_pid a) tm ?d = (False, ?d)"
    then show ?thesis using inv st by (simp add: raise_alert_def eval_inv_def windows_more)
  next
    let ?d' = "?d\<lparr>last_emit := AList.update (chain_key a) tm (last_emit ?d)\<rparr>"
    assume em: "should_emit (ca_pattern_id a) (ca_root_pid a) tm ?d
        = (True, ?d\<lparr>last_emit := AList.update (ca_pattern_id a, ca_root_pid a) tm (last_emit ?d)\<rparr>)"
      and new: "map_of (last_emit ?d) (ca_pattern_id a, ca_root_pid a) \<noteq> Some tm"
    then have r: "raise_alert a tm st = (?d', res @ [a])" by (simp add: st raise_alert_def chain_key_def)
    have "windows ?d' = windows c" using inv st by (simp add: eval_inv_def windows_def push_alert_def)
    moreover have "chain_key a \<notin> set (map chain_key res)"
      using inv st new by (auto simp: eval_inv_def list_all_iff windows_more chain_key_def)
    moreover have "length (last_emit ?d') + n \<le> 8192"
      using inv st update_length [of "chain_key a" tm "last_emit d"] by (simp add: eval_inv_def windows_more)
    ultimately show ?thesis
      using inv st just unfolding r
      by (auto simp: eval_inv_def list_all_iff windows_more update_conv)
  qed
qed

lemma justified_windows:
  "windows d = windows c \<Longrightarrow> justified d tm a = justified c tm a"
  by (simp add: justified_def chain_evidence_def cred_evidence_def fresh_connect_def windows_def)

lemma eval_exec_inv:
  assumes inv: "eval_inv c tm (Suc n) st" and e: "e \<in> set (co_execs c)"
  shows "eval_inv c tm n (eval_exec tm e st)"
proof -
  obtain pid records where ee: "e = (pid, records)" by force
  let ?c = "fst st" and ?l = "last records"
  have w: "windows ?c = windows c" using inv by (simp add: eval_inv_def)
  show ?thesis
  proof (cases "records \<noteq> [] \<and> recent_connects ?c tm WINDOW_EXEC_NS (er_ppid ?l) \<noteq> []
      \<and> child_execs ?c tm pid \<noteq> []")
    case True
    have "fresh_connect ?c tm WINDOW_EXEC_NS (er_ppid ?l)"
      using True recent_connects_fresh by blast
    moreover obtain r where "r \<in> set (children_of ?c pid)" "er_pid r \<noteq> pid"
      "sat_sub tm (er_timestamp r) < WINDOW_EXEC_NS"
      using child_execs_in True by blast
    then have "\<exists>r \<in> \<Union> (set ` snd ` set (co_execs ?c)). er_ppid r = pid \<and> er_pid r \<noteq> pid
           \<and> sat_sub tm (er_timestamp r) < WINDOW_EXEC_NS"
      by (auto simp: children_of_def)
    moreover have "(pid, records) \<in> set (co_execs ?c)" using e ee w by (simp add: windows_def)
    ultimately have "chain_evidence ?c tm (er_ppid ?l)"
      using True unfolding chain_evidence_def by blast
    then have "justified ?c tm (chain_alert i tm ?l ks)" for i ks
      by (simp add: justified_def chain_alert_def)
    then show ?thesis
      using True raise_inv [OF inv] justified_windows [OF w] by (simp add: eval_exec_def ee Let_def)
  next
    case False
    then have "eval_exec tm e st = st" by (auto simp: eval_exec_def ee Let_def)
    then show ?thesis using eval_inv_weaken [OF inv] by simp
  qed
qed

lemma eval_file_inv:
  assumes inv: "eval_inv c tm (Suc n) st" and e: "e \<in> set (co_files c)"
  shows "eval_inv c tm n (eval_file tm e st)"
proof -
  obtain pid records where ee: "e = (pid, records)" by force
  let ?c = "fst st"
  have w: "windows ?c = windows c" using inv by (simp add: eval_inv_def)
  show ?thesis
  proof (cases "sensitive_files tm records \<noteq> [] \<and> recent_connects ?c tm WINDOW_CRED_NS pid \<noteq> []")
    case True
    have "\<exists>f \<in> set records. sat_sub tm (fr_timestamp f) < WINDOW_CRED_NS \<and>
        (str_contains (fr_path f) ''/etc/shadow'' \<or> str_contains (fr_path f) ''.ssh/id_'')"
      using True by (auto simp: sensitive_files_def filter_empty_conv)
    moreover have "(pid, records) \<in> set (co_files ?c)" using e ee w by (simp add: windows_def)
    ultimately have "cred_evidence ?c tm pid"
      using True recent_connects_fresh [of ?c tm WINDOW_CRED_NS pid] unfolding cred_evidence_def by blast
    then have "justified ?c tm (cred_alert i tm pid fs)" for i fs
      by (simp add: justified_def cred_alert_def)
    then show ?thesis
      using True raise_inv [OF inv] justified_windows [OF w] by (simp add: eval_file_def ee Let_def)
  next
    case False
    then have "eval_file tm e st = st" by (auto simp: eval_file_def ee Let_def)
    then show ?thesis using eval_inv_weaken [OF inv] by simp
  qed
qed

lemma fold_inv:
  assumes step: "\<And>n st e. eval_inv c tm (Suc n) st \<Longrightarrow> e \<in> E \<Longrightarrow> eval_inv c tm n (f e st)"
  shows "set es \<subseteq> E \<Longrightarrow> eval_inv c tm (length es + n) st \<Longrightarrow> eval_inv c tm n (fold f es st)"
proof (induction es arbitrary: st)
  case (Cons e es)
  then have "eval_inv c tm (length es + n) (f e st)" by (intro step) simp_all
  with Cons show ?case by simp
qed simp

text \<open>
  Claim C22. An evaluation reports only justified alerts: a process chain needs a connection of the root
  and an execution by a child, both within ten seconds; a credential alert needs a sensitive file access
  and a connection within five seconds. Each chain is reported once per evaluation, and the windows are
  left as they were (for fewer than 8192 marks).
\<close>

theorem corr_eval_sound:
  assumes "length (last_emit c) + length (co_execs c) + length (co_files c) \<le> 8192"
  shows "case corr_eval tm c of (alerts, c') \<Rightarrow>
     list_all (justified c tm) alerts \<and> distinct (map chain_key alerts) \<and> windows c' = windows c"
proof -
  let ?n = "length (co_files c)"
  have "eval_inv c tm (length (co_execs c) + ?n) (c, [])"
    using assms by (simp add: eval_inv_def)
  then have "eval_inv c tm ?n (fold (eval_exec tm) (co_execs c) (c, []))"
    by (intro fold_inv [where E = "set (co_execs c)"]) (auto intro: eval_exec_inv)
  then have "eval_inv c tm (length (co_files c) + 0) (fold (eval_exec tm) (co_execs c) (c, []))" by simp
  then have "eval_inv c tm 0 (fold (eval_file tm) (co_files c) (fold (eval_exec tm) (co_execs c) (c, [])))"
    by (intro fold_inv [where E = "set (co_files c)"]) (auto intro: eval_file_inv)
  then show ?thesis by (simp add: corr_eval_def eval_inv_def Let_def)
qed

definition corr_new :: corr where
  "corr_new = \<lparr>co_execs = [], co_connects = [], co_files = [], proc_tree = Map.empty, co_alerts = [],
     last_emit = [], next_id = 1\<rparr>"

theorem corr_eval_sound_witness:
  "(let c = push_connect 5 5 7 1 443 (push_file 5 5 7 ''/etc/shadow'' corr_new) in
     list_all (justified c 6) (fst (corr_eval 6 c)) \<and> map ca_pattern_id (fst (corr_eval 6 c)) = [1003])"
proof -
  let ?c = "push_connect 5 5 7 1 443 (push_file 5 5 7 ''/etc/shadow'' corr_new)"
  have "map ca_pattern_id (fst (corr_eval 6 ?c)) = [1003]" by code_simp
  moreover have "length (last_emit ?c) + length (co_execs ?c) + length (co_files ?c) \<le> 8192"
    by (simp add: push_connect_def push_file_def corr_new_def push_entry_def evict_old_def
        sat_sub_def WINDOW_NS_def)
  ultimately show ?thesis
    using corr_eval_sound [of ?c 6] by (simp add: Let_def case_prod_beta)
qed

end
