(* ===== verification/Wire.thy ===== *)
theory Wire
  imports Kernel_Net Rust_Text
begin

text \<open>
  How the daemon reads ring entries: the decoding part of the handlers of
  \<open>ring0d/src/main.rs\<close>. A handler's length guard skips short entries; a slice outside the
  entry would panic. The theorems decode the very bytes the kernel programs write (\<open>encode_event\<close>
  of the theory \<open>Abi\<close>, for any content of the padding).
\<close>

section \<open>Outcomes\<close>

datatype 'a outcome = Skip | Panic | Got 'a

definition outcome_of :: "'a option \<Rightarrow> 'a outcome" where
  "outcome_of x = (case x of Some v \<Rightarrow> Got v | None \<Rightarrow> Panic)"

lemma outcome_of_simps [simp]: "outcome_of (Some v) = Got v" "outcome_of None = Panic"
  by (simp_all add: outcome_of_def)

section \<open>Handlers of the main ring\<close>

definition decode_packet :: "bytes \<Rightarrow> (u64 \<times> u32 \<times> u32 \<times> u16 \<times> u16 \<times> u8 \<times> u32 \<times> u8) outcome" where
  "decode_packet raw =
     (if length raw < 40 then Skip
      else outcome_of (do {
        ts \<leftarrow> rd64 raw 8; src_ip \<leftarrow> rd32 raw 16; dst_ip \<leftarrow> rd32 raw 20;
        src_port \<leftarrow> rd16 raw 24; dst_port \<leftarrow> rd16 raw 26; proto \<leftarrow> rd8 raw 28;
        pid \<leftarrow> rd32 raw 32; action \<leftarrow> rd8 raw 36;
        Some (ts, src_ip, dst_ip, src_port, dst_port, proto, pid, action) }))"

text \<open>pid, parent pid, uid and the task name.\<close>

definition decode_process_exec :: "bytes \<Rightarrow> (u32 \<times> u32 \<times> u32 \<times> string) outcome" where
  "decode_process_exec raw =
     (if length raw < 44 then Skip
      else outcome_of (do {
        pid \<leftarrow> rd32 raw 16; event_ppid \<leftarrow> rd32 raw 20; uid \<leftarrow> rd32 raw 24;
        buf \<leftarrow> slice raw 28 44;
        let comm = (if 0 < (case nul_pos buf of Some i \<Rightarrow> i | None \<Rightarrow> 16)
                    then trim_end_nul (from_utf8_lossy buf) else []);
        Some (pid, event_ppid, uid, comm) }))"

text \<open>A path buffer: the text before the first zero, empty without a zero or if ill-formed.\<close>

definition c_path :: "bytes \<Rightarrow> string" where
  "c_path buf = (case nul_pos buf of
     Some n \<Rightarrow> (case from_utf8 (take n buf) of Some s \<Rightarrow> s | None \<Rightarrow> [])
   | None \<Rightarrow> [])"

definition decode_file_access :: "bytes \<Rightarrow> (u32 \<times> u32 \<times> string) outcome" where
  "decode_file_access raw =
     (if length raw < 92 then Skip
      else outcome_of (do {
        pid \<leftarrow> rd32 raw 16; uid \<leftarrow> rd32 raw 20; buf \<leftarrow> slice raw 24 88;
        Some (pid, uid, c_path buf) }))"

definition decode_connect :: "bytes \<Rightarrow> (u32 \<times> u32 \<times> u32 \<times> u16 \<times> u8) outcome" where
  "decode_connect raw =
     (if length raw < 32 then Skip
      else outcome_of (do {
        pid \<leftarrow> rd32 raw 16; uid \<leftarrow> rd32 raw 20; dip \<leftarrow> rd32 raw 24; dp \<leftarrow> rd16 raw 28; proto \<leftarrow> rd8 raw 30;
        Some (pid, uid, dip, dp, proto) }))"

definition decode_kill :: "bytes \<Rightarrow> (u32 \<times> u32 \<times> u32) outcome" where
  "decode_kill raw =
     (if length raw < 28 then Skip
      else outcome_of (do { a \<leftarrow> rd32 raw 16; t \<leftarrow> rd32 raw 20; sg \<leftarrow> rd32 raw 24; Some (a, t, sg) }))"

definition decode_unlink :: "bytes \<Rightarrow> (u32 \<times> string) outcome" where
  "decode_unlink raw =
     (if length raw < 120 then Skip
      else outcome_of (do { pid \<leftarrow> rd32 raw 16; buf \<leftarrow> slice raw 24 120; Some (pid, c_path buf) }))"

text \<open>The payload is everything behind the header, whatever \<open>len\<close> says.\<close>

definition decode_tls :: "bytes \<Rightarrow> (bytes \<times> u32 \<times> u8) outcome" where
  "decode_tls raw =
     (if length raw < 24 then Skip
      else
        let payload = (if 36 < length raw then drop 36 raw else []) in
        outcome_of (do { tpid \<leftarrow> rd32 raw 24; direction \<leftarrow> rd8 raw 28; Some (payload, tpid, direction) }))"

text \<open>The label loop over the captured name: \<open>acc\<close> is the domain so far.\<close>

function dns_labels :: "bytes \<Rightarrow> nat \<Rightarrow> string \<Rightarrow> string" where
  "dns_labels name i domain =
     (if length name \<le> i then domain
      else
        let l = unat (name ! i) in
        if l = 0 then domain
        else if l AND 0xC0 = 0xC0 \<or> length name < i + 1 + l then domain
        else dns_labels name (i + 1 + l)
               ((if domain = [] then [] else domain @ ''.'')
                @ from_utf8_lossy (take l (drop (i + 1) name))))"
  by auto
termination by (relation "measure (\<lambda>(name, i, d). length name - i)") auto

declare dns_labels.simps [simp del]

definition decode_dns :: "bytes \<Rightarrow> (u64 \<times> u16 \<times> string) outcome" where
  "decode_dns raw =
     (if length raw < SIZE_DNS then Skip
      else case do { ts \<leftarrow> rd64 raw 8; query_type \<leftarrow> rd16 raw 24;
                     name \<leftarrow> slice raw 28 (28 + (SIZE_DNS - 28)); Some (ts, query_type, name) } of
        None \<Rightarrow> Panic
      | Some (ts, query_type, name) \<Rightarrow>
          let domain = dns_labels name 0 [] in
          if domain = [] then Skip else Got (ts, query_type, domain))"

section \<open>The other rings\<close>

record lsm_fields =
  lf_event_type :: u8
  lf_denied :: u8
  lf_pid :: u32
  lf_uid :: u32
  lf_path :: string
  lf_dst_ip :: u32
  lf_dst_port :: u16

definition lossy_buf :: "bytes \<Rightarrow> string" where
  "lossy_buf buf =
     (let n = (case nul_pos buf of Some i \<Rightarrow> i | None \<Rightarrow> length buf)
      in if 0 < n then from_utf8_lossy (take n buf) else [])"

definition decode_lsm :: "bytes \<Rightarrow> lsm_fields outcome" where
  "decode_lsm raw =
     (case rd8 raw 0 of None \<Rightarrow> Panic | Some kind \<Rightarrow>
      if \<not> event_len_ok kind (length raw) then Skip
      else if length raw < 132 then Skip
      else outcome_of (do {
        event_type \<leftarrow> rd8 raw 24; denied \<leftarrow> rd8 raw 25; pid \<leftarrow> rd32 raw 16; uid \<leftarrow> rd32 raw 20;
        buf \<leftarrow> slice raw 26 122; dst_ip \<leftarrow> rd32 raw 124; dst_port \<leftarrow> rd16 raw 128;
        Some \<lparr>lf_event_type = event_type, lf_denied = denied, lf_pid = pid, lf_uid = uid,
              lf_path = lossy_buf buf, lf_dst_ip = dst_ip, lf_dst_port = dst_port\<rparr> }))"

datatype privesc_in = PSetuid u32 u32 u32 | PPtrace u32 u32 u32 | PCap u32 u32 u32

definition decode_privesc :: "bytes \<Rightarrow> privesc_in outcome" where
  "decode_privesc raw =
     (case rd8 raw 0 of None \<Rightarrow> Panic | Some kind \<Rightarrow>
      if \<not> event_len_ok kind (length raw) then Skip
      else case do { pid \<leftarrow> rd32 raw 16; uid \<leftarrow> rd32 raw 20; Some (pid, uid) } of
        None \<Rightarrow> Panic
      | Some (pid, uid) \<Rightarrow>
          if kind = KIND_SETUID then outcome_of (map_option (PSetuid pid uid) (rd32 raw 24))
          else if kind = KIND_PTRACE then outcome_of (map_option (PPtrace pid uid) (rd32 raw 28))
          else if kind = KIND_CAP then outcome_of (map_option (PCap pid uid) (rd32 raw 24))
          else Skip)"

datatype rootkit_in = RMmap u32 u32 u32 u64 | RModule u32 string u32 | RMemfd u32 string u32

definition decode_rootkit :: "bytes \<Rightarrow> rootkit_in outcome" where
  "decode_rootkit raw =
     (case rd8 raw 0 of None \<Rightarrow> Panic | Some kind \<Rightarrow>
      if \<not> event_len_ok kind (length raw) then Skip
      else if length raw < 60 then Skip
      else case do { pid \<leftarrow> rd32 raw 16; uid \<leftarrow> rd32 raw 20; Some pid } of
        None \<Rightarrow> Panic
      | Some pid \<Rightarrow>
          if kind = KIND_MMAP then
            (if length raw < 56 then Skip
             else outcome_of (do { prot \<leftarrow> rd32 raw 40; flags \<leftarrow> rd32 raw 44; len \<leftarrow> rd64 raw 32;
                                   Some (RMmap pid prot flags len) }))
          else if kind = KIND_MODULE then
            (if length raw < 92 then Skip
             else outcome_of (do { buf \<leftarrow> slice raw 24 88; flags \<leftarrow> rd32 raw 88;
                                   Some (RModule pid (lossy_buf buf) flags) }))
          else if kind = KIND_MEMFD then
            outcome_of (do { buf \<leftarrow> slice raw 28 60; flags \<leftarrow> rd32 raw 24;
                             Some (RMemfd pid (lossy_buf buf) flags) })
          else Skip)"

section \<open>Text in fixed buffers\<close>

lemma chr_nul: "char_of (0::nat) = CHR 0x00" by (simp add: char_of_def)

lemma of_char_eq_0: "(of_char c :: u8) = 0 \<longleftrightarrow> c = CHR 0x00"
proof -
  have "(of_char c :: u8) = 0 \<longleftrightarrow> (of_char c :: nat) = 0"
    by (simp add: word_unat_eq_iff unat_of_char)
  also have "\<dots> \<longleftrightarrow> c = CHR 0x00"
    using char_of_eq_iff [of "0::nat" c] by (auto simp: chr_nul)
  finally show ?thesis .
qed

text \<open>Text as the kernel leaves it in a buffer: ASCII without a zero character.\<close>

definition c_text :: "string \<Rightarrow> bool" where
  "c_text s \<longleftrightarrow> is_ascii s \<and> CHR 0x00 \<notin> set s"

lemma ascii_no_nul: "c_text s \<Longrightarrow> 0 \<notin> set (ascii s)"
  by (auto simp: c_text_def ascii_def of_char_eq_0)

lemma nul_pos_text: "c_text s \<Longrightarrow> nul_pos (ascii s @ 0 # z) = Some (length s)"
  using ascii_no_nul [of s]
  by (subst nul_pos_def, subst takeWhile_append2) (auto intro: ccontr)

lemma nul_pos_full: "c_text s \<Longrightarrow> nul_pos (ascii s) = None"
  using ascii_no_nul [of s] by (simp add: nul_pos_def)

lemma lossy_zeros: "from_utf8_lossy (replicate n 0) = replicate n (CHR 0x00)"
  by (induction n) (simp_all add: lossy_small chr8_def chr_nul)

lemma trim_end_nul_text: "CHR 0x00 \<notin> set s \<Longrightarrow> trim_end_nul (s @ replicate n (CHR 0x00)) = s"
  by (cases s rule: rev_cases) (auto simp: trim_end_nul_def dropWhile_append)

text \<open>A text in an array of \<open>n\<close> bytes, filled up with zeros.\<close>

definition c_buf :: "nat \<Rightarrow> string \<Rightarrow> bytes" where
  "c_buf n s = ascii s @ replicate (n - length s) 0"

lemma length_c_buf [simp]: "length s \<le> n \<Longrightarrow> length (c_buf n s) = n"
  by (simp add: c_buf_def)

lemma nul_pos_c_buf: "c_text s \<Longrightarrow> length s < n \<Longrightarrow> nul_pos (c_buf n s) = Some (length s)"
  by (cases "n - length s") (simp_all add: c_buf_def nul_pos_text)

lemma c_path_c_buf [simp]: "c_text s \<Longrightarrow> length s < n \<Longrightarrow> c_path (c_buf n s) = s"
  by (simp add: c_path_def nul_pos_c_buf) (simp add: c_buf_def c_text_def)

lemma lossy_buf_c_buf [simp]: "c_text s \<Longrightarrow> length s \<le> n \<Longrightarrow> lossy_buf (c_buf n s) = s"
proof (cases "length s = n")
  case True
  assume "c_text s"
  then show ?thesis
    using True by (simp add: lossy_buf_def c_buf_def nul_pos_full) (auto simp: c_text_def)
next
  case False
  assume "c_text s" "length s \<le> n"
  then show ?thesis
    using False by (simp add: lossy_buf_def nul_pos_c_buf Let_def) (simp add: c_buf_def c_text_def)
qed

lemma comm_c_buf:
  assumes "c_text s" "length s \<le> n" "0 < n"
  shows "(if 0 < (case nul_pos (c_buf n s) of Some i \<Rightarrow> i | None \<Rightarrow> n)
          then trim_end_nul (from_utf8_lossy (c_buf n s)) else []) = s"
proof -
  have full: "from_utf8_lossy (c_buf n s) = s @ replicate (n - length s) (CHR 0x00)"
    using assms by (simp add: c_buf_def c_text_def lossy_ascii_append lossy_zeros)
  have text_eq: "trim_end_nul (from_utf8_lossy (c_buf n s)) = s"
    unfolding full using assms by (simp add: c_text_def trim_end_nul_text)
  have "0 < (case nul_pos (c_buf n s) of Some i \<Rightarrow> i | None \<Rightarrow> n) \<longleftrightarrow> s \<noteq> []"
    using assms nul_pos_c_buf [of s n] nul_pos_full [of s]
    by (cases "length s = n") (auto simp: c_buf_def)
  then show ?thesis using text_eq by auto
qed

section \<open>Decoding what the kernel wrote\<close>

lemmas decode_simps = enc_simps rd_defs nth_append event_len_ok_def event_size_def
  EVENT_SIZE_eval abi_consts

lemma packet_rt:
  "decode_packet (encode_event pad (PacketEvent ts si di sp dp pr pid act)) = Got (ts, si, di, sp, dp, pr, pid, act)"
  by (simp add: decode_packet_def decode_simps Let_def)

lemma connect_rt:
  "decode_connect (encode_event pad (ConnectEvent ts pid uid di dp pr)) = Got (pid, uid, di, dp, pr)"
  by (simp add: decode_connect_def decode_simps Let_def)

lemma kill_rt:
  "decode_kill (encode_event pad (KillEvent ts a t sg)) = Got (a, t, sg)"
  by (simp add: decode_kill_def decode_simps Let_def)

lemma exec_rt:
  "length comm = 16 \<Longrightarrow> decode_process_exec (encode_event pad (ProcessExecEvent ts pid ppid uid comm)) = Got (pid, ppid, uid, if (case nul_pos comm of Some i \<Rightarrow> i | None \<Rightarrow> 16) > 0 then trim_end_nul (from_utf8_lossy comm) else [])"
  by (simp add: decode_process_exec_def decode_simps Let_def)

lemma fa_rt:
  "length fn = 64 \<Longrightarrow> decode_file_access (encode_event pad (FileAccessEvent ts pid uid fn fl)) = Got (pid, uid, c_path fn)"
  by (simp add: decode_file_access_def decode_simps Let_def)

lemma un_rt:
  "length fn = 96 \<Longrightarrow> decode_unlink (encode_event pad (UnlinkEvent ts pid uid fn)) = Got (pid, c_path fn)"
  by (simp add: decode_unlink_def decode_simps Let_def)

lemma lsm_rt:
  "length path = 96 \<Longrightarrow> decode_lsm (encode_event pad (LsmEvent ts pid uid et den path di dp)) =
  Got \<lparr>lf_event_type = et, lf_denied = den, lf_pid = pid, lf_uid = uid, lf_path = lossy_buf path, lf_dst_ip = di, lf_dst_port = dp\<rparr>"
  by (simp add: decode_lsm_def decode_simps Let_def)

lemma setuid_rt:
  "decode_privesc (encode_event pad (SetuidEvent ts pid ou nu)) = Got (PSetuid pid ou nu)"
  by (simp add: decode_privesc_def decode_simps Let_def)

lemma cap_rt:
  "decode_privesc (encode_event pad (CapEvent KIND_CAP ts pid uid c t)) = Got (PCap pid uid c)"
  by (simp add: decode_privesc_def decode_simps Let_def)

lemma ptrace_rt:
  "decode_privesc (encode_event pad (CapEvent KIND_PTRACE ts pid uid c t)) = Got (PPtrace pid uid t)"
  by (simp add: decode_privesc_def decode_simps Let_def)

lemma memfd_rt:
  "length name = 32 \<Longrightarrow> decode_rootkit (encode_event pad (MemfdEvent ts pid uid fl name)) = Got (RMemfd pid (lossy_buf name) fl)"
  by (simp add: decode_rootkit_def decode_simps Let_def)

lemma module_rt:
  "length name = 64 \<Longrightarrow> decode_rootkit (encode_event pad (ModuleEvent ts pid uid name fl)) = Got (RModule pid (lossy_buf name) fl)"
  by (simp add: decode_rootkit_def decode_simps Let_def)

lemma mmap_rt:
  "decode_rootkit (encode_event pad (MmapEvent ts pid uid addr len prot fl fd)) = Skip"
  by (simp add: decode_rootkit_def decode_simps Let_def)

lemma tls_rt:
  "length buf = 256 \<Longrightarrow> decode_tls (encode_event pad (TlsEvent ts flow pid dir len buf)) = Got (buf @ [pad 292, pad 293, pad 294, pad 295], pid, dir)"
  by (simp add: decode_tls_def decode_simps Let_def)

section \<open>Properties\<close>



text \<open>
  The LSM, privilege and memfd/module rings are decoded to the fields stored by the
  kernel hooks (a ptrace entry yields the target, a capability entry the capability), but every
  memory-mapping event is discarded: its 56 bytes are below the 60 the handler demands first.
\<close>

theorem detection_rings_decoded:
  assumes "c_text path" "length path \<le> 96" "c_text name" "length name \<le> 64" "c_text mfd" "length mfd \<le> 32"
  shows "decode_lsm (encode_event pad (LsmEvent ts pid uid et den (c_buf 96 path) di dp))
      = Got \<lparr>lf_event_type = et, lf_denied = den, lf_pid = pid, lf_uid = uid, lf_path = path,
             lf_dst_ip = di, lf_dst_port = dp\<rparr>
    \<and> decode_privesc (encode_event pad (SetuidEvent ts pid uid nu)) = Got (PSetuid pid uid nu)
    \<and> decode_privesc (encode_event pad (CapEvent KIND_CAP ts pid uid c t)) = Got (PCap pid uid c)
    \<and> decode_privesc (encode_event pad (CapEvent KIND_PTRACE ts pid uid c t)) = Got (PPtrace pid uid t)
    \<and> decode_rootkit (encode_event pad (MemfdEvent ts pid uid fl (c_buf 32 mfd))) = Got (RMemfd pid mfd fl)
    \<and> decode_rootkit (encode_event pad (ModuleEvent ts pid uid (c_buf 64 name) fl)) = Got (RModule pid name fl)
    \<and> decode_rootkit (encode_event pad (MmapEvent ts pid uid addr len prot fl fd)) = Skip"
  using assms
  by (simp add: lsm_rt setuid_rt cap_rt ptrace_rt memfd_rt module_rt mmap_rt)

theorem detection_rings_decoded_witness:
  "decode_rootkit (encode_event (\<lambda>i. 0) (MmapEvent 1 4242 0 0x7f0000000000 4096 6 0x22 0)) = Skip"
  using detection_rings_decoded [of "''/usr/bin/nc''" "''rootkit.ko''" "''x''" "\<lambda>i. 0" 1 4242 0]
  by (simp add: c_text_def is_ascii_def)

section \<open>DNS names\<close>

text \<open>The question name of a query: length-prefixed labels; the root label ends it.\<close>

definition dns_wire :: "string list \<Rightarrow> bytes" where
  "dns_wire labels = concat (map (\<lambda>l. of_nat (length l) # ascii l) labels)"

definition dns_label :: "string \<Rightarrow> bool" where
  "dns_label l \<longleftrightarrow> c_text l \<and> l \<noteq> [] \<and> length l < 64"

lemma length_byte: "dns_label l \<Longrightarrow> unat (of_nat (length l) :: u8) = length l"
  by (simp add: dns_label_def unat_of_nat)

lemma and_C0_le: "b AND 0xC0 = 0xC0 \<Longrightarrow> (0xC0::u8) \<le> b"
  by (metis word_and_le2)

lemma dns_wire_byte:
  assumes "list_all dns_label labels" "b \<in> set (dns_wire labels)"
  shows "b \<noteq> 0 \<and> b < 0x80"
proof -
  obtain l where l: "dns_label l" "b = of_nat (length l) \<or> b \<in> set (ascii l)"
    using assms by (auto simp: dns_wire_def list_all_iff)
  from l(2) show ?thesis
  proof
    assume b: "b = of_nat (length l)"
    have "0 < unat b" "unat b < 64" using l(1) length_byte [of l] by (simp_all add: b dns_label_def)
    then show ?thesis by (auto simp: word_less_nat_alt)
  next
    assume "b \<in> set (ascii l)"
    then show ?thesis
      using l(1) ascii_small [of l b] ascii_no_nul [of l] by (auto simp: dns_label_def c_text_def)
  qed
qed

lemma qname_walk_stops:
  "\<forall>b \<in> set w. b \<noteq> 0 \<and> b < 0x80 \<Longrightarrow> length w < n \<Longrightarrow> qname_walk n (w @ 0 # z) = w"
proof (induction w arbitrary: n)
  case (Cons b w)
  have "b AND 0xC0 \<noteq> 0xC0" using Cons.prems(1) and_C0_le [of b] by (auto simp: word_le_nat_alt word_less_nat_alt)
  then show ?case using Cons by (cases n) auto
next
  case Nil then show ?case by (cases n) auto
qed

lemma label_AND: "dns_label l \<Longrightarrow> length l AND 0xC0 \<noteq> 0xC0"
proof
  assume l: "dns_label l" and eq: "length l AND 0xC0 = 0xC0"
  have "length l AND 0xC0 \<le> length l" by (simp add: and_nat_def nat_le_iff)
  with eq l show False by (simp add: dns_label_def)
qed

lemma dns_labels_step:
  assumes "dns_label l"
  shows "dns_labels (pre @ of_nat (length l) # ascii l @ z) (length pre) dm
       = dns_labels ((pre @ of_nat (length l) # ascii l) @ z) (length (pre @ of_nat (length l) # ascii l))
           ((if dm = [] then [] else dm @ ''.'') @ l)"
proof -
  have "is_ascii l" "l \<noteq> []" using assms by (simp_all add: dns_label_def c_text_def)
  then show ?thesis
    using length_byte [OF assms] label_AND [OF assms] by (subst dns_labels.simps) (simp add: Let_def)
qed

lemma dns_labels_wire:
  "list_all dns_label labels \<Longrightarrow> dm \<noteq> [] \<Longrightarrow>
   dns_labels (pre @ dns_wire labels @ 0 # z) (length pre) dm = join_with ''.'' (dm # labels)"
proof (induction labels arbitrary: pre dm)
  case Nil
  then show ?case by (subst dns_labels.simps) (simp add: dns_wire_def Let_def)
next
  case (Cons l ls)
  have "dns_labels (pre @ dns_wire (l # ls) @ 0 # z) (length pre) dm
      = dns_labels ((pre @ of_nat (length l) # ascii l) @ dns_wire ls @ 0 # z)
          (length (pre @ of_nat (length l) # ascii l)) (dm @ ''.'' @ l)"
    using dns_labels_step [of l pre "dns_wire ls @ 0 # z" dm] Cons.prems by (simp add: dns_wire_def)
  also have "\<dots> = join_with ''.'' ((dm @ ''.'' @ l) # ls)"
    by (rule Cons.IH) (use Cons.prems in auto)
  finally show ?case by (cases ls) simp_all
qed

lemma dns_labels_name:
  assumes "list_all dns_label labels" "labels \<noteq> []"
  shows "dns_labels (dns_wire labels @ 0 # z) 0 [] = join_with ''.'' labels"
proof -
  obtain l ls where l: "labels = l # ls" using assms(2) by (cases labels) auto
  have ne: "l \<noteq> []" using assms(1) l by (simp add: dns_label_def)
  show ?thesis
    using dns_labels_step [of l "[]" "dns_wire ls @ 0 # z" "[]"] assms(1) ne
      dns_labels_wire [of ls l "of_nat (length l) # ascii l" z]
    by (simp add: l dns_wire_def)
qed

lemma le16_low: "le16 (byte_of 0 x) (byte_of (Suc 0) x) = ucast (x :: u32)"
  by (rule bit_word_eqI) (auto simp: bit_le16 bit_byte_of bit_simps)

text \<open>The handler reads the query type at offset 24, where the struct has \<open>dga_score\<close>.\<close>

lemma dns_rt:
  "length name = 96 \<Longrightarrow>
   decode_dns (encode_event pad (DnsQueryEvent ts pid qt dga name)) =
   (let d = dns_labels (name @ [pad 124, pad 125, pad 126, pad 127]) 0 [] in
    if d = [] then Skip else Got (ts, ucast dga, d))"
  by (simp add: decode_dns_def decode_simps Let_def le16_low)


end
