(* ===== verification/Rust_Ip.thy ===== *)
theory Rust_Ip
  imports Rust_Text
begin

text \<open>
  Hexadecimal numbers and \<open>Ipv6Addr::from_str\<close> of the Rust standard library, as the daemon uses
  them: digits with \<open>format!("{:08X}")\<close>, \<open>from_str_radix(_, 16)\<close>, and the group grammar of IPv6
  with \<open>::\<close> and an embedded IPv4 tail.
\<close>

section \<open>Hexadecimal\<close>

definition hex_digit :: "nat \<Rightarrow> char" where
  "hex_digit d = (if d < 10 then char_of (48 + d) else char_of (55 + d))"

definition hex_val :: "char \<Rightarrow> nat option" where
  "hex_val c = (let n = (of_char c :: nat) in
     if 48 \<le> n \<and> n \<le> 57 then Some (n - 48)
     else if 65 \<le> n \<and> n \<le> 70 then Some (n - 55)
     else if 97 \<le> n \<and> n \<le> 102 then Some (n - 87) else None)"

text \<open>\<open>w\<close> upper-case digits, most significant first.\<close>

fun show_hex :: "nat \<Rightarrow> nat \<Rightarrow> string" where
  "show_hex 0 n = []"
| "show_hex (Suc w) n = show_hex w (n div 16) @ [hex_digit (n mod 16)]"

fun hex_acc :: "nat \<Rightarrow> string \<Rightarrow> nat option" where
  "hex_acc a [] = Some a"
| "hex_acc a (c # s) = (case hex_val c of Some d \<Rightarrow> hex_acc (16 * a + d) s | None \<Rightarrow> None)"

text \<open>\<open>from_str_radix(s, 16)\<close> for an unsigned type with maximum \<open>m\<close>.\<close>

definition parse_hex :: "nat \<Rightarrow> string \<Rightarrow> nat option" where
  "parse_hex m s = (let d = strip_plus s in
     if d = [] then None
     else case hex_acc 0 d of Some v \<Rightarrow> (if v \<le> m then Some v else None) | None \<Rightarrow> None)"

lemma hex_val_digit [simp]: "d < 16 \<Longrightarrow> hex_val (hex_digit d) = Some d"
  by (auto simp: hex_val_def hex_digit_def)

lemma hex_digit_code: "d < 16 \<Longrightarrow> (of_char (hex_digit d) :: nat) = (if d < 10 then 48 + d else 55 + d)"
  by (simp add: hex_digit_def)

lemma hex_digit_plain: "d < 16 \<Longrightarrow> \<not> is_ws (hex_digit d) \<and> hex_digit d \<noteq> CHR '':'' \<and> hex_digit d \<noteq> CHR ''+''"
  using hex_digit_code [of d] by (auto simp: is_ws_def Let_def split: if_splits)

lemma show_hex_length [simp]: "length (show_hex w n) = w"
  by (induction w arbitrary: n) auto

lemma show_hex_chars: "c \<in> set (show_hex w n) \<Longrightarrow> \<not> is_ws c \<and> c \<noteq> CHR '':'' \<and> c \<noteq> CHR ''+''"
  by (induction w arbitrary: n) (auto simp: hex_digit_plain)

lemma hex_acc_snoc: "hex_acc a (s @ [c]) = (case hex_acc a s of Some v \<Rightarrow> (case hex_val c of
     Some d \<Rightarrow> Some (16 * v + d) | None \<Rightarrow> None) | None \<Rightarrow> None)"
  by (induction s arbitrary: a) (auto split: option.split)

lemma hex_acc_show: "n < 16 ^ w \<Longrightarrow> hex_acc 0 (show_hex w n) = Some n"
  by (induction w arbitrary: n) (auto simp: hex_acc_snoc less_mult_imp_div_less mult.commute)

lemma show_hex_inj: "m < 16 ^ w \<Longrightarrow> n < 16 ^ w \<Longrightarrow> show_hex w m = show_hex w n \<longleftrightarrow> m = n"
  by (metis hex_acc_show option.inject)

lemma parse_hex_show:
  assumes "n < 16 ^ w" "0 < w" "n \<le> m"
  shows "parse_hex m (show_hex w n) = Some n"
proof -
  have "strip_plus (show_hex w n) = show_hex w n"
    using show_hex_chars [of "hd (show_hex w n)" w n] by (cases "show_hex w n") (auto simp: strip_plus_def)
  moreover have "show_hex w n \<noteq> []" using assms(2) by (metis length_0_conv less_numeral_extra(3) show_hex_length)
  ultimately show ?thesis using assms by (simp add: parse_hex_def hex_acc_show)
qed

section \<open>IPv6 text\<close>

fun take_digits :: "(char \<Rightarrow> nat option) \<Rightarrow> string \<Rightarrow> nat list \<times> string" where
  "take_digits dig [] = ([], [])"
| "take_digits dig (c # s) = (case dig c of
     Some d \<Rightarrow> (case take_digits dig s of (ds, r) \<Rightarrow> (d # ds, r))
   | None \<Rightarrow> ([], c # s))"

definition read_number :: "nat \<Rightarrow> (char \<Rightarrow> nat option) \<Rightarrow> nat \<Rightarrow> bool \<Rightarrow> nat \<Rightarrow> string \<Rightarrow> (nat \<times> string) option" where
  "read_number radix dig maxd zero_ok limit s =
     (case take_digits dig s of (ds, r) \<Rightarrow>
       let v = foldl (\<lambda>a d. radix * a + d) 0 ds in
       if ds = [] \<or> maxd < length ds \<or> limit < v \<or> (\<not> zero_ok \<and> hd ds = 0 \<and> 1 < length ds) then None
       else Some (v, r))"

definition dec_val :: "char \<Rightarrow> nat option" where
  "dec_val c = (if is_digit c then Some (digit_val c) else None)"

definition read_sep :: "char \<Rightarrow> nat \<Rightarrow> (string \<Rightarrow> 'a option) \<Rightarrow> string \<Rightarrow> 'a option" where
  "read_sep c i p s = (if i = 0 then p s
     else case s of c' # s' \<Rightarrow> (if c' = c then p s' else None) | [] \<Rightarrow> None)"

fun read_octets :: "nat \<Rightarrow> nat \<Rightarrow> string \<Rightarrow> (nat list \<times> string) option" where
  "read_octets i 0 s = Some ([], s)"
| "read_octets i (Suc n) s = (case read_sep CHR ''.'' i (read_number 10 dec_val 3 False 255) s of
     Some (v, r) \<Rightarrow> (case read_octets (Suc i) n r of Some (vs, r') \<Rightarrow> Some (v # vs, r') | None \<Rightarrow> None)
   | None \<Rightarrow> None)"

fun read_groups :: "nat \<Rightarrow> nat \<Rightarrow> string \<Rightarrow> u16 list \<times> bool \<times> string" where
  "read_groups i 0 s = ([], False, s)"
| "read_groups i (Suc n) s =
     (case (if 0 < n then read_sep CHR '':'' i (read_octets 0 4) s else None) of
        Some ([a, b, c, d], r) \<Rightarrow> ([of_nat (256 * a + b), of_nat (256 * c + d)], True, r)
      | _ \<Rightarrow>
        (case read_sep CHR '':'' i (read_number 16 hex_val 4 True 65535) s of
           Some (g, r) \<Rightarrow> (case read_groups (Suc i) n r of (gs, v4, r') \<Rightarrow> (of_nat g # gs, v4, r'))
         | None \<Rightarrow> ([], False, s)))"

definition parse_ipv6 :: "string \<Rightarrow> u16 list option" where
  "parse_ipv6 s = (case read_groups 0 8 s of (front, v4, r) \<Rightarrow>
     if length front = 8 then (if r = [] then Some front else None)
     else if v4 then None
     else case r of
       c # c' # r' \<Rightarrow>
         if c = CHR '':'' \<and> c' = CHR '':'' then
           (case read_groups 0 (7 - length front) r' of (back, _, r'') \<Rightarrow>
              if r'' = [] then Some (front @ replicate (8 - length front - length back) 0 @ back) else None)
         else None
     | _ \<Rightarrow> None)"

end
