(* ===== verification/Ipc.thy ===== *)
theory Ipc
  imports Ebpf_Manager Rust_Ip
begin

text \<open>
  The command interface, \<open>ring0d/src/ipc.rs\<close> and \<open>polkit.rs\<close>: the frames on the control
  socket, the commands they carry, and the gate in front of the daemon's main loop. The Cap'n Proto
  decoder (a generated reader) is a parameter \<open>decode\<close> that yields the union variant of a frame;
  the verdict of polkitd arrives with the event that ends an authorization task.
\<close>

section \<open>Commands\<close>

datatype daemon_cmd =
    BlockIp ip_addr
  | UnblockIp ip_addr
  | KillProcess u32
  | ReloadFilters
  | Shutdown
  | QueryLogs u64 u64 u8 u32
  | ReloadRules
  | Quarantine u32
  | RunRootkitScan
  | SyncIntelFeeds
  | MarkFlowAllowed u32 u16 u8 u32
  | SubmitPromptDecision u64 string string u32
  | FlatpakList
  | PowerStatus
  | UpdateSettings string
  | RunDoctor
  | Status
  | BlockPort u16
  | UnblockPort u16
  | ListProcesses
  | ListSockets

fun is_privileged_command :: "daemon_cmd \<Rightarrow> bool" where
  "is_privileged_command (BlockIp _) = True"
| "is_privileged_command (UnblockIp _) = True"
| "is_privileged_command (KillProcess _) = True"
| "is_privileged_command (BlockPort _) = True"
| "is_privileged_command (UnblockPort _) = True"
| "is_privileged_command ReloadRules = True"
| "is_privileged_command (Quarantine _) = True"
| "is_privileged_command RunRootkitScan = True"
| "is_privileged_command SyncIntelFeeds = True"
| "is_privileged_command Shutdown = True"
| "is_privileged_command _ = False"

text \<open>
  A text field of a message: the pointer may be malformed, the bytes may not be UTF-8. The
  variants of the union \<open>DaemonCommand\<close> follow.
\<close>

datatype text_field = TextError | BadUtf8 | Text string

datatype wire_cmd =
    WBlockIp text_field | WUnblockIp text_field | WKillProcess u32 | WReloadFilters | WShutdown
  | WQueryLogs "(u64 \<times> u64 \<times> u8 \<times> u32) option" | WReloadRules | WQuarantine u32
  | WRunRootkitScan | WSyncIntelFeeds | WSubmitPromptDecision "(u64 \<times> text_field \<times> text_field) option"
  | WFlatpakList | WPowerStatus | WUpdateSettings text_field | WRunDoctor | WStatus
  | WBlockPort u32 | WUnblockPort u32 | WListProcesses | WListSockets

text \<open>\<open>str::parse::<IpAddr>\<close>.\<close>

definition parse_ip :: "string \<Rightarrow> ip_addr option" where
  "parse_ip s = (case parse_ipv4 s of
     Some a \<Rightarrow> Some (V4 a)
   | None \<Rightarrow> map_option (\<lambda>gs. V6 (concat (map (rev \<circ> bytes16) gs))) (parse_ipv6 s))"

definition ip_field :: "text_field \<Rightarrow> ip_addr option" where
  "ip_field t = (case t of Text s \<Rightarrow> parse_ip s | _ \<Rightarrow> None)"

text \<open>A pointer error is an error, bad UTF-8 the empty text.\<close>

definition lenient_field :: "text_field \<Rightarrow> string option" where
  "lenient_field t = (case t of TextError \<Rightarrow> None | BadUtf8 \<Rightarrow> Some [] | Text s \<Rightarrow> Some s)"

definition MAX_LOG_LIMIT :: u32 where "MAX_LOG_LIMIT = 1000"

fun parse_command :: "u32 \<Rightarrow> wire_cmd \<Rightarrow> daemon_cmd option" where
  "parse_command caller (WBlockIp t) = map_option BlockIp (ip_field t)"
| "parse_command caller (WUnblockIp t) = map_option UnblockIp (ip_field t)"
| "parse_command caller (WKillProcess pid) = Some (KillProcess pid)"
| "parse_command caller WReloadFilters = Some ReloadFilters"
| "parse_command caller WReloadRules = Some ReloadRules"
| "parse_command caller WShutdown = Some Shutdown"
| "parse_command caller WListProcesses = Some ListProcesses"
| "parse_command caller WListSockets = Some ListSockets"
| "parse_command caller (WQueryLogs q) =
     map_option (\<lambda>(start, end_ts, sev, limit). QueryLogs start end_ts sev (min limit MAX_LOG_LIMIT)) q"
| "parse_command caller (WQuarantine pid) = Some (Quarantine pid)"
| "parse_command caller WRunRootkitScan = Some RunRootkitScan"
| "parse_command caller WSyncIntelFeeds = Some SyncIntelFeeds"
| "parse_command caller (WSubmitPromptDecision d) = do {
     (pid, act, sc) \<leftarrow> d; a \<leftarrow> lenient_field act; s \<leftarrow> lenient_field sc;
     Some (SubmitPromptDecision pid a s caller) }"
| "parse_command caller WFlatpakList = Some FlatpakList"
| "parse_command caller WPowerStatus = Some PowerStatus"
| "parse_command caller (WUpdateSettings t) = map_option UpdateSettings (lenient_field t)"
| "parse_command caller WRunDoctor = Some RunDoctor"
| "parse_command caller WStatus = Some Status"
| "parse_command caller (WBlockPort p) = Some (BlockPort (ucast p))"
| "parse_command caller (WUnblockPort p) = Some (UnblockPort (ucast p))"

definition parse_command_frame :: "(bytes \<Rightarrow> wire_cmd option) \<Rightarrow> bytes \<Rightarrow> u32 \<Rightarrow> daemon_cmd option" where
  "parse_command_frame decode frame caller = Option.bind (decode frame) (parse_command caller)"

section \<open>Framing\<close>

text \<open>The writer's frame and the read loop: a bad length or a short read ends the connection.\<close>

definition write_frame :: "bytes \<Rightarrow> bytes" where
  "write_frame msg = bytes32 (of_nat (length msg)) @ msg"

function read_frames :: "bytes \<Rightarrow> bytes list" where
  "read_frames s =
     (case rd32 s 0 of
        None \<Rightarrow> []
      | Some w \<Rightarrow>
          let len = unat w in
          if len = 0 \<or> 65536 < len then []
          else case slice s 4 (4 + len) of
            None \<Rightarrow> []
          | Some msg \<Rightarrow> msg # read_frames (drop (4 + len) s))"
  by auto
termination by (relation "measure length") (auto simp: rd32_def split: if_splits)

declare read_frames.simps [simp del]

section \<open>Peers\<close>

record ucred =
  cr_pid :: u32
  cr_uid :: u32
  cr_gid :: u32

text \<open>The \<open>Groups:\<close> line of \<open>/proc/<pid>/status\<close>; words that are no u32 are dropped.\<close>

definition process_groups :: "string option \<Rightarrow> u32 list option" where
  "process_groups status = Option.bind status (\<lambda>s.
     map_option (\<lambda>rest. map of_nat (List.map_filter parse_u32 (split_whitespace rest)))
       (Option.bind (find (\<lambda>l. strip_prefix ''Groups:'' l \<noteq> None) (text_lines s)) (strip_prefix ''Groups:'')))"

text \<open>\<open>ring0_gid\<close> is the group id of the \<open>ring0\<close> group, if there is one.\<close>

definition peer_is_privileged :: "u32 option \<Rightarrow> string option \<Rightarrow> ucred \<Rightarrow> bool" where
  "peer_is_privileged ring0_gid status cred =
     (if cr_uid cred = 0 then True
      else case ring0_gid of
        Some g \<Rightarrow>
          (if cr_gid cred = g then True
           else case process_groups status of Some gs \<Rightarrow> g \<in> set gs | None \<Rightarrow> False)
      | None \<Rightarrow> False)"

section \<open>Authorization\<close>

type_synonym auth_cache = "(u32 \<times> u32) \<rightharpoonup> nat"

definition CACHE_TTL :: nat where "CACHE_TTL = 30000000000"

text \<open>
  \<open>check_authorization\<close> when it looks at the cache at time \<open>tnow\<close> (nanoseconds); \<open>ok\<close> is
  the verdict of polkitd and \<open>at\<close> the time it is stored, should it be asked.
\<close>

definition check_authorization :: "nat \<Rightarrow> bool \<Rightarrow> nat \<Rightarrow> u32 \<times> u32 \<Rightarrow> auth_cache \<Rightarrow> bool \<times> auth_cache" where
  "check_authorization tnow ok at key cache =
     (if (case cache key of Some t \<Rightarrow> tnow - t < CACHE_TTL | None \<Rightarrow> False) then (True, cache)
      else if ok then (True, cache(key \<mapsto> at)) else (False, cache))"

section \<open>The connection handler\<close>

datatype reply = AckOk | AckDenied | Alerts u8 nat | ProcessList | SocketList

record ipc_state =
  to_main :: "(ucred \<times> daemon_cmd) list"
  replies :: "(ucred \<times> reply) list"
  asking :: "(ucred \<times> daemon_cmd) list"
  success_cache :: auth_cache

definition ipc_start :: ipc_state where
  "ipc_start = \<lparr>to_main = [], replies = [], asking = [], success_cache = Map.empty\<rparr>"

definition forward :: "ucred \<Rightarrow> daemon_cmd \<Rightarrow> ipc_state \<Rightarrow> ipc_state" where
  "forward cred cmd s = s\<lparr>to_main := to_main s @ [(cred, cmd)]\<rparr>"

definition answer :: "ucred \<Rightarrow> reply \<Rightarrow> ipc_state \<Rightarrow> ipc_state" where
  "answer cred r s = s\<lparr>replies := replies s @ [(cred, r)]\<rparr>"

text \<open>One command of a peer; \<open>admin\<close> is \<open>peer_is_privileged\<close>.\<close>

definition serve_command :: "bool \<Rightarrow> ucred \<Rightarrow> daemon_cmd \<Rightarrow> ipc_state \<Rightarrow> ipc_state" where
  "serve_command admin cred cmd s =
     (case cmd of
        QueryLogs _ _ sev limit \<Rightarrow> answer cred (Alerts sev (unat limit)) s
      | ListProcesses \<Rightarrow> answer cred ProcessList s
      | ListSockets \<Rightarrow> answer cred SocketList s
      | _ \<Rightarrow>
          let privileged = is_privileged_command cmd in
          if privileged \<and> \<not> admin then s\<lparr>asking := asking s @ [(cred, cmd)]\<rparr>
          else if privileged then answer cred AckOk (forward cred cmd s)
          else forward cred cmd s)"

text \<open>The end of the \<open>i\<close>-th authorization task under way.\<close>

definition finish_auth :: "nat \<Rightarrow> nat \<Rightarrow> bool \<Rightarrow> nat \<Rightarrow> ipc_state \<Rightarrow> ipc_state" where
  "finish_auth i tnow ok at s =
     (if length (asking s) \<le> i then s
      else case asking s ! i of (cred, cmd) \<Rightarrow>
        case check_authorization tnow ok at (cr_pid cred, cr_uid cred) (success_cache s) of (yes, c) \<Rightarrow>
          let s = s\<lparr>asking := take i (asking s) @ drop (Suc i) (asking s), success_cache := c\<rparr> in
          if yes then answer cred AckOk (forward cred cmd s)
          else answer cred AckDenied s)"

text \<open>A frame with the peer's credentials and its \<open>/proc\<close> status at that moment, or the end of a task.\<close>

datatype ipc_event = Frame ucred "string option" bytes | AuthDone nat nat bool nat

fun ipc_do :: "(bytes \<Rightarrow> wire_cmd option) \<Rightarrow> u32 option \<Rightarrow> ipc_event \<Rightarrow> ipc_state \<Rightarrow> ipc_state" where
  "ipc_do decode gid (Frame cred status frame) s =
     (case parse_command_frame decode frame (cr_pid cred) of
        Some cmd \<Rightarrow> serve_command (peer_is_privileged gid status cred) cred cmd s
      | None \<Rightarrow> s)"
| "ipc_do decode gid (AuthDone i tnow ok at) s = finish_auth i tnow ok at s"

definition ipc_run :: "(bytes \<Rightarrow> wire_cmd option) \<Rightarrow> u32 option \<Rightarrow> ipc_event list \<Rightarrow> ipc_state" where
  "ipc_run decode gid evs = fold (ipc_do decode gid) evs ipc_start"

section \<open>Reading frames\<close>

lemma rd32_bytes32: "rd32 (bytes32 w @ s) 0 = Some w"
  by (simp add: rd32_def bytes32_def)

lemma read_frame_Cons:
  assumes "0 < length m" "length m \<le> 65536"
  shows "read_frames (write_frame m @ s) = m # read_frames s"
proof -
  have u: "unat (of_nat (length m) :: u32) = length m" using assms by (simp add: unat_of_nat)
  show ?thesis
    using assms by (subst read_frames.simps)
      (simp add: write_frame_def rd32_bytes32 u Let_def slice_def)
qed

lemma read_frames_cases:
  "read_frames s = [] \<or> (\<exists>w m. rd32 s 0 = Some w \<and> slice s 4 (4 + unat w) = Some m \<and> 0 < unat w \<and> unat w \<le> 65536
     \<and> length m = unat w \<and> read_frames s = m # read_frames (drop (4 + unat w) s))"
proof (cases "rd32 s 0")
  case (Some w)
  then show ?thesis
    by (cases "slice s 4 (4 + unat w)"; cases "unat w = 0 \<or> 65536 < unat w")
      (auto simp: read_frames.simps [of s] Let_def slice_def split: if_splits)
qed (simp add: read_frames.simps [of s])

lemma frames_bounded: "m \<in> set (read_frames s) \<Longrightarrow> 0 < length m \<and> length m \<le> 65536"
proof (induction "length s" arbitrary: s rule: less_induct)
  case less
  from read_frames_cases [of s] less.prems obtain w :: u32 and f where f:
    "0 < unat w" "unat w \<le> 65536" "length f = unat w" "read_frames s = f # read_frames (drop (4 + unat w) s)"
    by auto
  moreover have "s \<noteq> []" using less.prems by (auto simp: read_frames.simps [of s] rd32_def)
  ultimately show ?case using less.hyps [of "drop (4 + unat w) s"] less.prems by auto
qed

lemma frames_roundtrip:
  assumes "list_all (\<lambda>m. 0 < length m \<and> length m \<le> 65536) msgs" "length rest < 4"
  shows "read_frames (concat (map write_frame msgs) @ rest) = msgs"
  using assms
proof (induction msgs)
  case Nil
  then show ?case by (subst read_frames.simps) (simp add: rd32_def)
qed (simp add: read_frame_Cons)

section \<open>The gate\<close>

text \<open>
  A peer is cleared when it was root or in the group with one of its frames, or polkitd said yes
  for its pid and uid.
\<close>

definition peer_cleared :: "ipc_event list \<Rightarrow> u32 option \<Rightarrow> auth_cache \<Rightarrow> ucred \<Rightarrow> bool" where
  "peer_cleared evs gid cache cred \<longleftrightarrow> cache (cr_pid cred, cr_uid cred) \<noteq> None \<or>
     list_ex (\<lambda>e. case e of Frame c status f \<Rightarrow> c = cred \<and> peer_is_privileged gid status c | AuthDone i t ok a \<Rightarrow> False) evs"

text \<open>No internal command, and a decision carries the pid of the peer itself.\<close>

fun caller_ok :: "ucred \<times> daemon_cmd \<Rightarrow> bool" where
  "caller_ok (cred, SubmitPromptDecision p a s c) = (c = cr_pid cred)"
| "caller_ok (cred, MarkFlowAllowed a b c d) = False"
| "caller_ok _ = True"

lemma parse_caller_ok: "parse_command (cr_pid cred) w = Some cmd \<Longrightarrow> caller_ok (cred, cmd)"
  by (cases w) (auto split: prod.splits bind_splits)

definition ipc_inv :: "ipc_event list \<Rightarrow> u32 option \<Rightarrow> ipc_state \<Rightarrow> bool" where
  "ipc_inv evs gid s \<longleftrightarrow> list_all caller_ok (to_main s) \<and> list_all caller_ok (asking s)
    \<and> list_all (\<lambda>(cred, cmd). is_privileged_command cmd) (asking s)
    \<and> list_all (\<lambda>(cred, cmd). is_privileged_command cmd \<longrightarrow> peer_cleared evs gid (success_cache s) cred) (to_main s)"

lemma peer_cleared_more:
  "peer_cleared evs gid c cred \<Longrightarrow> dom c \<subseteq> dom c' \<Longrightarrow> peer_cleared (evs @ es) gid c' cred"
  by (auto simp: peer_cleared_def dom_def)

lemma to_main_more:
  "list_all (\<lambda>(cred, cmd). is_privileged_command cmd \<longrightarrow> peer_cleared evs gid c cred) xs \<Longrightarrow>
   dom c \<subseteq> dom c' \<Longrightarrow>
   list_all (\<lambda>(cred, cmd). is_privileged_command cmd \<longrightarrow> peer_cleared (evs @ es) gid c' cred) xs"
  by (fastforce simp: list_all_iff intro: peer_cleared_more)

lemma ipc_inv_more: "ipc_inv evs gid s \<Longrightarrow> ipc_inv (evs @ es) gid s"
  using to_main_more [of evs gid "success_cache s" "to_main s"] by (auto simp: ipc_inv_def)

lemma ipc_inv_answer [simp]: "ipc_inv evs gid (answer cred r s) = ipc_inv evs gid s"
  by (simp add: ipc_inv_def answer_def)

lemma ipc_inv_forward:
  "ipc_inv evs gid s \<Longrightarrow> caller_ok (cred, cmd) \<Longrightarrow>
   (is_privileged_command cmd \<Longrightarrow> peer_cleared evs gid (success_cache s) cred) \<Longrightarrow>
   ipc_inv evs gid (forward cred cmd s)"
  by (auto simp: ipc_inv_def forward_def)

lemma ipc_inv_ask:
  "ipc_inv evs gid s \<Longrightarrow> caller_ok (cred, cmd) \<Longrightarrow> is_privileged_command cmd \<Longrightarrow>
   ipc_inv evs gid (s\<lparr>asking := asking s @ [(cred, cmd)]\<rparr>)"
  by (auto simp: ipc_inv_def)

lemma ipc_inv_serve:
  assumes "ipc_inv evs gid s" "caller_ok (cred, cmd)" "admin \<Longrightarrow> peer_cleared evs gid (success_cache s) cred"
  shows "ipc_inv evs gid (serve_command admin cred cmd s)"
proof (cases "is_privileged_command cmd")
  case True
  then show ?thesis
    using assms ipc_inv_forward [OF assms(1,2)] ipc_inv_ask [OF assms(1,2)]
    by (cases cmd) (simp_all add: serve_command_def)
next
  case False
  then show ?thesis
    using assms(1) ipc_inv_forward [OF assms(1,2)]
    by (cases cmd) (simp_all add: serve_command_def)
qed

lemma ipc_inv_finish:
  assumes inv: "ipc_inv evs gid s"
  shows "ipc_inv evs gid (finish_auth i t ok a s)"
proof (cases "length (asking s) \<le> i")
  case False
  obtain cred cmd where ask: "asking s ! i = (cred, cmd)" by force
  obtain yes c where auth: "check_authorization t ok a (cr_pid cred, cr_uid cred) (success_cache s) = (yes, c)" by force
  have grows: "dom (success_cache s) \<subseteq> dom c"
    using auth by (auto simp: check_authorization_def split: if_splits)
  have cleared: "yes \<Longrightarrow> c (cr_pid cred, cr_uid cred) \<noteq> None"
    using auth by (auto simp: check_authorization_def split: if_splits option.splits)
  have mem: "(cred, cmd) \<in> set (asking s)" using False ask by (metis linorder_not_le nth_mem)
  have ok: "caller_ok (cred, cmd)" using inv mem by (auto simp: ipc_inv_def list_all_iff)
  let ?s = "s\<lparr>asking := take i (asking s) @ drop (Suc i) (asking s), success_cache := c\<rparr>"
  have "ipc_inv evs gid ?s"
    using inv to_main_more [of evs gid "success_cache s" "to_main s" c "[]"] grows
    by (auto simp: ipc_inv_def list_all_iff dest: in_set_takeD in_set_dropD)
  moreover have "ipc_inv evs gid (forward cred cmd ?s)" if yes
    using calculation ok cleared [OF that] by (intro ipc_inv_forward) (auto simp: peer_cleared_def)
  ultimately show ?thesis using False ask auth by (simp add: finish_auth_def Let_def)
qed (simp add: finish_auth_def inv)

lemma ipc_inv_do: "ipc_inv evs gid s \<Longrightarrow> ipc_inv (evs @ [e]) gid (ipc_do decode gid e s)"
proof (cases e)
  case (Frame cred status frame)
  assume inv: "ipc_inv evs gid s"
  show ?thesis
  proof (cases "parse_command_frame decode frame (cr_pid cred)")
    case (Some cmd)
    then have "caller_ok (cred, cmd)"
      by (auto simp: parse_command_frame_def bind_eq_Some_conv intro: parse_caller_ok)
    then show ?thesis
      using Some Frame ipc_inv_serve [OF ipc_inv_more [OF inv]] by (simp add: peer_cleared_def)
  qed (simp add: Frame ipc_inv_more inv)
next
  case (AuthDone i t ok a)
  assume "ipc_inv evs gid s"
  then show ?thesis using AuthDone ipc_inv_finish [OF ipc_inv_more] by simp
qed

lemma ipc_run_inv: "ipc_inv evs gid (ipc_run decode gid evs)"
proof (induction evs rule: rev_induct)
  case Nil
  then show ?case by (simp add: ipc_run_def ipc_start_def ipc_inv_def)
next
  case (snoc e evs)
  then show ?case using ipc_inv_do by (simp add: ipc_run_def)
qed

text \<open>
  Claim C25. Over any sequence of frames and finished authorizations, whatever the clients send: a
  privileged command reaches the main loop only from a peer that was root, in the \<open>ring0\<close> group,
  or cleared by polkitd; no peer can submit the internal \<open>MarkFlowAllowed\<close>, and a prompt
  decision carries the pid of the peer that sent it.
\<close>

theorem ipc_gate:
  assumes "(cred, cmd) \<in> set (to_main (ipc_run decode gid evs))"
  shows "caller_ok (cred, cmd)
    \<and> (is_privileged_command cmd \<longrightarrow> peer_cleared evs gid (success_cache (ipc_run decode gid evs)) cred)"
  using assms ipc_run_inv [of evs gid decode] by (auto simp: ipc_inv_def list_all_iff)

theorem ipc_gate_witness:
  "peer_cleared [Frame \<lparr>cr_pid = 700, cr_uid = 1000, cr_gid = 1000\<rparr> None [1], AuthDone 0 5 True 6] (Some 990)
     (success_cache (ipc_run (\<lambda>f. if f = [1] then Some (WBlockPort 23) else None) (Some 990)
        [Frame \<lparr>cr_pid = 700, cr_uid = 1000, cr_gid = 1000\<rparr> None [1], AuthDone 0 5 True 6]))
     \<lparr>cr_pid = 700, cr_uid = 1000, cr_gid = 1000\<rparr>"
proof -
  let ?c = "\<lparr>cr_pid = 700, cr_uid = 1000, cr_gid = 1000\<rparr> :: ucred"
  let ?d = "\<lambda>f. if f = [1] then Some (WBlockPort 23) else None"
  let ?e = "[Frame ?c None [1], AuthDone 0 5 True 6]"
  have "(?c, BlockPort 23) \<in> set (to_main (ipc_run ?d (Some 990) ?e))"
    by (simp add: ipc_run_def ipc_start_def parse_command_frame_def serve_command_def
        peer_is_privileged_def process_groups_def finish_auth_def check_authorization_def forward_def
        answer_def Let_def)
  from ipc_gate [OF this] show ?thesis by simp
qed

text \<open>
  Claim C26. The read loop recovers any sequence of messages of 1 to 65536 bytes from the bytes the
  writer produces for them, dropping an incomplete rest, and never hands on a message outside those
  bounds, whatever bytes arrive.
\<close>

theorem frames_recovered:
  "(list_all (\<lambda>m. 0 < length m \<and> length m \<le> 65536) msgs \<and> length rest < 4 \<longrightarrow>
      read_frames (concat (map write_frame msgs) @ rest) = msgs)
   \<and> list_all (\<lambda>m. 0 < length m \<and> length m \<le> 65536) (read_frames s)"
  using frames_roundtrip frames_bounded by (auto simp: list_all_iff)

theorem frames_recovered_witness:
  "read_frames (concat (map write_frame [[1, 2, 3], replicate 65536 7]) @ [9, 9]) = [[1, 2, 3], replicate 65536 7]"
  using frames_recovered [of "[[1, 2, 3], replicate 65536 7]" "[9, 9]" "[]"] by simp

end
