(* ===== verification/Prompt.thy ===== *)
theory Prompt
  imports Ipc Alist_Facts "HOL-Library.Multiset"
begin

text \<open>
  The connection prompts, \<open>ring0d/src/prompt.rs\<close>: the queue of undecided prompts, the effect of
  a decision, and the rules file it may extend. \<open>iter\<close> is the iteration order of the hash map,
  some permutation of its entries; times are nanoseconds of the monotonic clock; \<open>to_yaml\<close> and
  \<open>yaml_ok\<close> stand for \<open>serde_yaml\<close>.
\<close>

section \<open>Prompts and decisions\<close>

definition PROMPT_TIMEOUT_SECS :: nat where "PROMPT_TIMEOUT_SECS = 15"
definition MAX_PENDING_PROMPTS :: nat where "MAX_PENDING_PROMPTS = 256"

record connection_prompt =
  prompt_id :: u64
  cp_pid :: u32
  cp_ppid :: u32
  binary_path :: string
  parent_binary :: string
  cp_dst_ip :: u32
  cp_dst_port :: u16
  cp_protocol :: u8
  country_code :: string
  country_name :: string
  rdns_name :: string
  created_at :: nat
  timeout_secs :: nat

datatype prompt_action = AllowOnce | AllowAlways | Block | BlockAlways
datatype prompt_scope = ExactIp | Domain | Port | Process

text \<open>The queue, the id counter, the rules file (\<open>None\<close>: unreadable), and what was sent.\<close>

record prompt_engine =
  pending :: "(u64 \<times> connection_prompt) list"
  next_prompt_id :: u64
  rules_file :: "string option"
  sent :: "daemon_cmd list"

definition prompt_new :: "string option \<Rightarrow> prompt_engine" where
  "prompt_new rules = \<lparr>pending = [], next_prompt_id = 1, rules_file = rules, sent = []\<rparr>"

type_synonym iteration = "(u64 \<times> connection_prompt) list \<Rightarrow> (u64 \<times> connection_prompt) list"

text \<open>Everything about a connection but the id and the clock.\<close>

record connect_info =
  ci_pid :: u32
  ci_ppid :: u32
  ci_binary :: string
  ci_parent :: string
  ci_dst_ip :: u32
  ci_dst_port :: u16
  ci_protocol :: u8
  ci_country :: "string \<times> string"
  ci_rdns :: string

definition mk_prompt :: "u64 \<Rightarrow> nat \<Rightarrow> connect_info \<Rightarrow> connection_prompt" where
  "mk_prompt pid t c = \<lparr>prompt_id = pid, cp_pid = ci_pid c, cp_ppid = ci_ppid c,
     binary_path = ci_binary c, parent_binary = ci_parent c, cp_dst_ip = ci_dst_ip c,
     cp_dst_port = ci_dst_port c, cp_protocol = ci_protocol c, country_code = fst (ci_country c),
     country_name = snd (ci_country c), rdns_name = ci_rdns c, created_at = t,
     timeout_secs = PROMPT_TIMEOUT_SECS\<rparr>"

text \<open>The id is drawn first; a prompt of the same process is reused and only its clock restarts.\<close>

definition create_prompt :: "iteration \<Rightarrow> nat \<Rightarrow> connect_info \<Rightarrow> prompt_engine \<Rightarrow> u64 \<times> prompt_engine" where
  "create_prompt iter t c e =
     (let pid = next_prompt_id e; e = e\<lparr>next_prompt_id := pid + 1\<rparr> in
      case find (\<lambda>(i, p). cp_pid p = ci_pid c) (iter (pending e)) of
        Some (i, p) \<Rightarrow> (i, e\<lparr>pending := AList.update i (p\<lparr>created_at := t\<rparr>) (pending e)\<rparr>)
      | None \<Rightarrow>
          let e = (if MAX_PENDING_PROMPTS \<le> length (pending e) then
                     (case iter (pending e) of
                        (i, p) # _ \<Rightarrow> e\<lparr>pending := AList.delete i (pending e)\<rparr>
                      | [] \<Rightarrow> e)
                   else e)
          in (pid, e\<lparr>pending := AList.update pid (mk_prompt pid t c) (pending e)\<rparr>))"

definition pending_get :: "u64 \<Rightarrow> prompt_engine \<Rightarrow> connection_prompt option" where
  "pending_get i e = map_of (pending e) i"

definition pending_count :: "prompt_engine \<Rightarrow> nat" where
  "pending_count e = length (pending e)"

definition check_timeouts :: "nat \<Rightarrow> prompt_engine \<Rightarrow> prompt_engine" where
  "check_timeouts t e = e\<lparr>pending :=
     filter (\<lambda>(i, p). \<not> timeout_secs p * 1000000000 < t - created_at p) (pending e)\<rparr>"

section \<open>The rules file\<close>

definition nl :: char where "nl = CHR 0x0A"

record rule =
  ru_id :: u32
  ru_name :: string
  ru_cidrs :: "string list"
  ru_ports :: "u16 list"
  ru_protocols :: "string list"
  ru_severity :: nat
  ru_source_binary :: string

definition rule_of :: "connection_prompt \<Rightarrow> bool \<Rightarrow> rule" where
  "rule_of p allow = \<lparr>ru_id = 70000 + ucast (prompt_id p mod 30000),
     ru_name = (if allow then ''user-allow-'' else ''user-block-'') @ show_ipv4 (cp_dst_ip p),
     ru_cidrs = [show_ipv4 (cp_dst_ip p) @ ''/32''], ru_ports = [cp_dst_port p],
     ru_protocols = [if cp_protocol p = 17 then ''udp'' else ''tcp''],
     ru_severity = (if allow then 1 else 3), ru_source_binary = binary_path p\<rparr>"

fun indent :: "bool \<Rightarrow> string list \<Rightarrow> string" where
  "indent first [] = []"
| "indent first (l # ls) = (if first then ''  - '' else ''    '') @ l @ [nl] @ indent False ls"

definition rules_header :: string where
  "rules_header = ''rules:'' @ [nl] @ ''  network:'' @ [nl]"

definition merge_rules :: "string \<Rightarrow> string \<Rightarrow> string" where
  "merge_rules existing rule_yaml =
     (if suffix ''rules:'' (trim existing) \<or> trim existing = [] then rules_header @ rule_yaml @ [nl]
      else case rfind_str ''  network:'' existing of
        Some pos \<Rightarrow>
          let after = drop (pos + 10) existing;
              insertion = (case rfind_str (nl # ''  '') after of
                Some ep \<Rightarrow> pos + 10 + ep | None \<Rightarrow> length existing)
          in take insertion existing @ rule_yaml @ drop insertion existing
      | None \<Rightarrow> existing @ [nl] @ ''  network:'' @ [nl] @ rule_yaml @ [nl])"

datatype perror = NotFound | SerializeFailed | InvalidYaml | WriteFailed

text \<open>\<open>io_ok\<close>: the temporary file is written and renamed.\<close>

definition synthesize_rule ::
    "(rule \<Rightarrow> string option) \<Rightarrow> (string \<Rightarrow> bool) \<Rightarrow> bool \<Rightarrow> connection_prompt \<Rightarrow> bool \<Rightarrow> prompt_engine
     \<Rightarrow> (perror + unit) \<times> prompt_engine" where
  "synthesize_rule to_yaml yaml_ok io_ok p allow e =
     (case to_yaml (rule_of p allow) of
        None \<Rightarrow> (Inl SerializeFailed, e)
      | Some text \<Rightarrow>
          let existing = (case rules_file e of Some s \<Rightarrow> s | None \<Rightarrow> []);
              updated = merge_rules existing (indent True (text_lines text))
          in if \<not> yaml_ok updated then (Inl InvalidYaml, e)
             else if \<not> io_ok then (Inl WriteFailed, e)
             else (Inr (), e\<lparr>rules_file := Some updated\<rparr>))"

section \<open>Decisions\<close>

definition send :: "daemon_cmd \<Rightarrow> prompt_engine \<Rightarrow> prompt_engine" where
  "send cmd e = e\<lparr>sent := sent e @ [cmd]\<rparr>"

definition resolve_prompt ::
    "(rule \<Rightarrow> string option) \<Rightarrow> (string \<Rightarrow> bool) \<Rightarrow> bool \<Rightarrow> u64 \<Rightarrow> prompt_action \<times> prompt_scope \<Rightarrow> prompt_engine
     \<Rightarrow> (perror + unit) \<times> prompt_engine" where
  "resolve_prompt to_yaml yaml_ok io_ok i decision e =
     (case map_of (pending e) i of
        None \<Rightarrow> (Inl NotFound, e)
      | Some p \<Rightarrow>
          let e = e\<lparr>pending := AList.delete i (pending e)\<rparr> in
          (case fst decision of
             AllowOnce \<Rightarrow> (Inr (), send (MarkFlowAllowed (cp_dst_ip p) (cp_dst_port p) (cp_protocol p) (cp_pid p)) e)
           | AllowAlways \<Rightarrow> synthesize_rule to_yaml yaml_ok io_ok p True e
           | Block \<Rightarrow> (Inr (), send (BlockIp (V4 (cp_dst_ip p))) e)
           | BlockAlways \<Rightarrow> synthesize_rule to_yaml yaml_ok io_ok p False e))"

section \<open>The queue\<close>

text \<open>Any order in which a map may be walked.\<close>

definition iter_ok :: "iteration \<Rightarrow> bool" where
  "iter_ok iter \<longleftrightarrow> (\<forall>ps. mset (iter ps) = mset ps)"

definition prompts_ok :: "prompt_engine \<Rightarrow> bool" where
  "prompts_ok e \<longleftrightarrow> distinct (map fst (pending e)) \<and> distinct (map (cp_pid \<circ> snd) (pending e))
    \<and> list_all (\<lambda>(i, p). prompt_id p = i) (pending e) \<and> length (pending e) \<le> MAX_PENDING_PROMPTS"

lemma iter_set: "iter_ok iter \<Longrightarrow> set (iter ps) = set ps"
  by (metis iter_ok_def set_mset_mset)

lemma prompts_ok_sub:
  assumes "prompts_ok e"
  shows "prompts_ok (e\<lparr>pending := filter P (pending e)\<rparr>)"
  using assms le_trans [OF length_filter_le [of P "pending e"]]
  by (auto simp: prompts_ok_def distinct_map_filter list_all_iff)

lemma prompts_ok_frame [simp]:
  "prompts_ok (e\<lparr>next_prompt_id := n\<rparr>) = prompts_ok e" "prompts_ok (e\<lparr>rules_file := r\<rparr>) = prompts_ok e"
  "prompts_ok (send c e) = prompts_ok e"
  by (simp_all add: prompts_ok_def send_def)

text \<open>Replacing the prompt of a process, or adding one for a process that has none.\<close>

lemma update_same_pid:
  "distinct (map fst ps) \<Longrightarrow> (i, p) \<in> set ps \<Longrightarrow> f p' = f p \<Longrightarrow> map (f \<circ> snd) (AList.update i p' ps) = map (f \<circ> snd) ps"
  by (induction ps) (auto intro: rev_image_eqI)

lemma prompts_ok_refresh:
  assumes "prompts_ok e" "(i, p) \<in> set (pending e)"
  shows "prompts_ok (e\<lparr>pending := AList.update i (p\<lparr>created_at := t\<rparr>) (pending e)\<rparr>)"
proof -
  let ?p = "p\<lparr>created_at := t\<rparr>"
  have d: "distinct (map fst (pending e))" using assms(1) by (simp add: prompts_ok_def)
  have keys: "map fst (AList.update i ?p (pending e)) = map fst (pending e)"
    using assms(2) by (auto simp: update_keys rev_image_eqI)
  have len: "length (AList.update i ?p (pending e)) = length (pending e)"
    using arg_cong [OF keys, of length] by simp
  have pids: "map (cp_pid \<circ> snd) (AList.update i ?p (pending e)) = map (cp_pid \<circ> snd) (pending e)"
    using update_same_pid [OF d assms(2), of cp_pid ?p] by simp
  have "prompt_id p = i" using assms by (auto simp: prompts_ok_def list_all_iff)
  then show ?thesis
    using assms(1) unfolding prompts_ok_def by (auto simp: keys len pids set_update [OF d] list_all_iff)
qed

lemma distinct_pid_update:
  "distinct (map (f \<circ> snd) ps) \<Longrightarrow> distinct (map fst ps) \<Longrightarrow> f v \<notin> f ` snd ` set ps \<Longrightarrow>
   distinct (map (f \<circ> snd) (AList.update k v ps))"
proof (induction ps)
  case (Cons a ps)
  then show ?case using set_update [of ps k v] by (cases a) (auto simp: image_iff)
qed simp

lemma prompts_ok_add:
  assumes "prompts_ok e" "length (pending e) < MAX_PENDING_PROMPTS" "\<forall>(i, p) \<in> set (pending e). cp_pid p \<noteq> ci_pid c"
  shows "prompts_ok (e\<lparr>pending := AList.update k (mk_prompt k t c) (pending e)\<rparr>)"
proof -
  have d: "distinct (map fst (pending e))" using assms(1) by (simp add: prompts_ok_def)
  have "length (AList.update k (mk_prompt k t c) (pending e)) \<le> Suc (length (pending e))"
    using arg_cong [OF update_keys [of k "mk_prompt k t c" "pending e"], of length] by simp
  moreover have "distinct (map (cp_pid \<circ> snd) (AList.update k (mk_prompt k t c) (pending e)))"
    using assms(1,3) by (intro distinct_pid_update) (auto simp: prompts_ok_def mk_prompt_def)
  ultimately show ?thesis
    using assms(1,2) unfolding prompts_ok_def
    by (auto simp: set_update [OF d] list_all_iff mk_prompt_def distinct_update)
qed

lemma create_cases:
  assumes ok: "prompts_ok e" and it: "iter_ok iter"
  shows "prompts_ok (snd (create_prompt iter t c e)) \<and> sent (snd (create_prompt iter t c e)) = sent e
     \<and> rules_file (snd (create_prompt iter t c e)) = rules_file e"
proof (cases "find (\<lambda>(i, p). cp_pid p = ci_pid c) (iter (pending e))")
  case (Some ip)
  obtain i p where ip: "ip = (i, p)" by force
  have "(i, p) \<in> set (iter (pending e))" using Some ip by (metis find_Some_iff nth_mem)
  then have "(i, p) \<in> set (pending e)" by (simp add: iter_set [OF it])
  then show ?thesis
    using prompts_ok_refresh [of "e\<lparr>next_prompt_id := next_prompt_id e + 1\<rparr>" i p t] Some ip ok
    by (simp add: create_prompt_def Let_def)
next
  case None
  then have free: "\<forall>(i, p) \<in> set (pending e). cp_pid p \<noteq> ci_pid c"
    using iter_set [OF it, of "pending e"] by (auto simp: find_None_iff)
  let ?e = "e\<lparr>next_prompt_id := next_prompt_id e + 1\<rparr>"
  show ?thesis
  proof (cases "MAX_PENDING_PROMPTS \<le> length (pending e)")
    case False
    then show ?thesis
      using None prompts_ok_add [of ?e c] ok free by (simp add: create_prompt_def Let_def)
  next
    case True
    then have "pending e \<noteq> []" by (auto simp: MAX_PENDING_PROMPTS_def)
    then obtain i p qs where q: "iter (pending e) = (i, p) # qs"
      using iter_set [OF it, of "pending e"] by (cases "iter (pending e)") auto
    then have mem: "(i, p) \<in> set (pending e)" using iter_set [OF it, of "pending e"] by force
    let ?d = "?e\<lparr>pending := AList.delete i (pending e)\<rparr>"
    have "length (AList.delete i (pending e)) < length (pending e)"
      using mem by (auto simp: delete_filter intro: length_filter_less)
    then have short: "length (pending ?d) < MAX_PENDING_PROMPTS" using ok by (simp add: prompts_ok_def)
    have "prompts_ok ?d" using prompts_ok_sub [of ?e] ok by (simp add: delete_filter)
    moreover have "\<forall>(i, p) \<in> set (pending ?d). cp_pid p \<noteq> ci_pid c"
      using free by (auto simp: delete_filter)
    ultimately have "prompts_ok (?d\<lparr>pending := AList.update k (mk_prompt k t c) (pending ?d)\<rparr>)" for k
      using prompts_ok_add [OF _ short, of c k t] by simp
    then show ?thesis using None True q by (simp add: create_prompt_def Let_def)
  qed
qed


lemma timeouts_keep:
  "prompts_ok e \<Longrightarrow> prompts_ok (check_timeouts t e)" "sent (check_timeouts t e) = sent e"
  "rules_file (check_timeouts t e) = rules_file e"
  by (simp_all add: check_timeouts_def prompts_ok_sub)

text \<open>What a decision on a pending prompt sends.\<close>

definition effect :: "connection_prompt \<Rightarrow> prompt_action \<Rightarrow> daemon_cmd list" where
  "effect p a = (case a of
     AllowOnce \<Rightarrow> [MarkFlowAllowed (cp_dst_ip p) (cp_dst_port p) (cp_protocol p) (cp_pid p)]
   | Block \<Rightarrow> [BlockIp (V4 (cp_dst_ip p))] | _ \<Rightarrow> [])"

lemma synthesize_keeps:
  "pending (snd (synthesize_rule y v io p al e)) = pending e" "sent (snd (synthesize_rule y v io p al e)) = sent e"
  "prompts_ok (snd (synthesize_rule y v io p al e)) = prompts_ok e"
  by (auto simp: synthesize_rule_def Let_def split: option.splits)

lemma resolve_sends:
  "sent (snd (resolve_prompt y v io i d e)) = sent e @ (case map_of (pending e) i of None \<Rightarrow> [] | Some p \<Rightarrow> effect p (fst d))"
  by (auto simp: resolve_prompt_def Let_def effect_def send_def synthesize_keeps split: option.splits prompt_action.splits)

lemma resolve_pending:
  "pending (snd (resolve_prompt y v io i d e)) = filter (\<lambda>x. fst x \<noteq> i) (pending e)"
proof (cases "map_of (pending e) i")
  case None
  then have "filter (\<lambda>x. fst x \<noteq> i) (pending e) = pending e"
    by (auto simp: map_of_eq_None_iff rev_image_eqI intro!: filter_True)
  then show ?thesis using None by (simp add: resolve_prompt_def)
next
  case (Some p)
  then show ?thesis
    by (cases "fst d") (simp_all add: resolve_prompt_def Let_def send_def synthesize_keeps delete_filter)
qed

lemma resolve_ok: "prompts_ok e \<Longrightarrow> prompts_ok (snd (resolve_prompt y v io i d e))"
  using prompts_ok_sub [of e "\<lambda>x. fst x \<noteq> i"]
  by (auto simp: resolve_prompt_def Let_def synthesize_keeps delete_filter split: option.splits prompt_action.splits)

section \<open>Sequences of operations\<close>

datatype prompt_op =
    Create iteration nat connect_info
  | Resolve u64 prompt_action prompt_scope bool
  | Timeouts nat

fun prompt_do :: "(rule \<Rightarrow> string option) \<Rightarrow> (string \<Rightarrow> bool) \<Rightarrow> prompt_op \<Rightarrow> prompt_engine \<Rightarrow> prompt_engine" where
  "prompt_do y v (Create iter t c) e = snd (create_prompt iter t c e)"
| "prompt_do y v (Resolve i a s io) e = snd (resolve_prompt y v io i (a, s) e)"
| "prompt_do y v (Timeouts t) e = check_timeouts t e"

fun op_ok :: "prompt_op \<Rightarrow> bool" where
  "op_ok (Create iter t c) = iter_ok iter"
| "op_ok _ = True"

definition prompt_run :: "(rule \<Rightarrow> string option) \<Rightarrow> (string \<Rightarrow> bool) \<Rightarrow> prompt_op list \<Rightarrow> prompt_engine \<Rightarrow> prompt_engine" where
  "prompt_run y v ops e = fold (prompt_do y v) ops e"

lemma prompt_run_snoc: "prompt_run y v (ops @ [op]) e = prompt_do y v op (prompt_run y v ops e)"
  by (simp add: prompt_run_def)

lemma prompt_do_ok: "op_ok op \<Longrightarrow> prompts_ok e \<Longrightarrow> prompts_ok (prompt_do y v op e)"
  by (cases op) (auto simp: create_cases timeouts_keep resolve_ok)

lemma prompt_run_ok: "list_all op_ok ops \<Longrightarrow> prompts_ok e \<Longrightarrow> prompts_ok (prompt_run y v ops e)"
  by (induction ops rule: rev_induct) (auto simp: prompt_run_snoc prompt_do_ok, simp add: prompt_run_def)

text \<open>The command was caused by a decision on a prompt pending at that moment.\<close>

definition decided :: "(rule \<Rightarrow> string option) \<Rightarrow> (string \<Rightarrow> bool) \<Rightarrow> prompt_op list \<Rightarrow> prompt_engine \<Rightarrow> daemon_cmd \<Rightarrow> bool" where
  "decided y v ops e cmd \<longleftrightarrow> (\<exists>before i a s io after p. ops = before @ Resolve i a s io # after
     \<and> map_of (pending (prompt_run y v before e)) i = Some p \<and> cmd \<in> set (effect p a))"

lemma decided_more: "decided y v ops e cmd \<Longrightarrow> decided y v (ops @ [op]) e cmd"
  unfolding decided_def by (metis append.assoc append_Cons)

lemma sent_decided:
  "list_all op_ok ops \<Longrightarrow> prompts_ok e \<Longrightarrow> cmd \<in> set (sent (prompt_run y v ops e)) \<Longrightarrow>
   cmd \<in> set (sent e) \<or> decided y v ops e cmd"
proof (induction ops rule: rev_induct)
  case Nil
  then show ?case by (simp add: prompt_run_def)
next
  case (snoc op ops)
  have ok: "prompts_ok (prompt_run y v ops e)" using snoc.prems by (simp add: prompt_run_ok)
  show ?case
  proof (cases "cmd \<in> set (sent (prompt_run y v ops e))")
    case True
    then show ?thesis using snoc.IH snoc.prems decided_more by auto
  next
    case False
    with snoc.prems(1,3) ok obtain i a s io p where op: "op = Resolve i a s io"
      "map_of (pending (prompt_run y v ops e)) i = Some p" "cmd \<in> set (effect p a)"
      by (cases op) (auto simp: prompt_run_snoc create_cases timeouts_keep resolve_sends split: option.splits dest!: sym [of "Some _"])
    then have "decided y v (ops @ [op]) e cmd"
      unfolding decided_def by (intro exI [of _ ops] exI [of _ i] exI [of _ a] exI [of _ s] exI [of _ io] exI [of _ "[]"] exI [of _ p]) simp
    then show ?thesis ..
  qed
qed

section \<open>Properties\<close>

text \<open>
  Claim C27. Over any sequence of connections, decisions and timeouts, for any iteration order of the
  map: at most 256 prompts are pending, each under its own id and at most one per process; and every
  command the engine ever sent was caused by an explicit decision on a prompt pending at that moment:
  no timeout and no eviction ever blocks or allows anything.
\<close>

theorem prompts_decided:
  assumes "list_all op_ok ops"
  shows "prompts_ok (prompt_run y v ops (prompt_new r))
    \<and> list_all (decided y v ops (prompt_new r)) (sent (prompt_run y v ops (prompt_new r)))"
proof -
  have "prompts_ok (prompt_new r)" by (simp add: prompts_ok_def prompt_new_def)
  then show ?thesis
    using prompt_run_ok [OF assms] sent_decided [OF assms]
    by (fastforce simp: list_all_iff prompt_new_def)
qed

definition ci_sample :: "u32 \<Rightarrow> u32 \<Rightarrow> connect_info" where
  "ci_sample pid ip = \<lparr>ci_pid = pid, ci_ppid = 1, ci_binary = ''/tmp/x'', ci_parent = ''sh'', ci_dst_ip = ip,
     ci_dst_port = 443, ci_protocol = 6, ci_country = (''DE'', ''Germany''), ci_rdns = ''unknown''\<rparr>"

theorem prompts_decided_witness:
  "prompts_ok (prompt_run (\<lambda>_. None) (\<lambda>_. True)
     [Create (\<lambda>ps. ps) 0 (ci_sample 7 9), Create rev 1 (ci_sample 8 9), Resolve 1 Block ExactIp True,
      Timeouts 20000000000] (prompt_new None))"
  using prompts_decided [of "[Create (\<lambda>ps. ps) 0 (ci_sample 7 9), Create rev 1 (ci_sample 8 9), Resolve 1 Block ExactIp True,
      Timeouts 20000000000]"]
  by (simp add: iter_ok_def)

text \<open>
  A second connection of a process with a pending prompt is announced under the id of that
  prompt, but the prompt keeps its first destination: a block (or an allowance) decided for the
  announced destination is applied to the earlier one.
\<close>

theorem coalesced_prompt_keeps_destination:
  assumes "prompts_ok e" and "iter_ok iter" and "map_of (pending e) i = Some p" and "cp_pid p = ci_pid c"
  shows "fst (create_prompt iter t c e) = i
    \<and> sent (snd (resolve_prompt y v io i (Block, s) (snd (create_prompt iter t c e))))
        = sent e @ [BlockIp (V4 (cp_dst_ip p))]
    \<and> sent (snd (resolve_prompt y v io i (AllowOnce, s) (snd (create_prompt iter t c e))))
        = sent e @ [MarkFlowAllowed (cp_dst_ip p) (cp_dst_port p) (cp_protocol p) (cp_pid p)]"
proof -
  have mem: "(i, p) \<in> set (pending e)" using assms(3) by (rule map_of_SomeD)
  have "find (\<lambda>(i, p). cp_pid p = ci_pid c) (iter (pending e)) \<noteq> None"
    using mem assms(4) iter_set [OF assms(2), of "pending e"] by (auto simp: find_None_iff)
  then obtain j q where f: "find (\<lambda>(i, p). cp_pid p = ci_pid c) (iter (pending e)) = Some (j, q)" by auto
  have "(j, q) \<in> set (iter (pending e))" "cp_pid q = ci_pid c"
    using f by (metis find_Some_iff nth_mem, auto simp: find_Some_iff)
  then have "(j, q) \<in> set (pending e)" "cp_pid q = cp_pid p"
    by (simp_all add: iter_set [OF assms(2)] assms(4))
  then have jq: "j = i \<and> q = p"
    using mem assms(1) unfolding prompts_ok_def
    by (metis (no_types, lifting) Pair_inject comp_apply distinct_map inj_onD snd_conv)
  have "map_of (AList.update i (p\<lparr>created_at := t\<rparr>) (pending e)) i = Some (p\<lparr>created_at := t\<rparr>)"
    by (simp add: update_conv)
  then show ?thesis
    using f jq by (simp add: create_prompt_def Let_def resolve_sends effect_def)
qed

theorem coalesced_prompt_keeps_destination_witness:
  "sent (snd (resolve_prompt (\<lambda>_. None) (\<lambda>_. True) True 1 (Block, ExactIp)
     (snd (create_prompt rev 9 (ci_sample 7 0x0A000002) (snd (create_prompt rev 5 (ci_sample 7 0x0A000001) (prompt_new None)))))))
   = [BlockIp (V4 0x0A000001)]"
proof -
  let ?e = "snd (create_prompt rev 5 (ci_sample 7 0x0A000001) (prompt_new None))"
  have it: "iter_ok rev" by (simp add: iter_ok_def)
  have e: "map_of (pending ?e) 1 = Some (mk_prompt 1 5 (ci_sample 7 0x0A000001))" "sent ?e = []"
    by (simp_all add: create_prompt_def prompt_new_def Let_def MAX_PENDING_PROMPTS_def)
  have "prompts_ok ?e" using create_cases [OF _ it, of "prompt_new None" 5] by (simp add: prompts_ok_def prompt_new_def)
  from coalesced_prompt_keeps_destination [OF this it e(1), of "ci_sample 7 0x0A000002"]
  show ?thesis using e(2) by (simp add: mk_prompt_def ci_sample_def)
qed

text \<open>
  Adding a rule to a file keeps the text of the file and inserts the rule, unless the file
  is blank or ends in \<open>rules:\<close>, when it is replaced as a whole. In a file with a network section
  the rule is inserted in front of a line break (or at the end): its first line is joined to the line
  before it, not put on a line of its own.
\<close>

theorem merge_rules_splices:
  "if suffix ''rules:'' (trim existing) \<or> trim existing = [] then merge_rules existing r = rules_header @ r @ [nl]
   else case rfind_str ''  network:'' existing of
     None \<Rightarrow> merge_rules existing r = existing @ [nl] @ ''  network:'' @ [nl] @ r @ [nl]
   | Some pos \<Rightarrow> \<exists>a b. existing = a @ b \<and> merge_rules existing r = a @ r @ b \<and> (b = [] \<or> prefix (nl # ''  '') b)"
proof (cases "suffix ''rules:'' (trim existing) \<or> trim existing = []")
  case False
  show ?thesis
  proof (cases "rfind_str ''  network:'' existing")
    case (Some pos)
    show ?thesis
    proof (cases "rfind_str (nl # ''  '') (drop (pos + 10) existing)")
      case None
      with False Some have "merge_rules existing r = existing @ r @ []" by (simp add: merge_rules_def Let_def)
      then have "\<exists>a b. existing = a @ b \<and> merge_rules existing r = a @ r @ b \<and> (b = [] \<or> prefix (nl # ''  '') b)"
        by (intro exI [of _ existing] exI [of _ "[]"]) simp
      then show ?thesis using False Some by simp
    next
      case (Some ep)
      let ?a = "take (pos + 10 + ep) existing" and ?b = "drop (pos + 10 + ep) existing"
      have "prefix (nl # ''  '') ?b" using rfind_Some [OF Some] by (simp add: add.commute)
      moreover have "merge_rules existing r = ?a @ r @ ?b"
        using False Some \<open>rfind_str ''  network:'' existing = Some pos\<close> by (simp add: merge_rules_def Let_def)
      ultimately have "\<exists>a b. existing = a @ b \<and> merge_rules existing r = a @ r @ b \<and> (b = [] \<or> prefix (nl # ''  '') b)"
        by (intro exI [of _ ?a] exI [of _ ?b]) simp
      then show ?thesis using False \<open>rfind_str ''  network:'' existing = Some pos\<close> by simp
    qed
  qed (use False in \<open>auto simp: merge_rules_def\<close>)
qed (auto simp: merge_rules_def)

end
