(* ===== verification/Process.thy ===== *)
theory Process
  imports Abi Rust_Ip Alist_Facts
begin

text \<open>
  Process and socket lookups, \<open>ring0d/src/process.rs\<close>. The files of \<open>/proc\<close> are a
  parameter (\<open>procfs\<close>): their texts, the link targets, and the directory in the order it is read.
  Times are nanoseconds of the monotonic clock; hash maps with a size limit are association lists.
\<close>

section \<open>The process file system\<close>

record procfs =
  pf_status :: "u32 \<Rightarrow> string option"
  pf_stat :: "u32 \<Rightarrow> string option"
  pf_exe :: "u32 \<Rightarrow> string option"
  pf_cmdline :: "u32 \<Rightarrow> string option"
  pf_net :: "string \<Rightarrow> string option"
  pf_fds :: "(string \<times> string list option) list"

record process_info =
  p_pid :: u32
  p_uid :: u32
  p_ppid :: u32
  p_binary_path :: string
  p_cmdline :: string

record socket_entry =
  so_pid :: u32
  so_dst_ip :: u32
  so_dst_port :: u16
  so_protocol :: u8

section \<open>Status, stat, cmdline\<close>

definition status_field :: "string \<Rightarrow> string \<Rightarrow> string option" where
  "status_field key s = Option.bind (find (\<lambda>l. strip_prefix key l \<noteq> None) (text_lines s)) (strip_prefix key)"

definition uid_of :: "procfs \<Rightarrow> u32 \<Rightarrow> u32 option" where
  "uid_of fs pid = do { s \<leftarrow> pf_status fs pid; r \<leftarrow> status_field ''Uid:'' s;
     w \<leftarrow> (case split_whitespace r of w # _ \<Rightarrow> Some w | [] \<Rightarrow> None);
     map_option of_nat (parse_u32 w) }"

definition ppid_of :: "procfs \<Rightarrow> u32 \<Rightarrow> u32 option" where
  "ppid_of fs pid = do { s \<leftarrow> pf_status fs pid; r \<leftarrow> status_field ''PPid:'' s;
     map_option of_nat (parse_u32 (trim r)) }"

definition starttime :: "procfs \<Rightarrow> u32 \<Rightarrow> u64 option" where
  "starttime fs pid = do { s \<leftarrow> pf_stat fs pid; end_pos \<leftarrow> rfind_str '')'' s;
     let fields = split_whitespace (drop (end_pos + 1) s);
     if 19 < length fields then map_option of_nat (parse_u64 (fields ! 19)) else None }"

definition cmdline_of :: "procfs \<Rightarrow> u32 \<Rightarrow> string option" where
  "cmdline_of fs pid = map_option (map (\<lambda>c. if c = CHR 0x00 then CHR '' '' else c)) (pf_cmdline fs pid)"

section \<open>Inodes\<close>

type_synonym inode_cache = "(u64 \<times> u32 \<times> nat) list"

definition substring :: "string \<Rightarrow> string \<Rightarrow> bool" where
  "substring pat s \<longleftrightarrow> list_ex (prefix pat) (suffixes s)"

fun pid_from_inode :: "(string \<times> string list option) list \<Rightarrow> u64 \<Rightarrow> u32 option" where
  "pid_from_inode [] inode = None"
| "pid_from_inode ((name, fds) # ds) inode =
     (case parse_u32 name of
        None \<Rightarrow> pid_from_inode ds inode
      | Some pid \<Rightarrow>
          (case fds of
             None \<Rightarrow> pid_from_inode ds inode
           | Some links \<Rightarrow>
               if list_ex (substring (''socket:['' @ show_nat (unat inode) @ '']'')) links then Some (of_nat pid)
               else pid_from_inode ds inode))"

definition pid_from_inode_cached :: "procfs \<Rightarrow> nat \<Rightarrow> u64 \<Rightarrow> inode_cache \<Rightarrow> u32 option \<times> inode_cache" where
  "pid_from_inode_cached fs t inode cache =
     (case map_of cache inode of
        Some (pid, stamp) \<Rightarrow>
          if (t - stamp) div 1000000000 < 5 then (Some pid, cache)
          else (case pid_from_inode (pf_fds fs) inode of
                  None \<Rightarrow> (None, cache)
                | Some p \<Rightarrow> let c = AList.update inode (p, t) cache in (Some p, if 16384 < length c then [] else c))
      | None \<Rightarrow>
          (case pid_from_inode (pf_fds fs) inode of
             None \<Rightarrow> (None, cache)
           | Some p \<Rightarrow> let c = AList.update inode (p, t) cache in (Some p, if 16384 < length c then [] else c)))"

section \<open>Socket tables\<close>

definition dst_hex4 :: "u32 \<Rightarrow> u16 \<Rightarrow> string" where
  "dst_hex4 ip port = show_hex 8 (unat (swap32 ip)) @ '':'' @ show_hex 4 (unat port)"

fun reverse_words :: "bytes \<Rightarrow> bytes" where
  "reverse_words (a # b # c # d # bs) = d # c # b # a # reverse_words bs"
| "reverse_words bs = bs"

definition dst_hex6 :: "bytes \<Rightarrow> u16 \<Rightarrow> string" where
  "dst_hex6 octets port = concat (map (\<lambda>b. show_hex 2 (unat b)) (reverse_words octets)) @ '':'' @ show_hex 4 (unat port)"

fun parse_lines :: "string list \<Rightarrow> string \<Rightarrow> string \<Rightarrow> u64 option" where
  "parse_lines [] src_hex dst_hex = None"
| "parse_lines (l # ls) src_hex dst_hex =
     (let parts = split_whitespace (trim l); local_fields = split_on CHR '':'' (parts ! 1) in
      if trim l = [] then parse_lines ls src_hex dst_hex
      else if length parts < 10 then parse_lines ls src_hex dst_hex
      else if length local_fields \<noteq> 2 then parse_lines ls src_hex dst_hex
      else if local_fields ! 1 \<noteq> src_hex then parse_lines ls src_hex dst_hex
      else if parts ! 2 = dst_hex then map_option of_nat (parse_u64 (parts ! 9))
      else parse_lines ls src_hex dst_hex)"

definition parse_proc_net :: "string \<Rightarrow> string \<Rightarrow> string \<Rightarrow> u64 option" where
  "parse_proc_net content src_hex dst_hex = parse_lines (drop 1 (text_lines content)) src_hex dst_hex"

definition inode_from_proc_net :: "procfs \<Rightarrow> u16 \<Rightarrow> u32 + bytes \<Rightarrow> u16 \<Rightarrow> u64 option" where
  "inode_from_proc_net fs src_port dst_ip dst_port =
     (let dst_hex = (case dst_ip of Inl ip \<Rightarrow> dst_hex4 ip dst_port | Inr octets \<Rightarrow> dst_hex6 octets dst_port);
          src_hex = show_hex 4 (unat src_port);
          look = (\<lambda>f. Option.bind (pf_net fs f) (\<lambda>c. parse_proc_net c src_hex dst_hex))
      in case look ''tcp'' of Some i \<Rightarrow> Some i | None \<Rightarrow> look ''tcp6'')"

definition resolve_for_socket ::
    "procfs \<Rightarrow> nat \<Rightarrow> u16 \<Rightarrow> u32 + bytes \<Rightarrow> u16 \<Rightarrow> inode_cache \<Rightarrow> process_info option \<times> inode_cache" where
  "resolve_for_socket fs t src_port dst_ip dst_port cache =
     (case inode_from_proc_net fs src_port dst_ip dst_port of
        None \<Rightarrow> (None, cache)
      | Some inode \<Rightarrow>
          (case pid_from_inode_cached fs t inode cache of
             (None, c) \<Rightarrow> (None, c)
           | (Some pid, c) \<Rightarrow>
               (Some \<lparr>p_pid = pid,
                  p_uid = (case uid_of fs pid of Some u \<Rightarrow> u | None \<Rightarrow> 0),
                  p_ppid = (case ppid_of fs pid of Some u \<Rightarrow> u | None \<Rightarrow> 0),
                  p_binary_path = (case pf_exe fs pid of Some b \<Rightarrow> b | None \<Rightarrow> ''unknown''),
                  p_cmdline = (case cmdline_of fs pid of Some b \<Rightarrow> b | None \<Rightarrow> ''unknown'')\<rparr>, c)))"

text \<open>The rows of a table in order; a malformed number in a matching row ends the search (\<open>?\<close>).\<close>

fun flow_rows :: "procfs \<Rightarrow> nat \<Rightarrow> u32 \<Rightarrow> u32 \<Rightarrow> u16 \<Rightarrow> u8 \<Rightarrow> string list \<Rightarrow> inode_cache \<Rightarrow> flow_key option \<times> inode_cache" where
  "flow_rows fs t pid dst_ip dst_port protocol [] cache = (None, cache)"
| "flow_rows fs t pid dst_ip dst_port protocol (l # ls) cache =
     (let parts = split_whitespace (trim l); local_fields = split_on CHR '':'' (parts ! 1) in
      if trim l = [] \<or> length parts < 10 \<or> parts ! 2 \<noteq> dst_hex4 dst_ip dst_port \<or> length local_fields \<noteq> 2
      then flow_rows fs t pid dst_ip dst_port protocol ls cache
      else case (parse_hex 4294967295 (local_fields ! 0), parse_hex 65535 (local_fields ! 1), parse_u64 (parts ! 9)) of
        (Some ip, Some port, Some inode) \<Rightarrow>
          (case pid_from_inode_cached fs t (of_nat inode) cache of (owner, c) \<Rightarrow>
            if owner = Some pid
            then (Some \<lparr>fk_src_ip = swap32 (of_nat ip), fk_dst_ip = dst_ip, fk_src_port = of_nat port,
                    fk_dst_port = dst_port, fk_protocol = protocol, fk_pad = replicate 7 0\<rparr>, c)
            else flow_rows fs t pid dst_ip dst_port protocol ls c)
      | _ \<Rightarrow> (None, cache))"

definition resolve_flow_for_dst ::
    "procfs \<Rightarrow> nat \<Rightarrow> u32 \<Rightarrow> u32 \<Rightarrow> u16 \<Rightarrow> u8 \<Rightarrow> inode_cache \<Rightarrow> flow_key option \<times> inode_cache" where
  "resolve_flow_for_dst fs t pid dst_ip dst_port protocol cache =
     (case pf_net fs (if protocol = 17 then ''udp'' else ''tcp'') of
        None \<Rightarrow> (None, cache)
      | Some content \<Rightarrow> flow_rows fs t pid dst_ip dst_port protocol (drop 1 (text_lines content)) cache)"

section \<open>Binary paths and recent sockets\<close>

type_synonym binpath_cache = "(u32 \<times> string \<times> nat) list"

definition binary_path_cached :: "procfs \<Rightarrow> nat \<Rightarrow> u32 \<Rightarrow> binpath_cache \<Rightarrow> string option \<times> binpath_cache" where
  "binary_path_cached fs t pid cache =
     (case (case map_of cache pid of Some (path, stamp) \<Rightarrow> if t - stamp < 1000000000 then Some path else None
            | None \<Rightarrow> None) of
        Some path \<Rightarrow> (Some path, cache)
      | None \<Rightarrow>
          (case pf_exe fs pid of
             None \<Rightarrow> (None, cache)
           | Some p \<Rightarrow> (Some p, AList.update pid (p, t) (if 16384 \<le> length cache then [] else cache))))"

definition push_socket :: "socket_entry \<Rightarrow> socket_entry list \<Rightarrow> socket_entry list" where
  "push_socket s cache = (let c = cache @ [s] in if 16384 < length c then drop 8192 c else c)"

definition lookup_socket :: "u32 \<Rightarrow> u16 \<Rightarrow> socket_entry list \<Rightarrow> u32 option" where
  "lookup_socket dst_ip dst_port cache =
     map_option so_pid (find (\<lambda>s. so_dst_ip s = dst_ip \<and> so_dst_port s = dst_port) (rev cache))"

section \<open>Addresses as the kernel prints them\<close>

lemma show_hex_words:
  "show_hex 8 (unat (a :: u32)) = show_hex 8 (unat b) \<longleftrightarrow> a = b"
  "show_hex 4 (unat (p :: u16)) = show_hex 4 (unat q) \<longleftrightarrow> p = q"
proof -
  have "unat a < 16 ^ 8" "unat b < 16 ^ 8" using unsigned_less [of a, where ?'a = nat] unsigned_less [of b, where ?'a = nat] by simp_all
  then show "show_hex 8 (unat a) = show_hex 8 (unat b) \<longleftrightarrow> a = b" by (simp add: show_hex_inj word_unat_eq_iff)
  have "unat p < 16 ^ 4" "unat q < 16 ^ 4" using unsigned_less [of p, where ?'a = nat] unsigned_less [of q, where ?'a = nat] by simp_all
  then show "show_hex 4 (unat p) = show_hex 4 (unat q) \<longleftrightarrow> p = q" by (simp add: show_hex_inj word_unat_eq_iff)
qed

lemma dst_hex4_inj: "dst_hex4 a p = dst_hex4 b q \<longleftrightarrow> a = b \<and> p = q"
  by (auto simp: dst_hex4_def show_hex_words)

lemma split_dst_hex4: "split_on CHR '':'' (dst_hex4 a p) = [show_hex 8 (unat (swap32 a)), show_hex 4 (unat p)]"
proof -
  have "CHR '':'' \<notin> set (show_hex w n)" for w n using show_hex_chars [of "CHR '':''" w n] by auto
  then show ?thesis by (simp add: dst_hex4_def split_on_append split_on_word)
qed

lemma parse_hex_words:
  "parse_hex 4294967295 (show_hex 8 (unat (a :: u32))) = Some (unat a)"
  "parse_hex 65535 (show_hex 4 (unat (p :: u16))) = Some (unat p)"
  using unsigned_less [of a, where ?'a = nat] unsigned_less [of p, where ?'a = nat]
  by (simp_all add: parse_hex_show)

lemma parse_inode: "parse_u64 (show_nat (unat (i :: u64))) = Some (unat i)"
  using unsigned_less [of i, where ?'a = nat] by (simp add: parse_u64_def)

section \<open>The cache\<close>

definition cache_ok :: "procfs \<Rightarrow> nat \<Rightarrow> inode_cache \<Rightarrow> bool" where
  "cache_ok fs t cache \<longleftrightarrow>
     list_all (\<lambda>(i, p, s). (t - s) div 1000000000 < 5 \<longrightarrow> pid_from_inode (pf_fds fs) i = Some p) cache"

lemma cache_ok_update: "cache_ok fs t c \<Longrightarrow> pid_from_inode (pf_fds fs) i = Some p \<Longrightarrow> cache_ok fs t (AList.update i (p, t) c)"
  using set_update_sub [of i "(p, t)" c] by (fastforce simp: cache_ok_def list_all_iff)

lemma cached_owner:
  assumes "cache_ok fs t c"
  shows "fst (pid_from_inode_cached fs t i c) = pid_from_inode (pf_fds fs) i
    \<and> cache_ok fs t (snd (pid_from_inode_cached fs t i c))"
proof -
  have nil: "cache_ok fs t []" by (simp add: cache_ok_def)
  have hit: "\<And>p s. map_of c i = Some (p, s) \<Longrightarrow> (t - s) div 1000000000 < 5 \<Longrightarrow> pid_from_inode (pf_fds fs) i = Some p"
    using assms by (auto simp: cache_ok_def list_all_iff dest: map_of_SomeD)
  show ?thesis
    using assms nil hit
    by (auto simp: pid_from_inode_cached_def Let_def cache_ok_update split: option.split prod.split)
qed

section \<open>Rows\<close>

record net_row =
  nr_slot :: string
  nr_local :: "u32 \<times> u16"
  nr_remote :: "u32 \<times> u16"
  nr_columns :: "string list"
  nr_inode :: u64
  nr_rest :: "string list"

definition row_words :: "net_row \<Rightarrow> string list" where
  "row_words r = [nr_slot r, case_prod dst_hex4 (nr_local r), case_prod dst_hex4 (nr_remote r)] @ nr_columns r
     @ [show_nat (unat (nr_inode r))] @ nr_rest r"

text \<open>A line of a table shows the row: six columns between the addresses and the inode.\<close>

definition shows_row :: "string \<Rightarrow> net_row \<Rightarrow> bool" where
  "shows_row l r \<longleftrightarrow> length (nr_columns r) = 6 \<and> split_whitespace (trim l) = row_words r"

definition row_matches :: "procfs \<Rightarrow> u32 \<Rightarrow> u32 \<Rightarrow> u16 \<Rightarrow> net_row \<Rightarrow> bool" where
  "row_matches fs pid ip port r \<longleftrightarrow> nr_remote r = (ip, port) \<and> pid_from_inode (pf_fds fs) (nr_inode r) = Some pid"

definition row_flow :: "u32 \<Rightarrow> u16 \<Rightarrow> u8 \<Rightarrow> net_row \<Rightarrow> flow_key" where
  "row_flow ip port proto r = \<lparr>fk_src_ip = fst (nr_local r), fk_dst_ip = ip, fk_src_port = snd (nr_local r),
     fk_dst_port = port, fk_protocol = proto, fk_pad = replicate 7 0\<rparr>"

lemma row_parts:
  assumes "shows_row l r"
  shows "trim l \<noteq> []" "10 \<le> length (row_words r)" "row_words r ! 1 = case_prod dst_hex4 (nr_local r)"
    "row_words r ! 2 = case_prod dst_hex4 (nr_remote r)" "row_words r ! 9 = show_nat (unat (nr_inode r))"
proof -
  have c: "length (nr_columns r) = 6" and w: "split_whitespace (trim l) = row_words r" using assms by (simp_all add: shows_row_def)
  show "trim l \<noteq> []" using w by (auto simp: row_words_def split_whitespace_def)
  show "10 \<le> length (row_words r)" "row_words r ! 1 = case_prod dst_hex4 (nr_local r)"
    "row_words r ! 2 = case_prod dst_hex4 (nr_remote r)" "row_words r ! 9 = show_nat (unat (nr_inode r))"
    using c by (simp_all add: row_words_def nth_append nth_Cons')
qed

lemma flow_rows_table:
  "list_all2 shows_row ls rows \<Longrightarrow> cache_ok fs t c \<Longrightarrow>
   fst (flow_rows fs t pid ip port proto ls c) = map_option (row_flow ip port proto) (find (row_matches fs pid ip port) rows)"
proof (induction ls rows arbitrary: c rule: list_all2_induct)
  case Nil
  then show ?case by simp
next
  case (Cons l ls r rows)
  obtain lip lport where lo: "nr_local r = (lip, lport)" by force
  obtain rip rport where re: "nr_remote r = (rip, rport)" by force
  obtain owner c' where ow: "pid_from_inode_cached fs t (nr_inode r) c = (owner, c')" by force
  have o: "owner = pid_from_inode (pf_fds fs) (nr_inode r)" "cache_ok fs t c'"
    using cached_owner [OF Cons.prems, of "nr_inode r"] ow by simp_all
  have w: "split_whitespace (trim l) = row_words r" using Cons.hyps(1) by (simp add: shows_row_def)
  note parts = row_parts [OF Cons.hyps(1)]
  show ?case
  proof (cases "(rip, rport) = (ip, port)")
    case False
    then have "dst_hex4 rip rport \<noteq> dst_hex4 ip port" "\<not> row_matches fs pid ip port r"
      by (auto simp: dst_hex4_inj row_matches_def re)
    then show ?thesis using Cons.IH [OF Cons.prems] parts re by (simp add: w)
  next
    case True
    show ?thesis
      using Cons.IH [OF o(2)] True parts lo re ow o(1)
      by (simp add: w row_matches_def split_dst_hex4 parse_hex_words parse_inode row_flow_def)
  qed
qed


text \<open>
  On a socket table the kernel printed, the flow resolver returns the connection of the first
  row that has the destination and belongs to the process (found through its socket inode), with
  the addresses and ports of that row, or nothing if there is none; a cache of fresh owners does not
  change the answer.
\<close>

theorem resolve_flow_table:
  assumes "pf_net fs (if proto = 17 then ''udp'' else ''tcp'') = Some content"
    and "text_lines content = hdr # ls" and "list_all2 shows_row ls rows" and "cache_ok fs t c"
  shows "fst (resolve_flow_for_dst fs t pid ip port proto c)
    = map_option (row_flow ip port proto) (find (row_matches fs pid ip port) rows)"
  using assms flow_rows_table [OF assms(3,4)] by (simp add: resolve_flow_for_dst_def)

definition sample_row :: net_row where
  "sample_row = \<lparr>nr_slot = ''0:'', nr_local = (0x0A000005, 40000), nr_remote = (0x01010101, 443),
     nr_columns = [''01'', ''0:0'', ''00:0'', ''0'', ''1000'', ''0''], nr_inode = 77, nr_rest = [''1'']\<rparr>"

definition sample_fs :: procfs where
  "sample_fs = \<lparr>pf_status = \<lambda>_. None, pf_stat = \<lambda>_. None, pf_exe = \<lambda>_. None, pf_cmdline = \<lambda>_. None,
     pf_net = \<lambda>f. Some (''sl'' @ [CHR 0x0A] @ join_with '' '' (row_words sample_row)),
     pf_fds = [(''self'', None), (''42'', Some [''/dev/null'', ''socket:['' @ show_nat 77 @ '']''])]\<rparr>"

lemma lines2: "CHR 0x0A \<notin> set a \<Longrightarrow> CHR 0x0A \<notin> set b \<Longrightarrow> a \<noteq> [] \<Longrightarrow> b \<noteq> [] \<Longrightarrow> last a \<noteq> CHR 0x0D \<Longrightarrow> last b \<noteq> CHR 0x0D \<Longrightarrow>
   text_lines (a @ [CHR 0x0A] @ b) = [a, b]"
  by (simp add: text_lines_def split_on_append split_on_word Let_def strip_cr_def)

lemma starttime_words:
  assumes "pf_stat fs pid = Some (front @ '')'' @ rest)" "CHR '')'' \<notin> set rest"
    and "split_whitespace rest = ws" "19 < length ws" "ws ! 19 = show_nat (unat st)"
  shows "starttime fs pid = Some st"
proof -
  have "rfind_str '')'' rest = None" using assms(2)
    by (auto simp: rfind_None prefix_def) (metis in_set_dropD list.set_intros(1))
  then have "rfind_str '')'' (front @ '')'' @ rest) = Some (length front)"
    using rfind_append [of "'')''" "'')'' @ rest" front] by simp
  then show ?thesis using assms by (simp add: starttime_def Let_def parse_inode)
qed

lemma push_socket_len: "length c \<le> 16384 \<Longrightarrow> length (push_socket s c) \<le> 16384"
  by (auto simp: push_socket_def Let_def)

lemma lookup_newest: "length c \<le> 16384 \<Longrightarrow> lookup_socket (so_dst_ip s) (so_dst_port s) (push_socket s c) = Some (so_pid s)"
  by (simp add: push_socket_def lookup_socket_def Let_def)

lemma is_word_dst [simp]: "is_word (dst_hex4 a p)"
  using show_hex_chars by (auto simp: is_word_def dst_hex4_def list_all_iff is_ws_def)

lemma join_words_ends:
  "list_all is_word ws \<Longrightarrow> ws \<noteq> [] \<Longrightarrow> join_with '' '' ws \<noteq> [] \<and> \<not> is_ws (hd (join_with '' '' ws)) \<and> \<not> is_ws (last (join_with '' '' ws))"
  by (induction "'' ''" ws rule: join_with.induct) (auto simp: is_word_def list_all_iff hd_append last_append)

lemma join_words_chars: "list_all is_word ws \<Longrightarrow> c \<in> set (join_with '' '' ws) \<Longrightarrow> \<not> is_ws c \<or> c = CHR '' ''"
  by (induction "'' ''" ws rule: join_with.induct) (auto simp: is_word_def list_all_iff)

lemma trim_plain: "s \<noteq> [] \<Longrightarrow> \<not> is_ws (hd s) \<Longrightarrow> \<not> is_ws (last s) \<Longrightarrow> trim s = s"
proof -
  assume s: "s \<noteq> []" "\<not> is_ws (hd s)" "\<not> is_ws (last s)"
  have "dropWhile is_ws s = s" using s by (cases s) auto
  moreover have "dropWhile is_ws (rev s) = rev s" using s by (cases s rule: rev_cases) auto
  ultimately show ?thesis by (simp add: trim_def trim_start_def trim_end_def)
qed

lemma shows_row_join:
  assumes "list_all is_word (row_words r)" "length (nr_columns r) = 6"
  shows "shows_row (join_with '' '' (row_words r)) r"
proof -
  have "row_words r \<noteq> []" by (simp add: row_words_def)
  from join_words_ends [OF assms(1) this] have "trim (join_with '' '' (row_words r)) = join_with '' '' (row_words r)"
    by (intro trim_plain) auto
  then show ?thesis using assms by (simp only: shows_row_def split_whitespace_words)
qed

lemma sample_table:
  fixes l defines "l \<equiv> join_with '' '' (row_words sample_row)"
  shows "text_lines (''sl'' @ [CHR 0x0A] @ l) = [''sl'', l]" "list_all2 shows_row [l] [sample_row]"
proof -
  have words: "list_all is_word (row_words sample_row)"
    by (simp add: row_words_def sample_row_def) (simp add: is_word_def is_ws_def)
  have ne: "row_words sample_row \<noteq> []" by (simp add: row_words_def)
  have "CHR 0x0A \<notin> set l" using join_words_chars [OF words, of "CHR 0x0A"] by (auto simp: is_ws_def l_def)
  moreover have "last l \<noteq> CHR 0x0D" "l \<noteq> []" using join_words_ends [OF words ne] by (auto simp: is_ws_def l_def)
  ultimately show "text_lines (''sl'' @ [CHR 0x0A] @ l) = [''sl'', l]" by (intro lines2) auto
  show "list_all2 shows_row [l] [sample_row]"
    using shows_row_join [OF words] by (simp add: sample_row_def l_def)
qed

theorem resolve_flow_table_witness:
  "fst (resolve_flow_for_dst sample_fs 0 42 0x01010101 443 6 [])
     = Some \<lparr>fk_src_ip = 0x0A000005, fk_dst_ip = 0x01010101, fk_src_port = 40000, fk_dst_port = 443,
         fk_protocol = 6, fk_pad = replicate 7 0\<rparr>"
proof -
  let ?l = "join_with '' '' (row_words sample_row)"
  note sample_table
  moreover have "pf_net sample_fs (if (6::u8) = 17 then ''udp'' else ''tcp'') = Some (''sl'' @ [CHR 0x0A] @ ?l)"
    by (simp add: sample_fs_def)
  moreover have "row_matches sample_fs 42 0x01010101 443 sample_row"
  proof -
    have self: "substring x x" for x by (simp add: substring_def list_ex_iff) (metis prefix_order.refl suffix_order.refl in_set_suffixes)
    have "pid_from_inode (pf_fds sample_fs) 77 = Some 42"
      by (simp add: sample_fs_def self parse_u32_def parse_uint_def strip_plus_def is_digit_def digits_val_def digit_val_def)
    then show ?thesis by (simp add: row_matches_def sample_row_def)
  qed
  ultimately show ?thesis
    using resolve_flow_table [of sample_fs 6 "''sl'' @ [CHR 0x0A] @ ?l" "''sl''" "[?l]" "[sample_row]" 0 "[]" 42 "0x01010101" 443]
    by (simp add: cache_ok_def row_flow_def) (simp add: sample_row_def)
qed
end
