(* ===== verification/Containment.thy ===== *)
theory Containment
  imports Process
begin

text \<open>
  Quarantine and kill, \<open>ring0d/src/containment.rs\<close>. What the operating system answers is a
  parameter (\<open>os_env\<close>); an operation yields its result and the list of what it did, so that every
  signal and every write is visible in the model.
\<close>

section \<open>The operating system\<close>

datatype os_action = Signal int nat | WriteFile string string | MakeDir string

definition SIGKILL :: nat where "SIGKILL = 9"
definition SIGSTOP :: nat where "SIGSTOP = 19"

record os_env =
  cgroup_v2_available :: bool
  cg_dir_exists :: bool
  mkdir_works :: bool
  write_works :: "string \<Rightarrow> string \<Rightarrow> bool"
  kill_works :: "int \<Rightarrow> nat \<Rightarrow> bool"
  proc_dir :: "string list option"
  os_fs :: procfs

text \<open>\<open>i32::try_from\<close> of a u32 (\<open>pid as i32\<close> is \<open>sint pid\<close>).\<close>

definition try_i32 :: "u32 \<Rightarrow> int option" where
  "try_i32 pid = (if pid < 0x80000000 then Some (sint pid) else None)"

definition positive_pid :: "u32 \<Rightarrow> bool" where
  "positive_pid pid \<longleftrightarrow> (case try_i32 pid of Some p \<Rightarrow> 0 < p | None \<Rightarrow> False)"

section \<open>Quarantine\<close>

definition sigstop_fallback :: "os_env \<Rightarrow> u32 \<Rightarrow> bool \<times> os_action list" where
  "sigstop_fallback env pid =
     (case try_i32 pid of
        Some p \<Rightarrow> if 0 < p then (kill_works env p SIGSTOP, [Signal p SIGSTOP]) else (False, [])
      | None \<Rightarrow> (False, []))"

definition cg_path :: string where "cg_path = ''/sys/fs/cgroup/ring0-quarantine''"

definition then_fallback :: "os_env \<Rightarrow> u32 \<Rightarrow> os_action list \<Rightarrow> bool \<times> os_action list" where
  "then_fallback env pid acts = (case sigstop_fallback env pid of (r, as) \<Rightarrow> (r, acts @ as))"

definition cgroup_freeze :: "os_env \<Rightarrow> u32 \<Rightarrow> bool \<times> os_action list" where
  "cgroup_freeze env pid =
     (let procs = cg_path @ ''/cgroup.procs''; freeze = cg_path @ ''/cgroup.freeze'';
          pid_text = show_nat (unat pid) in
      if \<not> cg_dir_exists env \<and> \<not> mkdir_works env then then_fallback env pid [MakeDir cg_path]
      else
        let acts = (if cg_dir_exists env then [] else [MakeDir cg_path, WriteFile procs []]);
            acts = acts @ [WriteFile procs pid_text] in
        if \<not> write_works env procs pid_text then then_fallback env pid acts
        else
          let acts = acts @ [WriteFile freeze ''1''] in
          if \<not> write_works env freeze ''1'' then then_fallback env pid acts
          else (True, acts))"

definition quarantine_pid :: "os_env \<Rightarrow> u32 \<Rightarrow> bool \<times> os_action list" where
  "quarantine_pid env pid =
     (if positive_pid pid then
        (if cgroup_v2_available env then cgroup_freeze env pid else sigstop_fallback env pid)
      else (False, []))"

definition quarantine_pid_checked :: "os_env \<Rightarrow> u32 \<Rightarrow> u64 option \<Rightarrow> bool \<times> os_action list" where
  "quarantine_pid_checked env pid expected_starttime =
     (case expected_starttime of
        Some expected \<Rightarrow>
          (case starttime (os_fs env) pid of
             Some actual \<Rightarrow> if actual \<noteq> expected then (False, []) else quarantine_pid env pid
           | None \<Rightarrow> (False, []))
      | None \<Rightarrow> quarantine_pid env pid)"

section \<open>Killing a tree\<close>

definition is_child :: "os_env \<Rightarrow> u32 \<Rightarrow> u32 \<Rightarrow> bool" where
  "is_child env root pid =
     (let status = (case pf_status (os_fs env) pid of Some s \<Rightarrow> s | None \<Rightarrow> []) in
      list_ex (\<lambda>l. Option.bind (strip_prefix ''PPid:'' (trim_start l)) (\<lambda>v. map_option of_nat (parse_u32 (trim v))) = Some root)
        (text_lines status))"

definition tree_children :: "os_env \<Rightarrow> u32 \<Rightarrow> string list \<Rightarrow> u32 list" where
  "tree_children env root names =
     filter (is_child env root) (map of_nat (List.map_filter parse_u32 names))"

definition count_killed :: "os_env \<Rightarrow> int list \<Rightarrow> nat" where
  "count_killed env pids = length (filter (\<lambda>p. kill_works env p SIGKILL) pids)"

definition kill_tree :: "os_env \<Rightarrow> u32 \<Rightarrow> nat \<times> os_action list" where
  "kill_tree env root =
     (if \<not> positive_pid root then (0, [])
      else case proc_dir env of
        None \<Rightarrow> (0, [])
      | Some names \<Rightarrow>
          let pids = map sint (tree_children env root names) @ [sint root] in
          (count_killed env pids, map (\<lambda>p. Signal p SIGKILL) pids))"

section \<open>Whom containment can reach\<close>

lemma sint_nonneg: "0 \<le> sint pid \<longleftrightarrow> pid < (0x80000000 :: u32)"
proof -
  have u: "unat pid < 2 ^ 32" using unsigned_less [of pid, where ?'a = nat] by simp
  have "bit pid 31 \<longleftrightarrow> bit (unat pid) 31" by (simp add: bit_unsigned_iff)
  also have "\<dots> \<longleftrightarrow> odd (unat pid div 2 ^ 31)" by (simp add: bit_iff_odd)
  also have "\<dots> \<longleftrightarrow> 2 ^ 31 \<le> unat pid"
  proof
    assume "2 ^ 31 \<le> unat pid"
    then have "unat pid div 2 ^ 31 = 1" using u by (intro div_nat_eqI) auto
    then show "odd (unat pid div 2 ^ 31)" by simp
  qed (rule ccontr, simp)
  finally show ?thesis using bit_last_iff [of pid] by (auto simp: word_less_nat_alt)
qed

lemma positive_sint: "positive_pid pid \<longleftrightarrow> 0 < sint pid"
  using sint_nonneg [of pid] by (auto simp: positive_pid_def try_i32_def)

text \<open>Any signal of an action list goes to this process.\<close>

fun touches_only :: "u32 \<Rightarrow> os_action \<Rightarrow> bool" where
  "touches_only pid (Signal p sg) = (p = sint pid \<and> 0 < p \<and> sg = SIGSTOP)"
| "touches_only pid (WriteFile f text) = (prefix cg_path f \<and> text \<in> {[], ''1'', show_nat (unat pid)})"
| "touches_only pid (MakeDir d) = (d = cg_path)"

lemma sigstop_touches: "list_all (touches_only pid) (snd (sigstop_fallback env pid))"
  by (auto simp: sigstop_fallback_def try_i32_def)

lemma then_fallback_touches:
  "list_all (touches_only pid) acts \<Longrightarrow> list_all (touches_only pid) (snd (then_fallback env pid acts))"
  using sigstop_touches [of pid env] by (simp add: then_fallback_def case_prod_beta)

lemma freeze_touches: "list_all (touches_only pid) (snd (cgroup_freeze env pid))"
  by (auto simp: cgroup_freeze_def Let_def intro!: then_fallback_touches)

lemma quarantine_touches: "list_all (touches_only pid) (snd (quarantine_pid env pid))"
  by (simp add: quarantine_pid_def freeze_touches sigstop_touches)


lemma sint_inj: "sint a = sint b \<longleftrightarrow> a = (b :: u32)"
  using word_eq_iff_signed [of a b, where ?'a = int] by simp

text \<open>
  Killing the tree of a process kills the process and exactly its direct children (deeper
  descendants survive), every signal goes to a positive pid as long as the pids of \<open>/proc\<close> are pids
  of the kernel, and the number reported is the number of signals that were delivered.
\<close>

theorem kill_tree_exact:
  assumes "proc_dir env = Some names" and "positive_pid root"
    and "list_all (\<lambda>n. case parse_u32 n of Some k \<Rightarrow> 0 < k \<and> k < 2 ^ 31 | None \<Rightarrow> True) names"
  shows "list_all (\<lambda>a. case a of Signal p sg \<Rightarrow> 0 < p \<and> sg = SIGKILL | _ \<Rightarrow> False) (snd (kill_tree env root))
    \<and> list_all (\<lambda>n. case parse_u32 n of
          Some k \<Rightarrow> Signal (sint (of_nat k :: u32)) SIGKILL \<in> set (snd (kill_tree env root))
            \<longleftrightarrow> of_nat k = root \<or> is_child env root (of_nat k)
        | None \<Rightarrow> True) names
    \<and> fst (kill_tree env root) = length (filter (\<lambda>a. case a of Signal p sg \<Rightarrow> kill_works env p sg | _ \<Rightarrow> False)
        (snd (kill_tree env root)))"
proof -
  let ?t = "tree_children env root names"
  have acts: "snd (kill_tree env root) = map (\<lambda>p. Signal (sint p) SIGKILL) (?t @ [root])"
    using assms(1,2) by (simp add: kill_tree_def Let_def comp_def)
  have pos: "0 < sint p" if "p \<in> set ?t" for p
  proof -
    from that obtain n k where k: "n \<in> set names" "parse_u32 n = Some k" "p = of_nat k"
      by (auto simp: tree_children_def List.map_filter_def)
    then have "0 < k" "k < 2 ^ 31" using assms(3) by (auto simp: list_all_iff)
    then have "unat p = k" by (simp add: k(3) unat_of_nat)
    then have "0 \<le> sint p" "p \<noteq> 0" using \<open>0 < k\<close> \<open>k < 2 ^ 31\<close> by (auto simp: sint_nonneg word_less_nat_alt)
    then show ?thesis using sint_inj [of p 0] by simp
  qed
  have mem: "p \<in> set ?t \<longleftrightarrow> is_child env root p" if "n \<in> set names" "parse_u32 n = Some k" "p = of_nat k" for n k p
    using that by (force simp: tree_children_def List.map_filter_def)
  have "fst (kill_tree env root) = length (filter (\<lambda>a. case a of Signal p sg \<Rightarrow> kill_works env p sg | _ \<Rightarrow> False)
        (map (\<lambda>p. Signal (sint p) SIGKILL) (?t @ [root])))"
    using assms(1,2) by (simp add: kill_tree_def Let_def count_killed_def filter_map comp_def)
  moreover have "0 < sint root" using assms(2) by (simp add: positive_sint)
  ultimately show ?thesis
    unfolding acts using pos mem by (fastforce simp: list_all_iff sint_inj split: option.split)
qed

definition kill_env :: os_env where
  "kill_env = \<lparr>cgroup_v2_available = True, cg_dir_exists = True, mkdir_works = True,
     write_works = \<lambda>f t. True, kill_works = \<lambda>p sg. True, proc_dir = Some [''self'', ''7'', ''8''],
     os_fs = \<lparr>pf_status = (\<lambda>p. if p = 7 then Some ''PPid:5'' else Some ''PPid:1''), pf_stat = \<lambda>_. None,
       pf_exe = \<lambda>_. None, pf_cmdline = \<lambda>_. None, pf_net = \<lambda>_. None, pf_fds = []\<rparr>\<rparr>"

theorem kill_tree_exact_witness:
  "Signal (sint (7 :: u32)) SIGKILL \<in> set (snd (kill_tree kill_env 5))"
proof -
  have p: "parse_u32 ''self'' = None" "parse_u32 ''7'' = Some 7" "parse_u32 ''8'' = Some 8" "parse_u32 ''5'' = Some 5"
    by (simp_all add: parse_u32_def parse_uint_def strip_plus_def is_digit_def digits_val_def digit_val_def)
  have t: "text_lines ''PPid:5'' = [''PPid:5'']" "trim_start ''PPid:5'' = ''PPid:5''" "trim ''5'' = ''5''"
    by (simp_all add: text_lines_def strip_cr_def trim_def trim_start_def trim_end_def is_ws_def)
  have child: "is_child kill_env 5 7" by (simp add: is_child_def kill_env_def t strip_prefix_def p)
  have "proc_dir kill_env = Some [''self'', ''7'', ''8'']" by (simp add: kill_env_def)
  moreover have "positive_pid 5" by (simp add: positive_sint)
  moreover have "list_all (\<lambda>n. case parse_u32 n of Some k \<Rightarrow> 0 < k \<and> k < 2 ^ 31 | None \<Rightarrow> True) [''self'', ''7'', ''8'']"
    by (simp add: p)
  ultimately show ?thesis using kill_tree_exact [of kill_env "[''self'', ''7'', ''8'']" 5] child by (simp add: p)
qed

end
