(* ===== verification/Trust.thy ===== *)
theory Trust
  imports Rust_Text Alist_Facts Ring0_Prelude
begin

text \<open>
  Trust in a binary, \<open>ring0d/src/trust.rs\<close>. The files a verification reads and the answers of the
  \<open>rpm\<close> command are a parameter (\<open>trust_env\<close>), SHA-256 is a function argument \<open>sha\<close>. The two
  caches are association lists that are cleared when they outgrow 8192 entries.
\<close>

section \<open>State and environment\<close>

datatype trust_status = TrustedSystemPackage | TrustedBinary | Untrusted | Unknown

definition TRUSTED_PATHS :: "string list" where
  "TRUSTED_PATHS = [''/usr/bin/'', ''/usr/libexec/'', ''/usr/lib64/'', ''/usr/lib/'', ''/usr/sbin/'', ''/bin/'', ''/sbin/'']"

definition ALWAYS_ALLOW_BINARIES :: "string list" where
  "ALWAYS_ALLOW_BINARIES = [''dnf'', ''rpm'', ''flatpak'', ''systemd-resolved'', ''systemd-network'', ''sshd'',
     ''chronyd'', ''NetworkManager'', ''firewalld'', ''packagekitd'', ''dbus-daemon'', ''systemd-logind'']"

type_synonym memo_key = "string \<times> u64 \<times> u64"

record trust_engine =
  status_cache :: "(bytes \<times> trust_status) list"
  path_memo :: "(memo_key \<times> trust_status) list"

definition trust_new :: trust_engine where
  "trust_new = \<lparr>status_cache = [], path_memo = []\<rparr>"

text \<open>
  \<open>te_meta\<close>: size and modification time (nanoseconds, 0 if unknown); \<open>te_rpm_owner\<close>: success and
  output of \<open>rpm -qf\<close>; \<open>te_rpm_verify\<close>: success of \<open>rpm -qVf\<close>; \<open>None\<close>: the command cannot run.
\<close>

record trust_env =
  te_path_var :: string
  te_is_file :: "string \<Rightarrow> bool"
  te_meta :: "string \<Rightarrow> (u64 \<times> u64) option"
  te_read :: "string \<Rightarrow> bytes option"
  te_rpm_owner :: "string \<Rightarrow> (bool \<times> bytes) option"
  te_rpm_verify :: "string \<Rightarrow> bool option"

section \<open>Classification\<close>

definition trust_resolve_path :: "trust_env \<Rightarrow> string \<Rightarrow> string option" where
  "trust_resolve_path env name =
     find (te_is_file env) (map (\<lambda>d. d @ ''/'' @ name) (split_on CHR '':'' (te_path_var env)))"

definition verify_rpm_package :: "trust_env \<Rightarrow> string \<Rightarrow> bool" where
  "verify_rpm_package env path = (case te_rpm_owner env path of
     Some (success, out) \<Rightarrow> success \<and> trim (from_utf8_lossy out) \<noteq> [] | None \<Rightarrow> False)"

definition verify_rpm_integrity :: "trust_env \<Rightarrow> string \<Rightarrow> bool" where
  "verify_rpm_integrity env path = (case te_rpm_verify env path of Some ok \<Rightarrow> ok | None \<Rightarrow> False)"

definition check_binary_status_gpg :: "trust_env \<Rightarrow> string \<Rightarrow> trust_status" where
  "check_binary_status_gpg env path =
     (let name = (case path_file_name path of Some n \<Rightarrow> n | None \<Rightarrow> []) in
      if name \<in> set ALWAYS_ALLOW_BINARIES then TrustedBinary
      else if \<not> list_ex (\<lambda>p. prefix p path) TRUSTED_PATHS then Untrusted
      else if verify_rpm_package env path then
        (if verify_rpm_integrity env path then TrustedSystemPackage else Unknown)
      else TrustedBinary)"

section \<open>Verification with the caches\<close>

definition resolve_binary :: "trust_env \<Rightarrow> string \<Rightarrow> string" where
  "resolve_binary env path = (if CHR ''/'' \<in> set path then path
     else case trust_resolve_path env path of Some p \<Rightarrow> p | None \<Rightarrow> path)"

text \<open>The part behind the memo: hash the content, look it up, classify.\<close>

definition verify_content :: "trust_env \<Rightarrow> (bytes \<Rightarrow> bytes) \<Rightarrow> string \<Rightarrow> memo_key \<Rightarrow> trust_engine \<Rightarrow> trust_status \<times> trust_engine" where
  "verify_content env sha path key e =
     (case te_read env path of
        None \<Rightarrow> (Unknown, e)
      | Some content \<Rightarrow>
          (case map_of (status_cache e) (sha content) of
             Some s \<Rightarrow> (s, e)
           | None \<Rightarrow>
               let s = check_binary_status_gpg env path in
               (s, e\<lparr>status_cache := capped_update 8192 (sha content) s (status_cache e),
                     path_memo := capped_update 8192 key s (path_memo e)\<rparr>)))"

definition verify_impl :: "trust_env \<Rightarrow> (bytes \<Rightarrow> bytes) \<Rightarrow> string \<Rightarrow> trust_engine \<Rightarrow> trust_status \<times> trust_engine" where
  "verify_impl env sha path e =
     (if path = ''unknown'' \<or> path = [] then (Unknown, e)
      else case te_meta env (resolve_binary env path) of
        None \<Rightarrow> (Unknown, e)
      | Some (len, mtime) \<Rightarrow>
          (case map_of (path_memo e) (path, len, mtime) of
             Some s \<Rightarrow> (s, e)
           | None \<Rightarrow> verify_content env sha path (path, len, mtime) e))"

definition is_trusted :: "trust_status \<Rightarrow> bool" where
  "is_trusted s \<longleftrightarrow> s = TrustedSystemPackage \<or> s = TrustedBinary"

definition is_allowed_connect :: "trust_env \<Rightarrow> (bytes \<Rightarrow> bytes) \<Rightarrow> string \<Rightarrow> trust_engine \<Rightarrow> bool \<times> trust_engine" where
  "is_allowed_connect env sha path e = (case verify_impl env sha path e of (s, e') \<Rightarrow> (is_trusted s, e'))"

definition cache_size :: "trust_engine \<Rightarrow> nat" where
  "cache_size e = length (status_cache e)"

section \<open>What a verdict is worth\<close>

text \<open>Some readable file with this hash was classified so.\<close>

definition classified :: "trust_env \<Rightarrow> (bytes \<Rightarrow> bytes) \<Rightarrow> bytes \<Rightarrow> trust_status \<Rightarrow> bool" where
  "classified env sha h s \<longleftrightarrow>
     (\<exists>p c. te_read env p = Some c \<and> sha c = h \<and> s = check_binary_status_gpg env p)"

text \<open>
  Both caches hold classifications made in the environment: an entry of the memo is that of the
  file under its own path.
\<close>

definition caches_ok :: "trust_env \<Rightarrow> (bytes \<Rightarrow> bytes) \<Rightarrow> trust_engine \<Rightarrow> bool" where
  "caches_ok env sha e \<longleftrightarrow> length (status_cache e) \<le> 8192 \<and> length (path_memo e) \<le> 8192
     \<and> list_all (\<lambda>(h, s). classified env sha h s) (status_cache e)
     \<and> list_all (\<lambda>((p, len, mtime), s). te_read env p \<noteq> None \<and> s = check_binary_status_gpg env p) (path_memo e)"

lemma caches_ok_new: "caches_ok env sha trust_new"
  by (simp add: caches_ok_def trust_new_def)

lemma caches_ok_store:
  assumes "caches_ok env sha e" "te_read env p = Some c" "s = check_binary_status_gpg env p"
  shows "caches_ok env sha (e\<lparr>status_cache := capped_update 8192 (sha c) s (status_cache e),
    path_memo := capped_update 8192 (p, k) s (path_memo e)\<rparr>)"
proof -
  have "classified env sha (sha c) s" using assms(2,3) by (auto simp: classified_def)
  moreover have "case (p, k) of (p, len, mtime) \<Rightarrow> te_read env p \<noteq> None \<and> s = check_binary_status_gpg env p"
    using assms(2,3) by (simp split: prod.split)
  ultimately show ?thesis
    using assms(1) by (cases k) (simp add: caches_ok_def capped_update_length capped_update_all)
qed

lemma verify_content_ok: "caches_ok env sha e \<Longrightarrow> caches_ok env sha (snd (verify_content env sha p (p, k) e))"
  using caches_ok_store [of env sha e p]
  by (simp add: verify_content_def Let_def split: option.split)

text \<open>The cases of a verification.\<close>

lemma verify_cases:
  "verify_impl env sha path e = (Unknown, e)
   \<or> (\<exists>k s. map_of (path_memo e) (path, k) = Some s \<and> verify_impl env sha path e = (s, e))
   \<or> (\<exists>k. verify_impl env sha path e = verify_content env sha path (path, k) e)"
proof (cases "te_meta env (resolve_binary env path)")
  case (Some lm)
  then show ?thesis
    by (cases lm; cases "map_of (path_memo e) (path, lm)") (simp_all add: verify_impl_def, blast+)
qed (simp add: verify_impl_def)

lemma verify_ok: "caches_ok env sha e \<Longrightarrow> caches_ok env sha (snd (verify_impl env sha path e))"
  using verify_cases [of env sha path e] verify_content_ok by (metis snd_conv)

text \<open>
  The caches stay within 8192 entries over any sequence of verifications, and every verdict
  is \<open>Unknown\<close> or the classification of some file with the same hash as the binary: not necessarily
  that of the binary under its own path.
\<close>

theorem verdict_is_classification:
  assumes "e = fold (\<lambda>p e. snd (verify_impl env sha p e)) ps trust_new"
    and "te_read env path = Some content"
  shows "caches_ok env sha e
    \<and> (fst (verify_impl env sha path e) = Unknown \<or> classified env sha (sha content) (fst (verify_impl env sha path e)))"
proof -
  have ok: "caches_ok env sha e" unfolding assms(1)
    by (induction ps rule: rev_induct) (simp_all add: caches_ok_new verify_ok)
  have own: "classified env sha (sha content) (check_binary_status_gpg env path)"
    using assms(2) by (auto simp: classified_def)
  have hit: "classified env sha h s" if "map_of (status_cache e) h = Some s" for h s
    using ok map_of_SomeD [OF that] by (auto simp: caches_ok_def list_all_iff)
  have memo: "classified env sha (sha content) s" if "map_of (path_memo e) (path, k) = Some s" for k s
    using ok map_of_SomeD [OF that] own by (cases k) (auto simp: caches_ok_def list_all_iff)
  have "fst (verify_content env sha path k e) = Unknown \<or> classified env sha (sha content) (fst (verify_content env sha path k e))" for k
    using own hit assms(2) by (auto simp: verify_content_def Let_def split: option.split)
  then show ?thesis using ok memo verify_cases [of env sha path e] by (metis fst_conv)
qed

text \<open>
  The verdict of the first path wins: once a binary was classified under one path, the same
  content under any other path gets that verdict, trusted or not, whatever that path is.
\<close>

theorem first_path_decides:
  assumes "te_read env p = Some c" "te_read env q = Some c"
    and "te_meta env (resolve_binary env p) = Some m" "te_meta env (resolve_binary env q) = Some n"
    and "p \<noteq> ''unknown''" "p \<noteq> []" "q \<noteq> ''unknown''" "q \<noteq> []" "p \<noteq> q"
  shows "fst (verify_impl env sha q (snd (verify_impl env sha p trust_new))) = check_binary_status_gpg env p"
proof -
  let ?s = "check_binary_status_gpg env p"
  have "verify_impl env sha p trust_new = (?s, \<lparr>status_cache = [(sha c, ?s)], path_memo = [((p, m), ?s)]\<rparr>)"
    using assms(1,3,5,6)
    by (cases m) (simp add: verify_impl_def verify_content_def trust_new_def Let_def capped_update_def)
  then show ?thesis
    using assms(2,4,7,8,9) by (cases n) (simp add: verify_impl_def verify_content_def)
qed

definition copy_env :: trust_env where
  "copy_env = \<lparr>te_path_var = ''/usr/bin'', te_is_file = \<lambda>f. False, te_meta = \<lambda>f. Some (4, 1),
     te_read = \<lambda>f. Some [0x7F, 0x45, 0x4C, 0x46], te_rpm_owner = \<lambda>f. None, te_rpm_verify = \<lambda>f. None\<rparr>"

lemma copy_env_status:
  "check_binary_status_gpg copy_env ''/usr/bin/x'' = TrustedBinary" "check_binary_status_gpg copy_env ''/tmp/x'' = Untrusted"
  by (simp_all add: check_binary_status_gpg_def path_file_name_def path_components_def ALWAYS_ALLOW_BINARIES_def
      TRUSTED_PATHS_def copy_env_def verify_rpm_package_def Let_def)

theorem verdict_is_classification_witness:
  "caches_ok copy_env id (fold (\<lambda>p e. snd (verify_impl copy_env id p e)) [''/usr/bin/x'', ''/tmp/x''] trust_new)"
  using verdict_is_classification [OF refl, of copy_env "''/tmp/x''" "[0x7F, 0x45, 0x4C, 0x46]" id "[''/usr/bin/x'', ''/tmp/x'']"]
  by (simp add: copy_env_def)

theorem first_path_decides_witness:
  "fst (verify_impl copy_env id ''/tmp/x'' (snd (verify_impl copy_env id ''/usr/bin/x'' trust_new))) = TrustedBinary"
  using first_path_decides [of copy_env "''/usr/bin/x''" "[0x7F, 0x45, 0x4C, 0x46]" "''/tmp/x''" "(4, 1)" "(4, 1)" id]
  by (simp add: copy_env_status) (simp add: copy_env_def)

end
