(* ===== verification/Detectors.thy ===== *)
theory Detectors
  imports Abi Rust_Text Alist_Facts
begin

text \<open>
  The small detectors of the daemon and their histories: self-defense
  (\<open>ring0d/src/self_defense.rs\<close>), privilege escalation (\<open>privesc.rs\<close>), Flatpak sandboxes
  (\<open>desktop_sandbox.rs\<close>), and the event part of the rootkit detector (\<open>rootkit.rs\<close>). Times of the
  wall clock and the texts of \<open>/proc\<close> are arguments.
\<close>

section \<open>Self-defense\<close>

record self_defense_event =
  sde_timestamp :: u64
  sde_attacker_pid :: u32
  sde_target_path :: string
  sde_syscall :: string
  sde_blocked :: bool

record self_defense =
  sd_locked :: bool
  sd_events :: "self_defense_event list"
  sd_daemon_pid :: u32

definition self_defense_new :: "u32 \<Rightarrow> self_defense" where
  "self_defense_new pid = \<lparr>sd_locked = False, sd_events = [], sd_daemon_pid = pid\<rparr>"

definition lock_ebpf_maps :: "self_defense \<Rightarrow> self_defense" where
  "lock_ebpf_maps s = s\<lparr>sd_locked := True\<rparr>"

definition push_event :: "self_defense_event \<Rightarrow> self_defense_event list \<Rightarrow> self_defense_event list" where
  "push_event evt events =
     (let events = (if 2048 \<le> length events then drop (length events - 2048 + 1) events else events)
      in events @ [evt])"

definition show_u32 :: "u32 \<Rightarrow> string" where
  "show_u32 x = show_nat (unat x)"

definition ingest_kill_attempt :: "u64 \<Rightarrow> u32 \<Rightarrow> u32 \<Rightarrow> u32 \<Rightarrow> self_defense \<Rightarrow> self_defense_event option \<times> self_defense" where
  "ingest_kill_attempt t attacker target sg s =
     (if target \<noteq> sd_daemon_pid s then (None, s)
      else
        let evt = \<lparr>sde_timestamp = t, sde_attacker_pid = attacker, sde_target_path = ''PID '' @ show_u32 target,
              sde_syscall = ''kill(pid='' @ show_u32 target @ '', sig='' @ show_u32 sg @ '')'', sde_blocked = True\<rparr>
        in (Some evt, s\<lparr>sd_events := push_event evt (sd_events s)\<rparr>))"

definition ingest_unlink_attempt :: "u64 \<Rightarrow> u32 \<Rightarrow> string \<Rightarrow> self_defense \<Rightarrow> self_defense_event option \<times> self_defense" where
  "ingest_unlink_attempt t attacker path s =
     (let evt = \<lparr>sde_timestamp = t, sde_attacker_pid = attacker, sde_target_path = path,
            sde_syscall = ''unlinkat('' @ path @ '')'', sde_blocked = True\<rparr>
      in (Some evt, s\<lparr>sd_events := push_event evt (sd_events s)\<rparr>))"

definition recent_events :: "self_defense \<Rightarrow> self_defense_event list" where
  "recent_events s = take 50 (rev (sd_events s))"

section \<open>Privilege escalation\<close>

record privesc_attempt =
  pa_timestamp :: u64
  pa_pid :: u32
  pa_uid :: u32
  pa_event_type :: string
  pa_description :: string
  pa_blocked :: bool

definition push_attempt :: "privesc_attempt \<Rightarrow> privesc_attempt list \<Rightarrow> privesc_attempt list" where
  "push_attempt a log =
     (let log = (if 4096 \<le> length log then drop (length log - 4096 + 1) log else log) in log @ [a])"

definition ingest_ptrace_attempt :: "u64 \<Rightarrow> u32 \<Rightarrow> u32 \<Rightarrow> u32 \<Rightarrow> privesc_attempt list \<Rightarrow> privesc_attempt option \<times> privesc_attempt list" where
  "ingest_ptrace_attempt t pid uid target log =
     (let a = \<lparr>pa_timestamp = t, pa_pid = pid, pa_uid = uid, pa_event_type = ''ptrace_attach'',
         pa_description = (if target \<noteq> 0
           then ''ptrace injection attempt: PID '' @ show_u32 pid @ '' -> PID '' @ show_u32 target
           else ''ptrace access attempt: PID '' @ show_u32 pid), pa_blocked = True\<rparr>
      in (Some a, push_attempt a log))"

definition ingest_capable_check :: "u64 \<Rightarrow> u32 \<Rightarrow> u32 \<Rightarrow> u32 \<Rightarrow> privesc_attempt list \<Rightarrow> privesc_attempt option \<times> privesc_attempt list" where
  "ingest_capable_check t pid uid cap log =
     (let a = \<lparr>pa_timestamp = t, pa_pid = pid, pa_uid = uid, pa_event_type = ''capable'',
         pa_description = ''capability check: PID '' @ show_u32 pid @ '' requested cap='' @ show_u32 cap,
         pa_blocked = (cap = 21 \<or> cap = 12 \<or> cap = 17)\<rparr>
      in (Some a, push_attempt a log))"

definition ingest_setuid_event :: "u64 \<Rightarrow> u32 \<Rightarrow> u32 \<Rightarrow> u32 \<Rightarrow> privesc_attempt list \<Rightarrow> privesc_attempt option \<times> privesc_attempt list" where
  "ingest_setuid_event t pid old_uid new_uid log =
     (let a = \<lparr>pa_timestamp = t, pa_pid = pid, pa_uid = old_uid, pa_event_type = ''setuid'',
         pa_description = ''setuid transition: PID '' @ show_u32 pid @ '' UID '' @ show_u32 old_uid @ '' -> '' @ show_u32 new_uid,
         pa_blocked = (new_uid = 0 \<and> old_uid \<noteq> 0)\<rparr>
      in (Some a, push_attempt a log))"

definition recent_attempts :: "nat \<Rightarrow> privesc_attempt list \<Rightarrow> privesc_attempt list" where
  "recent_attempts n log = take n (rev log)"

definition total_blocked :: "privesc_attempt list \<Rightarrow> nat" where
  "total_blocked log = length (filter pa_blocked log)"

section \<open>Flatpak sandboxes\<close>

record flatpak_app =
  fa_app_id :: string
  fa_pid :: u32
  fa_instance_path :: string
  fa_shared_network :: bool
  fa_shared_dbus :: bool
  fa_allowed_features :: "string list"

record sandbox_anomaly =
  sa_timestamp :: u64
  sa_pid :: u32
  sa_app_id :: string
  sa_event_type :: string
  sa_description :: string

record desktop_sandbox =
  ds_apps :: "(u32 \<times> flatpak_app) list"
  ds_anomalies :: "sandbox_anomaly list"

text \<open>\<open>metadata\<close> and \<open>info\<close>: the texts of \<open>root/app/metadata\<close> and \<open>root/.flatpak-info\<close> of the process.\<close>

definition extract_flatpak_id :: "string option \<Rightarrow> string \<Rightarrow> string option" where
  "extract_flatpak_id info cmdline =
     (case find (\<lambda>s. CHR ''.'' \<in> set s) (split_on CHR '' '' cmdline) of
        Some i \<Rightarrow> if 2 \<le> length (filter (\<lambda>c. c = CHR ''.'') i) then Some i
                  else Option.bind info (\<lambda>s. map_option trim
                    (Option.bind (find (\<lambda>l. strip_prefix ''application='' l \<noteq> None) (text_lines s)) (strip_prefix ''application='')))
      | None \<Rightarrow> Option.bind info (\<lambda>s. map_option trim
                    (Option.bind (find (\<lambda>l. strip_prefix ''application='' l \<noteq> None) (text_lines s)) (strip_prefix ''application=''))))"

definition check_metadata_permission :: "string option \<Rightarrow> string \<Rightarrow> bool" where
  "check_metadata_permission metadata perm = (case metadata of Some s \<Rightarrow> str_contains s perm | None \<Rightarrow> False)"

definition resolve_pid ::
    "string option \<Rightarrow> string option \<Rightarrow> u32 \<Rightarrow> string \<Rightarrow> string \<Rightarrow> desktop_sandbox \<Rightarrow> flatpak_app option \<times> desktop_sandbox" where
  "resolve_pid metadata info pid binary cmdline d =
     (if \<not> str_contains binary ''flatpak'' \<and> \<not> str_contains cmdline ''flatpak'' \<and> \<not> str_contains cmdline ''bwrap''
      then (map_of (ds_apps d) pid, d)
      else case extract_flatpak_id info cmdline of
        None \<Rightarrow> (map_of (ds_apps d) pid, d)
      | Some i \<Rightarrow>
          let net = check_metadata_permission metadata ''shared=network'';
              dbus = check_metadata_permission metadata ''shared=ipc'';
              app = \<lparr>fa_app_id = i, fa_pid = pid, fa_instance_path = ''/proc/'' @ show_u32 pid @ ''/root/app'',
                fa_shared_network = net, fa_shared_dbus = dbus,
                fa_allowed_features = (if net then [''network''] else []) @ (if dbus then [''dbus''] else [])\<rparr>
          in (Some app, d\<lparr>ds_apps := AList.update pid app (ds_apps d)\<rparr>))"

definition push_anomaly :: "sandbox_anomaly \<Rightarrow> sandbox_anomaly list \<Rightarrow> sandbox_anomaly list" where
  "push_anomaly a h = (let h = (if 2048 \<le> length h then drop 1 h else h) in h @ [a])"

definition check_network_anomaly :: "u64 \<Rightarrow> u32 \<Rightarrow> string \<Rightarrow> desktop_sandbox \<Rightarrow> sandbox_anomaly option \<times> desktop_sandbox" where
  "check_network_anomaly t pid binary d =
     (case map_of (ds_apps d) pid of
        None \<Rightarrow> (None, d)
      | Some app \<Rightarrow>
          if fa_shared_network app then (None, d)
          else if str_contains binary ''dbus-daemon'' \<or> str_contains binary ''pipewire'' then (None, d)
          else
            let a = \<lparr>sa_timestamp = t, sa_pid = pid, sa_app_id = fa_app_id app, sa_event_type = ''unauthorized_network'',
                  sa_description = ''Flatpak app '' @ fa_app_id app @ '' (PID '' @ show_u32 pid
                    @ '') opened network socket but has no network permission''\<rparr>
            in (Some a, d\<lparr>ds_anomalies := push_anomaly a (ds_anomalies d)\<rparr>))"

definition check_file_anomaly :: "u64 \<Rightarrow> u32 \<Rightarrow> string \<Rightarrow> desktop_sandbox \<Rightarrow> sandbox_anomaly option \<times> desktop_sandbox" where
  "check_file_anomaly t pid path d =
     (case map_of (ds_apps d) pid of
        None \<Rightarrow> (None, d)
      | Some app \<Rightarrow>
          if prefix ''/app/'' path \<or> prefix ''/run/'' path \<or> prefix ''/tmp/'' path then (None, d)
          else if prefix ''/etc/'' path \<or> prefix ''/usr/'' path \<or> prefix ''/home/'' path then
            let a = \<lparr>sa_timestamp = t, sa_pid = pid, sa_app_id = fa_app_id app, sa_event_type = ''sandbox_escape'',
                  sa_description = ''Flatpak app '' @ fa_app_id app @ '' (PID '' @ show_u32 pid
                    @ '') accessed host path '' @ path @ '' outside sandbox''\<rparr>
            in (Some a, d\<lparr>ds_anomalies := push_anomaly a (ds_anomalies d)\<rparr>)
          else (None, d))"

definition is_flatpak_process :: "u32 \<Rightarrow> desktop_sandbox \<Rightarrow> bool" where
  "is_flatpak_process pid d \<longleftrightarrow> map_of (ds_apps d) pid \<noteq> None"

section \<open>Rootkit events\<close>

record rootkit_finding =
  rf_alert_type :: string
  rf_description :: string
  rf_pid :: u32
  rf_hidden :: bool
  rf_module_name :: string
  rf_timestamp :: u64

text \<open>\<open>{:x}\<close>: lower-case hexadecimal without leading zeros.\<close>

fun show_hex_lower :: "nat \<Rightarrow> string" where
  "show_hex_lower n =
     (let d = (\<lambda>k. [char_of (if k < 10 then 48 + k else 87 + k)]) in
      if n < 16 then d n else show_hex_lower (n div 16) @ d (n mod 16))"

declare show_hex_lower.simps [simp del]

definition ingest_memfd_event :: "u64 \<Rightarrow> u32 \<Rightarrow> string \<Rightarrow> u32 \<Rightarrow> rootkit_finding option" where
  "ingest_memfd_event t pid name flags = Some \<lparr>rf_alert_type = ''FilelessExec'',
     rf_description = ''memfd_create by PID '' @ show_u32 pid @ '': name='' @ name @ '' flags=0x'' @ show_hex_lower (unat flags),
     rf_pid = pid, rf_hidden = False, rf_module_name = name, rf_timestamp = t\<rparr>"

definition ingest_wx_mmap_event :: "u64 \<Rightarrow> u32 \<Rightarrow> u32 \<Rightarrow> u32 \<Rightarrow> u64 \<Rightarrow> rootkit_finding option" where
  "ingest_wx_mmap_event t pid prot flags len =
     (let is_wx = (prot AND 2 \<noteq> 0 \<and> prot AND 4 \<noteq> 0) in
      Some \<lparr>rf_alert_type = (if is_wx then ''WXMemoryMapping'' else ''AnonymousExecMapping''),
        rf_description = ''Process '' @ show_u32 pid @ '' mapped '' @ (if is_wx then ''W+X'' else ''anonymous executable'')
          @ '' memory: prot=0x'' @ show_hex_lower (unat prot) @ '' flags=0x'' @ show_hex_lower (unat flags)
          @ '' len='' @ show_nat (unat len),
        rf_pid = pid, rf_hidden = False, rf_module_name = [], rf_timestamp = t\<rparr>)"

definition ingest_module_event :: "u64 \<Rightarrow> string option \<Rightarrow> u32 \<Rightarrow> string \<Rightarrow> u32 \<Rightarrow> rootkit_finding option" where
  "ingest_module_event t binary pid name flags = Some \<lparr>rf_alert_type = ''KernelModuleLoad'',
     rf_description = ''Process '' @ show_u32 pid @ '' ('' @ (case binary of Some b \<Rightarrow> b | None \<Rightarrow> ''unknown'')
       @ '') loaded kernel module: '' @ name @ '' flags=0x'' @ show_hex_lower (unat flags),
     rf_pid = pid, rf_hidden = False, rf_module_name = name, rf_timestamp = t\<rparr>"

section \<open>Their histories\<close>

interpretation self_defense_history: bounded_history push_event 2048
  by unfold_locales (auto simp: push_event_def Let_def)

interpretation privesc_history: bounded_history push_attempt 4096
  by unfold_locales (auto simp: push_attempt_def Let_def)

interpretation anomaly_history: bounded_history push_anomaly 2048
  by unfold_locales (auto simp: push_anomaly_def Let_def)

end
