(* ===== verification/Fastpath.thy ===== *)
theory Fastpath
  imports Abi
begin

text \<open>
  The mirror of the kernel's established flows, \<open>ring0d/src/fastpath.rs\<close>: a queue of flow keys with
  the time of their offload (nanoseconds of the monotonic clock), oldest first.
\<close>

definition IDLE_TIMEOUT_SECS :: nat where "IDLE_TIMEOUT_SECS = 300"
definition MAX_FLOWS :: nat where "MAX_FLOWS = 65536"

type_synonym fastpath = "(flow_key \<times> nat) list"

definition mark_flow_safe :: "flow_key \<times> nat \<Rightarrow> fastpath \<Rightarrow> fastpath" where
  "mark_flow_safe kt flows = (if MAX_FLOWS \<le> length flows then drop 1 flows else flows) @ [kt]"

definition remove_flow :: "flow_key \<Rightarrow> fastpath \<Rightarrow> fastpath" where
  "remove_flow key flows = filter (\<lambda>(k, t). k \<noteq> key) flows"

definition purge_idle_flows :: "nat \<Rightarrow> fastpath \<Rightarrow> fastpath" where
  "purge_idle_flows tnow flows = filter (\<lambda>(k, t). (tnow - t) div 1000000000 < IDLE_TIMEOUT_SECS) flows"

definition handle_tcp_fin :: "u32 \<Rightarrow> u32 \<Rightarrow> u16 \<Rightarrow> u16 \<Rightarrow> fastpath \<Rightarrow> fastpath" where
  "handle_tcp_fin src dst sport dport =
     remove_flow \<lparr>fk_src_ip = src, fk_dst_ip = dst, fk_src_port = sport, fk_dst_port = dport, fk_protocol = 6, fk_pad = replicate 7 0\<rparr>"

definition handle_tcp_rst :: "u32 \<Rightarrow> u32 \<Rightarrow> u16 \<Rightarrow> u16 \<Rightarrow> fastpath \<Rightarrow> fastpath" where
  "handle_tcp_rst = handle_tcp_fin"

section \<open>The queue keeps the newest flows, in order\<close>

interpretation flow_queue: bounded_history mark_flow_safe MAX_FLOWS
  by unfold_locales (auto simp: mark_flow_safe_def MAX_FLOWS_def)

datatype flow_op = FlowSafe flow_key nat | FlowFin u32 u32 u16 u16 | FlowPurge nat

fun flow_do :: "flow_op \<Rightarrow> fastpath \<Rightarrow> fastpath" where
  "flow_do (FlowSafe k t) = mark_flow_safe (k, t)"
| "flow_do (FlowFin a b p q) = handle_tcp_fin a b p q"
| "flow_do (FlowPurge t) = purge_idle_flows t"

fun op_time :: "flow_op \<Rightarrow> nat option" where
  "op_time (FlowSafe k t) = Some t"
| "op_time (FlowFin a b p q) = None"
| "op_time (FlowPurge t) = Some t"

lemmas flow_defs = handle_tcp_fin_def remove_flow_def purge_idle_flows_def mark_flow_safe_def

lemma flow_do_sub: "set (flow_do op fl) \<subseteq> set fl \<union> (case op of FlowSafe k t \<Rightarrow> {(k, t)} | _ \<Rightarrow> {})"
  by (cases op) (auto simp: flow_defs dest: in_set_dropD)

lemma flow_do_length: "length fl \<le> MAX_FLOWS \<Longrightarrow> length (flow_do op fl) \<le> MAX_FLOWS"
  by (cases op) (auto simp: flow_queue.push_le handle_tcp_fin_def remove_flow_def purge_idle_flows_def
      intro: le_trans [OF length_filter_le])

lemma flow_do_sorted:
  "sorted (map snd fl) \<Longrightarrow> (\<forall>x \<in> set fl. case op of FlowSafe k t \<Rightarrow> snd x \<le> t | _ \<Rightarrow> True) \<Longrightarrow>
   sorted (map snd (flow_do op fl))"
proof (cases op)
  case (FlowSafe k t)
  assume s: "sorted (map snd fl)" "\<forall>x \<in> set fl. case op of FlowSafe k t \<Rightarrow> snd x \<le> t | _ \<Rightarrow> True"
  then show ?thesis
    using FlowSafe by (auto simp: mark_flow_safe_def sorted_append drop_map [symmetric] sorted_wrt_drop dest: in_set_dropD)
qed (auto simp: flow_defs sorted_filter)

text \<open>A removal or purge keeps exactly the other, or the younger, flows in their order.\<close>

lemma fin_exact: "(k, t) \<in> set (handle_tcp_fin a b p q fl) \<longleftrightarrow> (k, t) \<in> set fl
    \<and> k \<noteq> \<lparr>fk_src_ip = a, fk_dst_ip = b, fk_src_port = p, fk_dst_port = q, fk_protocol = 6, fk_pad = replicate 7 0\<rparr>"
  by (auto simp: flow_defs)

lemma purge_exact: "(k, t) \<in> set (purge_idle_flows n fl) \<longleftrightarrow> (k, t) \<in> set fl \<and> n - t < 300 * 1000000000"
proof -
  have "(n - t) div 1000000000 < 300 \<longleftrightarrow> n - t < 300 * (1000000000 :: nat)"
    by (rule div_less_iff_less_mult) simp
  then show ?thesis by (auto simp: purge_idle_flows_def IDLE_TIMEOUT_SECS_def)
qed

end
