(* ===== verification/Contextual.thy ===== *)
theory Contextual
  imports Ring0_Prelude
begin

text \<open>
  Contextual connection rules (\<open>ring0d/src/contextual_security.rs\<close>), the power state
  (\<open>power.rs\<close>) and the hot-swap stub (\<open>hotswap.rs\<close>). What D-Bus answers is the argument of the
  operation that stores it: an answer of the screen saver (\<open>None\<close>: no service answered), a signal
  of \<open>login1\<close>.
\<close>

section \<open>Connection rules\<close>

record process_policy =
  pp_pid :: u32
  pp_binary_name :: string
  block_on_lock :: bool
  block_background :: bool
  is_foreground :: bool

record contextual =
  screen_locked :: bool
  background_whitelist :: "string set"
  per_process_policies :: "u32 \<rightharpoonup> process_policy"

definition contextual_new :: contextual where
  "contextual_new = \<lparr>screen_locked = False,
     background_whitelist = {''ring0d'', ''systemd'', ''sshd'', ''NetworkManager'', ''systemd-resolved''},
     per_process_policies = Map.empty\<rparr>"

definition should_block_connection :: "contextual \<Rightarrow> u32 \<Rightarrow> string \<Rightarrow> bool" where
  "should_block_connection c pid binary =
     (let binary_name = after_last CHR ''/'' binary in
      if binary_name \<in> background_whitelist c then False
      else if (case per_process_policies c pid of
                 Some p \<Rightarrow> screen_locked c \<and> block_on_lock p \<or> \<not> is_foreground p \<and> block_background p
               | None \<Rightarrow> False) then True
      else screen_locked c \<and> \<not> str_contains binary ''/usr/bin/'')"

definition set_process_policy :: "u32 \<Rightarrow> process_policy \<Rightarrow> contextual \<Rightarrow> contextual" where
  "set_process_policy pid p c = c\<lparr>per_process_policies := (per_process_policies c)(pid \<mapsto> p)\<rparr>"

definition remove_process_policy :: "u32 \<Rightarrow> contextual \<Rightarrow> contextual" where
  "remove_process_policy pid c = c\<lparr>per_process_policies := (per_process_policies c)(pid := None)\<rparr>"

definition add_background_whitelist :: "string \<Rightarrow> contextual \<Rightarrow> contextual" where
  "add_background_whitelist n c = c\<lparr>background_whitelist := insert n (background_whitelist c)\<rparr>"

definition update_foreground_status :: "u32 \<Rightarrow> bool \<Rightarrow> contextual \<Rightarrow> contextual" where
  "update_foreground_status pid fg c =
     (case per_process_policies c pid of
        Some p \<Rightarrow> c\<lparr>per_process_policies := (per_process_policies c)(pid \<mapsto> p\<lparr>is_foreground := fg\<rparr>)\<rparr>
      | None \<Rightarrow> c)"

text \<open>
  One round of the screen-lock monitor: after three rounds without an answer it only waits. The
  probe asks the three services in turn and takes the first answer.
\<close>

definition screen_locked_via_dbus :: "bool option list \<Rightarrow> bool option" where
  "screen_locked_via_dbus answers = (case List.map_filter id answers of a # _ \<Rightarrow> Some a | [] \<Rightarrow> None)"

definition monitor_round :: "bool \<Rightarrow> bool option list \<Rightarrow> nat \<times> contextual \<Rightarrow> nat \<times> contextual" where
  "monitor_round connected answers st =
     (case st of (misses, c) \<Rightarrow>
        if 3 \<le> misses then (0, c)
        else if \<not> connected then (misses, c)
        else case screen_locked_via_dbus answers of
          Some l \<Rightarrow> (0, c\<lparr>screen_locked := l\<rparr>)
        | None \<Rightarrow> (misses + 1, c))"

section \<open>Power\<close>

record power =
  on_battery :: bool
  fim_throttled :: bool
  poll_interval :: u64

definition power_new :: power where
  "power_new = \<lparr>on_battery = False, fim_throttled = False, poll_interval = 5\<rparr>"

definition prepare_for_sleep :: "bool \<Rightarrow> power \<Rightarrow> power" where
  "prepare_for_sleep sleeping p =
     (if sleeping then p\<lparr>fim_throttled := True, poll_interval := 30\<rparr>
      else p\<lparr>fim_throttled := False, poll_interval := 5\<rparr>)"

definition set_on_battery :: "bool \<Rightarrow> power \<Rightarrow> power" where
  "set_on_battery b p =
     (let p = p\<lparr>on_battery := b\<rparr> in
      if b then p\<lparr>fim_throttled := True, poll_interval := 30\<rparr>
      else p\<lparr>fim_throttled := False, poll_interval := 5\<rparr>)"

section \<open>Hot swap\<close>

record hotswap =
  pinned :: bool
  fallback_active :: bool

definition hotswap_new :: hotswap where
  "hotswap_new = \<lparr>pinned = False, fallback_active = False\<rparr>"

datatype herror = CreateDir | NotImplemented string

definition init_bpffs :: "bool \<Rightarrow> bool \<Rightarrow> hotswap \<Rightarrow> (herror + unit) \<times> hotswap" where
  "init_bpffs bpf_mounted mkdir_ok h =
     (if \<not> bpf_mounted then (Inr (), h)
      else if \<not> mkdir_ok then (Inl CreateDir, h)
      else (Inr (), h\<lparr>pinned := True\<rparr>))"

definition pin_map :: "string \<Rightarrow> herror + unit" where
  "pin_map name = Inl (NotImplemented name)"

definition hotswap_program :: "string \<Rightarrow> herror + unit" where
  "hotswap_program name = Inl (NotImplemented name)"

definition rollback :: "string \<Rightarrow> herror + unit" where
  "rollback name = Inl (NotImplemented name)"

section \<open>What is blocked\<close>

text \<open>
  As long as no policy was set (the daemon sets none), exactly the connections of programs outside
  \<open>/usr/bin/\<close> and the white list are blocked, and only under a locked screen.
\<close>

lemma no_policy_blocks:
  "per_process_policies c = Map.empty \<Longrightarrow> should_block_connection c pid b \<longleftrightarrow>
     screen_locked c \<and> after_last CHR ''/'' b \<notin> background_whitelist c \<and> \<not> str_contains b ''/usr/bin/''"
  by (auto simp: should_block_connection_def Let_def)

text \<open>The white list wins over every policy, and anybody's program may have such a name.\<close>

lemma whitelisted_never_blocked:
  "after_last CHR ''/'' b \<in> background_whitelist c \<Longrightarrow> \<not> should_block_connection c pid b"
  by (simp add: should_block_connection_def Let_def)

lemma monitor_misses: "misses \<le> 3 \<Longrightarrow> fst (monitor_round cn an (misses, c)) \<le> 3"
  by (auto simp: monitor_round_def split: option.split)

text \<open>
  The power state runs two switches over one pair of fields: an AC/battery change and a resume
  each undo the other's throttling.
\<close>

definition power_ok :: "power \<Rightarrow> bool" where
  "power_ok p \<longleftrightarrow> poll_interval p = (if fim_throttled p then 30 else 5)"

lemma power_steps [simp]: "power_ok power_new" "power_ok (prepare_for_sleep s p)" "power_ok (set_on_battery b p)"
  by (simp_all add: power_ok_def power_new_def prepare_for_sleep_def set_on_battery_def Let_def)

lemma resume_on_battery_unthrottles:
  "\<not> fim_throttled (prepare_for_sleep False (set_on_battery True p)) \<and> on_battery (prepare_for_sleep False (set_on_battery True p))"
  by (simp add: prepare_for_sleep_def set_on_battery_def Let_def)

end
