(* ===== verification/Baseline.thy ===== *)
theory Baseline
  imports Rust_Text
begin

text \<open>
  The behavioural baseline, \<open>ring0d/src/baseline.rs\<close>: counters of executions, parent/child pairs
  and destinations, each persisted on every change in the \<open>baseline\<close> column family of the database,
  which is a map from key to value bytes here (\<open>None\<close>: the family does not exist). \<open>entropy\<close>
  stands for the printed Shannon entropy of a text; times are nanoseconds.
\<close>

section \<open>State\<close>

definition LEARNING_PERIOD_SECS :: nat where "LEARNING_PERIOD_SECS = 86400"

type_synonym column_family = "(bytes \<rightharpoonup> bytes) option"

record baseline =
  bl_cf :: column_family
  start_time :: nat
  learning_mode :: bool
  learned_exec_paths :: "string \<rightharpoonup> u64"
  learned_parent_pairs :: "string \<times> string \<rightharpoonup> u64"
  learned_connections :: "u32 \<times> u16 \<rightharpoonup> u64"
  bl_anomalies :: u64

definition be64 :: "u64 \<Rightarrow> bytes" where
  "be64 n = rev (bytes64 n)"

definition from_be64 :: "bytes \<Rightarrow> u64 option" where
  "from_be64 v = (if length v = 8 then rd64 (rev v) 0 else None)"

text \<open>One result of the database iterator (\<open>None\<close>: an iteration error).\<close>

definition load_entry :: "(bytes \<times> bytes) option \<Rightarrow> baseline \<Rightarrow> baseline" where
  "load_entry r b =
     (case r of None \<Rightarrow> b | Some (key, val) \<Rightarrow>
      case from_utf8 key of None \<Rightarrow> b | Some key_str \<Rightarrow>
      case from_be64 val of None \<Rightarrow> b | Some count \<Rightarrow>
      case strip_prefix ''exec:'' key_str of
        Some path \<Rightarrow> b\<lparr>learned_exec_paths := (learned_exec_paths b)(path \<mapsto> count)\<rparr>
      | None \<Rightarrow>
      case strip_prefix ''parent:'' key_str of
        Some pair \<Rightarrow>
          (case split_once CHR ''|'' pair of
             Some pc \<Rightarrow> b\<lparr>learned_parent_pairs := (learned_parent_pairs b)(pc \<mapsto> count)\<rparr>
           | None \<Rightarrow> b)
      | None \<Rightarrow>
      case strip_prefix ''conn:'' key_str of
        Some conn \<Rightarrow>
          (case split_once CHR '':'' conn of
             Some (ip_str, port_str) \<Rightarrow>
               (case (parse_u32 ip_str, parse_u16 port_str) of
                  (Some ip, Some port) \<Rightarrow>
                    b\<lparr>learned_connections := (learned_connections b)((of_nat ip, of_nat port) \<mapsto> count)\<rparr>
                | _ \<Rightarrow> b)
           | None \<Rightarrow> b)
      | None \<Rightarrow> b)"

definition load_persisted :: "(bytes \<times> bytes) option list \<Rightarrow> baseline \<Rightarrow> baseline" where
  "load_persisted results b = fold load_entry results b"

text \<open>\<open>listing\<close> is what the iterator over the column family yields.\<close>

definition baseline_new :: "nat \<Rightarrow> column_family \<Rightarrow> (bytes \<times> bytes) option list \<Rightarrow> baseline" where
  "baseline_new t cf listing =
     (let b = \<lparr>bl_cf = cf, start_time = t, learning_mode = True, learned_exec_paths = Map.empty,
         learned_parent_pairs = Map.empty, learned_connections = Map.empty, bl_anomalies = 0\<rparr>
      in if cf = None then b else load_persisted listing b)"

section \<open>Recording\<close>

definition persist_count_raw :: "bytes \<Rightarrow> u64 \<Rightarrow> baseline \<Rightarrow> baseline" where
  "persist_count_raw key count b =
     (case bl_cf b of Some db \<Rightarrow> b\<lparr>bl_cf := Some (db(key \<mapsto> be64 count))\<rparr> | None \<Rightarrow> b)"

definition bump :: "'k \<Rightarrow> ('k \<rightharpoonup> u64) \<Rightarrow> u64" where
  "bump k m = (case m k of Some n \<Rightarrow> n + 1 | None \<Rightarrow> 1)"

definition record_exec :: "string \<Rightarrow> string option \<Rightarrow> baseline \<Rightarrow> baseline" where
  "record_exec binary parent_binary b =
     (let n = bump binary (learned_exec_paths b);
          b = persist_count_raw (ascii (''exec:'' @ binary)) n
                (b\<lparr>learned_exec_paths := (learned_exec_paths b)(binary \<mapsto> n)\<rparr>) in
      case parent_binary of
        Some parent \<Rightarrow>
          let n = bump (parent, binary) (learned_parent_pairs b) in
          persist_count_raw (ascii (''parent:'' @ parent @ ''|'' @ binary)) n
            (b\<lparr>learned_parent_pairs := (learned_parent_pairs b)((parent, binary) \<mapsto> n)\<rparr>)
      | None \<Rightarrow> b)"

definition record_connection :: "u32 \<Rightarrow> u16 \<Rightarrow> baseline \<Rightarrow> baseline" where
  "record_connection ip port b =
     (let n = bump (ip, port) (learned_connections b) in
      persist_count_raw (ascii (''conn:'' @ show_nat (unat ip) @ '':'' @ show_nat (unat port))) n
        (b\<lparr>learned_connections := (learned_connections b)((ip, port) \<mapsto> n)\<rparr>))"

section \<open>Anomalies\<close>

definition count_anomaly :: "string \<Rightarrow> baseline \<Rightarrow> string option \<times> baseline" where
  "count_anomaly msg b = (Some msg, b\<lparr>bl_anomalies := bl_anomalies b + 1\<rparr>)"

definition check_exec_anomaly ::
    "(string \<Rightarrow> string) \<Rightarrow> string \<Rightarrow> string option \<Rightarrow> baseline \<Rightarrow> string option \<times> baseline" where
  "check_exec_anomaly entropy binary parent_binary b =
     (if learning_mode b then (None, b)
      else if learned_exec_paths b binary = None then
        count_anomaly (''Unseen Execution Path: binary='' @ binary @ '' entropy='' @ entropy binary) b
      else case parent_binary of
        Some parent \<Rightarrow>
          if learned_parent_pairs b (parent, binary) = None then
            count_anomaly (''Anomalous Parent/Child Spawn: parent='' @ parent @ '' (e='' @ entropy parent
              @ '') child='' @ binary @ '' (e='' @ entropy binary @ '')'') b
          else (None, b)
      | None \<Rightarrow> (None, b))"

definition check_connection_anomaly :: "u32 \<Rightarrow> u16 \<Rightarrow> baseline \<Rightarrow> string option \<times> baseline" where
  "check_connection_anomaly ip port b =
     (if learning_mode b then (None, b)
      else if learned_connections b (ip, port) = None then
        count_anomaly (''Unseen Connection Destination: '' @ show_ipv4 ip @ '':'' @ show_nat (unat port)) b
      else (None, b))"

definition finish_learning :: "baseline \<Rightarrow> baseline" where
  "finish_learning b = b\<lparr>learning_mode := False\<rparr>"

definition force_learning :: "nat \<Rightarrow> baseline \<Rightarrow> baseline" where
  "force_learning t b = b\<lparr>learning_mode := True, start_time := t\<rparr>"

text \<open>\<open>learning_progress\<close> reaches 1 exactly when the period is over.\<close>

definition learning_done :: "nat \<Rightarrow> baseline \<Rightarrow> bool" where
  "learning_done t b \<longleftrightarrow> LEARNING_PERIOD_SECS * 1000000000 \<le> t - start_time b"

definition tick_baseline :: "nat \<Rightarrow> baseline \<Rightarrow> baseline" where
  "tick_baseline t b = (if learning_mode b \<and> learning_done t b then finish_learning b else b)"

section \<open>A recorded event is no anomaly\<close>

lemma persist_frame [simp]:
  "learned_exec_paths (persist_count_raw k n b) = learned_exec_paths b"
  "learned_parent_pairs (persist_count_raw k n b) = learned_parent_pairs b"
  "learned_connections (persist_count_raw k n b) = learned_connections b"
  "learning_mode (persist_count_raw k n b) = learning_mode b"
  by (simp_all add: persist_count_raw_def split: option.split)

lemma recorded_exec_quiet: "check_exec_anomaly ent bin par (record_exec bin par b) = (None, record_exec bin par b)"
  by (simp add: check_exec_anomaly_def record_exec_def Let_def split: option.split)

lemma record_connection_learns: "learned_connections (record_connection ip port b) (ip, port) \<noteq> None"
  by (simp add: record_connection_def Let_def)

lemma recorded_connection_quiet:
  "check_connection_anomaly ip port (record_connection ip port b) = (None, record_connection ip port b)"
  using record_connection_learns [of ip port b] by (auto simp: check_connection_anomaly_def)

text \<open>Without the record an unknown binary is reported once learning is over.\<close>

lemma unseen_exec_reported:
  "\<not> learning_mode b \<Longrightarrow> learned_exec_paths b bin = None \<Longrightarrow> fst (check_exec_anomaly ent bin par b) \<noteq> None"
  by (simp add: check_exec_anomaly_def count_anomaly_def)

section \<open>A restart recovers what was learned\<close>

datatype bl_key = BExec string | BParent string string | BConn u32 u16

definition key_bytes :: "bl_key \<Rightarrow> bytes" where
  "key_bytes k = ascii (case k of BExec p \<Rightarrow> ''exec:'' @ p | BParent p c \<Rightarrow> ''parent:'' @ p @ ''|'' @ c
     | BConn ip port \<Rightarrow> ''conn:'' @ show_nat (unat ip) @ '':'' @ show_nat (unat port))"

text \<open>ASCII paths, and no bar in the path of a parent.\<close>

definition plain_key :: "bl_key \<Rightarrow> bool" where
  "plain_key k = (case k of BExec p \<Rightarrow> is_ascii p | BParent p c \<Rightarrow> is_ascii p \<and> is_ascii c \<and> CHR ''|'' \<notin> set p
     | BConn ip port \<Rightarrow> True)"

definition learned :: "baseline \<Rightarrow> bl_key \<Rightarrow> u64 option" where
  "learned b k = (case k of BExec p \<Rightarrow> learned_exec_paths b p | BParent p c \<Rightarrow> learned_parent_pairs b (p, c)
     | BConn ip port \<Rightarrow> learned_connections b (ip, port))"

lemma from_be64 [simp]: "from_be64 (be64 n) = Some n"
  by (simp add: from_be64_def be64_def bytes64_def rd64_def)

lemma digits_plain: "is_ascii (show_nat n)" "CHR '':'' \<notin> set (show_nat n)"
  using show_nat_digits(1) [of n] by (auto simp: is_ascii_def list_all_iff is_digit_def Let_def)

lemma parse_conn: "parse_u32 (show_nat (unat (ip :: u32))) = Some (unat ip)" "parse_u16 (show_nat (unat (port :: u16))) = Some (unat port)"
  using unsigned_less [of ip, where ?'a = nat] unsigned_less [of port, where ?'a = nat]
  by (simp_all add: parse_u32_def parse_u16_def)

lemma is_ascii_append [simp]: "is_ascii (a @ b) \<longleftrightarrow> is_ascii a \<and> is_ascii b" "is_ascii []"
  "is_ascii (c # s) \<longleftrightarrow> (of_char c :: nat) < 128 \<and> is_ascii s"
  by (simp_all add: is_ascii_def)

lemma key_text: "plain_key k \<Longrightarrow> from_utf8 (key_bytes k) =
    Some (case k of BExec p \<Rightarrow> ''exec:'' @ p | BParent p c \<Rightarrow> ''parent:'' @ p @ ''|'' @ c
     | BConn ip port \<Rightarrow> ''conn:'' @ show_nat (unat ip) @ '':'' @ show_nat (unat port))"
  unfolding key_bytes_def
  by (rule from_utf8_ascii) (simp add: plain_key_def digits_plain split: bl_key.splits)

lemma load_key: "plain_key k \<Longrightarrow> learned (load_entry (Some (key_bytes k, be64 n)) b) = (learned b)(k \<mapsto> n)"
proof (rule ext)
  fix j
  assume k: "plain_key k"
  note key = key_text [OF k]
  show "learned (load_entry (Some (key_bytes k, be64 n)) b) j = ((learned b)(k \<mapsto> n)) j"
  proof (cases k)
    case (BExec p)
    then show ?thesis using key by (cases j) (simp_all add: load_entry_def strip_prefix_def learned_def)
  next
    case (BParent p c)
    then have "CHR ''|'' \<notin> set p" using k by (simp add: plain_key_def)
    then have "split_once CHR ''|'' (p @ ''|'' @ c) = Some (p, c)" by (simp add: split_once_at)
    then show ?thesis using key BParent by (cases j) (simp_all add: load_entry_def strip_prefix_def learned_def)
  next
    case (BConn ip port)
    have "split_once CHR '':'' (show_nat (unat ip) @ '':'' @ show_nat (unat port)) = Some (show_nat (unat ip), show_nat (unat port))"
      using split_once_at [OF digits_plain(2)] by simp
    then show ?thesis using key BConn
      by (cases j) (simp_all add: load_entry_def strip_prefix_def learned_def parse_conn)
  qed
qed

lemma key_bytes_inj: "plain_key j \<Longrightarrow> plain_key k \<Longrightarrow> key_bytes j = key_bytes k \<longleftrightarrow> j = k"
proof
  assume p: "plain_key j" "plain_key k" and e: "key_bytes j = key_bytes k"
  define b where "b = baseline_new 0 None []"
  have "(learned b)(j \<mapsto> 0) = (learned b)(k \<mapsto> 0)" using load_key [OF p(1), of 0 b] load_key [OF p(2), of 0 b] e by metis
  moreover have "learned b i = None" for i
    by (cases i) (simp_all add: b_def baseline_new_def learned_def)
  ultimately show "j = k" by (metis fun_upd_apply option.distinct(1))
qed simp

text \<open>The database holds exactly the counters in memory.\<close>

definition persisted :: "baseline \<Rightarrow> bool" where
  "persisted b \<longleftrightarrow> (case bl_cf b of None \<Rightarrow> False | Some db \<Rightarrow>
     (\<forall>k. plain_key k \<longrightarrow> db (key_bytes k) = map_option be64 (learned b k)) \<and>
     (\<forall>x \<in> dom db. \<exists>k. plain_key k \<and> x = key_bytes k) \<and> (\<forall>k \<in> dom (learned b). plain_key k))"

lemma persisted_put:
  assumes "persisted b" "plain_key k" "learned b' = (learned b)(k \<mapsto> n)" "bl_cf b' = bl_cf b"
  shows "persisted (persist_count_raw (key_bytes k) n b')"
proof -
  obtain db where db: "bl_cf b = Some db" using assms(1) by (cases "bl_cf b") (auto simp: persisted_def)
  have l: "learned (persist_count_raw x n b') = learned b'" for x by (auto simp: learned_def fun_eq_iff split: bl_key.split)
  show ?thesis
    using assms(1,2) key_bytes_inj [OF _ assms(2)] unfolding persisted_def l assms(3)
    by (auto simp: assms(4) db persist_count_raw_def)
qed

lemma persisted_exec:
  "persisted b \<Longrightarrow> is_ascii bin \<Longrightarrow> (case par of Some p \<Rightarrow> is_ascii p \<and> CHR ''|'' \<notin> set p | None \<Rightarrow> True) \<Longrightarrow>
   persisted (record_exec bin par b)"
proof -
  assume b: "persisted b" and bin: "is_ascii bin" and par: "case par of Some p \<Rightarrow> is_ascii p \<and> CHR ''|'' \<notin> set p | None \<Rightarrow> True"
  let ?n = "bump bin (learned_exec_paths b)"
  let ?b = "persist_count_raw (key_bytes (BExec bin)) ?n (b\<lparr>learned_exec_paths := (learned_exec_paths b)(bin \<mapsto> ?n)\<rparr>)"
  have b1: "persisted ?b"
    by (rule persisted_put [OF b]) (auto simp: bin plain_key_def learned_def fun_eq_iff split: bl_key.split)
  show ?thesis
  proof (cases par)
    case None
    then show ?thesis using b1 by (simp add: record_exec_def key_bytes_def Let_def)
  next
    case (Some p)
    let ?m = "bump (p, bin) (learned_parent_pairs ?b)"
    have "persisted (persist_count_raw (key_bytes (BParent p bin)) ?m
        (?b\<lparr>learned_parent_pairs := (learned_parent_pairs ?b)((p, bin) \<mapsto> ?m)\<rparr>))"
      using bin par Some
      by (intro persisted_put [OF b1]) (auto simp: plain_key_def learned_def fun_eq_iff split: bl_key.split)
    then show ?thesis using Some by (simp add: record_exec_def key_bytes_def Let_def)
  qed
qed

lemma persisted_conn: "persisted b \<Longrightarrow> persisted (record_connection ip port b)"
proof -
  assume b: "persisted b"
  let ?n = "bump (ip, port) (learned_connections b)"
  have "persisted (persist_count_raw (key_bytes (BConn ip port)) ?n
      (b\<lparr>learned_connections := (learned_connections b)((ip, port) \<mapsto> ?n)\<rparr>))"
    by (rule persisted_put [OF b]) (auto simp: plain_key_def learned_def fun_eq_iff split: bl_key.split)
  then show ?thesis by (simp add: record_connection_def key_bytes_def Let_def)
qed

lemma load_learned:
  assumes "distinct (map fst kvs)" "list_all (\<lambda>(x, v). \<exists>k n. plain_key k \<and> x = key_bytes k \<and> v = be64 n) kvs"
  shows "learned (fold load_entry (map Some kvs) b) j =
    (case (if plain_key j then map_of kvs (key_bytes j) else None) of Some v \<Rightarrow> from_be64 v | None \<Rightarrow> learned b j)"
  using assms
proof (induction kvs arbitrary: b)
  case (Cons xv kvs)
  then obtain k n where k: "xv = (key_bytes k, be64 n)" "plain_key k" by auto
  have fresh: "map_of kvs (key_bytes k) = None" using Cons.prems(1) k(1) by (simp add: map_of_eq_None_iff)
  have eq: "key_bytes k = key_bytes j \<longleftrightarrow> k = j" if "plain_key j" using key_bytes_inj [OF k(2) that] .
  show ?case
    using Cons.IH [of "load_entry (Some xv) b"] Cons.prems load_key [OF k(2), of n b] k fresh eq
    by (auto split: option.split)
qed simp

datatype bl_op = RecordExec string "string option" | RecordConn u32 u16 | BaselineTick nat

fun bl_do :: "bl_op \<Rightarrow> baseline \<Rightarrow> baseline" where
  "bl_do (RecordExec bin par) = record_exec bin par"
| "bl_do (RecordConn ip port) = record_connection ip port"
| "bl_do (BaselineTick t) = tick_baseline t"

fun bl_op_ok :: "bl_op \<Rightarrow> bool" where
  "bl_op_ok (RecordExec bin par) \<longleftrightarrow> is_ascii bin \<and> (case par of Some p \<Rightarrow> is_ascii p \<and> CHR ''|'' \<notin> set p | None \<Rightarrow> True)"
| "bl_op_ok _ \<longleftrightarrow> True"

lemma persisted_tick: "persisted b \<Longrightarrow> persisted (tick_baseline t b)"
proof -
  have "learned (finish_learning b) = learned b" "bl_cf (finish_learning b) = bl_cf b"
    by (auto simp: finish_learning_def learned_def fun_eq_iff split: bl_key.split)
  then have "persisted (finish_learning b) = persisted b" by (simp only: persisted_def)
  then show "persisted b \<Longrightarrow> persisted (tick_baseline t b)" by (simp add: tick_baseline_def)
qed

lemma persisted_run: "persisted b \<Longrightarrow> list_all bl_op_ok ops \<Longrightarrow> persisted (fold bl_do ops b)"
proof (induction ops arbitrary: b)
  case (Cons op ops)
  then show ?case
    by (cases op) (simp_all add: persisted_exec persisted_conn persisted_tick)
qed simp

lemma persisted_new: "persisted (baseline_new t (Some Map.empty) [])"
proof -
  have "learned (baseline_new t (Some Map.empty) []) k = None" for k
    by (cases k) (simp_all add: learned_def baseline_new_def load_persisted_def)
  then show ?thesis by (auto simp: persisted_def baseline_new_def load_persisted_def)
qed

lemma learned_eq:
  "learned a = learned b \<Longrightarrow> learned_exec_paths a = learned_exec_paths b
     \<and> learned_parent_pairs a = learned_parent_pairs b \<and> learned_connections a = learned_connections b"
proof (intro conjI ext)
  assume l: "learned a = learned b"
  fix p pc ipp
  show "learned_exec_paths a p = learned_exec_paths b p" using fun_cong [OF l, of "BExec p"] by (simp add: learned_def)
  show "learned_parent_pairs a pc = learned_parent_pairs b pc"
    using fun_cong [OF l, of "BParent (fst pc) (snd pc)"] by (simp add: learned_def)
  show "learned_connections a ipp = learned_connections b ipp"
    using fun_cong [OF l, of "BConn (fst ipp) (snd ipp)"] by (simp add: learned_def)
qed

text \<open>
  Whatever was recorded, with ASCII paths and no bar in the path of a parent: a restart on
  the database that is left, listed in any order, recovers exactly the counters that were in memory.
  The end of the learning period is not persisted: the restarted engine learns again.
\<close>

theorem baseline_restart:
  assumes "b = fold bl_do ops (baseline_new t (Some Map.empty) [])" "list_all bl_op_ok ops"
    and "bl_cf b = Some (map_of kvs)" "distinct (map fst kvs)"
    and "r = baseline_new t' (bl_cf b) (map Some kvs)"
  shows "learned_exec_paths r = learned_exec_paths b \<and> learned_parent_pairs r = learned_parent_pairs b
    \<and> learned_connections r = learned_connections b \<and> learning_mode r"
proof -
  have b: "persisted b" unfolding assms(1) by (rule persisted_run [OF persisted_new assms(2)])
  have db: "map_of kvs (key_bytes k) = map_option be64 (learned b k)" if "plain_key k" for k
    using b that by (simp add: persisted_def assms(3))
  have entries: "list_all (\<lambda>(x, v). \<exists>k n. plain_key k \<and> x = key_bytes k \<and> v = be64 n) kvs"
  proof (clarsimp simp: list_all_iff)
    fix x v assume m: "(x, v) \<in> set kvs"
    then have v: "map_of kvs x = Some v" using assms(4) by simp
    then obtain k where k: "plain_key k" "x = key_bytes k" using b by (force simp: persisted_def assms(3))
    then show "\<exists>k. plain_key k \<and> x = key_bytes k \<and> (\<exists>n. v = be64 n)" using v db [OF k(1)] by auto
  qed
  define b0 where "b0 = baseline_new t' None []"
  have r: "r = fold load_entry (map Some kvs) (b0\<lparr>bl_cf := bl_cf b\<rparr>)"
    by (simp add: assms(3,5) b0_def baseline_new_def load_persisted_def)
  have none: "learned (b0\<lparr>bl_cf := c\<rparr>) k = None" for k c
    by (cases k) (simp_all add: b0_def baseline_new_def learned_def)
  have "learned b k = None" if "\<not> plain_key k" for k
    using b that by (auto simp: persisted_def assms(3))
  then have "learned r = learned b"
    by (intro ext) (simp add: r load_learned [OF assms(4) entries] none db split: option.split)
  moreover have "learning_mode (load_entry e c) = learning_mode c" for e c
    by (simp add: load_entry_def split: option.split prod.split)
  then have "learning_mode (fold load_entry es c) = learning_mode c" for es c
    by (induction es arbitrary: c) simp_all
  then have "learning_mode r" by (simp add: r b0_def baseline_new_def)
  ultimately show ?thesis using learned_eq by blast
qed

theorem baseline_restart_witness:
  "learned_exec_paths (baseline_new 9 (Some [ascii ''exec:a'' \<mapsto> be64 2]) [Some (ascii ''exec:a'', be64 2)]) = [''a'' \<mapsto> 2]"
proof -
  let ?ops = "[RecordExec ''a'' None, BaselineTick 7, RecordExec ''a'' None]"
  let ?b = "fold bl_do ?ops (baseline_new 0 (Some Map.empty) [])"
  have b: "bl_cf ?b = Some (map_of [(ascii ''exec:a'', be64 2)])" "learned_exec_paths ?b = [''a'' \<mapsto> 2]"
    by (simp_all add: baseline_new_def load_persisted_def record_exec_def bump_def persist_count_raw_def
        tick_baseline_def learning_done_def LEARNING_PERIOD_SECS_def Let_def)
  have "list_all bl_op_ok ?ops" by (simp add: is_ascii_def)
  then show ?thesis
    using baseline_restart [OF refl _ b(1) _ refl, of 9] b(2) unfolding b(1) by simp
qed

end
