(* ===== verification/Governor.thy ===== *)
theory Governor
  imports Rust_Text Complex_Main
begin

text \<open>
  The CPU governor, \<open>ring0d/src/governor.rs\<close>. Percentages are exact rationals (the code computes
  them in floating point); times are nanoseconds of the monotonic clock; \<open>clk_tck\<close> is
  \<open>sysconf(_SC_CLK_TCK)\<close> and \<open>stat\<close> the text of \<open>/proc/self/stat\<close>.
\<close>

definition CPU_CHECK_INTERVAL_SECS :: nat where "CPU_CHECK_INTERVAL_SECS = 2"
definition NORMAL_THRESHOLD :: rat where "NORMAL_THRESHOLD = 20"
definition ELEVATED_THRESHOLD :: rat where "ELEVATED_THRESHOLD = 50"

datatype governor_state = Normal | Elevated | Critical

record governor =
  gv_state :: governor_state
  ring_buffer_pct :: u32
  sampling_enabled :: bool
  dpi_fast_mode :: bool
  last_check :: nat
  daemon_cpu :: u32
  bpf_cpu :: u32
  cpu_sample :: "(nat \<times> nat \<times> nat) option"

definition governor_new :: "nat \<Rightarrow> governor" where
  "governor_new t = \<lparr>gv_state = Normal, ring_buffer_pct = 0, sampling_enabled = True, dpi_fast_mode = False,
     last_check = t, daemon_cpu = 0, bpf_cpu = 0, cpu_sample = None\<rparr>"

section \<open>Measuring\<close>

definition nth_parse :: "nat \<Rightarrow> string list \<Rightarrow> nat option" where
  "nth_parse i ws = (if i < length ws then parse_u64 (ws ! i) else None)"

definition proc_self_ticks :: "string option \<Rightarrow> (nat \<times> nat) option" where
  "proc_self_ticks stat =
     do { s \<leftarrow> stat; e \<leftarrow> rfind_str '')'' s;
          let ws = split_whitespace (drop (e + 1) s);
          utime \<leftarrow> nth_parse 11 ws; stime \<leftarrow> nth_parse 12 ws; Some (utime, stime) }"

definition measure_daemon_cpu :: "int \<Rightarrow> string option \<Rightarrow> nat \<Rightarrow> governor \<Rightarrow> rat \<times> governor" where
  "measure_daemon_cpu clk_tck stat tnow g =
     (if clk_tck \<le> 0 then (0, g)
      else case proc_self_ticks stat of
        None \<Rightarrow> (0, g)
      | Some (u, s) \<Rightarrow>
          let pct = (case cpu_sample g of
                Some (prev_at, pu, ps) \<Rightarrow>
                  (if 0 < tnow - prev_at
                   then (of_nat ((u - pu) + (s - ps)) / of_int clk_tck) / (of_nat (tnow - prev_at) / 1000000000) * 100
                   else 0)
              | None \<Rightarrow> 0)
          in (pct, g\<lparr>cpu_sample := Some (tnow, u, s)\<rparr>))"

definition measure_bpf_cpu :: rat where "measure_bpf_cpu = 0"

text \<open>\<open>as u32\<close> of a percentage times hundred: truncated, saturating.\<close>

definition hundredths :: "rat \<Rightarrow> u32" where
  "hundredths x = of_int (max 0 (min (floor (x * 100)) (2 ^ 32 - 1)))"

section \<open>The control loop\<close>

definition apply_state :: "governor \<Rightarrow> governor" where
  "apply_state g = (case gv_state g of
     Normal \<Rightarrow> g\<lparr>sampling_enabled := True, dpi_fast_mode := False\<rparr>
   | Elevated \<Rightarrow> g\<lparr>sampling_enabled := True, dpi_fast_mode := False\<rparr>
   | Critical \<Rightarrow> g\<lparr>sampling_enabled := False, dpi_fast_mode := True\<rparr>)"

definition state_of :: "rat \<Rightarrow> governor_state" where
  "state_of pct = (if ELEVATED_THRESHOLD < pct then Critical else if NORMAL_THRESHOLD < pct then Elevated else Normal)"

definition governor_tick :: "int \<Rightarrow> string option \<Rightarrow> nat \<Rightarrow> governor \<Rightarrow> governor_state \<times> governor" where
  "governor_tick clk_tck stat tnow g =
     (if (tnow - last_check g) div 1000000000 < CPU_CHECK_INTERVAL_SECS then (gv_state g, g)
      else case measure_daemon_cpu clk_tck stat tnow (g\<lparr>last_check := tnow\<rparr>) of
        (pct, g) \<Rightarrow>
          let bpf_pct = measure_bpf_cpu; total = pct + bpf_pct;
              g = g\<lparr>daemon_cpu := hundredths pct, bpf_cpu := hundredths bpf_pct, gv_state := state_of total\<rparr>
          in (state_of total, apply_state g))"

definition set_ring_buffer_pct :: "u32 \<Rightarrow> governor \<Rightarrow> governor" where
  "set_ring_buffer_pct pct g = g\<lparr>ring_buffer_pct := pct\<rparr>"

section \<open>Sampling is off exactly in the critical state\<close>

definition governor_ok :: "governor \<Rightarrow> bool" where
  "governor_ok g \<longleftrightarrow> sampling_enabled g = (gv_state g \<noteq> Critical) \<and> dpi_fast_mode g = (gv_state g = Critical)"

lemma governor_new_ok: "governor_ok (governor_new t)"
  by (simp add: governor_ok_def governor_new_def)

lemma apply_state_ok: "governor_ok (apply_state g)" "gv_state (apply_state g) = gv_state g"
  by (simp_all add: governor_ok_def apply_state_def split: governor_state.split)

lemma governor_tick_ok: "governor_ok g \<Longrightarrow> governor_ok (snd (governor_tick c st t g))"
  by (simp add: governor_tick_def Let_def apply_state_ok split: prod.split)

lemma governor_tick_state: "fst (governor_tick c st t g) = gv_state (snd (governor_tick c st t g))"
  by (simp add: governor_tick_def Let_def apply_state_ok split: prod.split)

text \<open>A tick within two seconds of the previous measurement changes nothing.\<close>

lemma early_tick: "t < last_check g + 2000000000 \<Longrightarrow> governor_tick c st t g = (gv_state g, g)"
proof -
  assume "t < last_check g + 2000000000"
  then have "t - last_check g < 2 * 1000000000" by simp
  then have "(t - last_check g) div 1000000000 < 2" by (subst div_less_iff_less_mult) simp_all
  then show ?thesis by (simp add: governor_tick_def CPU_CHECK_INTERVAL_SECS_def)
qed

end
