(* ===== verification/Feeds.thy ===== *)
theory Feeds
  imports Rust_Text
begin

text \<open>
  Rule and blocklist feeds: \<open>ring0d/src/sucadara.rs\<close> (hosts files, IP lists, Suricata rules) and
  \<open>threat_blocklist.rs\<close> (domain lists, blocked ports). Downloads are a parameter, as are the
  Aho-Corasick automaton (\<open>ac_build\<close>, \<open>ac_match\<close>) and the order in which a hash set is listed.
  Text is ASCII. \<open>None\<close> as the result of a parser is a panic of the code.
\<close>

section \<open>Names and addresses\<close>

definition fnv1a_hash :: "string \<Rightarrow> u64" where
  "fnv1a_hash s = foldl (\<lambda>h c. (h XOR of_char (lower c)) * 1099511628211) 14695981039346656037 (trim_end_dots s)"

definition registrable_domain :: "string \<Rightarrow> string" where
  "registrable_domain domain =
     (let d = to_lowercase (trim_end_dots domain); labels = split_on CHR ''.'' d; n = length labels in
      if n \<le> 2 then d
      else if length (last labels) = 2 \<and> 3 \<le> n then join_with ''.'' (drop (n - 3) labels)
      else join_with ''.'' (drop (n - 2) labels))"

record sync_sets =
  ss_cidrs :: "(u32 \<times> u8) set"
  ss_ports :: "u16 set"
  ss_domains :: "string set"
  ss_patterns :: "(u32 \<times> string \<times> u8) list"

definition no_sets :: sync_sets where
  "no_sets = \<lparr>ss_cidrs = {}, ss_ports = {}, ss_domains = {}, ss_patterns = []\<rparr>"

definition add_domain :: "string \<Rightarrow> sync_sets \<Rightarrow> sync_sets" where
  "add_domain d s = s\<lparr>ss_domains := insert d (ss_domains s)\<rparr>"

definition add_cidr :: "u32 \<times> u8 \<Rightarrow> sync_sets \<Rightarrow> sync_sets" where
  "add_cidr c s = s\<lparr>ss_cidrs := insert c (ss_cidrs s)\<rparr>"

definition add_port :: "u16 \<Rightarrow> sync_sets \<Rightarrow> sync_sets" where
  "add_port p s = s\<lparr>ss_ports := insert p (ss_ports s)\<rparr>"

section \<open>Downloads\<close>

definition MAX_FEED_BYTES :: nat where "MAX_FEED_BYTES = 256 * 1024 * 1024"
definition MAX_DPI_PATTERNS :: nat where "MAX_DPI_PATTERNS = 65536"

fun read_body :: "bytes option list \<Rightarrow> bytes \<Rightarrow> bytes option" where
  "read_body [] body = Some body"
| "read_body (None # cs) body = None"
| "read_body (Some c # cs) body =
     (if MAX_FEED_BYTES < length body + length c then None else read_body cs (body @ c))"

text \<open>\<open>resp\<close>: the content length, if stated, and the chunks of the body as they arrive.\<close>

definition fetch_text :: "(u64 option \<times> bytes option list) option \<Rightarrow> string option" where
  "fetch_text resp =
     (case resp of None \<Rightarrow> None
      | Some (content_length, chunks) \<Rightarrow>
          if (case content_length of Some cl \<Rightarrow> MAX_FEED_BYTES < unat cl | None \<Rightarrow> False) then None
          else Option.bind (read_body chunks []) from_utf8)"

section \<open>Hosts files and lists\<close>

definition before_hash :: "char \<Rightarrow> string \<Rightarrow> string" where
  "before_hash c line = trim (hd (split_on c line))"

definition domain_ok :: "string \<Rightarrow> bool" where
  "domain_ok d \<longleftrightarrow> CHR ''.'' \<in> set d \<and> \<not> list_ex (\<lambda>c. is_ws c \<or> c = CHR ''/'' \<or> c = CHR '':'') d"

definition hosts_candidate :: "string \<Rightarrow> string" where
  "hosts_candidate line =
     (if list_ex is_ws line then
        (case find (\<lambda>tok. tok \<noteq> ''0.0.0.0'' \<and> tok \<noteq> ''127.0.0.1'' \<and> tok \<noteq> ''::1'' \<and> CHR ''.'' \<in> set tok
              \<and> \<not> prefix ''0.'' tok) (split_whitespace line) of Some tok \<Rightarrow> tok | None \<Rightarrow> [])
      else line)"

definition list_domain :: "string \<Rightarrow> nat \<times> sync_sets \<Rightarrow> nat \<times> sync_sets" where
  "list_domain text ns =
     (let d = to_lowercase (trim_matches ''.'' text) in
      if domain_ok d then (fst ns + 1, add_domain (registrable_domain d) (snd ns)) else ns)"

definition parse_hosts_line :: "string \<Rightarrow> nat \<times> sync_sets \<Rightarrow> nat \<times> sync_sets" where
  "parse_hosts_line l ns =
     (let line = before_hash CHR ''#'' l in if line = [] then ns else list_domain (hosts_candidate line) ns)"

definition parse_hosts :: "string \<Rightarrow> sync_sets \<Rightarrow> nat \<times> sync_sets" where
  "parse_hosts text s = fold parse_hosts_line (text_lines text) (0, s)"

definition parse_domains_line :: "string \<Rightarrow> nat \<times> sync_sets \<Rightarrow> nat \<times> sync_sets" where
  "parse_domains_line l ns =
     (let line = before_hash CHR ''#'' l in if line = [] then ns else list_domain line ns)"

definition parse_domains :: "string \<Rightarrow> sync_sets \<Rightarrow> nat \<times> sync_sets" where
  "parse_domains text s = fold parse_domains_line (text_lines text) (0, s)"

text \<open>\<open>to_be\<close> swaps the bytes on a little-endian machine: \<open>first\<close> begins with the last octet.\<close>

definition parse_ip_line :: "string \<Rightarrow> nat \<times> sync_sets \<Rightarrow> nat \<times> sync_sets" where
  "parse_ip_line l ns =
     (let line = before_hash CHR '';'' (before_hash CHR ''#'' l) in
      if line = [] then ns
      else case split_once CHR ''/'' line of
        Some (ip_str, pre) \<Rightarrow>
          (case (parse_ipv4 (trim ip_str), parse_u8 (trim pre)) of
             (Some ip, Some p) \<Rightarrow> if 1 \<le> p \<and> p \<le> 32 then (fst ns + 1, add_cidr (ip, of_nat p) (snd ns)) else ns
           | _ \<Rightarrow> ns)
      | None \<Rightarrow>
          (case parse_ipv4 line of
             Some ip \<Rightarrow>
               let first = swap32 ip in
               if first AND 0xFF000000 \<noteq> 0x7F000000 then (fst ns + 1, add_cidr (ip, 32) (snd ns)) else ns
           | None \<Rightarrow> ns))"

definition parse_ip_cidrs :: "string \<Rightarrow> sync_sets \<Rightarrow> nat \<times> sync_sets" where
  "parse_ip_cidrs text s = fold parse_ip_line (text_lines text) (0, s)"

section \<open>Suricata rules\<close>

definition port_var :: "string \<Rightarrow> u16 list" where
  "port_var n =
     (if n = ''$HTTP_PORTS'' \<or> n = ''$SHELLCODE_PORTS'' then [80, 8080, 443]
      else if n = ''$FTP_PORTS'' then [21] else if n = ''$SSH_PORTS'' then [22]
      else if n = ''$SMTP_PORTS'' then [25, 465, 587] else if n = ''$DNS_SERVERS'' then [53]
      else if n = ''$MYSQL_PORTS'' then [3306] else if n = ''$ORACLE_PORTS'' then [1521]
      else if n = ''$MSSQL_PORTS'' then [1433, 1434] else if n = ''$SIP_PORTS'' then [5060, 5061]
      else if n = ''$RDP_PORTS'' then [3389] else if n = ''$TELNET_PORTS'' then [23]
      else if n = ''$POP3_PORTS'' then [110, 995] else if n = ''$IMAP_PORTS'' then [143, 993]
      else if n = ''$IKE_PORTS'' then [500, 4500] else [])"

definition is_blockable_port :: "u16 \<Rightarrow> bool" where
  "is_blockable_port p \<longleftrightarrow>
     (if p \<in> {0, 53, 80, 443, 853, 22, 8080, 8443} then False
      else p \<notin> {20, 21, 23, 25, 110, 143, 465, 587, 993, 995, 4433})"

definition add_blockable :: "u16 \<Rightarrow> sync_sets \<Rightarrow> sync_sets" where
  "add_blockable p s = (if is_blockable_port p then add_port p s else s)"

definition extract_port_part :: "string \<Rightarrow> sync_sets \<Rightarrow> sync_sets" where
  "extract_port_part piece s =
     (let piece = trim piece in
      if piece = [] then s
      else if prefix ''$'' piece then fold add_blockable (port_var piece) s
      else if CHR '':'' \<in> set piece then s
      else case parse_u16 piece of Some p \<Rightarrow> add_blockable (of_nat p) s | None \<Rightarrow> s)"

definition extract_ports_tokens :: "string \<Rightarrow> sync_sets \<Rightarrow> sync_sets" where
  "extract_ports_tokens tok s =
     (let tok = trim tok in
      if tok = [] \<or> tok = ''any'' then s
      else fold extract_port_part (split_on CHR '','' (trim_matches [CHR ''['', CHR '']'', CHR 0x22] tok)) s)"

text \<open>The text from \<open>start\<close> up to the next \<open>c\<close>, or to the end.\<close>

definition until_char :: "char \<Rightarrow> string \<Rightarrow> string" where
  "until_char c rest = takeWhile (\<lambda>x. x \<noteq> c) rest"

definition extract_sid :: "string \<Rightarrow> u32" where
  "extract_sid line =
     (case List.map_filter (\<lambda>i. parse_u32 (trim (until_char CHR '';'' (drop (i + 4) line)))) (match_indices ''sid:'' line) of
        sid # _ \<Rightarrow> of_nat sid
      | [] \<Rightarrow> ucast (fnv1a_hash line AND 0xFFFF))"

definition quote_char :: char where "quote_char = CHR 0x22"

definition META_CHARS :: string where
  "META_CHARS = [CHR 0x5C, CHR ''^'', CHR ''$'', CHR ''.'', CHR ''|'', CHR ''?'', CHR ''*'', CHR ''+'',
     CHR ''('', CHR '')'', CHR ''['', CHR '']'', CHR ''{'', CHR ''}'']"

definition escape_meta :: "string \<Rightarrow> string" where
  "escape_meta s = concat (map (\<lambda>c. if c \<in> set META_CHARS then [CHR 0x5C, c] else [c]) s)"

definition unsuitable :: "string \<Rightarrow> bool" where
  "unsuitable content \<longleftrightarrow> CHR ''|'' \<in> set content \<or> length content < 4
     \<or> list_ex (\<lambda>c. (of_char c :: nat) < 0x20 \<or> of_char c = (0x7F :: nat) \<or> c = CHR 0x5C) content"

definition content_pattern :: "string \<Rightarrow> string \<Rightarrow> string" where
  "content_pattern content tail =
     (let nocase = (prefix '';'' tail \<and> str_contains (take 32 tail) ''nocase'') in
      (if nocase then ''(?i)'' else []) @ escape_meta content)"

fun first_content :: "string \<Rightarrow> nat list \<Rightarrow> string option" where
  "first_content line [] = None"
| "first_content line (m0 # ms) =
     (let rest = trim_start (drop (m0 + 8) line) in
      case rest of
        c # q \<Rightarrow>
          if c \<noteq> quote_char then first_content line ms
          else if quote_char \<notin> set q then None
          else
            let content = until_char quote_char q in
            if unsuitable content then None
            else Some (content_pattern content (drop (length content + 1) q))
      | [] \<Rightarrow> first_content line ms)"

definition first_literal_content :: "string \<Rightarrow> string option" where
  "first_literal_content line = first_content line (match_indices ''content:'' line)"

definition add_pattern :: "u32 \<Rightarrow> bool \<Rightarrow> string option \<Rightarrow> sync_sets \<Rightarrow> sync_sets" where
  "add_pattern sid enforce pat s =
     (case pat of
        Some p \<Rightarrow> if list_ex (\<lambda>(_, q, _). q = p) (ss_patterns s) then s
                  else s\<lparr>ss_patterns := ss_patterns s @ [(sid, p, if enforce then 3 else 2)]\<rparr>
      | None \<Rightarrow> s)"

definition add_cidr_tok :: "string \<Rightarrow> sync_sets \<Rightarrow> sync_sets" where
  "add_cidr_tok t s =
     (case split_once CHR ''/'' (trim_matches [CHR ''['', CHR '']'', quote_char] (trim t)) of
        Some (ip, pre) \<Rightarrow>
          (case (parse_ipv4 ip, parse_u8 pre) of (Some i, Some p) \<Rightarrow> add_cidr (i, of_nat p) s | _ \<Rightarrow> s)
      | None \<Rightarrow> s)"

definition cidr_option :: "string \<Rightarrow> string \<Rightarrow> sync_sets \<Rightarrow> sync_sets" where
  "cidr_option line opt s =
     (case find_str opt line of
        Some start \<Rightarrow> fold add_cidr_tok (split_on CHR '','' (until_char CHR '';'' (drop (start + length opt) line))) s
      | None \<Rightarrow> s)"

text \<open>The ports of the rule head: the slice from the arrow to the parenthesis panics when it is reversed.\<close>

definition head_ports :: "string \<Rightarrow> sync_sets \<Rightarrow> sync_sets option" where
  "head_ports line s =
     (case find_str ''->'' line of
        None \<Rightarrow> Some s
      | Some arrow \<Rightarrow>
          (case find_str ''('' line of
             None \<Rightarrow> Some s
           | Some paren \<Rightarrow>
               if paren < arrow + 2 then None
               else let ws = split_whitespace (take (paren - (arrow + 2)) (drop (arrow + 2) line)) in
                 Some (if ws = [] then s else extract_ports_tokens (last ws) s)))"

definition port_option :: "string \<Rightarrow> string \<Rightarrow> sync_sets \<Rightarrow> sync_sets" where
  "port_option line opt s =
     (case find_str opt line of
        Some start \<Rightarrow> extract_ports_tokens (until_char CHR '';'' (drop (start + length opt) line)) s
      | None \<Rightarrow> s)"

definition is_alnum :: "char \<Rightarrow> bool" where
  "is_alnum c \<longleftrightarrow> (let n = of_char c :: nat in 48 \<le> n \<and> n \<le> 57 \<or> 65 \<le> n \<and> n \<le> 90 \<or> 97 \<le> n \<and> n \<le> 122)"

definition content_domain :: "string \<Rightarrow> nat \<Rightarrow> sync_sets \<Rightarrow> sync_sets" where
  "content_domain line m s =
     (case strip_prefix [quote_char] (drop (m + 8) line) of
        Some q \<Rightarrow>
          let content = until_char quote_char q in
          if CHR ''.'' \<in> set content \<and> list_all (\<lambda>c. is_alnum c \<or> c \<in> set ''.-_'') content
          then add_domain (registrable_domain content) s else s
      | None \<Rightarrow> s)"

definition rule_domains :: "string \<Rightarrow> sync_sets \<Rightarrow> sync_sets" where
  "rule_domains line s =
     (if str_contains line ''dns.query'' \<or> str_contains line ''content:''
      then fold (content_domain line) (match_indices ''content:'' line) s else s)"

definition rule_enforces :: "string \<Rightarrow> bool" where
  "rule_enforces line \<longleftrightarrow> prefix ''drop'' line \<or> prefix ''reject'' line"

definition parse_suricata_rule :: "string \<Rightarrow> sync_sets \<Rightarrow> (bool \<times> sync_sets) option" where
  "parse_suricata_rule l s =
     (let line = trim l; enforce = rule_enforces line in
      if \<not> enforce \<and> \<not> prefix ''alert'' line then Some (False, s)
      else
        let s = add_pattern (extract_sid line) enforce (first_literal_content line) s in
        if \<not> enforce then Some (True, s)
        else
          let s = fold (cidr_option line) [''ip:'', ''srcip:'', ''dstip:''] s in
          (case head_ports line s of
             None \<Rightarrow> None
           | Some s \<Rightarrow>
               let s = fold (port_option line) [''dport:'', ''sport:''] s in
               Some (True, rule_domains line s)))"

fun parse_rules :: "string list \<Rightarrow> nat \<Rightarrow> sync_sets \<Rightarrow> (nat \<times> sync_sets) option" where
  "parse_rules [] n s = Some (n, s)"
| "parse_rules (l # ls) n s =
     (case parse_suricata_rule l s of
        None \<Rightarrow> None
      | Some (parsed, s) \<Rightarrow> parse_rules ls (if parsed then n + 1 else n) s)"

definition parse_suricata_ruleset :: "string \<Rightarrow> sync_sets \<Rightarrow> (nat \<times> sync_sets) option" where
  "parse_suricata_ruleset text s = parse_rules (text_lines text) 0 s"

section \<open>Everything together\<close>

record sync_report =
  sr_rules_parsed :: nat
  sr_domains :: nat
  sr_cidrs :: nat
  sr_ports :: nat
  sr_dpi_patterns :: nat
  sr_sources_ok :: nat
  sr_sources_failed :: nat

record sync_payload =
  sp_cidrs :: "(u32 \<times> u8) list"
  sp_domains :: "string list"
  sp_ports :: "u16 list"
  sp_dpi_patterns :: "(u32 \<times> string \<times> u8) list"

text \<open>The order in which hash sets are listed.\<close>

record set_order =
  order_cidrs :: "(u32 \<times> u8) set \<Rightarrow> (u32 \<times> u8) list"
  order_domains :: "string set \<Rightarrow> string list"
  order_ports :: "u16 set \<Rightarrow> u16 list"

definition count_source :: "string option \<Rightarrow> nat \<times> nat \<Rightarrow> nat \<times> nat" where
  "count_source t c = (case t of Some _ \<Rightarrow> (fst c + 1, snd c) | None \<Rightarrow> (fst c, snd c + 1))"

definition merge_patterns ::
    "(u32 \<times> string \<times> u8) list \<Rightarrow> (u32 \<times> string \<times> u8) list \<Rightarrow> (u32 \<times> string \<times> u8) list" where
  "merge_patterns new acc = fold (\<lambda>(sid, p, sev) acc.
     if list_ex (\<lambda>(_, q, _). q = p) acc \<or> MAX_DPI_PATTERNS \<le> length acc then acc else acc @ [(sid, p, sev)]) new acc"

text \<open>The texts of the four DNS lists with their names, of the four IP lists, and of the rule set.\<close>

definition fetch_all ::
    "set_order \<Rightarrow> (string \<times> string option) list \<Rightarrow> string option list \<Rightarrow> string option
     \<Rightarrow> (sync_report \<times> sync_payload) option" where
  "fetch_all ord dns ips rules =
     (let s = fold (\<lambda>(name, t) s. case t of
                Some text \<Rightarrow> snd (if name = ''oisd'' then parse_domains text s else parse_hosts text s)
              | None \<Rightarrow> s) dns no_sets;
          s = fold (\<lambda>t s. case t of Some text \<Rightarrow> snd (parse_ip_cidrs text s) | None \<Rightarrow> s) ips s;
          (ok, failed) = fold count_source (map snd dns @ ips @ [rules]) (0, 0)
      in case (case rules of Some text \<Rightarrow> parse_suricata_ruleset text (s\<lparr>ss_patterns := []\<rparr>)
               | None \<Rightarrow> Some (0, s)) of
        None \<Rightarrow> None
      | Some (n, s) \<Rightarrow>
          let pats = merge_patterns (ss_patterns s) [];
              cs = order_cidrs ord (ss_cidrs s); ds = order_domains ord (ss_domains s); ps = order_ports ord (ss_ports s)
          in Some (\<lparr>sr_rules_parsed = n, sr_domains = length ds, sr_cidrs = length cs, sr_ports = length ps,
                     sr_dpi_patterns = length pats, sr_sources_ok = ok, sr_sources_failed = failed\<rparr>,
                   \<lparr>sp_cidrs = cs, sp_domains = ds, sp_ports = ps, sp_dpi_patterns = pats\<rparr>))"

text \<open>The sources: names and addresses. \<open>get\<close> is the server's response to a request.\<close>

definition DNS_PROVIDERS :: "(string \<times> string) list" where
  "DNS_PROVIDERS =
     [(''stevenblack'', ''https://raw.githubusercontent.com/StevenBlack/hosts/master/hosts''),
      (''oisd'', ''https://big.oisd.nl/domainswild2''),
      (''firebog-tick'', ''https://v.firebog.net/hosts/lists?type=tick''),
      (''urlhaus'', ''https://urlhaus.abuse.ch/downloads/hostfile/'')]"

definition IP_PROVIDERS :: "(string \<times> string) list" where
  "IP_PROVIDERS =
     [(''feodo'', ''https://feodotracker.abuse.ch/downloads/ipblocklist_recommended.txt''),
      (''sslbl'', ''https://sslbl.abuse.ch/blacklist/sslipblacklist.txt''),
      (''spamhaus-drop'', ''https://www.spamhaus.org/drop/drop.txt''),
      (''et-compromised'', ''https://rules.emergingthreats.net/blockrules/compromised-ips.txt'')]"

definition SURICATA_RULESETS :: "string \<times> string" where
  "SURICATA_RULESETS = (''et-open'', ''https://rules.emergingthreats.net/open/suricata-7.0/emerging-all.rules'')"

definition fetch_providers ::
    "set_order \<Rightarrow> (string \<Rightarrow> (u64 option \<times> bytes option list) option) \<Rightarrow> (sync_report \<times> sync_payload) option" where
  "fetch_providers ord get =
     fetch_all ord (map (\<lambda>(name, url). (name, fetch_text (get url))) DNS_PROVIDERS)
       (map (\<lambda>(name, url). fetch_text (get url)) IP_PROVIDERS) (fetch_text (get (snd SURICATA_RULESETS)))"

section \<open>A download never exceeds its limit\<close>

lemma read_body_bound: "read_body cs body = Some b \<Longrightarrow> length body \<le> MAX_FEED_BYTES \<Longrightarrow> length b \<le> MAX_FEED_BYTES"
  by (induction cs body rule: read_body.induct) (auto split: if_splits)

lemma fetch_text_bound: "fetch_text resp = Some t \<Longrightarrow> length t \<le> MAX_FEED_BYTES"
  using read_body_bound [of _ "[]"]
  by (fastforce simp: fetch_text_def from_utf8_def bind_eq_Some_conv split: option.splits if_splits prod.splits)

section \<open>What a rule may add\<close>

text \<open>An operation that adds only blockable ports, loses no range, and keeps the patterns.\<close>

definition adds_blockable :: "(sync_sets \<Rightarrow> sync_sets) \<Rightarrow> bool" where
  "adds_blockable f \<longleftrightarrow> (\<forall>s. ss_ports (f s) \<subseteq> ss_ports s \<union> Collect is_blockable_port \<and> ss_cidrs s \<subseteq> ss_cidrs (f s)
     \<and> ss_patterns (f s) = ss_patterns s)"

lemma adds_fold: "(\<And>x. adds_blockable (f x)) \<Longrightarrow> adds_blockable (fold f xs)"
  by (induction xs) (fastforce simp: adds_blockable_def)+

lemma adds_id: "adds_blockable (\<lambda>s. s)" "adds_blockable id"
  by (simp_all add: adds_blockable_def)

lemma adds_if: "adds_blockable f \<Longrightarrow> adds_blockable g \<Longrightarrow> adds_blockable (\<lambda>s. if c then f s else g s)"
  by (cases c) simp_all

lemma adds_option: "(\<And>x. adds_blockable (f x)) \<Longrightarrow> adds_blockable g \<Longrightarrow>
    adds_blockable (\<lambda>s. case y of Some x \<Rightarrow> f x s | None \<Rightarrow> g s)"
  by (cases y) simp_all

lemma adds_blockable_port: "adds_blockable (add_blockable p)"
  by (auto simp: adds_blockable_def add_blockable_def add_port_def)

lemma adds_cidr_tok: "adds_blockable (add_cidr_tok t)"
  by (auto simp: adds_blockable_def add_cidr_tok_def add_cidr_def split: option.split prod.split)

lemma adds_content_domain: "adds_blockable (content_domain line m)"
  by (auto simp: adds_blockable_def content_domain_def Let_def add_domain_def split: option.split)

lemmas adds_intros = adds_if adds_option adds_fold adds_id adds_blockable_port adds_cidr_tok adds_content_domain

lemma adds_port_part: "adds_blockable (extract_port_part piece)"
  unfolding extract_port_part_def [abs_def] Let_def by (intro adds_intros)

lemma adds_ports_tokens: "adds_blockable (extract_ports_tokens tok)"
  unfolding extract_ports_tokens_def [abs_def] Let_def by (intro adds_intros adds_port_part)

lemma adds_cidr_option: "adds_blockable (cidr_option line opt)"
  unfolding cidr_option_def [abs_def] by (intro adds_intros)

lemma adds_port_option: "adds_blockable (port_option line opt)"
  unfolding port_option_def [abs_def] by (intro adds_intros adds_ports_tokens)

lemma adds_rule_domains: "adds_blockable (rule_domains line)"
  unfolding rule_domains_def [abs_def] by (intro adds_intros)

lemma adds_head_ports: "head_ports line s = Some s' \<Longrightarrow> ss_ports s' \<subseteq> ss_ports s \<union> Collect is_blockable_port
    \<and> ss_cidrs s \<subseteq> ss_cidrs s' \<and> ss_patterns s' = ss_patterns s"
  using adds_ports_tokens
  by (fastforce simp: head_ports_def Let_def adds_blockable_def split: option.splits if_splits)

lemma adds_use: "adds_blockable f \<Longrightarrow> ss_ports (f s) \<subseteq> ss_ports s \<union> Collect is_blockable_port"
  "adds_blockable f \<Longrightarrow> ss_patterns (f s) = ss_patterns s"
  by (simp_all add: adds_blockable_def)

lemma adds_grows: "adds_blockable f \<Longrightarrow> ss_cidrs s \<subseteq> ss_cidrs (f s)"
  by (simp add: adds_blockable_def)

lemma head_ports_None: "head_ports line s = None \<longleftrightarrow>
   (case (find_str ''->'' line, find_str ''('' line) of (Some arrow, Some paren) \<Rightarrow> paren < arrow + 2 | _ \<Rightarrow> False)"
  by (simp add: head_ports_def Let_def split: option.split)

lemma add_pattern_keeps [simp]:
  "ss_ports (add_pattern sid e p s) = ss_ports s" "ss_cidrs (add_pattern sid e p s) = ss_cidrs s"
  "ss_domains (add_pattern sid e p s) = ss_domains s"
  by (simp_all add: add_pattern_def split: option.split)

text \<open>The patterns of a list of rules: distinct texts, severity 2 or 3.\<close>

definition patterns_ok :: "(u32 \<times> string \<times> u8) list \<Rightarrow> bool" where
  "patterns_ok ps \<longleftrightarrow> distinct (map (fst \<circ> snd) ps) \<and> list_all (\<lambda>(sid, p, sev). sev \<in> {2, 3}) ps"

lemma add_pattern_ok: "patterns_ok (ss_patterns s) \<Longrightarrow> patterns_ok (ss_patterns (add_pattern sid e p s))"
  by (auto simp: add_pattern_def patterns_ok_def list_ex_iff split: option.split)

lemma rule_effect:
  assumes "parse_suricata_rule l s = Some (b, s')"
  shows "ss_ports s' \<subseteq> ss_ports s \<union> Collect is_blockable_port"
    "patterns_ok (ss_patterns s) \<Longrightarrow> patterns_ok (ss_patterns s')"
    "\<not> rule_enforces (trim l) \<Longrightarrow> ss_ports s' = ss_ports s \<and> ss_cidrs s' = ss_cidrs s \<and> ss_domains s' = ss_domains s"
    "ss_cidrs s \<subseteq> ss_cidrs s'"
proof -
  let ?l = "trim l"
  let ?p = "add_pattern (extract_sid ?l) (rule_enforces ?l) (first_literal_content ?l) s"
  let ?c = "fold (cidr_option ?l) [''ip:'', ''srcip:'', ''dstip:''] ?p"
  note F = adds_use [OF adds_fold [of "cidr_option ?l", OF adds_cidr_option], of "[''ip:'', ''srcip:'', ''dstip:'']"]
  note G = adds_use [OF adds_fold [of "port_option ?l", OF adds_port_option], of "[''dport:'', ''sport:'']"]
  note D = adds_use [OF adds_rule_domains]
  have cases: "s' = s \<or> s' = ?p \<and> \<not> rule_enforces ?l \<or> rule_enforces ?l \<and> (\<exists>h. head_ports ?l ?c = Some h \<and>
      s' = rule_domains ?l (fold (port_option ?l) [''dport:'', ''sport:''] h))"
    using assms unfolding parse_suricata_rule_def Let_def by (auto split: if_splits option.splits)
  have deep: "ss_ports s' \<subseteq> ss_ports s \<union> Collect is_blockable_port \<and> ss_patterns s' = ss_patterns ?p \<and> ss_cidrs s \<subseteq> ss_cidrs s'"
    if "head_ports ?l ?c = Some h" "s' = rule_domains ?l (fold (port_option ?l) [''dport:'', ''sport:''] h)" for h
    unfolding that(2) using adds_head_ports [OF that(1)] F [of ?p] G [of h]
      D(1) [of ?l "fold (port_option ?l) [''dport:'', ''sport:''] h"] D(2)
      adds_grows [OF adds_fold [of "cidr_option ?l", OF adds_cidr_option], of ?p "[''ip:'', ''srcip:'', ''dstip:'']"]
      adds_grows [OF adds_fold [of "port_option ?l", OF adds_port_option], of h "[''dport:'', ''sport:'']"]
      adds_grows [OF adds_rule_domains, of "fold (port_option ?l) [''dport:'', ''sport:''] h" ?l]
    by (simp only: add_pattern_keeps) blast
  show "ss_ports s' \<subseteq> ss_ports s \<union> Collect is_blockable_port" using cases deep by (auto simp del: fold_simps)
  show "patterns_ok (ss_patterns s')" if "patterns_ok (ss_patterns s)"
    using cases deep add_pattern_ok [OF that] that by (metis (no_types))
  show "ss_ports s' = ss_ports s \<and> ss_cidrs s' = ss_cidrs s \<and> ss_domains s' = ss_domains s" if "\<not> rule_enforces ?l"
    using cases that by (auto simp del: fold_simps)
  show "ss_cidrs s \<subseteq> ss_cidrs s'" using cases deep by (auto simp del: fold_simps)
qed

lemma rules_effect:
  assumes "parse_rules ls n s = Some (m, s')"
  shows "ss_ports s' \<subseteq> ss_ports s \<union> Collect is_blockable_port"
    "patterns_ok (ss_patterns s) \<Longrightarrow> patterns_ok (ss_patterns s')"
    "list_all (\<lambda>l. \<not> rule_enforces (trim l)) ls \<Longrightarrow>
      ss_ports s' = ss_ports s \<and> ss_cidrs s' = ss_cidrs s \<and> ss_domains s' = ss_domains s"
    "ss_cidrs s \<subseteq> ss_cidrs s'"
  using assms
proof (induction ls arbitrary: n s)
  case (Cons l ls)
  {
    case 1
    then show ?case using Cons.IH(1) rule_effect(1) by (fastforce split: option.splits)
  next
    case 2
    then show ?case using Cons.IH(2) rule_effect(2) by (fastforce split: option.splits)
  next
    case 3
    then obtain b t where t: "parse_suricata_rule l s = Some (b, t)" "parse_rules ls (if b then n + 1 else n) t = Some (m, s')"
      by (auto split: option.splits)
    show ?case using Cons.IH(3) [OF _ t(2)] rule_effect(3) [OF t(1)] 3(1) by simp
  next
    case 4
    then show ?case using Cons.IH(4) rule_effect(4) by (fastforce split: option.splits)
  }
qed simp_all


text \<open>A blocking rule for two ports, one of them protected.\<close>

lemma port_texts: "parse_u16 ''443'' = Some 443" "parse_u16 ''4444'' = Some 4444"
  by (simp_all add: parse_u16_def parse_uint_def strip_plus_def digits_val_def is_digit_def digit_val_def Let_def)

lemma blocking_rule: "parse_suricata_ruleset ''drop tcp any any -> any [4444,443] (sid:7;)'' no_sets
    = Some (1, no_sets\<lparr>ss_ports := {4444}\<rparr>)"
  by (simp add: port_texts parse_suricata_ruleset_def parse_suricata_rule_def text_lines_def strip_cr_def trim_def trim_start_def trim_end_def
     is_ws_def Let_def rule_enforces_def extract_sid_def first_literal_content_def match_indices_def add_pattern_def cidr_option_def
     head_ports_def split_whitespace_def extract_ports_tokens_def trim_matches_def extract_port_part_def
      parse_uint_def strip_plus_def digits_val_def is_digit_def digit_val_def add_blockable_def is_blockable_port_def add_port_def port_option_def rule_domains_def no_sets_def)


lemma rule_None: "parse_suricata_rule l s = None \<longleftrightarrow> rule_enforces (trim l) \<and> head_ports (trim l) t = None"
proof -
  define c where "c = fold (cidr_option (trim l)) [''ip:'', ''srcip:'', ''dstip:'']
    (add_pattern (extract_sid (trim l)) True (first_literal_content (trim l)) s)"
  have "parse_suricata_rule l s = None \<longleftrightarrow> rule_enforces (trim l) \<and> head_ports (trim l) c = None"
    unfolding parse_suricata_rule_def Let_def c_def by (auto split: option.split)
  then show ?thesis by (simp only: head_ports_None)
qed

text \<open>
  A rule line makes the parser panic exactly when it is a \<open>drop\<close> or \<open>reject\<close> rule whose
  first parenthesis stands before, or next to, its first arrow; one such line anywhere in the rule set,
  and no payload at all is delivered, whatever the other feeds hold.
\<close>

theorem malformed_rule_loses_payload:
  "(parse_suricata_rule l s = None \<longleftrightarrow> rule_enforces (trim l) \<and>
      (case (find_str ''->'' (trim l), find_str ''('' (trim l)) of
         (Some arrow, Some paren) \<Rightarrow> paren < arrow + 2 | _ \<Rightarrow> False))
   \<and> (if list_ex (\<lambda>l. parse_suricata_rule l no_sets = None) (text_lines text)
      then fetch_all ord dns ips (Some text) = None else fetch_all ord dns ips (Some text) \<noteq> None)"
proof -
  have panic: "parse_suricata_rule l s = None \<longleftrightarrow> rule_enforces (trim l) \<and>
      (case (find_str ''->'' (trim l), find_str ''('' (trim l)) of
         (Some arrow, Some paren) \<Rightarrow> paren < arrow + 2 | _ \<Rightarrow> False)" for l s
    using rule_None [of l s s] by (simp only: head_ports_None)
  have rules: "parse_rules ls n s = None \<longleftrightarrow> list_ex (\<lambda>l. parse_suricata_rule l no_sets = None) ls" for ls n s
  proof (induction ls arbitrary: n s)
    case (Cons l ls)
    then show ?case using panic [of l s] panic [of l no_sets] by (auto split: option.split prod.split)
  qed simp
  have "\<exists>t. fetch_all ord dns ips (Some text) = None \<longleftrightarrow> parse_rules (text_lines text) 0 t = None"
    by (rule exI, simp add: fetch_all_def Let_def parse_suricata_ruleset_def case_prod_beta split: option.split, blast)
  then have "fetch_all ord dns ips (Some text) = None \<longleftrightarrow> list_ex (\<lambda>l. parse_suricata_rule l no_sets = None) (text_lines text)"
    using rules by simp
  then show ?thesis using panic by simp
qed

section \<open>Addresses of the lists\<close>

lemma dotted_chars: "c \<in> set (show_ipv4 a) \<Longrightarrow> is_digit c \<or> c = CHR ''.''"
proof -
  have join: "c \<in> set (join_with sep ws) \<Longrightarrow> c \<in> set sep \<or> (\<exists>w \<in> set ws. c \<in> set w)" for sep ws
    by (induction sep ws rule: join_with.induct) auto
  have "c \<in> set (show_nat n) \<Longrightarrow> is_digit c" for n
    using show_nat_digits(1) [of n] by (simp add: list_all_iff)
  then show "c \<in> set (show_ipv4 a) \<Longrightarrow> is_digit c \<or> c = CHR ''.''"
    unfolding show_ipv4_def by (auto dest!: join)
qed

lemma dropWhile_none: "(\<forall>c \<in> set s. \<not> P c) \<Longrightarrow> dropWhile P s = s"
  by (cases s) auto

lemma trim_dense: "(\<forall>c \<in> set s. \<not> is_ws c) \<Longrightarrow> trim s = s"
  by (simp add: trim_def trim_start_def trim_end_def dropWhile_none)

text \<open>A dotted address, or one with a prefix length, as a line of a list.\<close>

definition ip_text :: "string \<Rightarrow> bool" where
  "ip_text s \<longleftrightarrow> (\<forall>c \<in> set s. is_digit c \<or> c = CHR ''.'' \<or> c = CHR ''/'')"

lemma ip_text_line: "ip_text s \<Longrightarrow> before_hash CHR '';'' (before_hash CHR ''#'' s) = s \<and> trim s = s"
proof -
  assume s: "ip_text s"
  have no: "\<not> is_ws c \<and> c \<noteq> CHR '';'' \<and> c \<noteq> CHR ''#''" if "c \<in> set s" for c
  proof -
    have "is_digit c \<or> c = CHR ''.'' \<or> c = CHR ''/''" using s that by (simp add: ip_text_def)
    then show ?thesis by (auto simp: is_digit_def is_ws_def Let_def)
  qed
  then have "trim s = s" by (intro trim_dense) auto
  moreover have "split_on CHR ''#'' s = [s]" "split_on CHR '';'' s = [s]" using no by (auto intro!: split_on_word)
  ultimately show ?thesis by (simp add: before_hash_def)
qed

lemma ip_text_show: "ip_text (show_ipv4 a)" "ip_text (show_ipv4 a @ ''/'' @ show_nat n)"
  using dotted_chars [of _ a] show_nat_digits(1) [of n] by (auto simp: ip_text_def list_all_iff)

lemma no_slash: "CHR ''/'' \<notin> set (show_ipv4 a)"
  using dotted_chars [of "CHR ''/''" a] by (auto simp: is_digit_def)

lemma show_ipv4_trim [simp]: "trim (show_ipv4 a) = show_ipv4 a" "trim (show_nat n) = show_nat n"
  using ip_text_line [OF ip_text_show(1)] show_nat_digits(1) [of n]
  by (auto simp: list_all_iff digit_not_ws intro!: trim_dense)

lemma show_ipv4_not_Nil [simp]: "show_ipv4 a \<noteq> []"
  using parse_show_ipv4 [of a] by (auto simp: parse_ipv4_def)

lemma trim_matches_none: "set s \<inter> set cs = {} \<Longrightarrow> trim_matches cs s = s"
  by (simp add: trim_matches_def dropWhile_none disjoint_iff)

lemma top_byte: "w AND 0xFF000000 = (0x7F000000 :: u32) \<longleftrightarrow> byte_of 3 w = 127"
proof -
  have c: "(0xFF000000 :: u32) = push_bit 24 (mask 8)" "(0x7F000000 :: u32) = push_bit 24 0x7F"
    by (simp_all add: mask_numeral)
  have lt: "unat (drop_bit 24 w) < 256"
    using unsigned_less [of w, where ?'a = nat] unfolding unat_drop_bit_eq by (simp add: drop_bit_eq_div)
  have "w AND push_bit 24 (mask 8) = push_bit 24 (drop_bit 24 w)"
    by (rule bit_word_eqI) (auto simp: bit_simps)
  moreover have "push_bit 24 (drop_bit 24 w) = push_bit 24 (0x7F :: u32) \<longleftrightarrow> drop_bit 24 w = 0x7F"
  proof
    have "drop_bit 24 (push_bit 24 (drop_bit 24 w)) = drop_bit 24 w"
      by (rule bit_word_eqI) (auto simp: bit_simps dest: bit_imp_le_length)
    moreover assume "push_bit 24 (drop_bit 24 w) = push_bit 24 (0x7F :: u32)"
    ultimately show "drop_bit 24 w = 0x7F" by (simp add: drop_bit_eq_div)
  qed simp
  moreover have "drop_bit 24 w = 0x7F \<longleftrightarrow> byte_of 3 w = 127"
    using lt by (simp add: byte_of_def word_unat_eq_iff unsigned_ucast_eq take_bit_eq_mod)
  ultimately show ?thesis unfolding c by (simp only:)
qed

text \<open>
  A list line with a prefix length is accepted exactly for lengths from 1 to 32, but the same
  text in a rule's address option is accepted with any length up to 255, so with 0 a rule blocks every
  address. The loopback test of a bare address reads its last octet: 127.0.0.1 is put into the block
  list, and every address that ends in 127 is left out.
\<close>

theorem address_entries:
  fixes ip :: u32 and len :: u8
  shows "parse_ip_line (show_ipv4 ip @ ''/'' @ show_nat (unat len)) (n, s) =
      (if 1 \<le> len \<and> len \<le> 32 then (n + 1, add_cidr (ip, len) s) else (n, s))
    \<and> add_cidr_tok (show_ipv4 ip @ ''/'' @ show_nat (unat len)) s = add_cidr (ip, len) s
    \<and> parse_ip_line (show_ipv4 ip) (n, s) = (if byte_of 0 ip = 127 then (n, s) else (n + 1, add_cidr (ip, 32) s))"
proof -
  have lt: "unat len < 256" using unsigned_less [of len, where ?'a = nat] by simp
  then have len: "parse_u8 (show_nat (unat len)) = Some (unat len)" by (simp add: parse_u8_def)
  have so: "split_once CHR ''/'' (show_ipv4 ip @ ''/'' @ show_nat (unat len)) = Some (show_ipv4 ip, show_nat (unat len))"
    using split_once_at [OF no_slash [of ip]] by simp
  have le: "Suc 0 \<le> unat len \<longleftrightarrow> 1 \<le> len" "unat len \<le> 32 \<longleftrightarrow> len \<le> 32"
    by (simp_all add: word_le_nat_alt)
  have "parse_ip_line (show_ipv4 ip @ ''/'' @ show_nat (unat len)) (n, s) =
      (if 1 \<le> len \<and> len \<le> 32 then (n + 1, add_cidr (ip, len) s) else (n, s))"
    using ip_text_line [OF ip_text_show(2) [of ip "unat len"]] so len le
    by (simp add: parse_ip_line_def Let_def)
  moreover have "c \<notin> set [CHR ''['', CHR '']'', quote_char]" if "c \<in> set (show_ipv4 ip @ ''/'' @ show_nat (unat len))" for c
  proof -
    have "is_digit c \<or> c = CHR ''.'' \<or> c = CHR ''/''"
      using ip_text_show(2) [of ip "unat len"] that unfolding ip_text_def by blast
    then show ?thesis by (auto simp: is_digit_def quote_char_def)
  qed
  then have "trim_matches [CHR ''['', CHR '']'', quote_char] (show_ipv4 ip @ ''/'' @ show_nat (unat len))
      = show_ipv4 ip @ ''/'' @ show_nat (unat len)"
    by (intro trim_matches_none) blast
  then have "add_cidr_tok (show_ipv4 ip @ ''/'' @ show_nat (unat len)) s = add_cidr (ip, len) s"
    using ip_text_line [OF ip_text_show(2) [of ip "unat len"]] so len by (simp add: add_cidr_tok_def)
  moreover have "split_once CHR ''/'' (show_ipv4 ip) = None" using no_slash by (simp add: split_once_def)
  moreover have "swap32 ip AND 0xFF000000 = 0x7F000000 \<longleftrightarrow> byte_of 0 ip = 127"
    by (simp only: top_byte swap32_def byte_of_le32)
  ultimately show ?thesis
    using ip_text_line [OF ip_text_show(1) [of ip]] by (simp add: parse_ip_line_def Let_def)
qed

section \<open>What a payload holds\<close>

text \<open>The lists of names touch neither ports nor ranges, the lists of addresses no port.\<close>

abbreviation same_ranges :: "sync_sets \<Rightarrow> sync_sets \<Rightarrow> bool" where
  "same_ranges s s' \<equiv> ss_ports s' = ss_ports s \<and> ss_cidrs s' = ss_cidrs s"

lemma list_domain_ranges: "same_ranges (snd ns) (snd (list_domain t ns))"
  by (simp add: list_domain_def Let_def add_domain_def)

lemma fold_ranges: "(\<And>l ns. same_ranges (snd ns) (snd (f l ns))) \<Longrightarrow> same_ranges (snd ns) (snd (fold f ls ns))"
  by (induction ls arbitrary: ns) simp_all

lemma name_lists: "same_ranges s (snd (parse_hosts t s))" "same_ranges s (snd (parse_domains t s))"
  using fold_ranges [where f = parse_hosts_line and ns = "(0, s)"] fold_ranges [where f = parse_domains_line and ns = "(0, s)"]
  by (simp_all add: parse_hosts_def parse_domains_def parse_hosts_line_def parse_domains_line_def Let_def list_domain_ranges)

lemma ip_line: "ss_ports (snd (parse_ip_line l (n, s))) = ss_ports s
    \<and> ss_cidrs (snd (parse_ip_line l (n, s))) = ss_cidrs s \<union> ss_cidrs (snd (parse_ip_line l (0, no_sets)))"
  by (auto simp: parse_ip_line_def Let_def add_cidr_def no_sets_def split: option.split prod.split)

lemma ip_list: "ss_ports (snd (parse_ip_cidrs t s)) = ss_ports s
    \<and> ss_cidrs (snd (parse_ip_cidrs t s)) = ss_cidrs s \<union> (\<Union>l \<in> set (text_lines t). ss_cidrs (snd (parse_ip_line l (0, no_sets))))"
proof -
  have "ss_ports (snd (fold parse_ip_line ls ns)) = ss_ports (snd ns)
      \<and> ss_cidrs (snd (fold parse_ip_line ls ns)) = ss_cidrs (snd ns) \<union> (\<Union>l \<in> set ls. ss_cidrs (snd (parse_ip_line l (0, no_sets))))" for ls ns
  proof (induction ls arbitrary: ns)
    case (Cons l ls)
    then show ?case using ip_line [of l "fst ns" "snd ns"] by auto
  qed simp
  then show ?thesis by (simp add: parse_ip_cidrs_def)
qed

lemma fold_lists:
  "ss_ports (fold (\<lambda>t s. case t of Some text \<Rightarrow> snd (parse_ip_cidrs text s) | None \<Rightarrow> s) ips s) = ss_ports s"
  "ss_cidrs s \<subseteq> ss_cidrs (fold (\<lambda>t s. case t of Some text \<Rightarrow> snd (parse_ip_cidrs text s) | None \<Rightarrow> s) ips s)"
  "Some t \<in> set ips \<Longrightarrow> l \<in> set (text_lines t) \<Longrightarrow> ss_cidrs (snd (parse_ip_line l (0, no_sets)))
     \<subseteq> ss_cidrs (fold (\<lambda>t s. case t of Some text \<Rightarrow> snd (parse_ip_cidrs text s) | None \<Rightarrow> s) ips s)"
proof (induction ips arbitrary: s)
  case (Cons u ips)
  {
    case 1
    then show ?case by (cases u) (simp_all add: Cons.IH(1) ip_list)
  next
    case 2
    have "ss_cidrs s \<subseteq> ss_cidrs (case u of Some text \<Rightarrow> snd (parse_ip_cidrs text s) | None \<Rightarrow> s)"
      by (cases u) (auto simp: ip_list)
    then show ?case using Cons.IH(2) by (fastforce simp del: option.case_distrib)
  next
    case 3
    show ?case
    proof (cases "u = Some t")
      case True
      then have "ss_cidrs (snd (parse_ip_line l (0, no_sets))) \<subseteq> ss_cidrs (snd (parse_ip_cidrs t s))"
        using 3 ip_list [of t s] by auto
      then show ?thesis using True Cons.IH(2) [of "snd (parse_ip_cidrs t s)"] by auto
    next
      case False
      then show ?thesis using 3 Cons.IH(3) by auto
    qed
  }
qed simp_all

definition lists_all :: "set_order \<Rightarrow> bool" where
  "lists_all ord \<longleftrightarrow> (\<forall>s. set (order_cidrs ord s) = s) \<and> (\<forall>s. set (order_ports ord s) = s)"

lemma payload_holds:
  assumes "fetch_all ord dns ips rules = Some (r, p)" "lists_all ord"
  shows "set (sp_ports p) \<subseteq> Collect is_blockable_port"
    and "\<lbrakk>Some t \<in> set ips; l \<in> set (text_lines t)\<rbrakk> \<Longrightarrow> ss_cidrs (snd (parse_ip_line l (0, no_sets))) \<subseteq> set (sp_cidrs p)"
proof -
  let ?d = "fold (\<lambda>(name, t) s. case t of
                Some text \<Rightarrow> snd (if name = ''oisd'' then parse_domains text s else parse_hosts text s)
              | None \<Rightarrow> s) dns no_sets"
  let ?i = "fold (\<lambda>t s. case t of Some text \<Rightarrow> snd (parse_ip_cidrs text s) | None \<Rightarrow> s) ips ?d"
  have "ss_ports (fold (\<lambda>(name, t) s. case t of
                Some text \<Rightarrow> snd (if name = ''oisd'' then parse_domains text s else parse_hosts text s)
              | None \<Rightarrow> s) dns s) = ss_ports s" for s
  proof (induction dns arbitrary: s)
    case (Cons x dns)
    then show ?case by (cases x; cases "snd x") (simp_all add: name_lists)
  qed simp
  then have d: "ss_ports ?d = {}" by (simp add: no_sets_def)
  obtain n s where s: "(case rules of Some text \<Rightarrow> parse_suricata_ruleset text (?i\<lparr>ss_patterns := []\<rparr>)
               | None \<Rightarrow> Some (0, ?i)) = Some (n, s)"
    and p: "sp_cidrs p = order_cidrs ord (ss_cidrs s)" "sp_ports p = order_ports ord (ss_ports s)"
    using assms(1) by (auto simp: fetch_all_def Let_def case_prod_beta split: option.splits)
  have eff: "ss_ports s \<subseteq> ss_ports ?i \<union> Collect is_blockable_port" "ss_cidrs ?i \<subseteq> ss_cidrs s"
    using s rules_effect(1,4) [of _ 0 "?i\<lparr>ss_patterns := []\<rparr>" n s] by (cases rules; simp add: parse_suricata_ruleset_def)+
  have "ss_ports ?i = {}" using fold_lists(1) [of ips ?d] d by (rule trans)
  then show "set (sp_ports p) \<subseteq> Collect is_blockable_port" using eff(1) assms(2) by (simp only: p lists_all_def) blast
  show "ss_cidrs (snd (parse_ip_line l (0, no_sets))) \<subseteq> set (sp_cidrs p)" if "Some t \<in> set ips" "l \<in> set (text_lines t)"
  proof -
    have "ss_cidrs (snd (parse_ip_line l (0, no_sets))) \<subseteq> ss_cidrs ?i" using that by (rule fold_lists(3))
    also note eff(2)
    also have "ss_cidrs s = set (sp_cidrs p)" using assms(2) by (simp only: p lists_all_def)
    finally show ?thesis .
  qed
qed

end
