(* ===== verification/Threat_Blocklist.thy ===== *)
theory Threat_Blocklist
  imports Feeds
begin

text \<open>
  The domain and port lists of \<open>ring0d/src/threat_blocklist.rs\<close>. The Aho-Corasick automaton is a
  parameter: \<open>ac_build\<close> compiles a set of patterns, or fails, and \<open>ac_match\<close> runs the automaton.
\<close>

definition MAX_THREAT_FEED_BYTES :: nat where "MAX_THREAT_FEED_BYTES = 128 * 1024 * 1024"

record 'ac threat_blocklist =
  tb_domains :: "string set"
  ac_matcher :: "'ac option"
  tb_ports :: "u16 set"

definition threat_new :: "'ac threat_blocklist" where
  "threat_new = \<lparr>tb_domains = {}, ac_matcher = None, tb_ports = {}\<rparr>"

definition check_ports :: "'ac threat_blocklist \<Rightarrow> u16 \<Rightarrow> u16 \<Rightarrow> bool" where
  "check_ports b src dst \<longleftrightarrow> src \<in> tb_ports b \<or> dst \<in> tb_ports b"

definition threat_block_port :: "u16 \<Rightarrow> 'ac threat_blocklist \<Rightarrow> 'ac threat_blocklist" where
  "threat_block_port p b = b\<lparr>tb_ports := insert p (tb_ports b)\<rparr>"

definition threat_unblock_port :: "u16 \<Rightarrow> 'ac threat_blocklist \<Rightarrow> 'ac threat_blocklist" where
  "threat_unblock_port p b = b\<lparr>tb_ports := tb_ports b - {p}\<rparr>"

section \<open>Feeds\<close>

datatype feed_error = Http | TooLarge u64 | BodyError | ExceedsCap

fun feed_body :: "bytes option list \<Rightarrow> bytes \<Rightarrow> feed_error + bytes" where
  "feed_body [] body = Inr body"
| "feed_body (None # cs) body = Inl BodyError"
| "feed_body (Some c # cs) body =
     (if MAX_THREAT_FEED_BYTES < length body + length c then Inl ExceedsCap else feed_body cs (body @ c))"

definition feed_line :: "string \<Rightarrow> string option" where
  "feed_line line =
     (let t = to_lowercase (trim line) in
      if t = [] \<or> prefix ''#'' t \<or> prefix ''//'' t then None
      else let cleaned = trim_end_dots t in
        if CHR ''.'' \<in> set cleaned \<and> CHR '' '' \<notin> set cleaned \<and> CHR ''/'' \<notin> set cleaned then Some cleaned else None)"

definition sync_single_feed :: "(u64 option \<times> bytes option list) option \<Rightarrow> feed_error + string list" where
  "sync_single_feed resp =
     (case resp of None \<Rightarrow> Inl Http
      | Some (content_length, chunks) \<Rightarrow>
          (case content_length of
             Some cl \<Rightarrow> if MAX_THREAT_FEED_BYTES < unat cl then Inl (TooLarge cl)
                        else (case feed_body chunks [] of Inl e \<Rightarrow> Inl e
                              | Inr body \<Rightarrow> Inr (List.map_filter feed_line (text_lines (from_utf8_lossy body))))
           | None \<Rightarrow> (case feed_body chunks [] of Inl e \<Rightarrow> Inl e
                      | Inr body \<Rightarrow> Inr (List.map_filter feed_line (text_lines (from_utf8_lossy body))))))"

text \<open>A matcher that cannot be built leaves the previous one in place.\<close>

definition rebuild_ac_matcher :: "(string set \<Rightarrow> 'ac option) \<Rightarrow> 'ac threat_blocklist \<Rightarrow> 'ac threat_blocklist" where
  "rebuild_ac_matcher ac_build b =
     (if tb_domains b = {} then b\<lparr>ac_matcher := None\<rparr>
      else case ac_build (tb_domains b) of Some ac \<Rightarrow> b\<lparr>ac_matcher := Some ac\<rparr> | None \<Rightarrow> b)"

definition sync_all_feeds ::
    "(string set \<Rightarrow> 'ac option) \<Rightarrow> (u64 option \<times> bytes option list) option list \<Rightarrow> 'ac threat_blocklist
     \<Rightarrow> nat \<times> 'ac threat_blocklist" where
  "sync_all_feeds ac_build resps b =
     (let ds = fold (\<lambda>r acc. case sync_single_feed r of Inl e \<Rightarrow> acc | Inr l \<Rightarrow> acc \<union> set l) resps {} in
      (card ds, rebuild_ac_matcher ac_build (b\<lparr>tb_domains := ds\<rparr>)))"

definition check_domain :: "('ac \<Rightarrow> string \<Rightarrow> bool) \<Rightarrow> string \<Rightarrow> 'ac threat_blocklist \<Rightarrow> bool" where
  "check_domain ac_match domain b =
     (let low = to_lowercase domain in
      low \<in> tb_domains b \<or> (case ac_matcher b of Some ac \<Rightarrow> ac_match ac low | None \<Rightarrow> False))"

definition local_line :: "string \<Rightarrow> string option" where
  "local_line line =
     (let t = to_lowercase (trim line) in
      if t \<noteq> [] \<and> \<not> prefix ''#'' t \<and> CHR ''.'' \<in> set t then Some t else None)"

definition load_local_file ::
    "(string set \<Rightarrow> 'ac option) \<Rightarrow> string option \<Rightarrow> 'ac threat_blocklist \<Rightarrow> nat \<times> 'ac threat_blocklist" where
  "load_local_file ac_build content b =
     (case content of None \<Rightarrow> (0, b)
      | Some text \<Rightarrow>
          let new = set (List.map_filter local_line (text_lines text)) in
          (card (new - tb_domains b), rebuild_ac_matcher ac_build (b\<lparr>tb_domains := tb_domains b \<union> new\<rparr>)))"

section \<open>What is matched\<close>

text \<open>The documented automaton: some pattern occurs, ignoring the case of letters.\<close>

definition ac_documented :: "(string set \<Rightarrow> 'ac option) \<Rightarrow> ('ac \<Rightarrow> string \<Rightarrow> bool) \<Rightarrow> bool" where
  "ac_documented ac_build ac_match \<longleftrightarrow>
     (\<forall>ps ac s. ac_build ps = Some ac \<longrightarrow>
        ac_match ac s = (\<exists>p \<in> ps. sublist (to_lowercase p) (to_lowercase s)))"

definition matcher_ok :: "(string set \<Rightarrow> 'ac option) \<Rightarrow> 'ac threat_blocklist \<Rightarrow> bool" where
  "matcher_ok ac_build b \<longleftrightarrow> (\<forall>d \<in> tb_domains b. to_lowercase d = d) \<and>
     (case ac_matcher b of None \<Rightarrow> tb_domains b = {} | Some ac \<Rightarrow> ac_build (tb_domains b) = Some ac)"

lemma lower_not_dot: "to_lowercase (trim_end_dots (to_lowercase t)) = trim_end_dots (to_lowercase t)"
proof -
  have "set (dropWhile P xs) \<subseteq> set xs" for P and xs :: string by (auto dest: set_dropWhileD)
  then have "set (trim_end_dots (to_lowercase t)) \<subseteq> set (to_lowercase t)"
    using set_dropWhileD by (fastforce simp: trim_end_dots_def)
  moreover have "lower c = c" if "c \<in> set (to_lowercase t)" for c using that by (auto simp: to_lowercase_def)
  ultimately show ?thesis unfolding to_lowercase_def [of "trim_end_dots (to_lowercase t)"]
    by (intro map_idI) blast
qed

lemma feed_line_lower: "feed_line l = Some d \<Longrightarrow> to_lowercase d = d"
  by (auto simp: feed_line_def Let_def lower_not_dot split: if_splits)

lemma local_line_lower: "local_line l = Some d \<Longrightarrow> to_lowercase d = d"
  by (auto simp: local_line_def Let_def split: if_splits)

lemma rebuild_ok:
  assumes "\<forall>d \<in> tb_domains b. to_lowercase d = d" "tb_domains b = {} \<or> ac_build (tb_domains b) \<noteq> None"
  shows "matcher_ok ac_build (rebuild_ac_matcher ac_build b)" "tb_domains (rebuild_ac_matcher ac_build b) = tb_domains b"
  using assms by (auto simp: matcher_ok_def rebuild_ac_matcher_def split: option.split)

text \<open>
  With a matcher that could be built, a domain is reported exactly when a listed domain
  occurs anywhere in it: label boundaries play no role, so an entry \<open>t.co\<close> reports
  \<open>microsoft.com\<close>.
\<close>

theorem domain_match_exact:
  assumes "ac_documented ac_build ac_match"
    and "snd (load_local_file ac_build (Some text) threat_new) = b"
    and "ac_build (tb_domains b) \<noteq> None"
  shows "check_domain ac_match domain b \<longleftrightarrow>
    (\<exists>l \<in> set (text_lines text). \<exists>d. local_line l = Some d \<and> sublist d (to_lowercase domain))"
proof -
  let ?n = "set (List.map_filter local_line (text_lines text))"
  have n: "d \<in> ?n \<longleftrightarrow> (\<exists>l \<in> set (text_lines text). local_line l = Some d)" for d
    by (force simp: List.map_filter_def)
  have low: "\<forall>d \<in> ?n. to_lowercase d = d" using n local_line_lower by blast
  have dom: "tb_domains b = ?n" "matcher_ok ac_build b"
    using assms(2,3) low rebuild_ok [of "threat_new\<lparr>tb_domains := ?n\<rparr>" ac_build]
    by (auto simp: load_local_file_def threat_new_def Let_def rebuild_ac_matcher_def split: if_splits option.splits)
  have "check_domain ac_match domain b \<longleftrightarrow> (\<exists>d \<in> ?n. sublist d (to_lowercase domain))"
  proof (cases "ac_matcher b")
    case None
    then show ?thesis using dom by (simp add: matcher_ok_def check_domain_def)
  next
    case (Some ac)
    then have "ac_match ac (to_lowercase domain) \<longleftrightarrow> (\<exists>d \<in> ?n. sublist d (to_lowercase domain))"
      using assms(1) dom low by (auto simp: ac_documented_def matcher_ok_def)
    then show ?thesis using Some dom(1) by (auto simp: check_domain_def Let_def)
  qed
  then show ?thesis using n by blast
qed

definition list_build :: "string set \<Rightarrow> string set option" where
  "list_build ps = Some ps"

definition list_match :: "string set \<Rightarrow> string \<Rightarrow> bool" where
  "list_match ps s = (\<exists>p \<in> ps. sublist (to_lowercase p) (to_lowercase s))"

theorem domain_match_exact_witness:
  "check_domain list_match ''microsoft.com'' (snd (load_local_file list_build (Some ''t.co'') threat_new))"
proof -
  have l: "text_lines ''t.co'' = [''t.co'']" "local_line ''t.co'' = Some ''t.co''"
    by (simp_all add: text_lines_def strip_cr_def local_line_def trim_def trim_start_def trim_end_def is_ws_def
        to_lowercase_def lower_def)
  have "sublist ''t.co'' (to_lowercase ''microsoft.com'')"
    by (simp add: to_lowercase_def lower_def sublist_Cons_right)
  then show ?thesis
    using domain_match_exact [of list_build list_match "''t.co''" _ "''microsoft.com''", OF _ refl] l
    by (simp add: ac_documented_def list_build_def list_match_def)
qed

end
