(* ===== verification/Rules.thy ===== *)
theory Rules
  imports Rust_Text
begin

text \<open>
  The rule engine, \<open>ring0d/src/rules.rs\<close>. \<open>parse_yaml\<close> stands for \<open>serde_yaml\<close>,
  \<open>tilde\<close> for \<open>shellexpand\<close> and \<open>glob\<close> for the glob crate (\<open>None\<close>: not a pattern).
\<close>

section \<open>Configuration\<close>

record network_rule =
  nr_id :: u32
  nr_name :: string
  nr_cidrs :: "string list"
  nr_ports :: "u16 list"
  nr_protocols :: "string list"
  nr_signatures :: "string list"
  nr_severity :: u8
  nr_enabled :: "bool option"

record process_rule =
  pr_id :: u32
  pr_name :: string
  pr_binary_paths :: "string list"
  pr_child_blacklist :: "string list"
  pr_sha256_hashes :: "string list"
  pr_severity :: u8
  pr_enabled :: "bool option"

record file_rule =
  fr_id :: u32
  fr_name :: string
  fr_path_glob :: string
  fr_severity :: u8
  fr_read_only :: bool
  fr_enabled :: "bool option"

record rule_config =
  rc_network :: "network_rule list"
  rc_process :: "process_rule list"
  rc_file :: "file_rule list"

record rule_engine =
  re_config :: rule_config
  re_path :: string
  re_signatures :: "string list"

datatype rule_error = ReadFailed | ParseFailed

definition rules_empty :: rule_engine where
  "rules_empty = \<lparr>re_config = \<lparr>rc_network = [], rc_process = [], rc_file = []\<rparr>, re_path = [], re_signatures = []\<rparr>"

text \<open>\<open>read\<close>: the content of a file, or \<open>None\<close>.\<close>

definition parse_file ::
    "(string \<Rightarrow> string) \<Rightarrow> (string \<Rightarrow> string option) \<Rightarrow> (string \<Rightarrow> rule_config option) \<Rightarrow> string \<Rightarrow> rule_error + rule_config" where
  "parse_file tilde read parse_yaml path =
     (case read (tilde path) of None \<Rightarrow> Inl ReadFailed
      | Some content \<Rightarrow> (case parse_yaml content of None \<Rightarrow> Inl ParseFailed | Some c \<Rightarrow> Inr c))"

definition config_signatures :: "rule_config \<Rightarrow> string list" where
  "config_signatures c = concat (map nr_signatures (rc_network c))"

definition rules_load ::
    "(string \<Rightarrow> string) \<Rightarrow> (string \<Rightarrow> string option) \<Rightarrow> (string \<Rightarrow> rule_config option) \<Rightarrow> string \<Rightarrow> rule_error + rule_engine" where
  "rules_load tilde read parse_yaml path =
     (case parse_file tilde read parse_yaml path of Inl e \<Rightarrow> Inl e
      | Inr c \<Rightarrow> Inr \<lparr>re_config = c, re_path = path, re_signatures = config_signatures c\<rparr>)"

definition rules_reload ::
    "(string \<Rightarrow> string) \<Rightarrow> (string \<Rightarrow> string option) \<Rightarrow> (string \<Rightarrow> rule_config option) \<Rightarrow> rule_engine
     \<Rightarrow> (rule_error + unit) \<times> rule_engine" where
  "rules_reload tilde read parse_yaml e =
     (case parse_file tilde read parse_yaml (re_path e) of Inl err \<Rightarrow> (Inl err, e)
      | Inr c \<Rightarrow> (Inr (), e\<lparr>re_config := c, re_signatures := config_signatures c\<rparr>))"

definition process_rule_name :: "rule_engine \<Rightarrow> u32 \<Rightarrow> string" where
  "process_rule_name e i = (case find (\<lambda>r. pr_id r = i) (rc_process (re_config e)) of
     Some r \<Rightarrow> pr_name r | None \<Rightarrow> ''rule '' @ show_nat (unat i))"

section \<open>Checks\<close>

definition rule_enabled :: "bool option \<Rightarrow> bool" where
  "rule_enabled b = (case b of Some x \<Rightarrow> x | None \<Rightarrow> True)"

definition check_file_access ::
    "(string \<Rightarrow> string) \<Rightarrow> (string \<Rightarrow> (string \<Rightarrow> bool) option) \<Rightarrow> rule_engine \<Rightarrow> string \<Rightarrow> bool \<Rightarrow> u32 list" where
  "check_file_access tilde glob e path write_flag =
     map fr_id (filter (\<lambda>r. rule_enabled (fr_enabled r)
        \<and> (case glob (tilde (fr_path_glob r)) of Some m \<Rightarrow> m path | None \<Rightarrow> False)
        \<and> (\<not> fr_read_only r \<or> write_flag)) (rc_file (re_config e)))"

definition process_hits :: "string \<Rightarrow> string option \<Rightarrow> process_rule \<Rightarrow> u32 list" where
  "process_hits binary parent r =
     (if list_ex (str_contains binary) (pr_binary_paths r) then [pr_id r] else []) @
     (case parent of
        Some p \<Rightarrow> concat (map (\<lambda>bl. if str_contains binary bl \<and> list_ex (str_contains p) (pr_binary_paths r)
                                   then [pr_id r] else []) (pr_child_blacklist r))
      | None \<Rightarrow> [])"

definition check_process_anomaly :: "rule_engine \<Rightarrow> string \<Rightarrow> string option \<Rightarrow> u32 list" where
  "check_process_anomaly e binary parent =
     concat (map (process_hits binary parent) (filter (\<lambda>r. rule_enabled (pr_enabled r)) (rc_process (re_config e))))"

section \<open>Reloading and reporting\<close>

text \<open>A reload that fails leaves the engine as it was; one that succeeds keeps the signatures in step.\<close>

definition rules_ok :: "rule_engine \<Rightarrow> bool" where
  "rules_ok e \<longleftrightarrow> re_signatures e = config_signatures (re_config e)"

lemma rules_steps:
  "rules_ok rules_empty" "rules_load td rd py p = Inr e \<Longrightarrow> rules_ok e"
  "rules_ok e \<Longrightarrow> rules_ok (snd (rules_reload td rd py e))"
  by (auto simp: rules_ok_def rules_empty_def rules_load_def rules_reload_def config_signatures_def split: sum.splits)

lemma reload_failure: "fst (rules_reload td rd py e) = Inl err \<Longrightarrow> snd (rules_reload td rd py e) = e"
  by (auto simp: rules_reload_def split: sum.splits)

text \<open>
  A process rule fires whenever the new program is in its list of paths, whoever started it; the list
  of forbidden children matters only for other programs.
\<close>

lemma process_hits_iff: "i \<in> set (process_hits binary parent r) \<longleftrightarrow> i = pr_id r \<and>
    (list_ex (str_contains binary) (pr_binary_paths r) \<or>
     (\<exists>p. parent = Some p \<and> list_ex (str_contains p) (pr_binary_paths r)
        \<and> list_ex (str_contains binary) (pr_child_blacklist r)))"
  by (auto simp: process_hits_def list_ex_iff split: option.split if_splits)

end
