(* ===== verification/Storage.thy ===== *)
theory Storage
  imports Ring0_Prelude
begin

text \<open>
  The event store, \<open>ring0d/src/storage.rs\<close>: a bounded queue of writes, a writer thread that is the
  only one to assign keys, and queries. A column family is the list of its entries in key order (the
  database orders keys by their bytes); \<open>decode\<close> is the severity of an encoded alert, the format
  of \<open>alert.rs\<close>, which is not part of the repository.
\<close>

section \<open>State\<close>

definition WRITE_QUEUE_DEPTH :: nat where "WRITE_QUEUE_DEPTH = 16384"
definition BATCH_MAX_ITEMS :: nat where "BATCH_MAX_ITEMS = 512"
definition MAX_ALERT_SCAN :: nat where "MAX_ALERT_SCAN = 5000"

datatype write_kind = WriteRaw | WriteAlert

type_synonym entries = "(bytes \<times> bytes) list"

record storage =
  events_cf :: entries
  alerts_cf :: entries
  write_queue :: "(write_kind \<times> bytes) list"
  last_key :: nat
  dropped :: u64
  last_flush :: u64

definition storage_open :: "u64 \<Rightarrow> entries \<Rightarrow> entries \<Rightarrow> storage" where
  "storage_open t ev al = \<lparr>events_cf = ev, alerts_cf = al, write_queue = [], last_key = 0, dropped = 0, last_flush = t\<rparr>"

section \<open>Writing\<close>

definition try_send :: "write_kind \<times> bytes \<Rightarrow> storage \<Rightarrow> storage" where
  "try_send item s =
     (if length (write_queue s) < WRITE_QUEUE_DEPTH then s\<lparr>write_queue := write_queue s @ [item]\<rparr>
      else s\<lparr>dropped := dropped s + 1\<rparr>)"

definition write_raw :: "bool \<Rightarrow> bytes \<Rightarrow> storage \<Rightarrow> storage" where
  "write_raw event_log data s = (if event_log then try_send (WriteRaw, data) s else s)"

definition write_alert :: "bytes \<Rightarrow> storage \<Rightarrow> storage" where
  "write_alert data s = try_send (WriteAlert, data) s"

definition key_bytes :: "nat \<Rightarrow> bytes" where
  "key_bytes k = rev (bytes64 (of_nat k))"

text \<open>Insertion in key order, replacing an entry with the same key.\<close>

definition key_num :: "bytes \<Rightarrow> nat" where
  "key_num k = foldl (\<lambda>a b. 256 * a + unat b) 0 k"

fun put :: "bytes \<Rightarrow> bytes \<Rightarrow> entries \<Rightarrow> entries" where
  "put k v [] = [(k, v)]"
| "put k v ((k', v') # es) =
     (if key_num k < key_num k' then (k, v) # (k', v') # es
      else if key_num k = key_num k' then (k, v) # es
      else (k', v') # put k v es)"

text \<open>One item taken from the queue at wall-clock time \<open>now\<close>.\<close>

definition write_item :: "nat \<Rightarrow> write_kind \<times> bytes \<Rightarrow> storage \<Rightarrow> storage" where
  "write_item tnow item s =
     (let key = max tnow (last_key s + 1); s = s\<lparr>last_key := key\<rparr> in
      case item of
        (WriteAlert, data) \<Rightarrow> s\<lparr>alerts_cf := put (key_bytes key) data (alerts_cf s)\<rparr>
      | (WriteRaw, data) \<Rightarrow> s\<lparr>events_cf := put (key_bytes key) data (events_cf s)\<rparr>)"

text \<open>
  A batch of the writer: the clock readings of the items it takes before its time is up, at most 512.
  If the database write fails the items are lost.
\<close>

definition writer_batch :: "nat list \<Rightarrow> bool \<Rightarrow> storage \<Rightarrow> storage" where
  "writer_batch clocks ok s =
     (let n = min BATCH_MAX_ITEMS (min (length clocks) (length (write_queue s)));
          items = take n (write_queue s); s = s\<lparr>write_queue := drop n (write_queue s)\<rparr>;
          s' = fold (\<lambda>(t, i). write_item t i) (zip clocks items) s in
      if ok then s' else s'\<lparr>events_cf := events_cf s, alerts_cf := alerts_cf s\<rparr>)"

section \<open>Queries\<close>

definition query_events :: "u64 \<Rightarrow> u64 \<Rightarrow> nat \<Rightarrow> storage \<Rightarrow> bytes list" where
  "query_events start until limit s =
     map snd (take limit (filter (\<lambda>(k, v). unat start \<le> key_num k \<and> key_num k < unat until) (events_cf s)))"

fun collect_alerts :: "(bytes \<Rightarrow> u8 option) \<Rightarrow> u8 \<Rightarrow> nat \<Rightarrow> entries \<Rightarrow> entries \<Rightarrow> entries" where
  "collect_alerts decode threshold limit out [] = out"
| "collect_alerts decode threshold limit out ((k, v) # es) =
     (if (case decode v of Some sev \<Rightarrow> threshold \<le> sev | None \<Rightarrow> False) then
        (let out = out @ [(k, v)] in
         if limit \<le> length out then out else collect_alerts decode threshold limit out es)
      else collect_alerts decode threshold limit out es)"

definition query_alerts :: "(bytes \<Rightarrow> u8 option) \<Rightarrow> u8 \<Rightarrow> nat \<Rightarrow> storage \<Rightarrow> entries" where
  "query_alerts decode threshold limit s =
     collect_alerts decode threshold (min limit MAX_ALERT_SCAN) [] (rev (alerts_cf s))"

section \<open>Flushing and closing\<close>

text \<open>\<open>sizes\<close>: the reported memtable sizes; the result says whether a flush was started.\<close>

definition maybe_flush :: "u64 list \<Rightarrow> u64 \<Rightarrow> storage \<Rightarrow> bool \<times> storage" where
  "maybe_flush sizes tnow s =
     (let cur = foldl sat_add 0 sizes;
          overdue = (0 < cur \<and> last_flush s \<noteq> 0 \<and> 300000000000 \<le> sat_sub tnow (last_flush s)) in
      if 4 * 1024 * 1024 \<le> cur \<or> overdue then (True, s\<lparr>last_flush := tnow\<rparr>) else (False, s))"

section \<open>Keys\<close>

lemma key_num_bytes: "k < 2 ^ 64 \<Longrightarrow> key_num (key_bytes k) = k"
proof -
  assume "k < 2 ^ 64"
  then have u: "unat (of_nat k :: u64) = k" by (simp add: unat_of_nat)
  define d where "d i = k div 256 ^ i" for i
  have b: "unat (byte_of i (of_nat k :: u64)) = d i mod 256" for i by (simp add: unat_byte_of u d_def)
  have "d (Suc i) = d i div 256" for i by (simp add: d_def power_Suc2 div_mult2_eq del: power_Suc)
  then have s: "d i = 256 * d (Suc i) + d i mod 256" for i by simp
  have ends: "d 0 = k" "d 8 = 0" using \<open>k < 2 ^ 64\<close> by (simp_all add: d_def)
  have "key_num (key_bytes k) = foldl (\<lambda>a i. 256 * a + d i mod 256) 0 [7, 6, 5, 4, 3, 2, 1, 0]"
    by (simp add: key_num_def key_bytes_def bytes64_def b)
  also have "\<dots> = d 0"
    using s [of 0] s [of 1] s [of 2] s [of 3] s [of 4] s [of 5] s [of 6] s [of 7] ends(2)
    unfolding foldl.simps by (simp only: Suc_eq_plus1 numeral_plus_one semiring_norm one_add_one add_0)
  finally show ?thesis using ends(1) by simp
qed

lemma put_last: "list_all (\<lambda>e. key_num (fst e) < key_num k) es \<Longrightarrow> put k v es = es @ [(k, v)]"
  by (induction k v es rule: put.induct) auto

section \<open>Alerts come back newest first\<close>

text \<open>Both families hold keys up to the last one assigned.\<close>

definition keys_ok :: "storage \<Rightarrow> bool" where
  "keys_ok s \<longleftrightarrow> list_all (\<lambda>e. key_num (fst e) \<le> last_key s) (events_cf s)
    \<and> list_all (\<lambda>e. key_num (fst e) \<le> last_key s) (alerts_cf s)"

abbreviation queued_alerts :: "(write_kind \<times> bytes) list \<Rightarrow> bytes list" where
  "queued_alerts q \<equiv> map snd (filter (\<lambda>i. fst i = WriteAlert) q)"

lemma write_item_ok:
  assumes "keys_ok s" "t < 2 ^ 64" "last_key s + 1 < 2 ^ 64"
  shows "keys_ok (write_item t i s) \<and> last_key (write_item t i s) = max t (last_key s + 1)
    \<and> map snd (alerts_cf (write_item t i s)) = map snd (alerts_cf s) @ queued_alerts [i]
    \<and> write_queue (write_item t i s) = write_queue s"
proof -
  let ?k = "max t (last_key s + 1)"
  have k: "key_num (key_bytes ?k) = ?k" using assms(2,3) by (intro key_num_bytes) simp
  have below: "list_all (\<lambda>e. key_num (fst e) < key_num (key_bytes ?k)) es"
    if "list_all (\<lambda>e. key_num (fst e) \<le> last_key s) es" for es
    using that unfolding k by (auto simp: list_all_iff)
  show ?thesis
    using assms(1) put_last [OF below] k
    by (cases i; cases "fst i") (auto simp: keys_ok_def write_item_def Let_def list_all_iff)
qed

lemma write_items_ok:
  assumes "keys_ok s" "list_all (\<lambda>ti. fst ti < 2 ^ 63) tis" "max (2 ^ 63) (last_key s) + length tis < 2 ^ 64"
    and "s' = fold (\<lambda>(t, i). write_item t i) tis s"
  shows "keys_ok s' \<and> last_key s' \<le> max (2 ^ 63) (last_key s) + length tis
    \<and> map snd (alerts_cf s') = map snd (alerts_cf s) @ queued_alerts (map snd tis)
    \<and> write_queue s' = write_queue s"
  using assms
proof (induction tis arbitrary: s)
  case (Cons ti tis)
  obtain t i where ti: "ti = (t, i)" by (cases ti)
  let ?s = "write_item t i s"
  have w: "keys_ok ?s" "last_key ?s = max t (last_key s + 1)" "write_queue ?s = write_queue s"
    "map snd (alerts_cf ?s) = map snd (alerts_cf s) @ queued_alerts [i]"
    using write_item_ok [of s t i] Cons.prems ti by auto
  have le: "max (2 ^ 63) (last_key ?s) \<le> max (2 ^ 63) (last_key s) + 1" 
    using Cons.prems(2) unfolding w(2) by (auto simp: ti max_def)
  have "keys_ok s' \<and> last_key s' \<le> max (2 ^ 63) (last_key ?s) + length tis
    \<and> map snd (alerts_cf s') = map snd (alerts_cf ?s) @ queued_alerts (map snd tis) \<and> write_queue s' = write_queue ?s"
  proof (rule Cons.IH [OF w(1)])
    show "max (2 ^ 63) (last_key ?s) + length tis < 2 ^ 64"
      using Cons.prems(3) le unfolding list.size by linarith
  qed (use Cons.prems ti in simp_all)
  moreover have "max (2 ^ 63) (last_key ?s) + length tis \<le> max (2 ^ 63) (last_key s) + length (ti # tis)"
    using le by simp
  ultimately show ?case using w(3,4) ti by (auto intro: le_trans)
qed simp

datatype store_op = StoreAlert bytes | StoreRaw bool bytes | StoreBatch "nat list"

fun store_do :: "store_op \<Rightarrow> storage \<Rightarrow> storage" where
  "store_do (StoreAlert data) = write_alert data"
| "store_do (StoreRaw enabled data) = write_raw enabled data"
| "store_do (StoreBatch clocks) = writer_batch clocks True"

text \<open>The alerts that found room in the queue, and the number of clock readings.\<close>

fun accepted :: "store_op list \<Rightarrow> storage \<Rightarrow> bytes list" where
  "accepted [] s = []"
| "accepted (op # ops) s =
     (case op of StoreAlert data \<Rightarrow> if length (write_queue s) < WRITE_QUEUE_DEPTH then [data] else [] | _ \<Rightarrow> [])
     @ accepted ops (store_do op s)"

fun readings :: "store_op \<Rightarrow> nat list" where
  "readings (StoreBatch clocks) = clocks"
| "readings _ = []"

lemma batch_ok:
  assumes "keys_ok s" "list_all (\<lambda>t. t < 2 ^ 63) clocks" "max (2 ^ 63) (last_key s) + length clocks < 2 ^ 64"
    and "s' = writer_batch clocks True s"
  shows "keys_ok s' \<and> last_key s' \<le> max (2 ^ 63) (last_key s) + length clocks
    \<and> map snd (alerts_cf s') @ queued_alerts (write_queue s') = map snd (alerts_cf s) @ queued_alerts (write_queue s)
    \<and> length (write_queue s') \<le> length (write_queue s)"
proof -
  let ?n = "min BATCH_MAX_ITEMS (min (length clocks) (length (write_queue s)))"
  let ?t = "zip clocks (take ?n (write_queue s))"
  let ?s = "s\<lparr>write_queue := drop ?n (write_queue s)\<rparr>"
  have items: "map snd ?t = take ?n (write_queue s)" by (simp add: map_snd_zip_take)
  have t: "list_all (\<lambda>ti. fst ti < 2 ^ 63) ?t" using assms(2) by (auto simp: list_all_iff dest: set_zip_leftD)
  have "keys_ok ?s" using assms(1) by (simp add: keys_ok_def)
  then have w: "keys_ok s' \<and> last_key s' \<le> max (2 ^ 63) (last_key ?s) + length ?t
      \<and> map snd (alerts_cf s') = map snd (alerts_cf ?s) @ queued_alerts (map snd ?t) \<and> write_queue s' = write_queue ?s"
    using assms(3,4) t by (intro write_items_ok) (simp_all add: writer_batch_def Let_def)
  have "queued_alerts (take ?n (write_queue s)) @ queued_alerts (drop ?n (write_queue s)) = queued_alerts (write_queue s)"
    by (metis append_take_drop_id filter_append map_append)
  then show ?thesis using w unfolding items by auto
qed

lemma send_ok: "keys_ok (try_send i s) = keys_ok s" "last_key (try_send i s) = last_key s"
  "alerts_cf (try_send i s) = alerts_cf s"
  "length (write_queue s) \<le> WRITE_QUEUE_DEPTH \<Longrightarrow> length (write_queue (try_send i s)) \<le> WRITE_QUEUE_DEPTH"
  "queued_alerts (write_queue (try_send i s)) = queued_alerts (write_queue s) @
     (if fst i = WriteAlert \<and> length (write_queue s) < WRITE_QUEUE_DEPTH then [snd i] else [])"
  by (auto simp: try_send_def keys_ok_def)

lemma store_run:
  assumes "keys_ok s" "length (write_queue s) \<le> WRITE_QUEUE_DEPTH"
    and "list_all (\<lambda>op. list_all (\<lambda>t. t < 2 ^ 63) (readings op)) ops"
    and "max (2 ^ 63) (last_key s) + length (concat (map readings ops)) < 2 ^ 64"
    and "s' = fold store_do ops s"
  shows "map snd (alerts_cf s') @ queued_alerts (write_queue s')
      = map snd (alerts_cf s) @ queued_alerts (write_queue s) @ accepted ops s
    \<and> length (write_queue s') \<le> WRITE_QUEUE_DEPTH"
  using assms
proof (induction ops arbitrary: s)
  case (Cons op ops)
  show ?case
  proof (cases op)
    case (StoreBatch clocks)
    have b: "keys_ok (store_do op s) \<and> last_key (store_do op s) \<le> max (2 ^ 63) (last_key s) + length clocks
        \<and> map snd (alerts_cf (store_do op s)) @ queued_alerts (write_queue (store_do op s))
          = map snd (alerts_cf s) @ queued_alerts (write_queue s)
        \<and> length (write_queue (store_do op s)) \<le> length (write_queue s)"
      using Cons.prems StoreBatch by (intro batch_ok) simp_all
    then show ?thesis using Cons.IH [of "store_do op s"] Cons.prems StoreBatch by auto
  qed (use Cons.IH [of "store_do op s"] Cons.prems in \<open>auto simp: write_alert_def write_raw_def send_ok\<close>)
qed simp

text \<open>A query walks the alerts from the newest on.\<close>

lemma collect_take:
  "length out < limit \<or> limit = 0 \<and> out = [] \<Longrightarrow>
   collect_alerts decode threshold limit out es =
     out @ take (max 1 limit - length out) (filter (\<lambda>(k, v). case decode v of Some sev \<Rightarrow> threshold \<le> sev | None \<Rightarrow> False) es)"
proof (induction decode threshold limit out es rule: collect_alerts.induct)
  case (2 decode threshold limit out k v es)
  show ?case
  proof (cases "case decode v of Some sev \<Rightarrow> threshold \<le> sev | None \<Rightarrow> False")
    case hit: True
    show ?thesis
    proof (cases "limit \<le> Suc (length out)")
      case True
      then have "max 1 limit - length out = Suc 0" using 2(3) by auto
      then show ?thesis using True hit by simp
    next
      case False
      then have "max 1 limit - length out = Suc (max 1 limit - Suc (length out))" by auto
      then show ?thesis using False 2(1) [OF hit refl] hit by simp
    qed
  next
    case False
    then show ?thesis using 2 by simp
  qed
qed simp

text \<open>
  Claim C31. On an empty store, over any interleaving of writes and batches and whatever the wall clock
  does, no accepted alert is overwritten or reordered: those in the database and those still queued
  are exactly the accepted ones in order, the queue stays within its depth, and a query returns the
  newest alerts of the severity asked for, newest first: as many as asked, at most 5000, and never
  less than one, even when none is asked.
\<close>

theorem alerts_kept_in_order:
  assumes "list_all (\<lambda>op. list_all (\<lambda>t. t < 2 ^ 63) (readings op)) ops" "length (concat (map readings ops)) < 2 ^ 63"
    and "s = fold store_do ops (storage_open t [] [])"
  shows "map snd (alerts_cf s) @ queued_alerts (write_queue s) = accepted ops (storage_open t [] [])
    \<and> length (write_queue s) \<le> WRITE_QUEUE_DEPTH
    \<and> query_alerts decode threshold limit s = take (max 1 (min limit MAX_ALERT_SCAN))
        (filter (\<lambda>(k, v). case decode v of Some sev \<Rightarrow> threshold \<le> sev | None \<Rightarrow> False) (rev (alerts_cf s)))"
proof -
  have start: "keys_ok (storage_open t [] [])" "length (write_queue (storage_open t [] [])) \<le> WRITE_QUEUE_DEPTH"
    "max (2 ^ 63) (last_key (storage_open t [] [])) + length (concat (map readings ops)) < 2 ^ 64"
    using assms(2) by (simp_all add: storage_open_def keys_ok_def)
  have "query_alerts decode threshold limit s = take (max 1 (min limit MAX_ALERT_SCAN))
        (filter (\<lambda>(k, v). case decode v of Some sev \<Rightarrow> threshold \<le> sev | None \<Rightarrow> False) (rev (alerts_cf s)))"
    unfolding query_alerts_def by (subst collect_take) auto
  then show ?thesis using store_run [OF start(1,2) assms(1) start(3) assms(3)] by (simp add: storage_open_def)
qed

theorem alerts_kept_in_order_witness:
  "map snd (alerts_cf (fold store_do [StoreAlert [1], StoreAlert [2], StoreBatch [7, 5]] (storage_open 0 [] []))) = [[1], [2]]"
  using alerts_kept_in_order [OF _ _ refl, of "[StoreAlert [1], StoreAlert [2], StoreBatch [7, 5]]" 0]
  by (simp add: storage_open_def write_alert_def try_send_def writer_batch_def write_item_def Let_def
      WRITE_QUEUE_DEPTH_def BATCH_MAX_ITEMS_def)

end
