(* ===== verification/Rootkit.thy ===== *)
theory Rootkit
  imports Detectors Process
begin

text \<open>
  The hidden-process detector, \<open>ring0d/src/rootkit.rs\<close>: the kernel's process events as the netlink
  connector delivers them, the table the listener thread keeps, and the scan that compares it with
  \<open>/proc\<close>. A parse result \<open>None\<close> is a panic (it ends the listener thread). Times are nanoseconds.
  Hash tables are walked in insertion order here.
\<close>

definition HIDDEN_PID_WINDOW :: nat where "HIDDEN_PID_WINDOW = 60 * 1000000000"
definition CONNECTOR_PRUNE :: nat where "CONNECTOR_PRUNE = 300 * 1000000000"
definition PROC_EVENT_FORK :: u32 where "PROC_EVENT_FORK = 1"
definition PROC_EVENT_EXEC :: u32 where "PROC_EVENT_EXEC = 2"
definition PROC_EVENT_EXIT :: u32 where "PROC_EVENT_EXIT = 0x80000000"

section \<open>The connector\<close>

type_synonym connector = "(u32 \<times> nat) list"

definition recent :: "nat \<Rightarrow> nat \<Rightarrow> connector \<Rightarrow> connector" where
  "recent tnow window m = filter (\<lambda>(pid, t). tnow - t \<le> window) m"

definition connector_prune :: "nat \<Rightarrow> connector \<Rightarrow> connector" where
  "connector_prune tnow m = filter (\<lambda>(pid, t). tnow - t < CONNECTOR_PRUNE) m"

definition parse_proc_event :: "bytes \<Rightarrow> (u32 \<times> u32) option option" where
  "parse_proc_event data =
     (if length data < 16 + 20 + 24 then Some None
      else case rd32 data 36 of
        None \<Rightarrow> None
      | Some what \<Rightarrow>
          (if what = PROC_EVENT_FORK then map_option Some (rd32 data 64)
           else if what = PROC_EVENT_EXEC \<or> what = PROC_EVENT_EXIT then map_option Some (rd32 data 56)
           else Some None)
          \<bind> (\<lambda>p. Some (case p of Some pid \<Rightarrow> if pid = 0 then None else Some (what, pid) | None \<Rightarrow> None)))"

definition connector_event :: "nat \<Rightarrow> u32 \<times> u32 \<Rightarrow> connector \<Rightarrow> connector" where
  "connector_event tnow ev m =
     (case ev of (what, pid) \<Rightarrow>
        let m = (if what = PROC_EVENT_FORK \<or> what = PROC_EVENT_EXEC then AList.update pid tnow m
                 else if what = PROC_EVENT_EXIT then AList.delete pid m else m)
        in if 65536 < length m then connector_prune tnow m else m)"

definition listen_step :: "nat \<Rightarrow> bytes \<Rightarrow> connector \<Rightarrow> connector option" where
  "listen_step tnow data m = map_option (\<lambda>e. case e of Some ev \<Rightarrow> connector_event tnow ev m | None \<Rightarrow> m) (parse_proc_event data)"

text \<open>The subscription request.\<close>

definition subscribe_request :: bytes where
  "subscribe_request = bytes32 40 @ bytes16 3 @ bytes16 1 @ replicate 8 0 @ bytes32 1 @ bytes32 1
     @ replicate 8 0 @ bytes32 4 @ bytes32 1"

section \<open>The scan\<close>

record rootkit =
  known_pids :: "u32 set"
  scan_count :: u64
  proc_connector :: "connector option"

definition rootkit_new :: "bool \<Rightarrow> rootkit" where
  "rootkit_new available = \<lparr>known_pids = {}, scan_count = 0, proc_connector = (if available then Some [] else None)\<rparr>"

text \<open>The entries of \<open>/proc\<close>; \<open>None\<close>: it cannot be read.\<close>

definition enumerate_proc_pids :: "string list option \<Rightarrow> u32 list option" where
  "enumerate_proc_pids dir = map_option (\<lambda>names. remdups (map of_nat (List.map_filter parse_u32 names))) dir"

definition hidden_finding :: "u64 \<Rightarrow> u32 \<Rightarrow> rootkit_finding" where
  "hidden_finding ts pid = \<lparr>rf_alert_type = ''HiddenProcess'',
     rf_description = ''PID '' @ show_u32 pid @ '' forked in the kernel but is hidden from /proc'',
     rf_pid = pid, rf_hidden = True, rf_module_name = [], rf_timestamp = ts\<rparr>"

definition status_line :: "string \<Rightarrow> string \<Rightarrow> string option" where
  "status_line key status = find (prefix key) (text_lines status)"

definition text_or_empty :: "string option \<Rightarrow> string" where
  "text_or_empty t = (case t of Some s \<Rightarrow> s | None \<Rightarrow> [])"

definition status_ppid :: "string \<Rightarrow> u32" where
  "status_ppid status =
     (case status_line ''PPid:'' status of
        None \<Rightarrow> 0
      | Some l \<Rightarrow> (case split_whitespace l of
          _ # v # _ \<Rightarrow> (case parse_u32 v of Some n \<Rightarrow> of_nat n | None \<Rightarrow> 0) | _ \<Rightarrow> 0))"

definition suspicious :: "u64 \<Rightarrow> procfs \<Rightarrow> u32 list \<Rightarrow> u32 \<Rightarrow> rootkit_finding option" where
  "suspicious ts fs pids pid =
     (case pf_status fs pid of None \<Rightarrow> None
      | Some status \<Rightarrow>
          let name = text_or_empty (status_line ''Name:'' status);
              state = text_or_empty (status_line ''State:'' status) in
          if str_contains state ''T (stopped)'' \<or> str_contains state ''Z (zombie)'' then
            let ppid = status_ppid status in
            if ppid = 1 then None
            else
              let exe = (case pf_exe fs pid of Some p \<Rightarrow> p | None \<Rightarrow> ''unknown'') in
              if str_contains exe ''(deleted)'' \<or> ppid \<notin> set pids then
                Some \<lparr>rf_alert_type = ''SuspiciousProcess'',
                  rf_description = ''Suspicious stopped/orphaned process: '' @ show_u32 pid @ '' '' @ name @ '' ppid='' @ show_u32 ppid,
                  rf_pid = pid, rf_hidden = False, rf_module_name = name, rf_timestamp = ts\<rparr>
              else None
          else None)"

definition scan_hidden_pids ::
    "u64 \<Rightarrow> nat \<Rightarrow> string list option \<Rightarrow> procfs \<Rightarrow> rootkit \<Rightarrow> rootkit_finding list \<times> rootkit" where
  "scan_hidden_pids ts tnow dir fs r =
     (case enumerate_proc_pids dir of
        None \<Rightarrow> ([], r)
      | Some pids \<Rightarrow>
          let r = r\<lparr>scan_count := scan_count r + 1,
                known_pids := {p \<in> known_pids r \<union> set pids. p \<in> set pids}\<rparr>;
              (hidden, conn) = (case proc_connector r of
                  Some m \<Rightarrow> (map (hidden_finding ts) (filter (\<lambda>p. p \<notin> set pids) (map fst (recent tnow HIDDEN_PID_WINDOW m))),
                             Some (connector_prune tnow m))
                | None \<Rightarrow> ([], None))
          in (hidden @ List.map_filter (suspicious ts fs pids) pids, r\<lparr>proc_connector := conn\<rparr>))"

section \<open>Reading the kernel's frames\<close>

text \<open>
  A frame of the connector as the kernel sends it: headers, event, cpu and time, then the ids of the
  event (for a fork those of the parent and the child, otherwise those of one task).
\<close>

definition proc_frame :: "bytes \<Rightarrow> u32 \<Rightarrow> bytes \<Rightarrow> u32 list \<Rightarrow> bytes" where
  "proc_frame headers what cpu_time ids = headers @ bytes32 what @ cpu_time @ concat (map bytes32 ids)"

lemma rd32_at: "length a = n \<Longrightarrow> rd32 (a @ bytes32 w @ b) n = Some w"
  by (simp add: rd32_def bytes32_def nth_append)

lemma frame_what: "length h = 36 \<Longrightarrow> rd32 (proc_frame h w ct ids) 36 = Some w"
  by (simp add: proc_frame_def rd32_at)

lemma frame_id:
  assumes "length h = 36" "length ct = 12"
  shows "rd32 (proc_frame h w ct (xs @ x # ys)) (52 + 4 * length xs) = Some x"
proof -
  have "length (concat (map bytes32 xs)) = 4 * length xs" by (induction xs) simp_all
  then have "length (h @ bytes32 w @ ct @ concat (map bytes32 xs)) = 52 + 4 * length xs" using assms by simp
  from rd32_at [OF this] show ?thesis by (simp add: proc_frame_def)
qed

lemma suspicious_visible: "suspicious ts fs pids pid = Some f \<Longrightarrow> \<not> rf_hidden f"
  by (auto simp: suspicious_def Let_def split: option.splits if_splits)

lemma hidden_known:
  "rf_pid ` {f \<in> set (fst (scan_hidden_pids ts tnow dir fs (r\<lparr>proc_connector := Some m\<rparr>))). rf_hidden f} \<subseteq> fst ` set m"
proof (cases "enumerate_proc_pids dir")
  case None
  then show ?thesis by (simp add: scan_hidden_pids_def)
next
  case (Some pids)
  have "\<not> rf_hidden f" if "f \<in> set (List.map_filter (suspicious ts fs pids) pids)" for f
    using that suspicious_visible [of ts fs pids _ f] unfolding List.map_filter_def by (auto dest!: sym [of _ "suspicious ts fs pids _"])
  then show ?thesis
    using Some by (auto simp: scan_hidden_pids_def hidden_finding_def recent_def intro: rev_image_eqI)
qed



end
