(* ===== verification/Forensics.thy ===== *)
theory Forensics
  imports Rootkit "HOL-Library.Sublist"
begin

text \<open>
  The packet buffer and the evidence bundles of \<open>ring0d/src/forensics.rs\<close>. Compression, the tar
  header of a member and the JSON manifest come from libraries and are parameters; the clock, the
  directory listing and the files of \<open>/proc\<close> are inputs.
\<close>

section \<open>The rolling packet buffer\<close>

record packet_frame =
  pk_timestamp_ns :: u64
  pk_data :: bytes

definition PCAP_BUFFER_SIZE :: nat where "PCAP_BUFFER_SIZE = 100 * 1024 * 1024"
definition PCAP_WINDOW_SECS :: u64 where "PCAP_WINDOW_SECS = 30"

record packet_buffer =
  pb_frames :: "packet_frame list"
  pb_total_size :: u64
  pb_max_size :: nat
  pb_window_secs :: u64
  pb_enabled :: bool

definition packet_buffer_new :: packet_buffer where
  "packet_buffer_new = \<lparr>pb_frames = [], pb_total_size = 0, pb_max_size = PCAP_BUFFER_SIZE,
     pb_window_secs = PCAP_WINDOW_SECS, pb_enabled = True\<rparr>"

definition frame_len :: "packet_frame \<Rightarrow> nat" where
  "frame_len f = length (pk_data f) + 16"

fun drop_over :: "nat \<Rightarrow> packet_frame list \<Rightarrow> u64 \<Rightarrow> packet_frame list \<times> u64" where
  "drop_over m [] t = ([], t)"
| "drop_over m (f # fs) t = (if m < unat t then drop_over m fs (t - of_nat (frame_len f)) else (f # fs, t))"

fun drop_old :: "u64 \<Rightarrow> packet_frame list \<Rightarrow> u64 \<Rightarrow> packet_frame list \<times> u64" where
  "drop_old cutoff [] t = ([], t)"
| "drop_old cutoff (f # fs) t =
     (if pk_timestamp_ns f < cutoff then drop_old cutoff fs (t - of_nat (frame_len f)) else (f # fs, t))"

definition buffer_push :: "bytes \<Rightarrow> u64 \<Rightarrow> packet_buffer \<Rightarrow> packet_buffer" where
  "buffer_push data ts b =
     (if \<not> pb_enabled b then b
      else
        let f = \<lparr>pk_timestamp_ns = ts, pk_data = data\<rparr>;
            (fs, t) = drop_over (pb_max_size b) (pb_frames b @ [f]) (pb_total_size b + of_nat (frame_len f));
            (fs, t) = drop_old (sat_sub ts (pb_window_secs b * 1000000000)) fs t
        in b\<lparr>pb_frames := fs, pb_total_size := t\<rparr>)"

definition buffer_snapshot :: "packet_buffer \<Rightarrow> packet_frame list" where
  "buffer_snapshot b = pb_frames b"

definition buffer_enable :: "bool \<Rightarrow> packet_buffer \<Rightarrow> packet_buffer" where
  "buffer_enable e b = b\<lparr>pb_enabled := e\<rparr>"

section \<open>The capture file\<close>

record pcap_header =
  ph_magic :: u32
  ph_version_major :: u16
  ph_version_minor :: u16
  ph_thiszone :: u32
  ph_sigfigs :: u32
  ph_snaplen :: u32
  ph_network :: u32

definition pcap_header_bytes :: "pcap_header \<Rightarrow> bytes" where
  "pcap_header_bytes h = bytes32 (ph_magic h) @ bytes16 (ph_version_major h) @ bytes16 (ph_version_minor h)
     @ bytes32 (ph_thiszone h) @ bytes32 (ph_sigfigs h) @ bytes32 (ph_snaplen h) @ bytes32 (ph_network h)"

definition pcap_packet_header :: "u64 \<Rightarrow> u32 \<Rightarrow> bytes" where
  "pcap_packet_header ts_ns orig_len =
     bytes32 (ucast (ts_ns div 1000000000)) @ bytes32 (ucast (ts_ns mod 1000000000))
       @ bytes32 (min orig_len 65535) @ bytes32 orig_len"

definition pcap_record :: "packet_frame \<Rightarrow> bytes" where
  "pcap_record f = pcap_packet_header (pk_timestamp_ns f) (of_nat (length (pk_data f))) @ pk_data f"

definition build_pcap :: "packet_frame list \<Rightarrow> bytes" where
  "build_pcap frames =
     pcap_header_bytes \<lparr>ph_magic = 0xA1B2C3D4, ph_version_major = 2, ph_version_minor = 4, ph_thiszone = 0,
       ph_sigfigs = 0, ph_snaplen = 65535, ph_network = 1\<rparr> @ concat (map pcap_record frames)"

section \<open>The process snapshot\<close>

definition snapshot_entry :: "procfs \<Rightarrow> string \<Rightarrow> string" where
  "snapshot_entry fs name =
     (case parse_u32 name of None \<Rightarrow> []
      | Some n \<Rightarrow>
          let pid = of_nat n in
          (case pf_status fs pid of
             None \<Rightarrow> []
           | Some s \<Rightarrow> ''PID '' @ show_nat n @ '': '' @ text_or_empty (status_line ''Name:'' s) @ '' | ''
               @ text_or_empty (status_line ''State:'' s) @ '' | '' @ text_or_empty (status_line ''PPid:'' s) @ '' | ''
               @ text_or_empty (status_line ''Uid:'' s) @ [CHR 0x0A]) @
          (case cmdline_of fs pid of
             None \<Rightarrow> []
           | Some clean \<Rightarrow> if trim clean \<noteq> [] then ''  cmdline: '' @ trim clean @ [CHR 0x0A] else []))"

definition capture_process_snapshot ::
    "string \<Rightarrow> string list option \<Rightarrow> procfs \<Rightarrow> string option \<Rightarrow> string option \<Rightarrow> string" where
  "capture_process_snapshot rfc3339 names fs meminfo loadavg =
     ''=== Ring0 Forensic Process Snapshot ==='' @ [CHR 0x0A] @ ''Timestamp: '' @ rfc3339 @ [CHR 0x0A, CHR 0x0A]
       @ (case names of None \<Rightarrow> [] | Some ns \<Rightarrow> concat (map (snapshot_entry fs) ns))
       @ [CHR 0x0A] @ ''=== Memory & Environment Metrics ==='' @ [CHR 0x0A]
       @ (case meminfo of None \<Rightarrow> [] | Some m \<Rightarrow> concat (map (\<lambda>l. l @ [CHR 0x0A]) (take 10 (text_lines m))))
       @ (case loadavg of None \<Rightarrow> [] | Some l \<Rightarrow> ''loadavg: '' @ trim l @ [CHR 0x0A])"

section \<open>The bundle\<close>

record manifest =
  mf_case_id :: u64
  mf_alert_id :: u64
  mf_severity :: u8
  mf_timestamp :: string
  mf_description :: string
  mf_packet_count :: nat

text \<open>\<open>tar_header\<close>: the header block of a member, from its path and size.\<close>

record bundle_libs =
  tar_header :: "string \<Rightarrow> nat \<Rightarrow> bytes"
  to_json :: "manifest \<Rightarrow> bytes"
  gzip :: "bytes \<Rightarrow> bytes"

definition tar_member :: "bundle_libs \<Rightarrow> string \<Rightarrow> bytes \<Rightarrow> bytes" where
  "tar_member libs path content = tar_header libs path (length content) @ content"

definition bundle_bytes :: "bundle_libs \<Rightarrow> manifest \<Rightarrow> packet_frame list \<Rightarrow> string \<Rightarrow> bytes" where
  "bundle_bytes libs m frames snapshot =
     tar_member libs ''incident.json'' (to_json libs m) @ tar_member libs ''capture.pcap'' (build_pcap frames)
       @ tar_member libs ''process_snapshot.txt'' (ascii snapshot)"

definition write_bundle ::
    "bundle_libs \<Rightarrow> packet_frame list \<Rightarrow> u64 \<Rightarrow> u8 \<Rightarrow> string \<Rightarrow> string \<Rightarrow> u64 \<Rightarrow> string \<Rightarrow> bytes" where
  "write_bundle libs frames alert_id severity description timestamp case_id snapshot =
     gzip libs (bundle_bytes libs
       \<lparr>mf_case_id = case_id, mf_alert_id = alert_id, mf_severity = severity, mf_timestamp = timestamp,
        mf_description = description, mf_packet_count = length frames\<rparr> frames snapshot)"

text \<open>The file an export writes, and the next case number.\<close>

definition trigger_export ::
    "bundle_libs \<Rightarrow> string \<Rightarrow> string \<Rightarrow> packet_buffer \<Rightarrow> u64 \<Rightarrow> u8 \<Rightarrow> string \<Rightarrow> u64 \<Rightarrow> (string \<times> bytes) \<times> u64" where
  "trigger_export libs timestamp snapshot b alert_id severity description next_case_id =
     ((''/var/log/ring0/forensics/incident_'' @ timestamp @ ''_'' @ show_nat (unat next_case_id) @ ''.tar.gz'',
       write_bundle libs (buffer_snapshot b) alert_id severity description timestamp next_case_id snapshot),
      next_case_id + 1)"

section \<open>Retention\<close>

definition MAX_ARCHIVES :: nat where "MAX_ARCHIVES = 20"
definition ARCHIVE_MAX_AGE_SECS :: nat where "ARCHIVE_MAX_AGE_SECS = 30 * 24 * 3600"

text \<open>The archives to delete, of the regular files with their times of modification in seconds.\<close>

definition archives_to_remove :: "nat \<Rightarrow> (nat \<times> string) list \<Rightarrow> (nat \<times> string) list" where
  "archives_to_remove t files =
     (let sorted_files = sort_key fst files; keep_from = length files - MAX_ARCHIVES in
      map snd (filter (\<lambda>(i, m, p). m < t - ARCHIVE_MAX_AGE_SECS \<or> i < keep_from) (enumerate 0 sorted_files)))"

definition retain_archives :: "nat \<Rightarrow> (string \<Rightarrow> bool) \<Rightarrow> (nat \<times> string) list \<Rightarrow> (nat \<times> string) list" where
  "retain_archives t removable files =
     filter (\<lambda>f. \<not> (f \<in> set (archives_to_remove t files) \<and> removable (snd f))) files"

section \<open>The buffer over any sequence of packets\<close>

definition frame_total :: "packet_frame list \<Rightarrow> nat" where
  "frame_total fs = sum_list (map frame_len fs)"

definition push_all :: "(bytes \<times> u64) list \<Rightarrow> packet_buffer \<Rightarrow> packet_buffer" where
  "push_all pkts b = foldl (\<lambda>b (d, ts). buffer_push d ts b) b pkts"

definition frame_of :: "bytes \<times> u64 \<Rightarrow> packet_frame" where
  "frame_of p = \<lparr>pk_timestamp_ns = snd p, pk_data = fst p\<rparr>"

lemma frame_total_simps [simp]:
  "frame_total [] = 0" "frame_total (f # fs) = frame_len f + frame_total fs"
  "frame_total (fs @ gs) = frame_total fs + frame_total gs"
  by (simp_all add: frame_total_def)

lemma unat_minus_frame:
  assumes "unat (t :: u64) = n + m"
  shows "unat (t - of_nat n) = m"
proof -
  have "unat t < 2 ^ LENGTH(64)" by (rule unsigned_less)
  then have "n < 2 ^ 64" using assms by simp
  then have "unat (of_nat n :: u64) = n" by (simp add: unat_of_nat)
  then show ?thesis using assms by (simp add: unat_sub word_le_nat_alt)
qed

lemma suffix_append1: "suffix xs ys \<Longrightarrow> suffix (xs @ [z]) (ys @ [z])"
  by simp

lemma sat_sub_mono: "(a :: 'a::len word) \<le> b \<Longrightarrow> sat_sub a w \<le> sat_sub b w"
  by (auto simp: sat_sub_def word_le_nat_alt word_less_nat_alt unat_sub)

text \<open>The longest end of a list with a property.\<close>

fun longest :: "('a list \<Rightarrow> bool) \<Rightarrow> 'a list \<Rightarrow> 'a list" where
  "longest P [] = []"
| "longest P (x # xs) = (if P (x # xs) then x # xs else longest P xs)"

lemma longest_snoc:
  assumes "\<And>ys. \<lbrakk>suffix ys xs; P (ys @ [x])\<rbrakk> \<Longrightarrow> Q ys"
  shows "longest P (longest Q xs @ [x]) = longest P (xs @ [x])"
  using assms
proof (induction xs)
  case (Cons a xs)
  have "longest P (longest Q xs @ [x]) = longest P (xs @ [x])"
    using Cons.prems by (intro Cons.IH) (simp add: suffix_ConsI)
  then show ?case using Cons.prems [of "a # xs"] by auto
qed simp

lemma longest_longest:
  assumes "\<And>x xs. A (x # xs) \<Longrightarrow> A xs"
  shows "longest B (longest A xs) = longest (\<lambda>s. A s \<and> B s) xs"
proof (induction xs)
  case (Cons x xs)
  have tails: "A xs \<Longrightarrow> longest A xs = xs" for xs using assms by (cases xs) auto
  show ?case using Cons.IH assms [of x xs] tails [of xs] by auto
qed simp

lemma drop_over_longest:
  "\<lbrakk>drop_over m fs t = (fs', t'); unat t = frame_total fs\<rbrakk>
     \<Longrightarrow> unat t' = frame_total fs' \<and> fs' = longest (\<lambda>s. frame_total s \<le> m) fs"
proof (induction fs arbitrary: t)
  case (Cons f fs)
  then show ?case
    by (cases "m < unat t") (auto simp: unat_minus_frame)
qed auto

lemma drop_old_longest:
  "\<lbrakk>drop_old c fs t = (fs', t'); unat t = frame_total fs; sorted (map pk_timestamp_ns fs)\<rbrakk>
     \<Longrightarrow> unat t' = frame_total fs' \<and> fs' = longest (list_all (\<lambda>f. c \<le> pk_timestamp_ns f)) fs"
proof (induction fs arbitrary: t)
  case (Cons f fs)
  show ?case
  proof (cases "pk_timestamp_ns f < c")
    case True with Cons show ?thesis by (auto simp: unat_minus_frame)
  next
    case False
    with Cons.prems have "list_all (\<lambda>g. c \<le> pk_timestamp_ns g) (f # fs)"
      unfolding list_all_iff by (auto simp: not_less) (meson order.trans)
    with False Cons.prems show ?thesis by auto
  qed
qed auto

lemma longest_cases: "longest P xs = [] \<or> P (longest P xs)"
  by (induction xs) auto

lemma longest_suffix: "suffix (longest P xs) xs"
  by (induction xs) (auto intro: suffix_ConsI)

definition packet_limit :: "u64 \<Rightarrow> packet_frame list \<Rightarrow> bool" where
  "packet_limit ts fs \<longleftrightarrow> frame_total fs \<le> PCAP_BUFFER_SIZE
     \<and> list_all (\<lambda>f. sat_sub ts (PCAP_WINDOW_SECS * 1000000000) \<le> pk_timestamp_ns f) fs"

definition buffer_ok :: "(bytes \<times> u64) list \<Rightarrow> packet_buffer \<Rightarrow> bool" where
  "buffer_ok pkts b \<longleftrightarrow> unat (pb_total_size b) = frame_total (pb_frames b)
     \<and> frame_total (pb_frames b) \<le> PCAP_BUFFER_SIZE
     \<and> pb_frames b = longest (packet_limit (snd (last pkts))) (map frame_of pkts)
     \<and> pb_max_size b = PCAP_BUFFER_SIZE \<and> pb_window_secs b = PCAP_WINDOW_SECS \<and> pb_enabled b"

lemma packet_limit_snoc:
  "\<lbrakk>packet_limit ts' (fs @ [f]); ts \<le> ts'\<rbrakk> \<Longrightarrow> packet_limit ts fs"
  using sat_sub_mono [of ts ts' "PCAP_WINDOW_SECS * 1000000000"]
  by (auto simp: packet_limit_def list_all_iff dest: order.trans)

lemma buffer_push_ok:
  assumes ok: "buffer_ok pkts b" and small: "length d < 2 ^ 63"
    and sorted: "sorted (map snd (pkts @ [(d, ts)]))"
  shows "buffer_ok (pkts @ [(d, ts)]) (buffer_push d ts b)"
proof -
  let ?f = "frame_of (d, ts)" and ?t = "pb_total_size b + of_nat (frame_len (frame_of (d, ts)))"
  let ?c = "sat_sub ts (PCAP_WINDOW_SECS * 1000000000)"
  obtain fs t where o1: "drop_over PCAP_BUFFER_SIZE (pb_frames b @ [?f]) ?t = (fs, t)" by fastforce
  obtain gs u where o2: "drop_old ?c fs t = (gs, u)" by fastforce
  have le: "unat (pb_total_size b) \<le> 100 * 1024 * 1024"
    using ok unfolding buffer_ok_def PCAP_BUFFER_SIZE_def by metis
  have "unat (pb_total_size b) + frame_len ?f < 2 ^ 64"
    using le small by (simp add: frame_len_def frame_of_def)
  then have "unat ?t = frame_total (pb_frames b @ [?f])"
    using ok by (simp add: buffer_ok_def unat_word_ariths unat_of_nat)
  note s1 = drop_over_longest [OF o1 this]
  have "suffix fs (map frame_of pkts @ [?f])"
    using s1 ok longest_suffix by (metis buffer_ok_def suffix_order.trans suffix_append1)
  then obtain zs where "map frame_of pkts @ [?f] = zs @ fs" by (auto simp: suffix_def)
  moreover have "sorted (map pk_timestamp_ns (map frame_of pkts @ [?f]))"
    using sorted by (simp add: frame_of_def comp_def)
  ultimately have "sorted (map pk_timestamp_ns fs)" by (simp add: sorted_append del: map_map)
  note s2 = drop_old_longest [OF o2 conjunct1 [OF s1] this]
  have "gs = longest (packet_limit ts) (pb_frames b @ [?f])"
    unfolding packet_limit_def [abs_def] conjunct2 [OF s2] conjunct2 [OF s1] by (rule longest_longest) simp
  also have "\<dots> = longest (packet_limit ts) (map frame_of pkts @ [?f])"
    unfolding conjunct1 [OF conjunct2 [OF conjunct2 [OF ok [unfolded buffer_ok_def]]]]
  proof (rule longest_snoc)
    fix ys assume ys: "suffix ys (map frame_of pkts)" "packet_limit ts (ys @ [?f])"
    show "packet_limit (snd (last pkts)) ys"
    proof (cases pkts rule: rev_cases)
      case Nil with ys show ?thesis by (simp add: packet_limit_def)
    next
      case (snoc ps p) with ys sorted show ?thesis
        by (auto intro!: packet_limit_snoc [OF ys(2)] simp: sorted_append)
    qed
  qed
  finally have gs: "gs = longest (packet_limit ts) (map frame_of pkts @ [?f])" .
  then have "frame_total gs \<le> PCAP_BUFFER_SIZE"
    using longest_cases [of "packet_limit ts"] by (metis frame_total_simps(1) packet_limit_def le0)
  moreover have "buffer_push d ts b = b\<lparr>pb_frames := gs, pb_total_size := u\<rparr>"
    using ok o1 o2 by (simp add: buffer_push_def buffer_ok_def frame_of_def)
  ultimately show ?thesis
    using ok s2 gs by (simp add: buffer_ok_def)
qed

lemma push_all_ok:
  "\<lbrakk>list_all (\<lambda>p. length (fst p) < 2 ^ 63) pkts; sorted (map snd pkts)\<rbrakk>
     \<Longrightarrow> buffer_ok pkts (push_all pkts packet_buffer_new)"
proof (induction pkts rule: rev_induct)
  case (snoc p pkts)
  obtain d ts where p: "p = (d, ts)" by fastforce
  with snoc have "buffer_ok (pkts @ [(d, ts)]) (buffer_push d ts (push_all pkts packet_buffer_new))"
    by (intro buffer_push_ok) (auto simp: sorted_append)
  then show ?case by (simp add: push_all_def p)
qed (simp add: push_all_def buffer_ok_def packet_buffer_new_def)

text \<open>
  Claim C32. What the daemon keeps of the traffic. After any sequence of packets whose times do not go
  back, the buffer holds the longest end of that sequence which takes at most 100 MiB with sixteen bytes
  for each frame and holds nothing more than thirty seconds older than its newest packet, and the
  counter of its size is exact.
\<close>

theorem packet_buffer_exact:
  assumes "list_all (\<lambda>p. length (fst p) < 2 ^ 63) pkts" and "sorted (map snd pkts)"
  shows "pb_frames (push_all pkts packet_buffer_new) = longest (packet_limit (snd (last pkts))) (map frame_of pkts)
     \<and> unat (pb_total_size (push_all pkts packet_buffer_new))
         = frame_total (pb_frames (push_all pkts packet_buffer_new))"
  using push_all_ok [OF assms] by (simp add: buffer_ok_def)

theorem packet_buffer_exact_witness:
  "pb_frames (push_all [([1, 2], 1000000000), ([3], 32000000000)] packet_buffer_new) = [\<lparr>pk_timestamp_ns = 32000000000, pk_data = [3]\<rparr>]
   \<and> unat (pb_total_size (push_all [([1, 2], 1000000000), ([3], 32000000000)] packet_buffer_new)) = 17"
  using packet_buffer_exact [of "[([1, 2], 1000000000), ([3], 32000000000)]"]
  by (simp add: frame_of_def packet_limit_def frame_len_def PCAP_BUFFER_SIZE_def PCAP_WINDOW_SECS_def
      sat_sub_def)

section \<open>Reading a capture file\<close>

record pcap_entry =
  pe_secs :: nat
  pe_frac :: nat
  pe_orig :: nat
  pe_data :: bytes

text \<open>The reader the format prescribes: as many bytes follow an entry's header as its third word says.\<close>

function read_entries :: "bytes \<Rightarrow> pcap_entry list option" where
  "read_entries bs =
     (if bs = [] then Some []
      else if length bs < 16 then None
      else let word = \<lambda>i. unat (le32 (bs ! i) (bs ! (i + 1)) (bs ! (i + 2)) (bs ! (i + 3)));
               rest = drop 16 bs in
           if length rest < word 8 then None
           else map_option (\<lambda>es. \<lparr>pe_secs = word 0, pe_frac = word 4, pe_orig = word 12,
                                    pe_data = take (word 8) rest\<rparr> # es) (read_entries (drop (word 8) rest)))"
  by pat_completeness auto
termination by (relation "measure length") auto

declare read_entries.simps [simp del]

definition entry_of :: "packet_frame \<Rightarrow> pcap_entry" where
  "entry_of f = \<lparr>pe_secs = unat (pk_timestamp_ns f) div 10 ^ 9, pe_frac = unat (pk_timestamp_ns f) mod 10 ^ 9,
     pe_orig = length (pk_data f), pe_data = pk_data f\<rparr>"

definition readable :: "packet_frame \<Rightarrow> bool" where
  "readable f \<longleftrightarrow> length (pk_data f) \<le> 65535 \<and> unat (pk_timestamp_ns f) < 2 ^ 32 * 10 ^ 9"

lemma pcap_header_length: "length (pcap_header_bytes h) = 24"
  by (simp add: pcap_header_bytes_def)

lemma ucast32: "unat x < 2 ^ 32 \<Longrightarrow> unat (ucast (x :: u64) :: u32) = unat x"
  by (simp add: unsigned_ucast_eq take_bit_nat_eq_self)

lemma read_entries_record:
  assumes "readable f"
  shows "read_entries (pcap_record f @ bs) = map_option (Cons (entry_of f)) (read_entries bs)"
proof -
  have len: "unat (of_nat (length (pk_data f)) :: u32) = length (pk_data f)"
    "min (of_nat (length (pk_data f)) :: u32) 65535 = of_nat (length (pk_data f))"
    using assms by (auto simp: readable_def unat_of_nat word_le_nat_alt min_def)
  have secs: "unat (ucast (pk_timestamp_ns f div 1000000000) :: u32) = unat (pk_timestamp_ns f) div 10 ^ 9"
    using assms by (subst ucast32) (auto simp: readable_def unat_div div_less_iff_less_mult less_mult_imp_div_less)
  have frac: "unat (ucast (pk_timestamp_ns f mod 1000000000) :: u32) = unat (pk_timestamp_ns f) mod 10 ^ 9"
    by (subst ucast32) (auto simp: unat_mod intro: order.strict_trans [OF mod_less_divisor])
  show ?thesis
    by (subst read_entries.simps)
      (simp add: pcap_record_def pcap_packet_header_def bytes32_def entry_of_def len secs frac comp_def)
qed



section \<open>Archives and bundles\<close>

text \<open>The second header of a bundle starts at a block of 512 bytes only by accident.\<close>

lemma bundle_second_header:
  assumes "\<And>p n. length (tar_header libs p n) = 512"
  shows "drop (512 + length (to_json libs m)) (bundle_bytes libs m fs snap)
     = tar_member libs ''capture.pcap'' (build_pcap fs) @ tar_member libs ''process_snapshot.txt'' (ascii snap)"
    "512 dvd 512 + length (to_json libs m) \<longleftrightarrow> 512 dvd length (to_json libs m)"
  by (simp_all add: bundle_bytes_def tar_member_def assms)

lemma enumerate_set: "(i, x) \<in> set (enumerate n xs) \<longleftrightarrow> n \<le> i \<and> i < n + length xs \<and> x = xs ! (i - n)"
  by (auto simp: in_set_enumerate_eq)

lemma retained_newest:
  assumes "distinct files" and "f \<in> set (retain_archives t (\<lambda>_. True) files)"
  shows "f \<in> set (drop (length files - MAX_ARCHIVES) (sort_key fst files)) \<and> t - ARCHIVE_MAX_AGE_SECS \<le> fst f"
proof -
  from assms have "f \<in> set (sort_key fst files)" by (simp add: retain_archives_def)
  then obtain i where i: "i < length files" "f = sort_key fst files ! i"
    by (metis in_set_conv_nth length_sort)
  then have "(i, f) \<in> set (enumerate 0 (sort_key fst files))" by (simp add: enumerate_set)
  with assms have "length files - MAX_ARCHIVES \<le> i" and "t - ARCHIVE_MAX_AGE_SECS \<le> fst f"
    by (force simp: retain_archives_def archives_to_remove_def Let_def)+
  then show ?thesis
    using i by (auto simp: in_set_conv_nth intro!: exI [of _ "i - (length files - MAX_ARCHIVES)"])
qed

lemma retention:
  assumes "distinct files"
  shows "length (retain_archives t (\<lambda>_. True) files) \<le> MAX_ARCHIVES"
    and "list_all (\<lambda>f. t - ARCHIVE_MAX_AGE_SECS \<le> fst f) (retain_archives t (\<lambda>_. True) files)"
proof -
  let ?k = "retain_archives t (\<lambda>_. True) files"
  have "length ?k = card (set ?k)"
    using assms by (intro distinct_card [symmetric]) (simp add: retain_archives_def)
  also have "\<dots> \<le> card (set (drop (length files - MAX_ARCHIVES) (sort_key fst files)))"
    using retained_newest [OF assms] by (intro card_mono) auto
  also have "\<dots> \<le> MAX_ARCHIVES"
    by (rule order.trans [OF card_length]) simp
  finally show "length ?k \<le> MAX_ARCHIVES" .
  show "list_all (\<lambda>f. t - ARCHIVE_MAX_AGE_SECS \<le> fst f) ?k"
    using retained_newest [OF assms] by (auto simp: list_all_iff)
qed

end
