(* ===== verification/Proc_snapshot.thy ===== *)
theory Proc_snapshot
  imports Process Wire "HOL-Library.Product_Lexorder"
begin

text \<open>
  The listings of processes and sockets for the clients, \<open>ring0d/src/proc_snapshot.rs\<close>, over the
  same \<open>/proc\<close> as the resolver; the directory entries of \<open>/proc\<close> are those of \<open>pf_fds\<close>.
  Texts are ASCII where the code slices them. A slice with its end before its start is \<open>Panic\<close>.
\<close>

section \<open>Processes\<close>

record process_row =
  pr_pid :: u32
  pr_ppid :: u32
  pr_uid :: u32
  pr_binary :: string
  pr_cmdline :: string
  pr_state :: string

definition MAX_PROC_ROWS :: nat where "MAX_PROC_ROWS = 2048"

definition trim_end_char :: "char \<Rightarrow> string \<Rightarrow> string" where
  "trim_end_char c s = rev (dropWhile (\<lambda>x. x = c) (rev s))"

text \<open>The first \<open>Uid:\<close> line decides, whatever it holds.\<close>

definition row_uid :: "string option \<Rightarrow> u32" where
  "row_uid status =
     (case Option.bind status (status_field ''Uid:'') of
        None \<Rightarrow> 0
      | Some rest \<Rightarrow> (case split_whitespace rest of
          [] \<Rightarrow> 0 | w # _ \<Rightarrow> (case parse_u32 w of Some n \<Rightarrow> of_nat n | None \<Rightarrow> 0)))"

definition row_cmdline :: "procfs \<Rightarrow> u32 \<Rightarrow> string \<Rightarrow> nat \<Rightarrow> string outcome" where
  "row_cmdline fs pid stat close =
     (let cmdline = (case cmdline_of fs pid of Some c \<Rightarrow> trim c | None \<Rightarrow> []) in
      if cmdline \<noteq> [] then Got cmdline
      else case find_str ''('' stat of
        None \<Rightarrow> Got []
      | Some open_pos \<Rightarrow>
          if open_pos + 1 \<le> close then Got (take (close - (open_pos + 1)) (drop (open_pos + 1) stat)) else Panic)"

definition row_binary :: "procfs \<Rightarrow> u32 \<Rightarrow> string \<Rightarrow> string" where
  "row_binary fs pid stat =
     (let exe = (case pf_exe fs pid of Some p \<Rightarrow> p | None \<Rightarrow> []);
          words = split_whitespace stat in
      if exe \<noteq> [] then exe
      else trim_end_char CHR '')'' (trim_matches ''('' (if 1 < length words then words ! 1 else ''?'')))"

definition process_row_of :: "procfs \<Rightarrow> string \<Rightarrow> process_row outcome" where
  "process_row_of fs name =
     (case parse_u32 name of None \<Rightarrow> Skip
      | Some n \<Rightarrow>
          let pid = of_nat n; stat = (case pf_stat fs pid of Some s \<Rightarrow> s | None \<Rightarrow> []) in
          (case rfind_str '')'' stat of None \<Rightarrow> Skip
           | Some close \<Rightarrow>
               let tail = split_whitespace (drop (close + 1) stat) in
               if length tail < 3 then Skip
               else case row_cmdline fs pid stat close of
                 Got cmdline \<Rightarrow> Got
                   \<lparr>pr_pid = pid, pr_ppid = (case parse_u32 (tail ! 1) of Some p \<Rightarrow> of_nat p | None \<Rightarrow> 0),
                    pr_uid = row_uid (pf_status fs pid), pr_binary = row_binary fs pid stat,
                    pr_cmdline = cmdline, pr_state = tail ! 0\<rparr>
               | _ \<Rightarrow> Panic))"

text \<open>The loop over the directory with the rows found so far, ended by a panic or a full list.\<close>

fun collect_rows :: "procfs \<Rightarrow> string list \<Rightarrow> process_row list \<Rightarrow> process_row list option" where
  "collect_rows fs [] rows = Some rows"
| "collect_rows fs (name # names) rows =
     (case process_row_of fs name of
        Skip \<Rightarrow> collect_rows fs names rows
      | Panic \<Rightarrow> None
      | Got r \<Rightarrow> (let rows = rows @ [r] in
          if MAX_PROC_ROWS \<le> length rows then Some rows else collect_rows fs names rows))"

definition list_processes :: "procfs \<Rightarrow> process_row list option" where
  "list_processes fs = map_option (sort_key pr_pid) (collect_rows fs (map fst (pf_fds fs)) [])"

section \<open>Sockets\<close>

record socket_row =
  sr_local_ip :: string
  sr_local_port :: u16
  sr_remote_ip :: string
  sr_remote_port :: u16
  sr_proto :: string
  sr_state :: string
  sr_pid :: u32
  sr_binary :: string

definition MAX_SOCKETS :: nat where "MAX_SOCKETS = 4096"

definition socket_inode :: "string \<Rightarrow> u64 option" where
  "socket_inode target = Option.bind (strip_prefix ''socket:['' target)
     (\<lambda>rest. map_option of_nat (parse_u64 (trim_end_char CHR '']'' rest)))"

definition inode_to_pid :: "procfs \<Rightarrow> u64 \<rightharpoonup> u32 \<times> string" where
  "inode_to_pid fs = fold (\<lambda>(name, fds) m.
     case (parse_u32 name, fds) of
       (Some n, Some links) \<Rightarrow>
         let pid = of_nat n; binary = (case pf_exe fs pid of Some p \<Rightarrow> p | None \<Rightarrow> []) in
         fold (\<lambda>l m. case socket_inode l of Some i \<Rightarrow> m(i \<mapsto> (pid, binary)) | None \<Rightarrow> m) links m
     | _ \<Rightarrow> m) (pf_fds fs) Map.empty"

text \<open>\<open>Display\<close> of \<open>Ipv6Addr\<close>: an IPv4-mapped tail in decimal, else the first longest run of
  at least two zero groups as \<open>::\<close>.\<close>

fun hex_text :: "nat \<Rightarrow> string" where
  "hex_text n = (if n < 16 then [] else hex_text (n div 16)) @
     [let d = n mod 16 in if d < 10 then char_of (48 + d) else char_of (87 + d)]"

declare hex_text.simps [simp del]

definition groups_text :: "u16 list \<Rightarrow> string" where
  "groups_text gs = join_with '':'' (map (\<lambda>g. hex_text (unat g)) gs)"

text \<open>Start and length of the longest run, of the runs of equal length the first.\<close>

fun longest_zeros :: "nat \<Rightarrow> nat \<times> nat \<Rightarrow> nat \<times> nat \<Rightarrow> u16 list \<Rightarrow> nat \<times> nat" where
  "longest_zeros i cur best [] = best"
| "longest_zeros i cur best (g # gs) =
     (if g = 0 then
        let cur = (if snd cur = 0 then i else fst cur, snd cur + 1);
            best = (if snd best < snd cur then cur else best)
        in longest_zeros (Suc i) cur best gs
      else longest_zeros (Suc i) (0, 0) best gs)"

definition show_ipv6 :: "u16 list \<Rightarrow> string" where
  "show_ipv6 gs =
     (if take 6 gs = [0, 0, 0, 0, 0, 0xFFFF] then
        ''::ffff:'' @ show_ipv4 (push_bit 16 (ucast (gs ! 6)) OR ucast (gs ! 7))
      else case longest_zeros 0 (0, 0) (0, 0) gs of (start, len) \<Rightarrow>
        if 1 < len then groups_text (take start gs) @ ''::'' @ groups_text (drop (start + len) gs)
        else groups_text gs)"

definition rsplit_once :: "char \<Rightarrow> string \<Rightarrow> (string \<times> string) option" where
  "rsplit_once c s = map_option (\<lambda>(a, b). (rev b, rev a)) (split_once c (rev s))"

fun chunks8 :: "nat \<Rightarrow> string \<Rightarrow> string list" where
  "chunks8 0 s = []"
| "chunks8 (Suc n) s = take 8 s # chunks8 n (drop 8 s)"

definition quad_groups :: "u32 \<Rightarrow> u16 list" where
  "quad_groups h = (let q = swap32 h in [ucast (drop_bit 16 q), ucast q])"

definition parse_addr :: "string \<Rightarrow> (string \<times> u16) option" where
  "parse_addr s = do {
     (ip_hex, port_hex) \<leftarrow> rsplit_once CHR '':'' s;
     port \<leftarrow> parse_hex 65535 port_hex;
     if length ip_hex = 8 then do {
       raw \<leftarrow> parse_hex 4294967295 ip_hex;
       Some (join_with ''.'' (map (\<lambda>i. show_nat (unat (byte_of i (of_nat raw :: u32)))) [0, 1, 2, 3]), of_nat port) }
     else if length ip_hex = 32 then do {
       qs \<leftarrow> those (map (parse_hex 4294967295) (chunks8 4 ip_hex));
       Some (show_ipv6 (concat (map (\<lambda>q. quad_groups (of_nat q)) qs)), of_nat port) }
     else None }"

definition tcp_state_name :: "string \<Rightarrow> string" where
  "tcp_state_name hex =
     (case (case parse_hex 255 hex of Some v \<Rightarrow> v | None \<Rightarrow> 0) of
        v \<Rightarrow> if v = 1 then ''ESTABLISHED'' else if v = 2 then ''SYN_SENT'' else if v = 3 then ''SYN_RECV''
          else if v = 4 then ''FIN_WAIT1'' else if v = 5 then ''FIN_WAIT2'' else if v = 6 then ''TIME_WAIT''
          else if v = 7 then ''CLOSE'' else if v = 8 then ''CLOSE_WAIT'' else if v = 9 then ''LAST_ACK''
          else if v = 10 then ''LISTEN'' else if v = 11 then ''CLOSING'' else if v = 12 then ''NEW_SYN_RECV''
          else ''?'')"

definition socket_row_of :: "(u64 \<rightharpoonup> u32 \<times> string) \<Rightarrow> string \<Rightarrow> string \<Rightarrow> socket_row option" where
  "socket_row_of owners proto line =
     (let fields = split_whitespace line in
      if length fields < 10 then None
      else do {
        inode \<leftarrow> parse_u64 (fields ! 9);
        (local_ip, local_port) \<leftarrow> parse_addr (fields ! 1);
        (remote_ip, remote_port) \<leftarrow> parse_addr (fields ! 2);
        let (pid, binary) = (case owners (of_nat inode) of Some o_b \<Rightarrow> o_b | None \<Rightarrow> (0, []));
        Some \<lparr>sr_local_ip = local_ip, sr_local_port = local_port, sr_remote_ip = remote_ip,
          sr_remote_port = remote_port, sr_proto = proto, sr_state = tcp_state_name (fields ! 3),
          sr_pid = pid, sr_binary = binary\<rparr> })"

text \<open>The limit is looked at behind a push only.\<close>

fun net_lines :: "(u64 \<rightharpoonup> u32 \<times> string) \<Rightarrow> string \<Rightarrow> string list \<Rightarrow> socket_row list \<Rightarrow> socket_row list" where
  "net_lines owners proto [] out = out"
| "net_lines owners proto (l # ls) out =
     (case socket_row_of owners proto l of
        None \<Rightarrow> net_lines owners proto ls out
      | Some r \<Rightarrow> (let out = out @ [r] in
          if MAX_SOCKETS \<le> length out then out else net_lines owners proto ls out))"

definition parse_net_file ::
    "string option \<Rightarrow> string \<Rightarrow> (u64 \<rightharpoonup> u32 \<times> string) \<Rightarrow> socket_row list \<Rightarrow> socket_row list" where
  "parse_net_file content proto owners out =
     (case content of None \<Rightarrow> out | Some c \<Rightarrow> net_lines owners proto (drop 1 (text_lines c)) out)"

text \<open>By descending pid, then by ascending local port.\<close>

definition socket_order :: "socket_row \<Rightarrow> int \<times> int" where
  "socket_order r = (- uint (sr_pid r), uint (sr_local_port r))"

definition list_sockets :: "procfs \<Rightarrow> socket_row list" where
  "list_sockets fs =
     (let owners = inode_to_pid fs;
          out = parse_net_file (pf_net fs ''tcp'') ''TCP'' owners [];
          out = parse_net_file (pf_net fs ''tcp6'') ''TCP6'' owners out;
          out = parse_net_file (pf_net fs ''udp'') ''UDP'' owners out;
          out = parse_net_file (pf_net fs ''udp6'') ''UDP6'' owners out
      in sort_key socket_order out)"

section \<open>Addresses\<close>

lemma rsplit_once_at: "c \<notin> set b \<Longrightarrow> rsplit_once c (a @ c # b) = Some (a, b)"
  using split_once_at [of c "rev b" "rev a"] by (simp add: rsplit_once_def)

lemma no_colon: "CHR '':'' \<notin> set (show_hex w n)"
  using show_hex_chars [of "CHR '':''" w n] by auto

lemma byte_of_swap32:
  "byte_of 0 (swap32 x) = byte_of 3 x" "byte_of (Suc 0) (swap32 x) = byte_of 2 x"
  "byte_of 2 (swap32 x) = byte_of (Suc 0) x" "byte_of 3 (swap32 x) = byte_of 0 x"
  by (simp_all add: swap32_def del: le32_rev)

lemma parse_addr_v4: "parse_addr (dst_hex4 ip port) = Some (show_ipv4 ip, port)"
proof -
  have "rsplit_once CHR '':'' (dst_hex4 ip port) = Some (show_hex 8 (unat (swap32 ip)), show_hex 4 (unat port))"
    by (simp add: dst_hex4_def rsplit_once_at no_colon)
  then have "parse_addr (dst_hex4 ip port) = Some (join_with ''.'' (map (\<lambda>i. show_nat (unat (byte_of i (of_nat (unat (swap32 ip)) :: u32)))) [0, 1, 2, 3]), of_nat (unat port))"
    unfolding parse_addr_def by (simp only: parse_hex_words bind.bind_lunit prod.case show_hex_length simp_thms if_True)
  then show ?thesis by (simp add: show_ipv4_def byte_of_swap32)
qed

lemma show_hex_split: "show_hex (w + v) n = show_hex w (n div 16 ^ v) @ show_hex v n"
proof (induction v arbitrary: n)
  case (Suc v)
  have "n div 16 div 16 ^ v = n div 16 ^ Suc v" by (simp add: div_mult2_eq)
  then show ?case using Suc.IH [of "n div 16"] by simp
qed simp

lemma show_hex_2_mod: "show_hex 2 (n mod 256) = show_hex 2 n"
proof -
  have "n mod 256 div 16 mod 16 = n div 16 mod 16" "n mod 256 mod 16 = n mod 16"
    using mod_mult2_eq [of n 16 16] by (simp_all add: mod_mod_cancel)
  then show ?thesis by (simp add: numeral_2_eq_2)
qed

lemma show_hex_bytes:
  "show_hex 8 (unat (x :: u32)) = concat (map (\<lambda>k. show_hex 2 (unat (byte_of k x))) [3, 2, 1, 0])"
  using show_hex_split [of 6 2 "unat x"] show_hex_split [of 4 2 "unat x div 256"] show_hex_split [of 2 2 "unat x div 65536"]
  by (simp add: unat_byte_of show_hex_2_mod div_mult2_eq [symmetric])

lemma be_groups:
  "quad_groups (le32 a b c d) = [le16 b a, le16 d c]"
proof -
  have "ucast (drop_bit 16 (le32 d c b a)) = le16 b a" "(ucast (le32 d c b a) :: u16) = le16 d c"
    by (auto intro!: bit_word_eqI simp: bit_le32 bit_le16 bit_simps)
  then show ?thesis by (simp add: quad_groups_def)
qed

definition octet_groups :: "bytes \<Rightarrow> u16 list" where
  "octet_groups bs = map (\<lambda>i. le16 (bs ! (2 * i + 1)) (bs ! (2 * i))) [0, 1, 2, 3, 4, 5, 6, 7]"

lemma sixteen: "length bs = 16 \<Longrightarrow> \<exists>a b c d e f g h i j k l m n p q. bs = [a, b, c, d, e, f, g, h, i, j, k, l, m, n, p, q]"
  by (simp add: numeral_eq_Suc length_Suc_conv) blast

lemma word_hex:
  "show_hex 2 (unat d) @ show_hex 2 (unat c) @ show_hex 2 (unat b) @ show_hex 2 (unat a) = show_hex 8 (unat (le32 a b c d))"
  by (simp add: show_hex_bytes)

lemma chunks8_hex: "chunks8 4 (show_hex 8 x @ show_hex 8 y @ show_hex 8 z @ show_hex 8 w) = [show_hex 8 x, show_hex 8 y, show_hex 8 z, show_hex 8 w]"
proof -
  have "4 = Suc (Suc (Suc (Suc 0)))" by simp
  then show ?thesis by (simp only: chunks8.simps) simp
qed

lemma parse_addr_v6:
  assumes "length octets = 16"
  shows "parse_addr (dst_hex6 octets port) = Some (show_ipv6 (octet_groups octets), port)"
proof -
  obtain a b c d e f g h i j k l m n p q where o16: "octets = [a, b, c, d, e, f, g, h, i, j, k, l, m, n, p, q]"
    using sixteen [OF assms] by blast
  let ?q = "[le32 a b c d, le32 e f g h, le32 i j k l, le32 m n p q]"
  have hex: "concat (map (\<lambda>b. show_hex 2 (unat b)) (reverse_words octets)) = concat (map (\<lambda>w. show_hex 8 (unat w)) ?q)"
    by (simp add: o16 word_hex [symmetric])
  have no: "CHR '':'' \<notin> set (concat (map (\<lambda>w. show_hex 8 (unat w)) ?q))" using no_colon by auto
  have r: "rsplit_once CHR '':'' (dst_hex6 octets port) = Some (concat (map (\<lambda>w. show_hex 8 (unat w)) ?q), show_hex 4 (unat port))"
    unfolding dst_hex6_def hex using rsplit_once_at [OF no_colon] by (simp only: append_Cons append_Nil)
  have ps: "those (map (parse_hex 4294967295) (chunks8 4 (concat (map (\<lambda>w. show_hex 8 (unat w)) ?q)))) = Some (map unat ?q)"
    using chunks8_hex by (simp add: parse_hex_words)
  have len: "length (concat (map (\<lambda>w. show_hex 8 (unat w)) ?q)) = 32" by simp
  have "parse_addr (dst_hex6 octets port) = Some (show_ipv6 (concat (map (\<lambda>q. quad_groups (of_nat q)) (map unat ?q))), of_nat (unat port))"
    unfolding parse_addr_def r bind.bind_lunit prod.case parse_hex_words len ps by simp
  then show ?thesis by (simp add: be_groups octet_groups_def o16)
qed

text \<open>
  The listings read addresses as the kernel prints them: the text of an IPv4 address and port,
  and of the sixteen bytes of an IPv6 address and port, in \<open>/proc/net\<close> comes back as that address
  in its usual notation with that port. These are the same texts the resolver looks a flow up by.
\<close>

theorem address_roundtrip:
  "parse_addr (dst_hex4 ip port) = Some (show_ipv4 ip, port)
   \<and> (length octets = 16 \<longrightarrow> parse_addr (dst_hex6 octets port) = Some (show_ipv6 (octet_groups octets), port))"
  by (simp add: parse_addr_v4 parse_addr_v6)

theorem address_roundtrip_witness:
  "parse_addr (dst_hex4 0x7F000001 8080) = Some (''127.0.0.1'', 8080)
   \<and> parse_addr (dst_hex6 (replicate 15 0 @ [1]) 443) = Some (''::1'', 443)"
  using address_roundtrip [of "0x7F000001" 8080 "replicate 15 0 @ [1]"] address_roundtrip [of 0 443 "replicate 15 0 @ [1]"]
  by (simp add: show_ipv4_def byte_of_def show_nat.simps show_ipv6_def octet_groups_def groups_text_def
      hex_text.simps le16_def nth_append char_of_def bit_Suc_0_iff)

section \<open>Tables\<close>

lemma words_acc_ws: "list_all is_ws s \<Longrightarrow> words_acc w s = (if w = [] then [] else [rev w])"
  by (induction s arbitrary: w) auto

lemma words_acc_trail: "list_all is_ws s \<Longrightarrow> words_acc w (a @ s) = words_acc w a"
  by (induction a arbitrary: w) (auto simp: words_acc_ws)

lemma split_whitespace_trim: "split_whitespace (trim l) = split_whitespace l"
proof -
  have lead: "split_whitespace (dropWhile is_ws s) = split_whitespace s" for s
    by (induction s) (auto simp: split_whitespace_def)
  have "s = trim_end s @ rev (takeWhile is_ws (rev s))" for s
    by (metis rev_append rev_rev_ident takeWhile_dropWhile_id trim_end_def)
  moreover have "list_all is_ws (rev (takeWhile is_ws (rev s)))" for s
    by (auto simp: list_all_iff dest: set_takeWhileD)
  ultimately have "split_whitespace (trim_end s) = split_whitespace s" for s
    by (metis split_whitespace_def words_acc_trail)
  then show ?thesis using lead by (simp add: trim_def trim_start_def)
qed

text \<open>What a row of a table is shown as.\<close>

definition listed_row :: "(u64 \<rightharpoonup> u32 \<times> string) \<Rightarrow> string \<Rightarrow> net_row \<Rightarrow> socket_row" where
  "listed_row owners proto r =
     (let (pid, binary) = (case owners (nr_inode r) of Some o_b \<Rightarrow> o_b | None \<Rightarrow> (0, [])) in
      \<lparr>sr_local_ip = show_ipv4 (fst (nr_local r)), sr_local_port = snd (nr_local r),
       sr_remote_ip = show_ipv4 (fst (nr_remote r)), sr_remote_port = snd (nr_remote r), sr_proto = proto,
       sr_state = tcp_state_name (nr_columns r ! 0), sr_pid = pid, sr_binary = binary\<rparr>)"

lemma socket_row_shown:
  assumes "shows_row l r"
  shows "socket_row_of owners proto l = Some (listed_row owners proto r)"
proof -
  have w: "split_whitespace l = row_words r" and c: "length (nr_columns r) = 6"
    using assms by (simp_all add: shows_row_def split_whitespace_trim)
  have "row_words r ! 3 = nr_columns r ! 0" using c by (simp add: row_words_def nth_append)
  then show ?thesis
    using row_parts [OF assms]
    by (simp add: socket_row_of_def w parse_inode parse_addr_v4 listed_row_def case_prod_unfold split: option.splits)
qed

lemma net_lines_shown:
  "\<lbrakk>list_all2 shows_row ls rows; length out + length rows < MAX_SOCKETS\<rbrakk>
     \<Longrightarrow> net_lines owners proto ls out = out @ map (listed_row owners proto) rows"
  by (induction ls rows arbitrary: out rule: list_all2_induct) (simp_all add: socket_row_shown Let_def)

text \<open>
  The socket list shows a table the kernel printed as it is: one entry for each row, in order,
  with the addresses and ports of the row, the name of its state and the process that holds its socket
  inode, as long as the list has room.
\<close>

theorem socket_table_listed:
  assumes "text_lines content = hdr # ls" and "list_all2 shows_row ls rows" and "length rows < MAX_SOCKETS"
  shows "parse_net_file (Some content) proto owners [] = map (listed_row owners proto) rows"
  using assms by (simp add: parse_net_file_def net_lines_shown)

theorem socket_table_listed_witness:
  "parse_net_file (Some (''sl'' @ [CHR 0x0A] @ join_with '' '' (row_words sample_row))) ''TCP'' [77 \<mapsto> (42, ''/bin/nc'')] []
     = [\<lparr>sr_local_ip = ''10.0.0.5'', sr_local_port = 40000, sr_remote_ip = ''1.1.1.1'', sr_remote_port = 443,
         sr_proto = ''TCP'', sr_state = ''ESTABLISHED'', sr_pid = 42, sr_binary = ''/bin/nc''\<rparr>]"
  using socket_table_listed [OF sample_table, of "''TCP''" "[77 \<mapsto> (42, ''/bin/nc'')]"]
  by (simp add: MAX_SOCKETS_def listed_row_def sample_row_def show_ipv4_def byte_of_def show_nat.simps
      tcp_state_name_def parse_hex_def strip_plus_def hex_val_def Let_def char_of_def bit_Suc_0_iff)

section \<open>Bounds and order\<close>

lemma net_lines_bound: "length (net_lines owners proto ls out) \<le> max MAX_SOCKETS (length out + 1)"
proof (induction ls arbitrary: out)
  case (Cons l ls)
  show ?case
  proof (cases "socket_row_of owners proto l")
    case None
    with Cons.IH [of out] show ?thesis by simp
  next
    case (Some r)
    with Cons.IH [of "out @ [r]"] show ?thesis by (cases "MAX_SOCKETS \<le> Suc (length out)") auto
  qed
qed simp

lemma parse_net_file_bound: "length (parse_net_file c proto owners out) \<le> max MAX_SOCKETS (length out + 1)"
  using net_lines_bound by (auto simp: parse_net_file_def split: option.split)

lemma list_sockets_bound: "length (list_sockets fs) \<le> MAX_SOCKETS + 3"
  unfolding list_sockets_def Let_def length_sort
  by (rule order.trans [OF parse_net_file_bound], simp, rule order.trans [OF parse_net_file_bound], simp,
      rule order.trans [OF parse_net_file_bound], simp, rule order.trans [OF parse_net_file_bound])
    (simp add: MAX_SOCKETS_def)

lemma list_sockets_sorted: "sorted (map socket_order (list_sockets fs))"
  by (simp add: list_sockets_def Let_def)

lemma collect_rows_bound:
  "\<lbrakk>collect_rows fs names rows = Some out; length rows < MAX_PROC_ROWS\<rbrakk> \<Longrightarrow> length out \<le> MAX_PROC_ROWS"
  by (induction fs names rows rule: collect_rows.induct) (auto simp: Let_def split: outcome.splits if_splits)

lemma list_processes_shape:
  "list_processes fs = Some rows \<Longrightarrow> length rows \<le> MAX_PROC_ROWS \<and> sorted (map pr_pid rows)"
  using collect_rows_bound [of fs "map fst (pf_fds fs)" "[]"] by (auto simp: list_processes_def MAX_PROC_ROWS_def)

end
