(* ===== verification/Messages.thy ===== *)
theory Messages
  imports Ipc Proc_snapshot
begin

text \<open>
  The messages between the daemon and its clients: the structures of the schema
  (\<open>schema/event.capnp\<close>), as a reader sees them, and the builders at the end of
  \<open>ring0d/src/ipc.rs\<close>. Fields no side sets or reads are left out. Serialization and the readers are
  generated code and a library: they are the functions of a \<open>codec\<close>. Floating-point fields are kept as
  their bits. A pointer that cannot be followed is \<open>None\<close>, or \<open>TextError\<close> in a text field; an
  enumerant the reader's schema does not have is \<open>None\<close>.
\<close>

section \<open>Structures\<close>

datatype severity = Low | Med | High | Critical

datatype protocol = Tcp | Udp | Icmp

datatype action = Pass | Drop | Alert

datatype ip_msg = IpError | IpUnknown | IpV4 u32 | IpV6 bytes

record packet_msg =
  pm_timestamp :: u64
  pm_src_ip :: ip_msg
  pm_dst_ip :: ip_msg
  pm_src_port :: u16
  pm_dst_port :: u16
  pm_protocol :: "protocol option"
  pm_pid :: u32
  pm_binary :: text_field
  pm_action :: "action option"

record alert_msg =
  am_timestamp :: u64
  am_severity :: "severity option"
  am_rule_id :: u32
  am_signature :: text_field

record status_msg =
  sm_filters :: "text_field list option"
  sm_cpu :: u32
  sm_ram :: u64
  sm_eps :: u64
  sm_domains :: u32
  sm_cidrs :: u32
  sm_ports :: u32
  sm_dropped :: u64
  sm_on_battery :: bool
  sm_fim_throttled :: bool

record exec_msg =
  xm_timestamp :: u64
  xm_pid :: u32
  xm_ppid :: u32
  xm_uid :: u32
  xm_binary :: text_field
  xm_cmdline :: text_field

record file_msg =
  fm_timestamp :: u64
  fm_pid :: u32
  fm_uid :: u32
  fm_binary :: text_field
  fm_path :: text_field

record connect_msg =
  cm_timestamp :: u64
  cm_pid :: u32
  cm_uid :: u32
  cm_binary :: text_field
  cm_dst_ip :: ip_msg
  cm_dst_port :: u16
  cm_protocol :: "protocol option"

record correlation_msg =
  rm_timestamp :: u64
  rm_pattern_id :: u32
  rm_pattern_name :: text_field
  rm_technique :: text_field
  rm_severity :: "severity option"
  rm_description :: text_field

record defense_msg =
  sd_timestamp :: u64
  sd_attacker_pid :: u32
  sd_attacker_binary :: text_field
  sd_syscall :: text_field
  sd_blocked :: bool

record dns_msg =
  dm_timestamp :: u64
  dm_pid :: u32
  dm_domain :: text_field
  dm_query_type :: u16
  dm_dga_score :: u32

record prompt_msg =
  qm_prompt_id :: u64
  qm_pid :: u32
  qm_ppid :: u32
  qm_binary :: text_field
  qm_parent :: text_field
  qm_dst_ip :: u32
  qm_dst_port :: u16
  qm_protocol :: u8
  qm_country_code :: text_field
  qm_country_name :: text_field
  qm_rdns :: text_field
  qm_timeout :: u32

datatype ring0_event =
    EvPacket "packet_msg option"
  | EvAlert "alert_msg option"
  | EvStatus "status_msg option"
  | EvProcessExec "exec_msg option"
  | EvFileAccess "file_msg option"
  | EvConnect "connect_msg option"
  | EvCorrelation "correlation_msg option"
  | EvSelfDefense "defense_msg option"
  | EvDns "dns_msg option"
  | EvConnectionPrompt "prompt_msg option"

record process_entry_msg =
  pe_pid :: u32
  pe_ppid :: u32
  pe_uid :: u32
  pe_binary :: text_field
  pe_cmdline :: text_field
  pe_state :: text_field

record socket_entry_msg =
  se_local_ip :: text_field
  se_local_port :: u16
  se_remote_ip :: text_field
  se_remote_port :: u16
  se_proto :: text_field
  se_state :: text_field
  se_pid :: u32
  se_binary :: text_field

text \<open>A list and the count beside it.\<close>

datatype response =
    RQuery "(alert_msg list option \<times> u32) option"
  | RProcesses "(process_entry_msg list option \<times> u32) option"
  | RSockets "(socket_entry_msg list option \<times> u32) option"

record codec =
  cap_event :: "ring0_event \<Rightarrow> bytes"
  cap_response :: "response \<Rightarrow> bytes"
  cap_command :: "wire_cmd \<Rightarrow> bytes"
  rd_event :: "bytes \<Rightarrow> ring0_event option"
  rd_response :: "bytes \<Rightarrow> response option"
  rd_command :: "bytes \<Rightarrow> wire_cmd option"

text \<open>What the format promises: a reader gets back what was written.\<close>

definition event_kept :: "codec \<Rightarrow> ring0_event \<Rightarrow> bool" where
  "event_kept c e \<longleftrightarrow> rd_event c (cap_event c e) = Some e"

definition command_kept :: "codec \<Rightarrow> wire_cmd \<Rightarrow> bool" where
  "command_kept c w \<longleftrightarrow> rd_command c (cap_command c w) = Some w"

section \<open>Builders\<close>

definition packet_event :: "u64 \<Rightarrow> u32 \<Rightarrow> u32 \<Rightarrow> u16 \<Rightarrow> u16 \<Rightarrow> u8 \<Rightarrow> u32 \<Rightarrow> u8 \<Rightarrow> ring0_event" where
  "packet_event timestamp src_ip dst_ip src_port dst_port protocol pid action =
     EvPacket (Some
       \<lparr>pm_timestamp = timestamp, pm_src_ip = IpV4 src_ip, pm_dst_ip = IpV4 dst_ip, pm_src_port = src_port,
        pm_dst_port = dst_port,
        pm_protocol = Some (if protocol = 17 then Udp else if protocol = 1 then Icmp else Tcp),
        pm_pid = pid, pm_binary = Text [],
        pm_action = Some (if action = 1 then Drop else if action = 2 then Alert else Pass)\<rparr>)"

definition build_packet_event :: "codec \<Rightarrow> u64 \<Rightarrow> u32 \<Rightarrow> u32 \<Rightarrow> u16 \<Rightarrow> u16 \<Rightarrow> u8 \<Rightarrow> u32 \<Rightarrow> u8 \<Rightarrow> bytes" where
  "build_packet_event c timestamp src_ip dst_ip src_port dst_port protocol pid action =
     cap_event c (packet_event timestamp src_ip dst_ip src_port dst_port protocol pid action)"

definition alert_event :: "u64 \<Rightarrow> u32 \<Rightarrow> u8 \<Rightarrow> string \<Rightarrow> ring0_event" where
  "alert_event tnow rid sev msg =
     EvAlert (Some
       \<lparr>am_timestamp = tnow,
        am_severity = Some (if sev = 4 then Critical else if sev = 3 then High else if sev = 2 then Med else Low),
        am_rule_id = rid, am_signature = Text msg\<rparr>)"

definition build_alert_event :: "codec \<Rightarrow> u64 \<Rightarrow> u32 \<Rightarrow> u8 \<Rightarrow> string \<Rightarrow> bytes" where
  "build_alert_event c tnow rid sev msg = cap_event c (alert_event tnow rid sev msg)"

definition build_status_event ::
    "codec \<Rightarrow> string list \<Rightarrow> u32 \<Rightarrow> u64 \<Rightarrow> u64 \<Rightarrow> u32 \<Rightarrow> u32 \<Rightarrow> u32 \<Rightarrow> u64 \<Rightarrow> bool \<Rightarrow> bool \<Rightarrow> bytes" where
  "build_status_event c active_filters cpu ram eps domains cidrs ports dropped on_battery fim_throttled =
     cap_event c (EvStatus (Some
       \<lparr>sm_filters = Some (map Text active_filters), sm_cpu = cpu, sm_ram = ram, sm_eps = eps,
        sm_domains = domains, sm_cidrs = cidrs, sm_ports = ports, sm_dropped = dropped,
        sm_on_battery = on_battery, sm_fim_throttled = fim_throttled\<rparr>))"

definition build_connection_prompt_event ::
    "codec \<Rightarrow> u64 \<Rightarrow> u32 \<Rightarrow> u32 \<Rightarrow> string \<Rightarrow> string \<Rightarrow> u32 \<Rightarrow> u16 \<Rightarrow> u8 \<Rightarrow> string \<Rightarrow> string \<Rightarrow> string \<Rightarrow> u32 \<Rightarrow> bytes" where
  "build_connection_prompt_event c prompt_id pid ppid binary_path parent_binary dst_ip dst_port protocol
       country_code country_name rdns_name timeout_secs =
     cap_event c (EvConnectionPrompt (Some
       \<lparr>qm_prompt_id = prompt_id, qm_pid = pid, qm_ppid = ppid, qm_binary = Text binary_path,
        qm_parent = Text parent_binary, qm_dst_ip = dst_ip, qm_dst_port = dst_port, qm_protocol = protocol,
        qm_country_code = Text country_code, qm_country_name = Text country_name, qm_rdns = Text rdns_name,
        qm_timeout = timeout_secs\<rparr>))"

definition build_process_exec_event :: "codec \<Rightarrow> u64 \<Rightarrow> u32 \<Rightarrow> u32 \<Rightarrow> u32 \<Rightarrow> string \<Rightarrow> string \<Rightarrow> bytes" where
  "build_process_exec_event c tnow pid ppid uid binary cmdline =
     cap_event c (EvProcessExec (Some
       \<lparr>xm_timestamp = tnow, xm_pid = pid, xm_ppid = ppid, xm_uid = uid, xm_binary = Text binary,
        xm_cmdline = Text cmdline\<rparr>))"

definition build_file_access_event :: "codec \<Rightarrow> u64 \<Rightarrow> u32 \<Rightarrow> u32 \<Rightarrow> string \<Rightarrow> string \<Rightarrow> bytes" where
  "build_file_access_event c tnow pid uid binary path =
     cap_event c (EvFileAccess (Some
       \<lparr>fm_timestamp = tnow, fm_pid = pid, fm_uid = uid, fm_binary = Text binary, fm_path = Text path\<rparr>))"

definition build_dns_event :: "codec \<Rightarrow> u64 \<Rightarrow> u32 \<Rightarrow> string \<Rightarrow> u16 \<Rightarrow> u32 \<Rightarrow> bytes" where
  "build_dns_event c timestamp pid domain query_type dga_score =
     cap_event c (EvDns (Some
       \<lparr>dm_timestamp = timestamp, dm_pid = pid, dm_domain = Text domain, dm_query_type = query_type,
        dm_dga_score = dga_score\<rparr>))"

definition build_connect_event :: "codec \<Rightarrow> u64 \<Rightarrow> u32 \<Rightarrow> u32 \<Rightarrow> string \<Rightarrow> u32 \<Rightarrow> u16 \<Rightarrow> u8 \<Rightarrow> bytes" where
  "build_connect_event c tnow pid uid binary dst_ip dst_port proto =
     cap_event c (EvConnect (Some
       \<lparr>cm_timestamp = tnow, cm_pid = pid, cm_uid = uid, cm_binary = Text binary, cm_dst_ip = IpV4 dst_ip,
        cm_dst_port = dst_port, cm_protocol = Some (if proto = 17 then Udp else Tcp)\<rparr>))"

text \<open>
  The stored alerts of a query. The decoder of a record and the level of its severity are in
  \<open>alert.rs\<close>, which is not part of the repository: \<open>decode\<close> yields time, level, rule and message.
\<close>

definition query_entry :: "(bytes \<Rightarrow> (u64 \<times> u8 \<times> u32 \<times> string) option) \<Rightarrow> bytes \<Rightarrow> alert_msg" where
  "query_entry decode v =
     (case decode v of
        Some (ts, level, rid, msg) \<Rightarrow>
          \<lparr>am_timestamp = ts,
           am_severity = Some (if level = 1 then Low else if level = 2 then Med else if level = 3 then High else Critical),
           am_rule_id = rid, am_signature = Text msg\<rparr>
      | None \<Rightarrow>
          \<lparr>am_timestamp = 0, am_severity = Some Low, am_rule_id = 0,
           am_signature = Text ''<undecodable alert record>''\<rparr>)"

definition build_query_response ::
    "codec \<Rightarrow> (bytes \<Rightarrow> (u64 \<times> u8 \<times> u32 \<times> string) option) \<Rightarrow> (bytes \<times> bytes) list \<Rightarrow> bytes" where
  "build_query_response c decode results =
     (let count = min (length results) 500 in
      cap_response c (RQuery (Some (Some (map (query_entry decode \<circ> snd) (take count results)), of_nat count))))"

definition process_entry :: "process_row \<Rightarrow> process_entry_msg" where
  "process_entry p = \<lparr>pe_pid = pr_pid p, pe_ppid = pr_ppid p, pe_uid = pr_uid p, pe_binary = Text (pr_binary p),
     pe_cmdline = Text (pr_cmdline p), pe_state = Text (pr_state p)\<rparr>"

definition build_process_list_response :: "codec \<Rightarrow> process_row list \<Rightarrow> bytes" where
  "build_process_list_response c procs =
     cap_response c (RProcesses (Some (Some (map process_entry procs), of_nat (length procs))))"

definition socket_entry :: "socket_row \<Rightarrow> socket_entry_msg" where
  "socket_entry s = \<lparr>se_local_ip = Text (sr_local_ip s), se_local_port = sr_local_port s,
     se_remote_ip = Text (sr_remote_ip s), se_remote_port = sr_remote_port s, se_proto = Text (sr_proto s),
     se_state = Text (sr_state s), se_pid = sr_pid s, se_binary = Text (sr_binary s)\<rparr>"

definition build_socket_list_response :: "codec \<Rightarrow> socket_row list \<Rightarrow> bytes" where
  "build_socket_list_response c socks =
     cap_response c (RSockets (Some (Some (map socket_entry socks), of_nat (length socks))))"

text \<open>The answers the connection handler gives, as the frames it writes.\<close>

definition reply_frame ::
    "codec \<Rightarrow> (bytes \<Rightarrow> (u64 \<times> u8 \<times> u32 \<times> string) option) \<Rightarrow> (u8 \<Rightarrow> nat \<Rightarrow> (bytes \<times> bytes) list)
      \<Rightarrow> process_row list \<Rightarrow> socket_row list \<Rightarrow> reply \<Rightarrow> bytes" where
  "reply_frame c decode query procs socks r =
     (case r of
        AckOk \<Rightarrow> ascii ''OK''
      | AckDenied \<Rightarrow> ascii ''DENIED''
      | Alerts sev limit \<Rightarrow> build_query_response c decode (query sev limit)
      | ProcessList \<Rightarrow> build_process_list_response c procs
      | SocketList \<Rightarrow> build_socket_list_response c socks)"

end
