(* ===== verification/Ipc_socket.thy ===== *)
theory Ipc_socket
  imports Ipc
begin

text \<open>
  The rest of the socket, \<open>ring0d/src/ipc.rs\<close> (binding, peer credentials, the task that writes to a
  client) and \<open>polkit.rs\<close> (the question to polkitd). System calls and D-Bus answers are parameters.
\<close>

section \<open>Binding\<close>

text \<open>\<open>so_fstat\<close> and \<open>so_lstat\<close>: device and inode of the bound descriptor and of the path.\<close>

record socket_env =
  so_binds :: bool
  so_fstat :: "(u64 \<times> u64) option"
  so_lstat :: "(u64 \<times> u64) option"
  so_group :: "u32 option"
  so_root :: bool

text \<open>What is done to the file at the path: a new owner (root and a group), a new mode.\<close>

datatype socket_change = ChownRoot u32 | Chmod nat

definition path_matches_fd :: "socket_env \<Rightarrow> bool" where
  "path_matches_fd e = (case so_lstat e of None \<Rightarrow> False | Some m \<Rightarrow> so_fstat e = Some m)"

definition socket_changes :: "socket_env \<Rightarrow> socket_change list" where
  "socket_changes e =
     (case (so_root e, so_group e) of
        (True, Some gid) \<Rightarrow> if path_matches_fd e then [ChownRoot gid, Chmod 0x1B0] else []
      | _ \<Rightarrow> [Chmod 0x1B6])"

definition ipc_bind :: "socket_env \<Rightarrow> string \<Rightarrow> socket_change list option" where
  "ipc_bind e path = (if CHR 0x00 \<in> set path \<or> \<not> so_binds e then None else Some (socket_changes e))"

text \<open>A file put in the place of the socket is left alone only if root runs the daemon and the group exists.\<close>

lemma swapped_path_touched:
  "\<not> path_matches_fd e \<Longrightarrow> socket_changes e = (if so_root e \<and> so_group e \<noteq> None then [] else [Chmod 0x1B6])"
  by (auto simp: socket_changes_def split: option.split bool.split)

section \<open>Peers\<close>

definition peer_credentials :: "ucred option \<Rightarrow> ucred" where
  "peer_credentials so_peercred =
     (case so_peercred of Some c \<Rightarrow> c | None \<Rightarrow> \<lparr>cr_pid = 0, cr_uid = 0xFFFFFFFF, cr_gid = 0\<rparr>)"

lemma unknown_peer_unprivileged: "gid \<noteq> Some 0 \<Longrightarrow> \<not> peer_is_privileged gid None (peer_credentials None)"
  by (auto simp: peer_credentials_def peer_is_privileged_def process_groups_def split: option.split)

text \<open>The answers of polkit, each \<open>None\<close> on an error.\<close>

definition do_check :: "unit option \<Rightarrow> unit option \<Rightarrow> unit option \<Rightarrow> bool option \<Rightarrow> bool" where
  "do_check conn authority subject result =
     (case conn of None \<Rightarrow> False | Some _ \<Rightarrow>
      case authority of None \<Rightarrow> False | Some _ \<Rightarrow>
      case subject of None \<Rightarrow> False | Some _ \<Rightarrow>
      case result of Some is_authorized \<Rightarrow> is_authorized | None \<Rightarrow> False)"

section \<open>The writing task\<close>

text \<open>A broadcast, of which \<open>broadcast_sync\<close> is the synchronous twin: nothing is put into the channel when nobody
  is subscribed to it.\<close>

definition broadcast_raw :: "nat \<Rightarrow> bytes \<Rightarrow> bytes list \<Rightarrow> bytes list" where
  "broadcast_raw receiver_count data channel = (if receiver_count = 0 then channel else channel @ [data])"

text \<open>What the task waits for: the broadcast channel and the answers to this client.\<close>

datatype out_item = Broadcast bytes | Lagged | BroadcastClosed | Response bytes | ResponsesClosed

fun writer_out :: "out_item list \<Rightarrow> bytes" where
  "writer_out (Broadcast data # r) = write_frame data @ writer_out r"
| "writer_out (Lagged # r) = writer_out r"
| "writer_out (Response data # r) = write_frame data @ writer_out r"
| "writer_out _ = []"

definition payload :: "out_item \<Rightarrow> bytes option" where
  "payload x = (case x of Broadcast d \<Rightarrow> Some d | Response d \<Rightarrow> Some d | _ \<Rightarrow> None)"

lemma writer_frames:
  "BroadcastClosed \<notin> set items \<Longrightarrow> ResponsesClosed \<notin> set items \<Longrightarrow>
     writer_out items = concat (map write_frame (List.map_filter payload items))"
  by (induction items rule: writer_out.induct) (simp_all add: payload_def map_filter_simps)

end
