(* ===== verification/Gui.thy ===== *)
theory Gui
  imports Messages
begin

text \<open>
  The bridge of the desktop client, \<open>ring0-gui/src/lib.rs\<close>: what it makes of the daemon's frames, the
  thread that reads the socket, and the commands it sends. The text of a JSON value is a parameter, as
  are the readers of a frame.
\<close>

section \<open>Events as JSON\<close>

datatype json =
    JNum nat
  | JF32 u32
  | JF64 u64
  | JBool bool
  | JStr string
  | JArr "json list"
  | JObj "(string \<times> json) list"

record gui_libs =
  gl_codec :: codec
  json_text :: "json \<Rightarrow> string"

definition text_or :: "text_field \<Rightarrow> string" where
  "text_or t = (case t of Text s \<Rightarrow> s | _ \<Rightarrow> [])"

text \<open>A reader of an address, if its pointer and its tag can be followed.\<close>

definition format_ip :: "ip_msg \<Rightarrow> string option" where
  "format_ip i = (case i of IpV4 v \<Rightarrow> Some (show_ipv4 v) | IpV6 _ \<Rightarrow> Some ''::'' | _ \<Rightarrow> None)"

fun format_proto :: "protocol \<Rightarrow> string" where
  "format_proto Tcp = ''TCP''"
| "format_proto Udp = ''UDP''"
| "format_proto Icmp = ''ICMP''"

fun format_action :: "action \<Rightarrow> string" where
  "format_action Pass = ''PASS''"
| "format_action Drop = ''DROP''"
| "format_action Alert = ''ALERT''"

fun format_severity :: "severity \<Rightarrow> string" where
  "format_severity Low = ''LOW''"
| "format_severity Med = ''MED''"
| "format_severity High = ''HIGH''"
| "format_severity Critical = ''CRITICAL''"

definition jw :: "'a::len word \<Rightarrow> json" where
  "jw w = JNum (unat w)"

fun event_json :: "ring0_event \<Rightarrow> json option" where
  "event_json (EvPacket m) = do {
     p \<leftarrow> m; src \<leftarrow> format_ip (pm_src_ip p); dst \<leftarrow> format_ip (pm_dst_ip p);
     Some (JObj [(''type'', JStr ''packet''), (''timestamp'', jw (pm_timestamp p)), (''src_ip'', JStr src),
       (''dst_ip'', JStr dst), (''src_port'', jw (pm_src_port p)), (''dst_port'', jw (pm_dst_port p)),
       (''protocol'', JStr (format_proto (unwrap_or Tcp (pm_protocol p)))), (''pid'', jw (pm_pid p)),
       (''binary'', JStr (text_or (pm_binary p))),
       (''action'', JStr (format_action (unwrap_or Pass (pm_action p))))]) }"
| "event_json (EvAlert m) = do {
     a \<leftarrow> m;
     Some (JObj [(''type'', JStr ''alert''), (''timestamp'', jw (am_timestamp a)),
       (''severity'', JStr (format_severity (unwrap_or Low (am_severity a)))), (''rule_id'', jw (am_rule_id a)),
       (''signature'', JStr (text_or (am_signature a)))]) }"
| "event_json (EvProcessExec m) = do {
     e \<leftarrow> m;
     Some (JObj [(''type'', JStr ''processExec''), (''pid'', jw (xm_pid e)), (''ppid'', jw (xm_ppid e)),
       (''uid'', jw (xm_uid e)), (''binary'', JStr (text_or (xm_binary e))),
       (''cmdline'', JStr (text_or (xm_cmdline e)))]) }"
| "event_json (EvFileAccess m) = do {
     f \<leftarrow> m;
     Some (JObj [(''type'', JStr ''fileAccess''), (''pid'', jw (fm_pid f)), (''uid'', jw (fm_uid f)),
       (''binary'', JStr (text_or (fm_binary f))), (''file'', JStr (text_or (fm_path f)))]) }"
| "event_json (EvConnect m) = do {
     c \<leftarrow> m; dst \<leftarrow> format_ip (cm_dst_ip c);
     Some (JObj [(''type'', JStr ''connect''), (''pid'', jw (cm_pid c)), (''binary'', JStr (text_or (cm_binary c))),
       (''dst_ip'', JStr dst), (''dst_port'', jw (cm_dst_port c)),
       (''protocol'', JStr (format_proto (unwrap_or Tcp (cm_protocol c))))]) }"
| "event_json (EvCorrelation m) = do {
     c \<leftarrow> m;
     Some (JObj [(''type'', JStr ''correlation''), (''timestamp'', jw (rm_timestamp c)),
       (''severity'', JStr (format_severity (unwrap_or Low (rm_severity c)))),
       (''pattern_id'', jw (rm_pattern_id c)), (''pattern_name'', JStr (text_or (rm_pattern_name c))),
       (''mitre_technique'', JStr (text_or (rm_technique c))), (''description'', JStr (text_or (rm_description c)))]) }"
| "event_json (EvSelfDefense m) = do {
     s \<leftarrow> m;
     Some (JObj [(''type'', JStr ''selfDefense''), (''timestamp'', jw (sd_timestamp s)),
       (''attacker_pid'', jw (sd_attacker_pid s)), (''attacker_binary'', JStr (text_or (sd_attacker_binary s))),
       (''syscall'', JStr (text_or (sd_syscall s))), (''blocked'', JBool (sd_blocked s))]) }"
| "event_json (EvDns m) = do {
     d \<leftarrow> m;
     Some (JObj [(''type'', JStr ''dns''), (''timestamp'', jw (dm_timestamp d)), (''pid'', jw (dm_pid d)),
       (''domain'', JStr (text_or (dm_domain d))), (''query_type'', jw (dm_query_type d)),
       (''dga_score'', JF32 (dm_dga_score d))]) }"
| "event_json (EvConnectionPrompt m) = do {
     p \<leftarrow> m;
     Some (JObj [(''type'', JStr ''connectionPrompt''), (''promptId'', jw (qm_prompt_id p)), (''pid'', jw (qm_pid p)),
       (''ppid'', jw (qm_ppid p)), (''binaryPath'', JStr (text_or (qm_binary p))),
       (''parentBinary'', JStr (text_or (qm_parent p))), (''dstIp'', jw (qm_dst_ip p)), (''dstPort'', jw (qm_dst_port p)),
       (''protocol'', jw (qm_protocol p)), (''countryCode'', JStr (text_or (qm_country_code p))),
       (''countryName'', JStr (text_or (qm_country_name p))), (''rdnsName'', JStr (text_or (qm_rdns p))),
       (''timeoutSecs'', jw (qm_timeout p))]) }"
| "event_json (EvStatus m) = do {
     s \<leftarrow> m;
     Some (JObj [(''type'', JStr ''status''),
       (''activeFilters'', JArr (map (JStr \<circ> text_or) (unwrap_or [] (sm_filters s)))),
       (''cpuUsagePercent'', JF32 (sm_cpu s)), (''ramUsageBytes'', jw (sm_ram s)), (''eventsPerSec'', JF64 (sm_eps s)),
       (''blockedDomains'', jw (sm_domains s)), (''blockedCidrs'', jw (sm_cidrs s)), (''blockedPorts'', jw (sm_ports s)),
       (''droppedEvents'', jw (sm_dropped s)), (''onBattery'', JBool (sm_on_battery s)),
       (''fimThrottled'', JBool (sm_fim_throttled s))]) }"

definition deserialize_to_json :: "gui_libs \<Rightarrow> bytes \<Rightarrow> string option" where
  "deserialize_to_json g data = do { e \<leftarrow> rd_event (gl_codec g) data; j \<leftarrow> event_json e; Some (json_text g j) }"

section \<open>Responses\<close>

datatype slot = QuerySlot | ProcessesSlot | SocketsSlot

definition alert_json :: "alert_msg \<Rightarrow> json" where
  "alert_json a = JObj [(''timestamp'', jw (am_timestamp a)),
     (''severity'', JStr (format_severity (unwrap_or Low (am_severity a)))), (''rule_id'', jw (am_rule_id a)),
     (''signature'', JStr (text_or (am_signature a)))]"

definition process_json :: "process_entry_msg \<Rightarrow> json" where
  "process_json e = JObj [(''pid'', jw (pe_pid e)), (''ppid'', jw (pe_ppid e)), (''uid'', jw (pe_uid e)),
     (''binary'', JStr (text_or (pe_binary e))), (''cmdline'', JStr (text_or (pe_cmdline e))),
     (''state'', JStr (text_or (pe_state e)))]"

definition socket_json :: "socket_entry_msg \<Rightarrow> json" where
  "socket_json e = JObj [(''localIp'', JStr (text_or (se_local_ip e))), (''localPort'', jw (se_local_port e)),
     (''remoteIp'', JStr (text_or (se_remote_ip e))), (''remotePort'', jw (se_remote_port e)),
     (''proto'', JStr (text_or (se_proto e))), (''state'', JStr (text_or (se_state e))), (''pid'', jw (se_pid e)),
     (''binary'', JStr (text_or (se_binary e)))]"

fun response_json :: "response \<Rightarrow> (slot \<times> json) option" where
  "response_json (RQuery q) = do { (list, count) \<leftarrow> q; alerts \<leftarrow> list;
     Some (QuerySlot, JObj [(''count'', jw count), (''alerts'', JArr (map alert_json alerts))]) }"
| "response_json (RProcesses p) = do { (list, count) \<leftarrow> p; procs \<leftarrow> list;
     Some (ProcessesSlot, JObj [(''count'', jw count), (''processes'', JArr (map process_json procs))]) }"
| "response_json (RSockets s) = do { (list, count) \<leftarrow> s; socks \<leftarrow> list;
     Some (SocketsSlot, JObj [(''count'', jw count), (''sockets'', JArr (map socket_json socks))]) }"

definition deserialize_response :: "gui_libs \<Rightarrow> bytes \<Rightarrow> (slot \<times> string) option" where
  "deserialize_response g data = do {
     r \<leftarrow> rd_response (gl_codec g) data; (k, j) \<leftarrow> response_json r; Some (k, json_text g j) }"

section \<open>The bridge\<close>

definition MAX_QUEUED_EVENTS :: nat where "MAX_QUEUED_EVENTS = 4096"

text \<open>\<open>br_stream\<close>: the frames handed to the writer thread, if there is a connection.\<close>

record bridge =
  br_stream :: "bytes list option"
  event_queue :: "string list"
  pending_query :: "string option"
  pending_processes :: "string option"
  pending_sockets :: "string option"
  br_running :: bool
  br_connected :: bool

definition bridge_default :: bridge where
  "bridge_default = \<lparr>br_stream = None, event_queue = [], pending_query = None, pending_processes = None,
     pending_sockets = None, br_running = False, br_connected = False\<rparr>"

definition send_frame :: "bytes \<Rightarrow> bridge \<Rightarrow> bridge" where
  "send_frame frame b = b\<lparr>br_stream := map_option (\<lambda>fs. fs @ [frame]) (br_stream b)\<rparr>"

definition disconnect_internal :: "bridge \<Rightarrow> bridge" where
  "disconnect_internal b = b\<lparr>br_running := False, br_connected := False, pending_query := None,
     br_stream := None, event_queue := []\<rparr>"

text \<open>\<open>ok\<close>: the socket could be opened and the threads started.\<close>

definition connectDaemon :: "bool \<Rightarrow> bridge \<Rightarrow> bool \<times> bridge" where
  "connectDaemon ok b =
     (let b = disconnect_internal b in
      if \<not> ok then (False, b)
      else (True, b\<lparr>br_stream := Some [], br_running := True, br_connected := True\<rparr>))"

definition isConnected :: "bridge \<Rightarrow> bool" where
  "isConnected b = br_connected b"

text \<open>When the bridge is dropped; its threads end with the flag and the closed channel.\<close>

definition drop_bridge :: "bridge \<Rightarrow> bridge" where
  "drop_bridge b = b\<lparr>br_running := False, br_connected := False, br_stream := None\<rparr>"

definition pollEvents :: "bridge \<Rightarrow> string \<times> bridge" where
  "pollEvents b =
     (foldl (\<lambda>buf evt. (if buf \<noteq> [] then buf @ [CHR 0x0A] else buf) @ evt) [] (event_queue b), b\<lparr>event_queue := []\<rparr>)"

definition push_queue :: "string \<Rightarrow> string list \<Rightarrow> string list" where
  "push_queue evt q = (if MAX_QUEUED_EVENTS \<le> length q then tl q else q) @ [evt]"

interpretation gui_queue: bounded_history push_queue MAX_QUEUED_EVENTS
  by unfold_locales (auto simp: push_queue_def MAX_QUEUED_EVENTS_def drop_Suc tl_append split: list.split)

definition push_event :: "string \<Rightarrow> bridge \<Rightarrow> bridge" where
  "push_event evt b = b\<lparr>event_queue := push_queue evt (event_queue b)\<rparr>"

text \<open>What the reader does with a frame.\<close>

definition deliver :: "gui_libs \<Rightarrow> bytes \<Rightarrow> bridge \<Rightarrow> bridge" where
  "deliver g msg b =
     (case deserialize_to_json g msg of
        Some evt \<Rightarrow> push_event evt b
      | None \<Rightarrow> (case deserialize_response g msg of
            None \<Rightarrow> b
          | Some (QuerySlot, j) \<Rightarrow> b\<lparr>pending_query := Some j\<rparr>
          | Some (ProcessesSlot, j) \<Rightarrow> b\<lparr>pending_processes := Some j\<rparr>
          | Some (SocketsSlot, j) \<Rightarrow> b\<lparr>pending_sockets := Some j\<rparr>))"

definition take_query :: "bridge \<Rightarrow> string \<times> bridge" where
  "take_query b = (unwrap_or [] (pending_query b), b\<lparr>pending_query := None\<rparr>)"

definition take_processes :: "bridge \<Rightarrow> string \<times> bridge" where
  "take_processes b = (unwrap_or [] (pending_processes b), b\<lparr>pending_processes := None\<rparr>)"

definition take_sockets :: "bridge \<Rightarrow> string \<times> bridge" where
  "take_sockets b = (unwrap_or [] (pending_sockets b), b\<lparr>pending_sockets := None\<rparr>)"

section \<open>The reader thread\<close>

text \<open>
  A read of the socket yields bytes, nothing within the timeout, the end of the stream or an error. The
  thread waits for the length of a frame, for its body, or has ended.
\<close>

datatype io_read = Got_bytes bytes | Would_block | Failed

datatype rphase = ReadLength | ReadBody nat | Ended

definition reader_end :: "bytes \<Rightarrow> bridge \<Rightarrow> rphase \<times> bytes \<times> bridge" where
  "reader_end buf b = (Ended, buf, b\<lparr>br_connected := False\<rparr>)"

text \<open>From the loop over the length on, as far as the bytes at hand go.\<close>

function after_length :: "gui_libs \<Rightarrow> bytes \<Rightarrow> bridge \<Rightarrow> rphase \<times> bytes \<times> bridge" where
  "after_length g buf b =
     (case rd32 buf 0 of
        None \<Rightarrow> (ReadLength, buf, b)
      | Some w \<Rightarrow>
          let msg_len = unat w in
          if msg_len = 0 \<or> 2 ^ 20 < msg_len then reader_end buf b
          else if length buf < 4 + msg_len then (ReadBody msg_len, buf, b)
          else
            let b = deliver g (take msg_len (drop 4 buf)) b; buf = drop (4 + msg_len) buf in
            if br_running b then after_length g buf b else reader_end buf b)"
  by pat_completeness auto
termination by (relation "measure (\<lambda>(g, buf, b). length buf)") auto

declare after_length.simps [simp del]

fun reader_step :: "gui_libs \<Rightarrow> io_read \<Rightarrow> rphase \<times> bytes \<times> bridge \<Rightarrow> rphase \<times> bytes \<times> bridge" where
  "reader_step g r (Ended, buf, b) = (Ended, buf, b)"
| "reader_step g (Got_bytes bs) (ReadLength, buf, b) = after_length g (buf @ bs) b"
| "reader_step g _ (ReadLength, buf, b) = (if br_running b then (ReadLength, buf, b) else reader_end buf b)"
| "reader_step g (Got_bytes bs) (ReadBody n, buf, b) =
     (if length (buf @ bs) < 4 + n then (ReadBody n, buf @ bs, b)
      else
        let b = deliver g (take n (drop 4 (buf @ bs))) b; buf = drop (4 + n) (buf @ bs) in
        if br_running b then after_length g buf b else reader_end buf b)"
| "reader_step g Would_block (ReadBody n, buf, b) = (ReadBody n, buf, b)"
| "reader_step g Failed (ReadBody n, buf, b) = reader_end buf b"

definition reader_run :: "gui_libs \<Rightarrow> io_read list \<Rightarrow> rphase \<times> bytes \<times> bridge \<Rightarrow> rphase \<times> bytes \<times> bridge" where
  "reader_run g rs s = fold (reader_step g) rs s"

section \<open>Commands\<close>

datatype gui_op =
    GBlockIp string
  | GUnblockIp string
  | GKillProcess u32
  | GBlockPort u32
  | GUnblockPort u32
  | GQuarantine u32
  | GRunRootkitScan
  | GSyncIntelFeeds
  | GPowerStatus
  | GRunDoctor
  | GFlatpakList
  | GQueryLogs u64 u8 u32
  | GListProcesses
  | GListSockets
  | GReloadRules
  | GSubmitPromptDecision u64 string string
  | GShutdownDaemon
  | GDaemonStatus
  | GUpdateSettings string

text \<open>\<open>tnow\<close>: the time of the call in nanoseconds.\<close>

fun gui_command :: "u64 \<Rightarrow> gui_op \<Rightarrow> wire_cmd" where
  "gui_command tnow (GBlockIp ip) = WBlockIp (Text ip)"
| "gui_command tnow (GUnblockIp ip) = WUnblockIp (Text ip)"
| "gui_command tnow (GKillProcess pid) = WKillProcess pid"
| "gui_command tnow (GBlockPort port) = WBlockPort port"
| "gui_command tnow (GUnblockPort port) = WUnblockPort port"
| "gui_command tnow (GQuarantine pid) = WQuarantine pid"
| "gui_command tnow GRunRootkitScan = WRunRootkitScan"
| "gui_command tnow GSyncIntelFeeds = WSyncIntelFeeds"
| "gui_command tnow GPowerStatus = WPowerStatus"
| "gui_command tnow GRunDoctor = WRunDoctor"
| "gui_command tnow GFlatpakList = WFlatpakList"
| "gui_command tnow (GQueryLogs lastMinutes severity limit) =
     WQueryLogs (Some (sat_sub tnow (lastMinutes * 60 * 1000000000), tnow, severity, limit))"
| "gui_command tnow GListProcesses = WListProcesses"
| "gui_command tnow GListSockets = WListSockets"
| "gui_command tnow GReloadRules = WReloadRules"
| "gui_command tnow (GSubmitPromptDecision i action scope) = WSubmitPromptDecision (Some (i, Text action, Text scope))"
| "gui_command tnow GShutdownDaemon = WShutdown"
| "gui_command tnow GDaemonStatus = WStatus"
| "gui_command tnow (GUpdateSettings j) = WUpdateSettings (Text j)"

text \<open>A request empties the slot its answer will come to, then sends its frame.\<close>

definition clear_slot :: "gui_op \<Rightarrow> bridge \<Rightarrow> bridge" where
  "clear_slot x b = (case x of
     GQueryLogs _ _ _ \<Rightarrow> b\<lparr>pending_query := None\<rparr>
   | GListProcesses \<Rightarrow> b\<lparr>pending_processes := None\<rparr>
   | GListSockets \<Rightarrow> b\<lparr>pending_sockets := None\<rparr>
   | _ \<Rightarrow> b)"

definition gui_do :: "gui_libs \<Rightarrow> u64 \<Rightarrow> gui_op \<Rightarrow> bridge \<Rightarrow> bridge" where
  "gui_do g tnow x b = send_frame (cap_command (gl_codec g) (gui_command tnow x)) (clear_slot x b)"

text \<open>What the writer thread puts on the socket.\<close>

definition written :: "bridge \<Rightarrow> bytes" where
  "written b = concat (map write_frame (unwrap_or [] (br_stream b)))"

section \<open>The reader and the cuts of the stream\<close>

lemma rd32_None: "rd32 buf 0 = None \<longleftrightarrow> length buf < 4"
  by (auto simp: rd32_def)

lemma rd32_append: "4 \<le> length buf \<Longrightarrow> rd32 (buf @ extra) 0 = rd32 buf 0"
  by (auto simp: rd32_def nth_append)

lemma deliver_flags [simp]:
  "br_running (deliver g m b) = br_running b" "br_connected (deliver g m b) = br_connected b"
  by (simp_all add: deliver_def push_event_def Let_def split: option.split prod.split slot.split)

lemma after_length_short: "length buf < 4 \<Longrightarrow> after_length g buf b = (ReadLength, buf, b)"
  by (subst after_length.simps) (simp add: rd32_None [THEN iffD2])

lemma after_length_resume:
  "after_length g (buf @ extra) b =
     (case after_length g buf b of
        (Ended, buf', b') \<Rightarrow> (Ended, buf' @ extra, b')
      | (_, buf', b') \<Rightarrow> after_length g (buf' @ extra) b')"
proof (induction g buf b rule: after_length.induct)
  case (1 g buf b)
  show ?case
  proof (cases "rd32 buf 0")
    case None
    then show ?thesis by (simp add: after_length_short rd32_None)
  next
    case (Some w)
    then have l: "4 \<le> length buf" using rd32_None [of buf] by simp
    then have m: "rd32 (buf @ extra) 0 = Some w" using Some by (simp add: rd32_append)
    note unf = after_length.simps [of g buf b] after_length.simps [of g "buf @ extra" b]
    show ?thesis
    proof (cases "unat w = 0 \<or> 2 ^ 20 < unat w \<or> length buf < 4 + unat w \<or> \<not> br_running b")
      case True
      then show ?thesis using l by (auto simp: unf Some m Let_def reader_end_def)
    next
      case False
      then show ?thesis using 1 [OF Some refl] by (simp add: unf Some m Let_def)
    qed
  qed
qed

definition read_data :: "io_read list \<Rightarrow> bytes" where
  "read_data rs = concat (map (\<lambda>r. case r of Got_bytes bs \<Rightarrow> bs | _ \<Rightarrow> []) rs)"

text \<open>The state a thread has after the bytes \<open>data\<close>; what is left unread by an ended thread does not count.\<close>

definition settled :: "gui_libs \<Rightarrow> bytes \<Rightarrow> bridge \<Rightarrow> rphase \<times> bytes \<times> bridge \<Rightarrow> bool" where
  "settled g data b s \<longleftrightarrow> (case after_length g data b of
     (Ended, _, b') \<Rightarrow> fst s = Ended \<and> snd (snd s) = b' | s' \<Rightarrow> s = s')"

lemma after_length_running: "br_running b \<Longrightarrow> after_length g buf b = (ph, buf', b') \<Longrightarrow> br_running b'"
proof (induction g buf b rule: after_length.induct)
  case (1 g buf b)
  show ?case
    using 1 after_length.simps [of g buf b]
    by (auto simp: Let_def reader_end_def split: option.splits if_splits)
qed

lemma after_length_body:
  "after_length g data b = (ReadBody n, buf, b') \<Longrightarrow>
     \<exists>w. rd32 buf 0 = Some w \<and> n = unat w \<and> 0 < n \<and> n \<le> 2 ^ 20 \<and> length buf < 4 + n"
proof (induction g data b rule: after_length.induct)
  case (1 g data b)
  show ?case
    using 1 after_length.simps [of g data b]
    by (auto simp: Let_def reader_end_def split: option.splits if_splits)
qed

lemma settled_step:
  assumes s: "settled g data b s" and run: "br_running b" and r: "r \<noteq> Failed"
  shows "settled g (data @ read_data [r]) b (reader_step g r s)"
proof -
  obtain ph buf b' where a: "after_length g data b = (ph, buf, b')" using prod_cases3 by blast
  have run': "br_running b'" using after_length_running [OF run a] .
  show ?thesis
  proof (cases ph)
    case Ended
    then obtain buf'' where "s = (Ended, buf'', b')" using s a by (cases s) (auto simp: settled_def)
    then show ?thesis using a Ended by (simp add: settled_def after_length_resume [of g data])
  next
    case ReadLength
    then have "s = (ReadLength, buf, b')" using s a by (simp add: settled_def)
    then show ?thesis using a ReadLength run' r
      by (cases r) (auto simp: settled_def after_length_resume [of g data] read_data_def split: prod.split rphase.split)
  next
    case (ReadBody n)
    then have s': "s = (ReadBody n, buf, b')" using s a by (simp add: settled_def)
    from after_length_body [of g data b n buf b'] a ReadBody
    obtain w where w: "rd32 buf 0 = Some w" "n = unat w" "0 < n" "n \<le> 2 ^ 20" "length buf < 4 + n" by auto
    then have "4 \<le> length buf" using rd32_None [of buf] by auto
    then have "reader_step g r s = after_length g (buf @ read_data [r]) b'"
      using w r s' after_length.simps [of g "buf @ read_data [r]" b']
      by (cases r) (simp_all add: rd32_append read_data_def Let_def)
    then show ?thesis using a ReadBody
      by (auto simp: settled_def after_length_resume [of g data] split: prod.split rphase.split)
  qed
qed

lemma settled_run:
  "\<lbrakk>settled g data b s; br_running b; Failed \<notin> set rs\<rbrakk> \<Longrightarrow> settled g (data @ read_data rs) b (reader_run g rs s)"
proof (induction rs arbitrary: data s)
  case (Cons r rs)
  then have "settled g (data @ read_data [r]) b (reader_step g r s)" by (intro settled_step) auto
  from Cons.IH [OF this] Cons.prems show ?case by (simp add: reader_run_def read_data_def)
qed (simp add: reader_run_def read_data_def)

lemma after_length_frames:
  "\<lbrakk>br_running b; list_all (\<lambda>m. 0 < length m \<and> length m \<le> 2 ^ 20) msgs\<rbrakk>
     \<Longrightarrow> after_length g (concat (map write_frame msgs)) b = (ReadLength, [], fold (deliver g) msgs b)"
proof (induction msgs arbitrary: b)
  case (Cons m msgs)
  have u: "unat (of_nat (length m) :: u32) = length m" using Cons.prems by (simp add: unat_of_nat)
  have "after_length g (concat (map write_frame (m # msgs))) b = after_length g (concat (map write_frame msgs)) (deliver g m b)"
    using Cons.prems by (subst after_length.simps) (simp add: write_frame_def rd32_bytes32 u Let_def)
  with Cons show ?case by simp
qed (simp add: after_length_short)

lemma reader_frames:
  assumes "br_running b" and "Failed \<notin> set rs" and "read_data rs = concat (map write_frame msgs)"
    and "list_all (\<lambda>m. 0 < length m \<and> length m \<le> 2 ^ 20) msgs"
  shows "reader_run g rs (ReadLength, [], b) = (ReadLength, [], fold (deliver g) msgs b)"
proof -
  have "settled g [] b (ReadLength, [], b)" by (simp add: settled_def after_length_short)
  from settled_run [OF this assms(1,2)] show ?thesis
    using after_length_frames [OF assms(1,4), of g] by (simp add: assms(3) settled_def)
qed

section \<open>The event queue\<close>

lemma deliver_queue:
  "event_queue (deliver g m b) = fold push_queue (case deserialize_to_json g m of Some e \<Rightarrow> [e] | None \<Rightarrow> []) (event_queue b)"
  by (auto simp: deliver_def push_event_def split: option.split prod.split slot.split)

lemma deliver_all_queue:
  "event_queue (fold (deliver g) msgs b) = fold push_queue (List.map_filter (deserialize_to_json g) msgs) (event_queue b)"
  by (induction msgs arbitrary: b) (auto simp: deliver_queue map_filter_simps split: option.split)

text \<open>The newest \<open>MAX_QUEUED_EVENTS\<close> of a list.\<close>

definition newest :: "string list \<Rightarrow> string list" where
  "newest q = drop (length q - MAX_QUEUED_EVENTS) q"

definition sample_codec :: codec where
  "sample_codec = \<lparr>cap_event = \<lambda>_. [], cap_response = \<lambda>_. [],
     cap_command = (\<lambda>w. case w of WBlockPort p \<Rightarrow> 1 # bytes32 p | _ \<Rightarrow> [2]),
     rd_event = \<lambda>_. None, rd_response = \<lambda>_. None,
     rd_command = (\<lambda>f. if f = [2] then Some WStatus else map_option WBlockPort (rd32 (drop 1 f) 0))\<rparr>"

definition sample_libs :: gui_libs where
  "sample_libs = \<lparr>gl_codec = sample_codec, json_text = \<lambda>_. ''{}''\<rparr>"

text \<open>
  However the stream is cut into reads, and however often a read times out, the reader thread
  of the client does with whole frames what it would do with one frame after the other: it ends waiting
  for the next length with nothing left over, and the event queue holds the newest 4096 of the queued
  events and those of the frames, in order.
\<close>

theorem gui_reader_chunks:
  assumes "br_running b" and "Failed \<notin> set rs" and "length (event_queue b) \<le> MAX_QUEUED_EVENTS"
    and "read_data rs = concat (map write_frame msgs)"
    and "list_all (\<lambda>m. 0 < length m \<and> length m \<le> 2 ^ 20) msgs"
  shows "reader_run g rs (ReadLength, [], b) = (ReadLength, [], fold (deliver g) msgs b)
     \<and> event_queue (fold (deliver g) msgs b) = newest (event_queue b @ List.map_filter (deserialize_to_json g) msgs)"
  using reader_frames [OF assms(1,2,4,5), of g]
  by (simp add: deliver_all_queue gui_queue.fold_push [OF assms(3)] newest_def)

theorem gui_reader_chunks_witness:
  "reader_run sample_libs [Got_bytes [1, 0], Would_block, Got_bytes [0, 0, 9, 2, 0], Got_bytes [0, 0, 8, 7]]
     (ReadLength, [], snd (connectDaemon True bridge_default))
   = (ReadLength, [], fold (deliver sample_libs) [[9], [8, 7]] (snd (connectDaemon True bridge_default)))
   \<and> event_queue (fold (deliver sample_libs) [[9], [8, 7]] (snd (connectDaemon True bridge_default))) = []"
proof -
  let ?b = "snd (connectDaemon True bridge_default)"
  have data: "read_data [Got_bytes [1, 0], Would_block, Got_bytes [0, 0, 9, 2, 0], Got_bytes [0, 0, 8, 7]]
      = concat (map write_frame [[9], [8, 7]])"
    by (simp add: write_frame_def bytes32_def byte_of_def read_data_def)
  have b: "br_running ?b" "event_queue ?b = []" by (simp_all add: connectDaemon_def disconnect_internal_def Let_def)
  have none: "deserialize_to_json sample_libs f = None" for f
    by (simp add: deserialize_to_json_def sample_libs_def sample_codec_def)
  from gui_reader_chunks [OF b(1) _ _ data, of sample_libs] show ?thesis
    by (simp add: b none newest_def map_filter_simps)
qed

section \<open>Ends that are not noticed\<close>

text \<open>
  Claim C35. When the reader thread ends while no more bytes arrive, whatever sequence of time-outs and
  failures (the end of the stream is one) its reads give. Waiting for the length of a frame it ends at the
  next read if it was told to stop, and never otherwise: not even the end of the stream makes the client
  notice that the daemon has gone. Waiting for the body of a frame it ends at the first failure, and never
  by time-outs, not even if it was told to stop. When it ends, the client counts as disconnected and the
  bytes at hand stay unread.
\<close>

theorem reader_ends_silent:
  "reader_run g (map (\<lambda>failed. if failed then Failed else Would_block) fs) (phase, buf, b) =
     (if (case phase of ReadLength \<Rightarrow> \<not> br_running b \<and> fs \<noteq> [] | ReadBody _ \<Rightarrow> True \<in> set fs | Ended \<Rightarrow> False)
      then (Ended, buf, b\<lparr>br_connected := False\<rparr>) else (phase, buf, b))"
proof -
  let ?run = "\<lambda>fs s. fold (reader_step g) (map (\<lambda>failed. if failed then Failed else Would_block) fs) s"
  have ended: "?run fs (Ended, buf, b) = (Ended, buf, b)" for fs b
    by (induction fs) simp_all
  have len: "br_running b \<Longrightarrow> ?run fs (ReadLength, buf, b) = (ReadLength, buf, b)" for fs
    by (induction fs) simp_all
  have body: "?run fs (ReadBody k, buf, b)
      = (if True \<in> set fs then (Ended, buf, b\<lparr>br_connected := False\<rparr>) else (ReadBody k, buf, b))" for fs k
    by (induction fs) (auto simp: ended reader_end_def)
  show ?thesis
  proof (cases phase)
    case ReadLength
    then show ?thesis by (cases fs) (auto simp: reader_run_def len ended reader_end_def)
  qed (simp_all add: reader_run_def ended body)
qed

section \<open>From the client to the daemon\<close>

text \<open>What the daemon is to do for an operation: an address that is no address is no command.\<close>

fun gui_meaning :: "u32 \<Rightarrow> u64 \<Rightarrow> gui_op \<Rightarrow> daemon_cmd option" where
  "gui_meaning pid tnow (GBlockIp ip) = map_option BlockIp (parse_ip ip)"
| "gui_meaning pid tnow (GUnblockIp ip) = map_option UnblockIp (parse_ip ip)"
| "gui_meaning pid tnow (GKillProcess p) = Some (KillProcess p)"
| "gui_meaning pid tnow (GBlockPort p) = Some (BlockPort (of_nat (unat p mod 65536)))"
| "gui_meaning pid tnow (GUnblockPort p) = Some (UnblockPort (of_nat (unat p mod 65536)))"
| "gui_meaning pid tnow (GQuarantine p) = Some (Quarantine p)"
| "gui_meaning pid tnow GRunRootkitScan = Some RunRootkitScan"
| "gui_meaning pid tnow GSyncIntelFeeds = Some SyncIntelFeeds"
| "gui_meaning pid tnow GPowerStatus = Some PowerStatus"
| "gui_meaning pid tnow GRunDoctor = Some RunDoctor"
| "gui_meaning pid tnow GFlatpakList = Some FlatpakList"
| "gui_meaning pid tnow (GQueryLogs m sev limit) =
     Some (QueryLogs (sat_sub tnow (m * 60 * 1000000000)) tnow sev (min limit 1000))"
| "gui_meaning pid tnow GListProcesses = Some ListProcesses"
| "gui_meaning pid tnow GListSockets = Some ListSockets"
| "gui_meaning pid tnow GReloadRules = Some ReloadRules"
| "gui_meaning pid tnow (GSubmitPromptDecision i action scope) = Some (SubmitPromptDecision i action scope pid)"
| "gui_meaning pid tnow GShutdownDaemon = Some Shutdown"
| "gui_meaning pid tnow GDaemonStatus = Some Status"
| "gui_meaning pid tnow (GUpdateSettings j) = Some (UpdateSettings j)"

lemma ucast_mod: "(ucast (p :: u32) :: u16) = of_nat (unat p mod 65536)"
  by (rule word_unat_eq_iff [THEN iffD2]) (simp add: unsigned_ucast_eq take_bit_eq_mod unat_of_nat)

lemma gui_parsed: "parse_command pid (gui_command tnow x) = gui_meaning pid tnow x"
  by (cases x) (simp_all add: ip_field_def lenient_field_def MAX_LOG_LIMIT_def ucast_mod)

lemma gui_do_all:
  "br_stream b = Some fs \<Longrightarrow> br_stream (fold (gui_do g tnow) ops b)
     = Some (fs @ map (\<lambda>x. cap_command (gl_codec g) (gui_command tnow x)) ops)"
proof (induction ops arbitrary: fs b)
  case (Cons x ops)
  have "br_stream (clear_slot x b) = br_stream b" by (simp add: clear_slot_def split: gui_op.split)
  then show ?case using Cons by (simp add: gui_do_def send_frame_def)
qed simp

text \<open>The command is written as one frame the daemon reads back.\<close>

definition fits_frame :: "gui_libs \<Rightarrow> u64 \<Rightarrow> gui_op \<Rightarrow> bool" where
  "fits_frame g tnow x \<longleftrightarrow> command_kept (gl_codec g) (gui_command tnow x)
     \<and> 0 < length (cap_command (gl_codec g) (gui_command tnow x))
     \<and> length (cap_command (gl_codec g) (gui_command tnow x)) \<le> 65536"

text \<open>
  Claim C34. What the user does in the client is what the daemon is asked to do: over a connection just
  opened, any sequence of operations reaches the daemon's command decoder as the commands meant, in order
  and with the client's own process id on a prompt decision, as long as every command fits a frame. A port
  above 65535 is taken modulo 65536.
\<close>

theorem gui_ops_received:
  assumes "list_all (fits_frame g tnow) ops"
  shows "map (\<lambda>f. parse_command_frame (rd_command (gl_codec g)) f pid)
      (read_frames (written (fold (gui_do g tnow) ops (snd (connectDaemon True b)))))
    = map (gui_meaning pid tnow) ops"
proof -
  let ?fs = "map (\<lambda>x. cap_command (gl_codec g) (gui_command tnow x)) ops"
  have "br_stream (snd (connectDaemon True b)) = Some []" by (simp add: connectDaemon_def Let_def)
  then have "written (fold (gui_do g tnow) ops (snd (connectDaemon True b))) = concat (map write_frame ?fs)"
    using gui_do_all [of "snd (connectDaemon True b)" "[]" g tnow ops] by (simp add: written_def unwrap_or_def)
  moreover have "read_frames (concat (map write_frame ?fs)) = ?fs"
    using frames_roundtrip [of ?fs "[]"] assms by (simp add: list_all_iff fits_frame_def)
  ultimately show ?thesis
    using assms by (simp add: parse_command_frame_def fits_frame_def command_kept_def list_all_iff gui_parsed)
qed

theorem gui_ops_received_witness:
  "map (\<lambda>f. parse_command_frame (rd_command sample_codec) f 7)
     (read_frames (written (fold (gui_do sample_libs 0) [GBlockPort 70000, GDaemonStatus] (snd (connectDaemon True bridge_default)))))
   = [Some (BlockPort 4464), Some Status]"
proof -
  have "list_all (fits_frame sample_libs 0) [GBlockPort 70000, GDaemonStatus]"
    using rd32_bytes32 [of 70000 "[]"]
    by (simp add: fits_frame_def command_kept_def sample_libs_def sample_codec_def)
  from gui_ops_received [OF this, of 7 bridge_default] show ?thesis by (simp add: sample_libs_def)
qed

section \<open>From the daemon to the client\<close>

lemma event_shown:
  "event_kept (gl_codec g) e \<Longrightarrow> deserialize_to_json g (cap_event (gl_codec g) e) = map_option (json_text g) (event_json e)"
  by (cases "event_json e") (simp_all add: deserialize_to_json_def event_kept_def)

lemma packet_json:
  "event_json (packet_event ts src dst sp dp proto pid act) = Some
     (JObj [(''type'', JStr ''packet''), (''timestamp'', jw ts), (''src_ip'', JStr (show_ipv4 src)),
       (''dst_ip'', JStr (show_ipv4 dst)), (''src_port'', jw sp), (''dst_port'', jw dp),
       (''protocol'', JStr (if proto = 17 then ''UDP'' else if proto = 1 then ''ICMP'' else ''TCP'')), (''pid'', jw pid),
       (''binary'', JStr []), (''action'', JStr (if act = 1 then ''DROP'' else if act = 2 then ''ALERT'' else ''PASS''))])"
  by (simp add: packet_event_def format_ip_def unwrap_or_def text_or_def)

lemma alert_json_shown:
  "event_json (alert_event ts rid sev msg) = Some
     (JObj [(''type'', JStr ''alert''), (''timestamp'', jw ts),
       (''severity'', JStr (if sev = 4 then ''CRITICAL'' else if sev = 3 then ''HIGH'' else if sev = 2 then ''MED'' else ''LOW'')),
       (''rule_id'', jw rid), (''signature'', JStr msg)])"
  by (simp add: alert_event_def unwrap_or_def text_or_def)

text \<open>
  The reader tries every frame as an event first. A reader that does not check the type of the root takes
  the answer to a process or socket request for an event, and the slot stays empty.
\<close>

lemma response_taken_for_event:
  assumes "rd_event (gl_codec g) (cap_response (gl_codec g) r) = Some e" and "event_json e = Some j"
  shows "deliver g (cap_response (gl_codec g) r) b = push_event (json_text g j) b"
  using assms by (simp add: deliver_def deserialize_to_json_def)

end
