(* ===== verification/Ctl.thy ===== *)
theory Ctl
  imports Messages
begin

text \<open>
  The command line client, \<open>ring0ctl/src/main.rs\<close>: the texts of events and of the status, the exchange
  of a command and its answer, and the commands themselves. Colours (\<open>paint\<close>), the formatting of
  floating-point numbers and the serialization are parameters. What arrives on the socket is a sequence of
  bytes that ends with silence (the read times out) or with the end of the connection.
\<close>

section \<open>Texts\<close>

datatype style = Red | Green | Yellow | Cyan | Blue | White | Bold | Dimmed

record ctl_libs =
  ct_codec :: codec
  paint :: "style list \<Rightarrow> string \<Rightarrow> string"
  show_f32_1 :: "u32 \<Rightarrow> string"
  show_f64_1 :: "u64 \<Rightarrow> string"
  show_mib_1 :: "u64 \<Rightarrow> string"
  rd_query :: "bytes \<Rightarrow> (alert_msg list option \<times> u32) option"
  pretty_alerts :: "u32 \<Rightarrow> (u64 \<times> u32 \<times> string) list \<Rightarrow> string"

definition arrow :: string where
  "arrow = '' '' @ [char_of (0xE2 :: nat), char_of (0x86 :: nat), char_of (0x92 :: nat)] @ '' ''"

definition ip_to_string :: "ip_msg \<Rightarrow> string" where
  "ip_to_string i = (case i of IpV4 v \<Rightarrow> show_ipv4 v | _ \<Rightarrow> ''::'')"

definition ip_field_text :: "ip_msg \<Rightarrow> string option" where
  "ip_field_text i = (case i of IpError \<Rightarrow> None | _ \<Rightarrow> Some (ip_to_string i))"

definition text_default :: "text_field \<Rightarrow> string" where
  "text_default t = (case t of Text s \<Rightarrow> s | _ \<Rightarrow> [])"

definition show_word :: "'a::len word \<Rightarrow> string" where
  "show_word w = show_nat (unat w)"

fun severity_label :: "ctl_libs \<Rightarrow> severity \<Rightarrow> string" where
  "severity_label l Low = paint l [Green] ''LOW''"
| "severity_label l Med = paint l [Yellow] ''MED''"
| "severity_label l High = paint l [Red] ''HIGH''"
| "severity_label l Critical = paint l [Red, Bold] ''CRITICAL''"

fun proto_label :: "ctl_libs \<Rightarrow> protocol \<Rightarrow> string" where
  "proto_label l Tcp = paint l [Cyan] ''TCP''"
| "proto_label l Udp = paint l [Yellow] ''UDP''"
| "proto_label l Icmp = paint l [Red] ''ICMP''"

fun action_label :: "ctl_libs \<Rightarrow> action \<Rightarrow> string" where
  "action_label l Drop = paint l [Red, Bold] ''DROP''"
| "action_label l Alert = paint l [Yellow, Bold] ''ALERT''"
| "action_label l Pass = paint l [Green] ''PASS''"

fun event_line :: "ctl_libs \<Rightarrow> ring0_event \<Rightarrow> string option" where
  "event_line l (EvPacket m) = do {
     p \<leftarrow> m; src \<leftarrow> ip_field_text (pm_src_ip p); dst \<leftarrow> ip_field_text (pm_dst_ip p);
     Some (action_label l (unwrap_or Pass (pm_action p)) @ '' '' @ src @ '':'' @ show_word (pm_src_port p) @ arrow @ dst @ '':'' @ show_word (pm_dst_port p)
       @ ''  '' @ proto_label l (unwrap_or Tcp (pm_protocol p)) @ ''  pid='' @ show_word (pm_pid p)) }"
| "event_line l (EvProcessExec m) = do {
     p \<leftarrow> m;
     Some (paint l [Cyan, Bold] ''EXEC'' @ '' pid='' @ show_word (xm_pid p) @ '' ppid='' @ show_word (xm_ppid p) @ '' ''
       @ text_default (xm_binary p) @ '' '' @ text_default (xm_cmdline p)) }"
| "event_line l (EvConnect m) = do {
     p \<leftarrow> m; dst \<leftarrow> ip_field_text (cm_dst_ip p);
     Some (paint l [Blue, Bold] ''CONNECT'' @ '' pid='' @ show_word (cm_pid p) @ '' '' @ text_default (cm_binary p)
       @ arrow @ dst @ '':'' @ show_word (cm_dst_port p)) }"
| "event_line l (EvAlert m) = do {
     a \<leftarrow> m;
     Some (paint l [Red, Bold] ''ALERT'' @ '' rule='' @ show_word (am_rule_id a) @ '' ''
       @ paint l [White] (text_default (am_signature a))) }"
| "event_line l _ = Some ''unknown event''"

definition format_event_capnp :: "ctl_libs \<Rightarrow> bytes \<Rightarrow> string option" where
  "format_event_capnp l data = Option.bind (rd_event (ct_codec l) data) (event_line l)"

definition format_status_capnp :: "ctl_libs \<Rightarrow> bytes \<Rightarrow> string option" where
  "format_status_capnp l data =
     (case rd_event (ct_codec l) data of
        Some (EvStatus m) \<Rightarrow> do {
          s \<leftarrow> m; fs \<leftarrow> sm_filters s;
          Some (''  CPU: '' @ show_f32_1 l (sm_cpu s) @ ''%   RAM: '' @ show_mib_1 l (sm_ram s) @ '' MiB   Events/s: ''
            @ show_f64_1 l (sm_eps s) @ [CHR 0x0A] @ ''  Blocked domains: '' @ show_word (sm_domains s) @ ''   CIDRs: ''
            @ show_word (sm_cidrs s) @ ''   Ports: '' @ show_word (sm_ports s) @ [CHR 0x0A] @ ''  Active filters: ''
            @ join_with '', '' (map text_default fs)) }
      | _ \<Rightarrow> None)"

section \<open>The socket\<close>

datatype stream_end = Silent | Closed

datatype ctl_error =
    ReadLengthFailed | ReadBodyFailed | DeniedByDaemon | NoAck | TimedOut | Disconnected | BadLength | InvalidIp
  | BadResponse | NoAlerts

definition read_exact :: "nat \<Rightarrow> bytes \<Rightarrow> (bytes \<times> bytes) option" where
  "read_exact n s = (if n \<le> length s then Some (take n s, drop n s) else None)"

definition le_len :: "bytes \<Rightarrow> nat" where
  "le_len b = unat (le32 (b ! 0) (b ! 1) (b ! 2) (b ! 3))"

text \<open>The loop that waits for the acknowledgement, with the rounds left.\<close>

fun await_ack :: "nat \<Rightarrow> bytes \<Rightarrow> stream_end \<Rightarrow> ctl_error + unit" where
  "await_ack 0 s e = Inl NoAck"
| "await_ack (Suc n) s e =
     (case read_exact 4 s of
        None \<Rightarrow> (if e = Silent then Inr () else Inl ReadLengthFailed)
      | Some (len_buf, s) \<Rightarrow>
          let resp_len = le_len len_buf in
          if resp_len = 0 \<or> 65536 < resp_len then Inr ()
          else case read_exact resp_len s of
            None \<Rightarrow> Inl ReadBodyFailed
          | Some (resp, s) \<Rightarrow>
              if resp = ascii ''OK'' then Inr ()
              else if resp = ascii ''DENIED'' then Inl DeniedByDaemon
              else await_ack n s e)"

definition ACK_ROUNDS :: nat where "ACK_ROUNDS = 100000"

text \<open>The frame sent, and what the command returns.\<close>

definition send_command_no_response :: "bytes \<Rightarrow> bytes \<Rightarrow> stream_end \<Rightarrow> bytes \<times> (ctl_error + unit)" where
  "send_command_no_response frame incoming e = (write_frame frame, await_ack ACK_ROUNDS incoming e)"

text \<open>\<open>send_command\<close> takes the first frame that comes for the answer.\<close>

definition send_command :: "bytes \<Rightarrow> bytes \<Rightarrow> bytes \<times> (ctl_error + bytes)" where
  "send_command frame incoming =
     (write_frame frame,
      case read_exact 4 incoming of
        None \<Rightarrow> Inl ReadLengthFailed
      | Some (len_buf, s) \<Rightarrow>
          let resp_len = le_len len_buf in
          if resp_len = 0 \<or> 65536 < resp_len then Inr []
          else case read_exact resp_len s of None \<Rightarrow> Inl ReadBodyFailed | Some (resp, _) \<Rightarrow> Inr resp)"

text \<open>The frames until one is a status; \<open>rounds\<close> is how many of them arrive before the deadline.\<close>

fun await_status :: "ctl_libs \<Rightarrow> nat \<Rightarrow> bytes \<Rightarrow> ctl_error + string" where
  "await_status l 0 s = Inl TimedOut"
| "await_status l (Suc n) s =
     (case read_exact 4 s of
        None \<Rightarrow> Inl Disconnected
      | Some (len_buf, s) \<Rightarrow>
          let msg_len = le_len len_buf in
          if msg_len = 0 \<or> 65536 < msg_len then Inl BadLength
          else case read_exact msg_len s of
            None \<Rightarrow> Inl Disconnected
          | Some (msg, s) \<Rightarrow> (case format_status_capnp l msg of Some t \<Rightarrow> Inr t | None \<Rightarrow> await_status l n s))"

definition send_status_command :: "ctl_libs \<Rightarrow> nat \<Rightarrow> bytes \<Rightarrow> bytes \<times> (ctl_error + string)" where
  "send_status_command l rounds incoming =
     (write_frame (cap_command (ct_codec l) WStatus), await_status l rounds incoming)"

text \<open>The lines \<open>tail\<close> prints, without the time in front.\<close>

function tail_lines :: "ctl_libs \<Rightarrow> bytes \<Rightarrow> string list" where
  "tail_lines l s =
     (case read_exact 4 s of
        None \<Rightarrow> []
      | Some (len_buf, s') \<Rightarrow>
          let msg_len = le_len len_buf in
          if msg_len = 0 \<or> 65536 < msg_len then []
          else case read_exact msg_len s' of
            None \<Rightarrow> []
          | Some (msg, s'') \<Rightarrow>
              (case format_event_capnp l msg of Some line \<Rightarrow> [line] | None \<Rightarrow> []) @ tail_lines l s'')"
  by pat_completeness auto
termination by (relation "measure (length \<circ> snd)") (auto simp: read_exact_def split: if_splits)

declare tail_lines.simps [simp del]

section \<open>Commands\<close>

definition cmd_ip :: "ctl_libs \<Rightarrow> (text_field \<Rightarrow> wire_cmd) \<Rightarrow> string \<Rightarrow> bytes \<Rightarrow> stream_end \<Rightarrow> bytes \<times> (ctl_error + unit)" where
  "cmd_ip l w ip incoming e =
     (if parse_ip ip = None then ([], Inl InvalidIp)
      else send_command_no_response (cap_command (ct_codec l) (w (Text ip))) incoming e)"

definition cmd_block :: "ctl_libs \<Rightarrow> string \<Rightarrow> bytes \<Rightarrow> stream_end \<Rightarrow> bytes \<times> (ctl_error + unit)" where
  "cmd_block l = cmd_ip l WBlockIp"

definition cmd_unblock :: "ctl_libs \<Rightarrow> string \<Rightarrow> bytes \<Rightarrow> stream_end \<Rightarrow> bytes \<times> (ctl_error + unit)" where
  "cmd_unblock l = cmd_ip l WUnblockIp"

definition cmd_kill :: "ctl_libs \<Rightarrow> u32 \<Rightarrow> bytes \<Rightarrow> stream_end \<Rightarrow> bytes \<times> (ctl_error + unit)" where
  "cmd_kill l pid = send_command_no_response (cap_command (ct_codec l) (WKillProcess pid))"

definition cmd_flatpak_list :: "ctl_libs \<Rightarrow> bytes \<Rightarrow> stream_end \<Rightarrow> bytes \<times> (ctl_error + unit)" where
  "cmd_flatpak_list l = send_command_no_response (cap_command (ct_codec l) WFlatpakList)"

definition cmd_power_status :: "ctl_libs \<Rightarrow> bytes \<Rightarrow> stream_end \<Rightarrow> bytes \<times> (ctl_error + unit)" where
  "cmd_power_status l = send_command_no_response (cap_command (ct_codec l) WPowerStatus)"

text \<open>The command \<open>query\<close> sends, at time \<open>tnow\<close>; the product wraps.\<close>

definition query_command :: "u64 \<Rightarrow> u64 \<Rightarrow> u8 \<Rightarrow> wire_cmd" where
  "query_command tnow last_minutes severity =
     WQueryLogs (Some (sat_sub tnow (last_minutes * 60 * 1000000000), tnow, severity, 500))"

definition query_line :: "ctl_libs \<Rightarrow> alert_msg \<Rightarrow> string" where
  "query_line l a =
     (let rule = show_word (am_rule_id a) in
      ''  '' @ paint l [Cyan] (replicate (8 - length rule) CHR '' '' @ rule) @ [CHR 0x09]
        @ severity_label l (unwrap_or Low (am_severity a)) @ [CHR 0x09] @ paint l [White] (text_default (am_signature a)))"

text \<open>A line of eighty horizontal bars, of three bytes each.\<close>

definition rule_line :: string where
  "rule_line = concat (replicate 80 [char_of (0xE2 :: nat), char_of (0x94 :: nat), char_of (0x80 :: nat)])"

text \<open>The answer is read as a \<open>query_response\<close>.\<close>

definition query_output :: "ctl_libs \<Rightarrow> bool \<Rightarrow> bytes \<Rightarrow> ctl_error + string list" where
  "query_output l json_flag resp =
     (case rd_query l resp of
        None \<Rightarrow> Inl BadResponse
      | Some (None, _) \<Rightarrow> Inl NoAlerts
      | Some (Some alerts, count) \<Rightarrow> Inr (
          if json_flag
          then [pretty_alerts l count (map (\<lambda>a. (am_timestamp a, am_rule_id a, text_default (am_signature a))) alerts)]
          else paint l [Bold] (''Found '' @ show_word count @ '' alerts:'') # rule_line # map (query_line l) alerts))"

definition cmd_query :: "ctl_libs \<Rightarrow> u64 \<Rightarrow> u64 \<Rightarrow> u8 \<Rightarrow> bool \<Rightarrow> bytes \<Rightarrow> bytes \<times> (ctl_error + string list)" where
  "cmd_query l tnow last_minutes severity json_flag incoming =
     (case send_command (cap_command (ct_codec l) (query_command tnow last_minutes severity)) incoming of
        (sent, Inl e) \<Rightarrow> (sent, Inl e)
      | (sent, Inr resp) \<Rightarrow> (sent, query_output l json_flag resp))"

text \<open>The check of the kernel version in \<open>doctor\<close>.\<close>

definition version_part :: "string list \<Rightarrow> nat \<Rightarrow> nat" where
  "version_part parts i = (if i < length parts then unwrap_or 0 (parse_u32 (parts ! i)) else 0)"

definition kernel_ok :: "string option \<Rightarrow> bool" where
  "kernel_ok osrelease =
     (let parts = split_on CHR ''.'' (trim (unwrap_or [] osrelease));
          major = version_part parts 0; minor = version_part parts 1
      in 5 < major \<or> major = 5 \<and> 8 \<le> minor)"

text \<open>What \<open>status\<close> and \<open>doctor\<close> print; \<open>exists\<close> tells which files are there.\<close>

definition cmd_status :: "ctl_libs \<Rightarrow> nat \<Rightarrow> bytes \<Rightarrow> bytes \<times> string list" where
  "cmd_status l rounds incoming =
     (case send_status_command l rounds incoming of
        (sent, Inr status) \<Rightarrow> (sent, [paint l [Green, Bold] ''Daemon: Connected'', status])
      | (sent, Inl e) \<Rightarrow> (sent, [paint l [Red, Bold] ''Daemon: Disconnected'']))"

definition doctor_checks :: "string option \<Rightarrow> (string \<Rightarrow> bool) \<Rightarrow> (string \<times> bool) list" where
  "doctor_checks osrelease exists =
     [(''Kernel >= 5.8'', kernel_ok osrelease), (''BTF vmlinux'', exists ''/sys/kernel/btf/vmlinux''),
      (''Cgroup v2'', exists ''/sys/fs/cgroup/cgroup.controllers''), (''Daemon socket'', exists ''/run/ring0d.sock'')]"

definition cmd_doctor :: "ctl_libs \<Rightarrow> string option \<Rightarrow> (string \<Rightarrow> bool) \<Rightarrow> string list" where
  "cmd_doctor l osrelease exists =
     paint l [Bold, White] ''Ring0 Diagnostic Suite''
     # map (\<lambda>(name, pass). ''[..] '' @ name @ '' ... ''
          @ (if pass then paint l [Green, Bold] ''PASS'' else paint l [Red, Bold] ''FAIL'')) (doctor_checks osrelease exists)
     @ [paint l [Green, Bold] ''Done.'']"

text \<open>The whole program: what arrives on the socket once connected, and the lines printed. \<open>rounds\<close> frames
  can be read before the deadline of \<open>status\<close>.\<close>

datatype cli =
    CliStatus | CliBlock string | CliUnblock string | CliKill u32 | CliTail | CliQuery u64 u8 bool | CliDoctor
  | CliFlatpakList | CliPowerStatus

definition report :: "string \<Rightarrow> bytes \<times> (ctl_error + unit) \<Rightarrow> bytes \<times> (ctl_error + string list)" where
  "report line r = (fst r, case snd r of Inr _ \<Rightarrow> Inr [line] | Inl e \<Rightarrow> Inl e)"

record ctl_env =
  ce_now :: u64
  ce_rounds :: nat
  ce_incoming :: bytes
  ce_end :: stream_end
  ce_osrelease :: "string option"
  ce_exists :: "string \<Rightarrow> bool"

fun run_cli :: "ctl_libs \<Rightarrow> ctl_env \<Rightarrow> cli \<Rightarrow> bytes \<times> (ctl_error + string list)" where
  "run_cli l e CliStatus = (case cmd_status l (ce_rounds e) (ce_incoming e) of (sent, lines) \<Rightarrow> (sent, Inr lines))"
| "run_cli l e (CliBlock ip) = report (paint l [Red, Bold] ''Blocked:'' @ '' '' @ ip) (cmd_block l ip (ce_incoming e) (ce_end e))"
| "run_cli l e (CliUnblock ip) = report (paint l [Green, Bold] ''Unblocked:'' @ '' '' @ ip) (cmd_unblock l ip (ce_incoming e) (ce_end e))"
| "run_cli l e (CliKill pid) = report (paint l [Red, Bold] ''Killed:'' @ '' PID '' @ show_word pid) (cmd_kill l pid (ce_incoming e) (ce_end e))"
| "run_cli l e CliTail = ([], Inr (tail_lines l (ce_incoming e)))"
| "run_cli l e (CliQuery last_minutes severity json_flag) = cmd_query l (ce_now e) last_minutes severity json_flag (ce_incoming e)"
| "run_cli l e CliDoctor = ([], Inr (cmd_doctor l (ce_osrelease e) (ce_exists e)))"
| "run_cli l e CliFlatpakList = report (paint l [Cyan, Bold] ''Flatpak list requested'') (cmd_flatpak_list l (ce_incoming e) (ce_end e))"
| "run_cli l e CliPowerStatus = report (paint l [Cyan, Bold] ''Power status requested'') (cmd_power_status l (ce_incoming e) (ce_end e))"

section \<open>Waiting for the answer\<close>

lemma read_exact_append [simp]: "length a = n \<Longrightarrow> read_exact n (a @ b) = Some (a, b)"
  by (simp add: read_exact_def)

lemma le_len_bytes32: "n < 2 ^ 32 \<Longrightarrow> le_len (bytes32 (of_nat n)) = n"
  by (simp add: le_len_def bytes32_def unat_of_nat)

lemma read_frame_length: "read_exact 4 (write_frame m @ s) = Some (bytes32 (of_nat (length m)), m @ s)"
  by (simp add: write_frame_def)

lemma await_frame:
  assumes "0 < length m" "length m < 2 ^ 32"
  shows "await_ack (Suc n) (write_frame m @ s) e =
     (if 65536 < length m then Inr ()
      else if m = ascii ''OK'' then Inr () else if m = ascii ''DENIED'' then Inl DeniedByDaemon
      else await_ack n s e)"
  using assms by (simp add: read_frame_length le_len_bytes32 Let_def)

definition broadcast_frame :: "bytes \<Rightarrow> bool" where
  "broadcast_frame m \<longleftrightarrow> m \<noteq> ascii ''OK'' \<and> m \<noteq> ascii ''DENIED'' \<and> 0 < length m \<and> length m < 2 ^ 32"

lemma await_ack_stream:
  assumes "list_all broadcast_frame bs"
  shows "await_ack n (concat (map write_frame bs) @ write_frame (ascii (if yes then ''OK'' else ''DENIED'')) @ rest) e =
     (if list_ex (\<lambda>m. 65536 < length m) (take n bs) then Inr ()
      else if length bs < n then (if yes then Inr () else Inl DeniedByDaemon)
      else Inl NoAck)"
  using assms
proof (induction bs arbitrary: n)
  case Nil
  have "ascii ''DENIED'' \<noteq> ascii ''OK''" "0 < length (ascii ''OK'')" "0 < length (ascii ''DENIED'')"
    "length (ascii ''OK'') \<le> 65536" "length (ascii ''DENIED'') \<le> 65536"
    by (simp_all add: ascii_def)
  then show ?case by (cases n) (simp_all add: await_frame del: await_ack.simps(2))
next
  case (Cons m bs)
  then show ?case
    by (cases n) (auto simp: await_frame broadcast_frame_def simp del: await_ack.simps(2))
qed

text \<open>
  Claim C36. What the command to block an address reports when the daemon's answer comes behind events it
  broadcasts: an address that is none is refused at once; a broadcast longer than 65536 bytes in front
  of the answer makes the command report success, whatever the answer is; otherwise the daemon's answer
  decides if it is among the first hundred thousand frames, and the command fails if it is not.
\<close>

theorem ctl_block_result:
  assumes "list_all broadcast_frame bs"
  shows "snd (cmd_block l ip (concat (map write_frame bs)
        @ write_frame (reply_frame c decode query procs socks (if yes then AckOk else AckDenied)) @ rest) e) =
     (if parse_ip ip = None then Inl InvalidIp
      else if list_ex (\<lambda>m. 65536 < length m) (take ACK_ROUNDS bs) then Inr ()
      else if length bs < ACK_ROUNDS then (if yes then Inr () else Inl DeniedByDaemon)
      else Inl NoAck)"
  using await_ack_stream [OF assms, of ACK_ROUNDS yes rest e]
  by (cases yes) (simp_all add: cmd_block_def cmd_ip_def send_command_no_response_def reply_frame_def del: await_ack.simps)

lemma long_broadcast: "10 < length m \<Longrightarrow> length m < 2 ^ 32 \<Longrightarrow> broadcast_frame m"
  by (auto simp: broadcast_frame_def ascii_def)

definition sample_ctl :: ctl_libs where
  "sample_ctl = \<lparr>ct_codec = \<lparr>cap_event = \<lambda>_. [], cap_response = \<lambda>_. [], cap_command = \<lambda>_. [1], rd_event = \<lambda>_. None,
       rd_response = \<lambda>_. None, rd_command = \<lambda>_. None\<rparr>,
     paint = \<lambda>_ s. s, show_f32_1 = \<lambda>_. [], show_f64_1 = \<lambda>_. [], show_mib_1 = \<lambda>_. [], rd_query = \<lambda>_. None,
     pretty_alerts = \<lambda>_ _. []\<rparr>"

definition refusal :: bytes where
  "refusal = write_frame (reply_frame (ct_codec sample_ctl) (\<lambda>_. None) (\<lambda>_ _. []) [] [] AckDenied)"

text \<open>A long event in front of a refusal, and a short one.\<close>

theorem ctl_block_result_witness:
  "snd (cmd_block sample_ctl (show_ipv4 0x0A000001) (concat (map write_frame [replicate 65537 0]) @ refusal) Silent) = Inr ()
   \<and> snd (cmd_block sample_ctl (show_ipv4 0x0A000001) (concat (map write_frame [[7, 7]]) @ refusal) Silent)
     = Inl DeniedByDaemon"
proof -
  have ip: "parse_ip (show_ipv4 a) = Some (V4 a)" for a by (simp add: parse_ip_def)
  have "list_all broadcast_frame [replicate 65537 0]"
    using long_broadcast [of "replicate 65537 0"] by simp
  moreover have "list_all broadcast_frame [[7, 7]]"
    by (simp add: broadcast_frame_def ascii_def)
  ultimately show ?thesis
    using ctl_block_result [of "[replicate 65537 0]" sample_ctl "show_ipv4 0x0A000001" "ct_codec sample_ctl" "\<lambda>_. None"
        "\<lambda>_ _. []" "[]" "[]" False "[]" Silent]
      ctl_block_result [of "[[7, 7]]" sample_ctl "show_ipv4 0x0A000001" "ct_codec sample_ctl" "\<lambda>_. None"
        "\<lambda>_ _. []" "[]" "[]" False "[]" Silent]
    by (simp add: ip ACK_ROUNDS_def refusal_def)
qed

lemma query_takes_first_frame:
  "\<lbrakk>0 < length m; length m \<le> 65536\<rbrakk> \<Longrightarrow>
     snd (cmd_query l tnow last_minutes severity json_flag (write_frame m @ rest)) = query_output l json_flag m"
  by (simp add: cmd_query_def send_command_def read_frame_length le_len_bytes32 Let_def)

section \<open>Following the events\<close>

lemma tail_lines_frames:
  "list_all (\<lambda>m. 0 < length m \<and> length m \<le> 65536) msgs \<Longrightarrow>
     tail_lines l (concat (map write_frame msgs)) = List.map_filter (format_event_capnp l) msgs"
proof (induction msgs)
  case Nil
  then show ?case by (subst tail_lines.simps) (simp add: read_exact_def map_filter_simps)
next
  case (Cons m msgs)
  then show ?case
    by (subst tail_lines.simps) (simp add: read_frame_length le_len_bytes32 Let_def map_filter_simps split: option.split)
qed

end
