(* ===== verification/Client_Link.thy ===== *)
theory Client_Link
  imports Gui Ipc_socket
begin

text \<open>
  The way of an event from the daemon (\<open>ring0d/src/ipc.rs\<close>) to the desktop client: what the bridge
  (\<open>ring0-gui/src/lib.rs\<close>) shows of it.
\<close>

section \<open>From the daemon to the client\<close>

text \<open>An event the format keeps and the reader takes.\<close>

definition carried :: "gui_libs \<Rightarrow> ring0_event \<Rightarrow> bool" where
  "carried g e \<longleftrightarrow> event_kept (gl_codec g) e \<and> 0 < length (cap_event (gl_codec g) e)
     \<and> length (cap_event (gl_codec g) e) \<le> 2 ^ 20"

definition shown :: "gui_libs \<Rightarrow> ring0_event \<Rightarrow> string option" where
  "shown g e = map_option (json_text g) (event_json e)"

lemma shown_events:
  "list_all (carried g) es \<Longrightarrow>
     List.map_filter (deserialize_to_json g) (map (cap_event (gl_codec g)) es) = List.map_filter (shown g) es"
  by (induction es) (auto simp: map_filter_simps carried_def shown_def event_shown split: option.split)

definition sample_alert :: ring0_event where
  "sample_alert = alert_event 0 7 3 ''x''"

definition alert_libs :: gui_libs where
  "alert_libs = \<lparr>gl_codec = sample_codec\<lparr>cap_event := \<lambda>_. [5], rd_event := \<lambda>f. if f = [5] then Some sample_alert else None\<rparr>,
     json_text = \<lambda>_. ''{}''\<rparr>"

end
