(* ===== verification/Loader.thy ===== *)
theory Loader
  imports Ebpf_Manager
begin

text \<open>
  How the programs get into the kernel: the loading and attaching part of \<open>EbpfManager\<close>
  (\<open>ring0d/src/ebpf.rs\<close>). What the kernel and the loader library answer is a parameter; the state
  is which programs are loaded and which links exist. The abstract \<open>load\<close> and \<open>scan_interfaces\<close> of
  \<open>Ebpf_Manager\<close> keep the interfaces of this state.
\<close>

section \<open>Interfaces and libraries of the system\<close>

text \<open>The default interface: the first route to 0.0.0.0.\<close>

definition default_interface :: "string option \<Rightarrow> string option" where
  "default_interface route =
     (case route of None \<Rightarrow> None
      | Some t \<Rightarrow> map_option (\<lambda>l. hd (split_whitespace l))
          (find (\<lambda>l. case split_whitespace l of _ # dest # _ \<Rightarrow> dest = ''00000000'' | _ \<Rightarrow> False) (drop 1 (text_lines t))))"

text \<open>The entries of \<open>/sys/class/net\<close>: name, whether there is a device link, operational state.\<close>

definition list_up_interfaces :: "(string \<times> bool \<times> string option) list option \<Rightarrow> (string \<times> bool) list" where
  "list_up_interfaces dir =
     (case dir of None \<Rightarrow> []
      | Some es \<Rightarrow> List.map_filter (\<lambda>(name, physical, operstate).
          let st = trim (unwrap_or [] operstate) in
          if name = ''lo'' then None
          else if st = ''up'' \<or> st = ''unknown'' then Some (name, physical) else None) es)"

definition ifindex_of :: "string option \<Rightarrow> u32 option" where
  "ifindex_of text = map_option (\<lambda>s. case parse_u32 (trim s) of Some n \<Rightarrow> of_nat n | None \<Rightarrow> 0) text"

definition find_bpf_object :: "(string \<Rightarrow> bool) \<Rightarrow> string \<Rightarrow> string option" where
  "find_bpf_object exists dir = find exists
     [dir @ ''/../target/bpfel-unknown-none/debug/ring0-ebpf'', dir @ ''/target/bpfel-unknown-none/debug/ring0-ebpf'',
      dir @ ''/../target/bpfel-unknown-none/release/ring0-ebpf'']"

definition push_path :: "(string \<Rightarrow> bool) \<Rightarrow> string \<Rightarrow> string list \<Rightarrow> string list" where
  "push_path exists p ps = (if exists p \<and> p \<notin> set ps then ps @ [p] else ps)"

text \<open>The path behind the last arrow of a line of \<open>ldconfig -p\<close>.\<close>

definition ldconfig_path :: "string \<Rightarrow> string option" where
  "ldconfig_path l =
     (let line = trim l in
      if find_str ''libssl.so'' line \<noteq> None
      then map_option (\<lambda>i. trim (drop (i + 3) line)) (rfind_str ''=> '' line) else None)"

definition fixed_libssl :: "string list" where
  "fixed_libssl = [''/usr/lib64/libssl.so.3'', ''/usr/lib64/libssl.so'', ''/usr/lib/x86_64-linux-gnu/libssl.so.3'',
     ''/usr/lib/x86_64-linux-gnu/libssl.so'', ''/lib64/libssl.so.3'']"

definition user_libssl :: "string list" where
  "user_libssl = [''/anaconda3/lib/libssl.so.3'', ''/miniconda3/lib/libssl.so.3'', ''/miniconda/lib/libssl.so.3'',
     ''/.local/lib/libssl.so.3'', ''/.local/lib/x86_64-linux-gnu/libssl.so.3'']"

definition find_libssl_paths :: "(string \<Rightarrow> bool) \<Rightarrow> string list option \<Rightarrow> string option \<Rightarrow> string list" where
  "find_libssl_paths exists homes ldconfig =
     (let ps = fold (push_path exists) fixed_libssl [];
          ps = fold (\<lambda>sub ps. fold (\<lambda>h. push_path exists (h @ sub)) (unwrap_or [] homes)
                 (push_path exists (''/root'' @ sub) ps)) user_libssl ps
      in case ldconfig of None \<Rightarrow> ps
         | Some t \<Rightarrow> fold (push_path exists) (List.map_filter ldconfig_path (text_lines t)) ps)"

section \<open>Programs and links\<close>

record progs =
  loaded :: "string list"
  links :: "(string \<times> string) list"

text \<open>
  What the library and the kernel answer: whether the object has a program of the right type, whether it
  is accepted, whether a second \<open>load\<close> of a loaded program succeeds, whether it can be attached to a
  target, whether the qdisc is there after the attempt to add it, and which ring buffers open.
\<close>

record answers =
  has_program :: "string \<Rightarrow> bool"
  accepts :: "string \<Rightarrow> bool"
  reload_ok :: "string \<Rightarrow> bool"
  attaches :: "string \<Rightarrow> string \<Rightarrow> bool"
  clsact_ok :: "string \<Rightarrow> bool"
  ring_opens :: "string \<Rightarrow> bool"

definition program_load :: "answers \<Rightarrow> string \<Rightarrow> progs \<Rightarrow> bool \<times> progs" where
  "program_load a prog p =
     (if prog \<in> set (loaded p) then (reload_ok a prog, p)
      else if accepts a prog then (True, p\<lparr>loaded := loaded p @ [prog]\<rparr>) else (False, p))"

definition program_attach :: "answers \<Rightarrow> string \<Rightarrow> string \<Rightarrow> progs \<Rightarrow> bool \<times> progs" where
  "program_attach a prog target p =
     (if prog \<in> set (loaded p) \<and> attaches a prog target then (True, p\<lparr>links := links p @ [(prog, target)]\<rparr>) else (False, p))"

definition load_attach :: "answers \<Rightarrow> string \<Rightarrow> string \<Rightarrow> progs \<Rightarrow> bool \<times> progs" where
  "load_attach a prog target p =
     (if \<not> has_program a prog then (False, p)
      else case program_load a prog p of (ok, p) \<Rightarrow> if ok then program_attach a prog target p else (False, p))"

text \<open>The flag is set before the program is loaded, and stays set if that fails.\<close>

definition attach_xdp :: "answers \<Rightarrow> string \<Rightarrow> bool \<times> progs \<Rightarrow> bool \<times> bool \<times> progs" where
  "attach_xdp a iface fp = (case fp of (flag, p) \<Rightarrow>
     if \<not> has_program a ''ring0_xdp'' then (False, flag, p)
     else case (if flag then (True, p) else program_load a ''ring0_xdp'' p) of (ok, p) \<Rightarrow>
       if \<not> ok then (False, True, p)
       else case program_attach a ''ring0_xdp'' iface p of (ok, p) \<Rightarrow> (ok, True, p))"

definition attach_tc :: "answers \<Rightarrow> string \<Rightarrow> progs \<Rightarrow> bool \<times> progs" where
  "attach_tc a iface p = (if \<not> clsact_ok a iface then (False, p) else load_attach a ''ring0_tc'' iface p)"

definition attach_tracepoint :: "answers \<Rightarrow> string \<Rightarrow> progs \<Rightarrow> bool \<times> progs" where
  "attach_tracepoint a name =
     (let (symbol, tp) = (if name = ''tp_btf/sched_process_exec'' then (''ring0_sched_exec'', ''sched_process_exec'')
        else if name = ''tp_btf/sys_enter'' then (''ring0_sys_enter'', ''sys_enter'') else (name, name))
      in load_attach a symbol tp)"

definition attach_lsm :: "answers \<Rightarrow> string \<Rightarrow> progs \<Rightarrow> bool \<times> progs" where
  "attach_lsm a name =
     (let (symbol, hook) = (if name = ''lsm/file_open'' then (''ring0_lsm_file_open'', ''file_open'')
        else if name = ''lsm/bprm_check'' then (''ring0_lsm_bprm_check'', ''bprm_check'')
        else if name = ''lsm/socket_connect'' then (''ring0_lsm_socket_connect'', ''socket_connect'')
        else if name = ''lsm/ptrace_access_check'' then (''ring0_lsm_ptrace'', ''ptrace_access_check'')
        else if name = ''lsm/capable'' then (''ring0_lsm_capable'', ''capable'') else (name, name))
      in load_attach a symbol hook)"

text \<open>A missing program ends the function; one of the wrong type or one that is not accepted is skipped.
  \<open>typed\<close>: the program is a uprobe.\<close>

fun attach_uprobe_pairs :: "answers \<Rightarrow> (string \<Rightarrow> bool) \<Rightarrow> string list \<Rightarrow> (string \<times> string) list \<Rightarrow> progs \<Rightarrow> bool \<times> progs" where
  "attach_uprobe_pairs a typed paths [] p = (True, p)"
| "attach_uprobe_pairs a typed paths ((symbol, fn) # pairs) p =
     (if \<not> has_program a symbol then (False, p)
      else if \<not> typed symbol then attach_uprobe_pairs a typed paths pairs p
      else case program_load a symbol p of (ok, p) \<Rightarrow>
        attach_uprobe_pairs a typed paths pairs
          (if ok then fold (\<lambda>path p. snd (program_attach a symbol (fn @ ''@'' @ path) p)) paths p else p))"

definition attach_uprobes :: "answers \<Rightarrow> (string \<Rightarrow> bool) \<Rightarrow> string list \<Rightarrow> progs \<Rightarrow> bool \<times> progs" where
  "attach_uprobes a typed paths p =
     (if paths = [] then (False, p)
      else attach_uprobe_pairs a typed paths [(''ring0_ssl_write'', ''SSL_write''), (''ring0_ssl_read'', ''SSL_read'')] p)"

section \<open>Loading\<close>

record loader =
  ld_progs :: progs
  xdp_loaded :: bool
  ld_interfaces :: "string list"
  lsm_attached :: bool
  ring_readers :: "string list"

definition no_progs :: progs where
  "no_progs = \<lparr>loaded = [], links = []\<rparr>"

definition lsm_names :: "bool \<Rightarrow> string list" where
  "lsm_names lsm_enforce = [''lsm/bprm_check'', ''lsm/socket_connect'']
     @ (if lsm_enforce then [''lsm/ptrace_access_check'', ''lsm/capable''] else [])"

definition attach_hooks :: "answers \<Rightarrow> string list \<Rightarrow> bool \<times> progs \<Rightarrow> bool \<times> progs" where
  "attach_hooks a names = fold (\<lambda>name (lsm_ok, p). case attach_lsm a name p of (ok, p) \<Rightarrow> (lsm_ok \<or> ok, p)) names"

definition attach_default :: "answers \<Rightarrow> string option \<Rightarrow> bool \<times> progs \<times> string list" where
  "attach_default a dflt =
     (case dflt of
        None \<Rightarrow> (False, no_progs, [])
      | Some iface \<Rightarrow>
          (case attach_xdp a iface (False, no_progs) of (_, flag, p) \<Rightarrow> (flag, snd (attach_tc a iface p), [iface])))"

text \<open>
  \<open>monitor\<close>: RING0_SYSCALL_MONITOR is 1. The object, BTF and the load of the object are tried before
  this; without them there is no loader, and the manager falls back.
\<close>

definition load_real ::
    "answers \<Rightarrow> (string \<Rightarrow> bool) \<Rightarrow> string option \<Rightarrow> bool \<Rightarrow> bool \<Rightarrow> string list \<Rightarrow> loader" where
  "load_real a typed dflt monitor lsm_enforce libssl =
     (let (flag, p, attached) = attach_default a dflt;
          p = snd (attach_tracepoint a ''tp_btf/sched_process_exec'' p);
          p = (if monitor then snd (attach_tracepoint a ''tp_btf/sys_enter'' p) else p);
          (lsm_ok, p) = attach_hooks a (lsm_names lsm_enforce) (False, p);
          p = snd (attach_uprobes a typed libssl p)
      in \<lparr>ld_progs = p, xdp_loaded = flag, ld_interfaces = attached, lsm_attached = lsm_ok,
          ring_readers = filter (ring_opens a) [''RING_BUF'', ''LSM_EVENTS'', ''ROOTKIT_EVENTS'', ''PRIVESC_EVENTS'']\<rparr>)"

definition load_manager ::
    "answers \<Rightarrow> (string \<Rightarrow> bool) \<Rightarrow> bool \<Rightarrow> string option \<Rightarrow> bool \<Rightarrow> bool \<Rightarrow> string list \<Rightarrow> loader option" where
  "load_manager a typed object_loads dflt monitor lsm_enforce libssl =
     (if object_loads then Some (load_real a typed dflt monitor lsm_enforce libssl) else None)"

section \<open>Scanning\<close>

text \<open>An interface not seen before gets the XDP program and, if that worked, the TC program; it is
  remembered in any case.\<close>

definition scan_iface :: "answers \<Rightarrow> string \<times> bool \<Rightarrow> loader \<Rightarrow> loader" where
  "scan_iface a ifc l =
     (if fst ifc \<in> set (ld_interfaces l) then l
      else case attach_xdp a (fst ifc) (xdp_loaded l, ld_progs l) of (ok, flag, p) \<Rightarrow>
        l\<lparr>ld_progs := (if ok then snd (attach_tc a (fst ifc) p) else p), xdp_loaded := flag,
          ld_interfaces := ld_interfaces l @ [fst ifc]\<rparr>)"

definition scan_ifaces :: "answers \<Rightarrow> (string \<times> bool) list \<Rightarrow> loader \<Rightarrow> loader" where
  "scan_ifaces a ifcs l = fold (scan_iface a) ifcs l"

text \<open>A reader thread: in each round the stop flag and the entries the ring gives until it is empty; what it
  sends to the handlers.\<close>

fun ring_reader :: "(bool \<times> bytes list) list \<Rightarrow> bytes list" where
  "ring_reader [] = []"
| "ring_reader ((stop, items) # rounds) = (if stop then [] else items @ ring_reader rounds)"

definition stop_readers :: "loader \<Rightarrow> loader" where
  "stop_readers l = l\<lparr>ring_readers := [], ld_progs := no_progs\<rparr>"

section \<open>DPI tables\<close>

record dpi_pattern =
  dp_len :: u8
  dp_data :: bytes

text \<open>\<open>table\<close>: the kernel's DPI_PATTERNS map if the object has one; \<open>ok\<close>: it takes the key.\<close>

definition sync_dpi_patterns ::
    "(nat \<Rightarrow> bool) \<Rightarrow> (nat \<times> bytes) list \<Rightarrow> (u32 \<rightharpoonup> dpi_pattern) option \<Rightarrow> nat \<times> (u32 \<rightharpoonup> dpi_pattern) option" where
  "sync_dpi_patterns ok patterns table =
     (case table of None \<Rightarrow> (0, None)
      | Some m \<Rightarrow> (case fold (\<lambda>(idx, rule_id, bs) (added, m).
            if ok idx then
              (Suc added, m(of_nat idx \<mapsto> \<lparr>dp_len = of_nat (min (length bs) 32),
                 dp_data = take 32 bs @ replicate (32 - length bs) 0\<rparr>))
            else (added, m)) (enumerate 0 patterns) (0, m) of (added, m) \<Rightarrow> (added, Some m)))"

definition set_dpi_enforce :: "bool \<Rightarrow> bool \<Rightarrow> (u32 \<rightharpoonup> u8) option \<Rightarrow> (u32 \<rightharpoonup> u8) option" where
  "set_dpi_enforce ok enforce table =
     map_option (\<lambda>m. let current = unwrap_or 0 (m 1); nxt = (if enforce then 1 else 0) in
       if current = nxt \<or> \<not> ok then m else m(1 \<mapsto> nxt)) table"

section \<open>The scans of the manager\<close>

text \<open>The interfaces the abstract manager remembers are those of the detailed one.\<close>

lemma scan_one_refined:
  "\<lbrakk>ebpf m \<noteq> None; ld_interfaces l = attached_interfaces m\<rbrakk> \<Longrightarrow>
     ebpf (scan_one idx ifc m) \<noteq> None \<and> ld_interfaces (scan_iface a ifc l) = attached_interfaces (scan_one idx ifc m)"
  by (auto simp: scan_one_def scan_iface_def Let_def split: prod.split option.splits)

lemma scan_fold_refined:
  "\<lbrakk>ebpf m \<noteq> None; ld_interfaces l = attached_interfaces m\<rbrakk> \<Longrightarrow>
     ld_interfaces (fold (scan_iface a) ifcs l) = attached_interfaces (fold (scan_one idx) ifcs m)"
  by (induction ifcs arbitrary: m l) (simp_all del: not_None_eq add: scan_one_refined)

lemma scan_refined:
  "\<lbrakk>ebpf m \<noteq> None; ld_interfaces l = attached_interfaces m\<rbrakk> \<Longrightarrow>
     ld_interfaces (scan_ifaces a ifcs l) = attached_interfaces (scan_interfaces idx ifcs m)"
  using scan_fold_refined [of m l] by (auto simp: scan_ifaces_def scan_interfaces_def)

lemma load_refined:
  "ld_interfaces (load_real a typed dflt monitor enforce libssl) = attached_interfaces (load (Some k) dflt)"
  by (simp add: load_real_def load_def attach_default_def Let_def split: option.split prod.split)

section \<open>Links\<close>

definition links_of :: "string \<Rightarrow> progs \<Rightarrow> (string \<times> string) list" where
  "links_of s p = filter (\<lambda>l. fst l = s) (links p)"

text \<open>What a step leaves alone: the links of a program and whether it is loaded.\<close>

definition keeps :: "string \<Rightarrow> progs \<Rightarrow> progs \<Rightarrow> bool" where
  "keeps s p p' \<longleftrightarrow> links_of s p' = links_of s p \<and> (s \<in> set (loaded p') \<longleftrightarrow> s \<in> set (loaded p))"

lemma keeps_refl [simp]: "keeps s p p" by (simp add: keeps_def)

lemma keeps_trans: "keeps s p q \<Longrightarrow> keeps s q r \<Longrightarrow> keeps s p r" by (simp add: keeps_def)

lemma keeps_load: "prog \<noteq> s \<Longrightarrow> keeps s p (snd (program_load a prog p))"
  by (auto simp: keeps_def program_load_def links_of_def)

lemma keeps_attach: "prog \<noteq> s \<Longrightarrow> keeps s p (snd (program_attach a prog t p))"
  by (auto simp: keeps_def program_attach_def links_of_def)

lemma keeps_load_attach: "prog \<noteq> s \<Longrightarrow> keeps s p (snd (load_attach a prog t p))"
  using keeps_load [of prog s p a] keeps_attach [of prog s "snd (program_load a prog p)" a t]
  by (auto simp: load_attach_def split: prod.splits intro: keeps_trans)

lemma keeps_uprobes:
  "list_all (\<lambda>(prog, fn). prog \<noteq> s) pairs \<Longrightarrow> keeps s p (snd (attach_uprobe_pairs a typed paths pairs p))"
proof (induction a typed paths pairs p rule: attach_uprobe_pairs.induct)
  case (2 a typed paths symbol fn pairs p)
  have all: "keeps s q (fold (\<lambda>path p. snd (program_attach a symbol (fn @ ''@'' @ path) p)) paths q)" for q
    using 2(3) by (induction paths arbitrary: q) (auto intro: keeps_trans keeps_attach)
  obtain ok q where q: "program_load a symbol p = (ok, q)" by fastforce
  have "keeps s p q" using keeps_load [of symbol s p a] 2(3) q by simp
  then have "keeps s p (if ok then fold (\<lambda>path p. snd (program_attach a symbol (fn @ ''@'' @ path) p)) paths q else q)"
    using all keeps_trans by auto
  then show ?case using 2 q by (auto intro: keeps_trans)
qed simp

lemma keeps_hooks:
  "list_all (\<lambda>n. \<forall>p. keeps s p (snd (attach_lsm a n p))) names \<Longrightarrow> keeps s (snd q) (snd (attach_hooks a names q))"
proof (induction names arbitrary: q)
  case (Cons n names)
  obtain b p where q: "q = (b, p)" by fastforce
  obtain ok p' where p': "attach_lsm a n p = (ok, p')" by fastforce
  have "keeps s p p'" using Cons.prems p' by (metis list.pred_inject(2) snd_conv)
  moreover have "keeps s p' (snd (attach_hooks a names (b \<or> ok, p')))" using Cons.IH [of "(b \<or> ok, p')"] Cons.prems by simp
  ultimately show ?case using p' by (simp add: attach_hooks_def q) (rule keeps_trans)
qed (simp add: attach_hooks_def)

text \<open>Programs of the traffic hooks are not touched by the other hooks.\<close>

definition traffic :: "string \<Rightarrow> bool" where
  "traffic s \<longleftrightarrow> s = ''ring0_xdp'' \<or> s = ''ring0_tc''"

lemma keeps_tracepoint:
  "\<lbrakk>traffic s; n = ''tp_btf/sched_process_exec'' \<or> n = ''tp_btf/sys_enter''\<rbrakk> \<Longrightarrow> keeps s p (snd (attach_tracepoint a n p))"
  by (auto simp: attach_tracepoint_def traffic_def intro!: keeps_load_attach)

lemma keeps_all_hooks: "traffic s \<Longrightarrow> keeps s (snd q) (snd (attach_hooks a (lsm_names enforce) q))"
  by (intro keeps_hooks) (auto simp: lsm_names_def attach_lsm_def traffic_def intro!: keeps_load_attach)

lemma keeps_all_uprobes: "traffic s \<Longrightarrow> keeps s p (snd (attach_uprobes a typed libssl p))"
  by (auto simp: attach_uprobes_def traffic_def simp del: attach_uprobe_pairs.simps intro!: keeps_uprobes)

lemma load_real_keeps:
  assumes "traffic s" and "attach_default a dflt = (flag, p, attached)"
  shows "keeps s p (ld_progs (load_real a typed dflt monitor enforce libssl))"
proof -
  let ?p1 = "snd (attach_tracepoint a ''tp_btf/sched_process_exec'' p)"
  let ?p2 = "if monitor then snd (attach_tracepoint a ''tp_btf/sys_enter'' ?p1) else ?p1"
  let ?q = "attach_hooks a (lsm_names enforce) (False, ?p2)"
  have "keeps s p ?p2" using assms(1) by (auto intro: keeps_tracepoint keeps_trans)
  moreover have "keeps s ?p2 (snd ?q)" using keeps_all_hooks [OF assms(1), of "(False, ?p2)"] by simp
  moreover have "keeps s (snd ?q) (snd (attach_uprobes a typed libssl (snd ?q)))" by (rule keeps_all_uprobes [OF assms(1)])
  moreover have "ld_progs (load_real a typed dflt monitor enforce libssl) = snd (attach_uprobes a typed libssl (snd ?q))"
    by (simp add: load_real_def assms(2) case_prod_unfold Let_def)
  ultimately show ?thesis by (auto intro: keeps_trans)
qed

section \<open>Which interfaces are filtered\<close>

definition covers :: "answers \<Rightarrow> string set \<Rightarrow> bool \<Rightarrow> progs \<Rightarrow> bool" where
  "covers a S flag p \<longleftrightarrow>
     set (links_of ''ring0_xdp'' p) = Pair ''ring0_xdp'' ` {i \<in> S. attaches a ''ring0_xdp'' i}
     \<and> (flag \<longleftrightarrow> ''ring0_xdp'' \<in> set (loaded p))
     \<and> length (links_of ''ring0_tc'' p) \<le> (if ''ring0_tc'' \<in> set (loaded p) then 1 else 0)"

lemma covers_keeps:
  "\<lbrakk>covers a S flag p; keeps ''ring0_xdp'' p q; keeps ''ring0_tc'' p q\<rbrakk> \<Longrightarrow> covers a S flag q"
  by (auto simp: covers_def keeps_def)

lemma covers_xdp:
  assumes "covers a S flag p" and "has_program a ''ring0_xdp''" and "accepts a ''ring0_xdp''"
    and "attach_xdp a i (flag, p) = (ok, flag', p')"
  shows "covers a (insert i S) flag' p' \<and> flag'"
proof -
  obtain q where q: "(if flag then (True, p) else program_load a ''ring0_xdp'' p) = (True, q)" "covers a S True q"
    using assms(1,3) by (cases flag) (auto simp: covers_def program_load_def links_of_def)
  then have "flag'" "p' = snd (program_attach a ''ring0_xdp'' i q)"
    using assms(2,4) by (auto simp: attach_xdp_def split: prod.splits)
  then show ?thesis using q(2) by (auto simp: covers_def program_attach_def links_of_def)
qed

lemma covers_tc:
  assumes "covers a S flag p" and "\<not> reload_ok a ''ring0_tc''"
  shows "covers a S flag (snd (attach_tc a i p))"
  using assms
  by (auto simp: covers_def attach_tc_def load_attach_def program_load_def program_attach_def links_of_def
      split: prod.splits if_splits)

definition covered :: "answers \<Rightarrow> loader \<Rightarrow> bool" where
  "covered a l \<longleftrightarrow> covers a (set (ld_interfaces l)) (xdp_loaded l) (ld_progs l)"

lemma covered_scan:
  assumes "covered a l" and "has_program a ''ring0_xdp''" and "accepts a ''ring0_xdp''" and "\<not> reload_ok a ''ring0_tc''"
  shows "covered a (scan_iface a ifc l) \<and> set (ld_interfaces (scan_iface a ifc l)) = insert (fst ifc) (set (ld_interfaces l))"
proof -
  obtain ok flag p where x: "attach_xdp a (fst ifc) (xdp_loaded l, ld_progs l) = (ok, flag, p)" by (metis prod_cases3)
  have "covers a (insert (fst ifc) (set (ld_interfaces l))) flag p"
    using covers_xdp [OF assms(1) [unfolded covered_def] assms(2,3) x] ..
  then show ?thesis
    using assms(1,4) x by (auto simp: scan_iface_def covered_def covers_tc insert_absorb)
qed

lemma covered_scans:
  assumes "covered a l" and "has_program a ''ring0_xdp''" and "accepts a ''ring0_xdp''" and "\<not> reload_ok a ''ring0_tc''"
  shows "covered a (fold (scan_ifaces a) scans l)
    \<and> set (ld_interfaces (fold (scan_ifaces a) scans l)) = set (ld_interfaces l) \<union> fst ` set (concat scans)"
proof -
  have one: "covered a l \<Longrightarrow> covered a (fold (scan_iface a) ifcs l)
      \<and> set (ld_interfaces (fold (scan_iface a) ifcs l)) = set (ld_interfaces l) \<union> fst ` set ifcs" for ifcs l
    by (induction ifcs arbitrary: l) (auto simp: covered_scan [OF _ assms(2-4)])
  have "fold (scan_ifaces a) scans l = fold (scan_iface a) (concat scans) l"
    by (induction scans arbitrary: l) (simp_all add: scan_ifaces_def)
  then show ?thesis using one assms(1) by simp
qed

lemma covered_load:
  assumes "has_program a ''ring0_xdp''" and "accepts a ''ring0_xdp''" and "\<not> reload_ok a ''ring0_tc''"
  shows "covered a (load_real a typed dflt monitor enforce libssl)
    \<and> set (ld_interfaces (load_real a typed dflt monitor enforce libssl)) = set_option dflt"
proof -
  obtain flag p attached where d: "attach_default a dflt = (flag, p, attached)" by (metis prod_cases3)
  have start: "covers a {} False no_progs" by (simp add: covers_def no_progs_def links_of_def)
  have "covers a (set_option dflt) flag p \<and> set attached = set_option dflt"
  proof (cases dflt)
    case None
    then show ?thesis using d start by (simp add: attach_default_def)
  next
    case (Some i)
    obtain ok flag' p' where x: "attach_xdp a i (False, no_progs) = (ok, flag', p')" by (metis prod_cases3)
    from covers_xdp [OF start assms(1,2) x] covers_tc [OF _ assms(3)] show ?thesis
      using d x Some by (auto simp: attach_default_def)
  qed
  moreover have "keeps s p (ld_progs (load_real a typed dflt monitor enforce libssl))" if "traffic s" for s
    using load_real_keeps [OF that d] .
  moreover have "xdp_loaded (load_real a typed dflt monitor enforce libssl) = flag"
    "ld_interfaces (load_real a typed dflt monitor enforce libssl) = attached"
    by (simp_all add: load_real_def d case_prod_unfold Let_def)
  ultimately show ?thesis by (auto simp: covered_def traffic_def intro: covers_keeps)
qed

text \<open>
  Claim C37. Which interfaces are filtered. When the library refuses to load a loaded program again, as it
  documents, then after the start and any number of scans the XDP program is linked to exactly the default
  interface and the up interfaces seen so far that take it, but the TC program is linked to at most one
  interface of all.
\<close>

theorem interfaces_filtered:
  assumes "has_program a ''ring0_xdp''" and "accepts a ''ring0_xdp''" and "\<not> reload_ok a ''ring0_tc''"
  shows "set (links_of ''ring0_xdp'' (ld_progs (fold (scan_ifaces a) scans (load_real a typed dflt monitor enforce libssl))))
      = Pair ''ring0_xdp'' ` {i \<in> set_option dflt \<union> fst ` set (concat scans). attaches a ''ring0_xdp'' i}
    \<and> length (links_of ''ring0_tc'' (ld_progs (fold (scan_ifaces a) scans (load_real a typed dflt monitor enforce libssl)))) \<le> 1"
proof -
  let ?l = "load_real a typed dflt monitor enforce libssl"
  have l: "covered a ?l" "set (ld_interfaces ?l) = set_option dflt" using covered_load [OF assms] by auto
  have "covered a (fold (scan_ifaces a) scans ?l)"
    "set (ld_interfaces (fold (scan_ifaces a) scans ?l)) = set_option dflt \<union> fst ` set (concat scans)"
    using covered_scans [OF l(1) assms] l(2) by auto
  then show ?thesis by (simp add: covered_def covers_def split: if_split_asm)
qed

definition willing :: answers where
  "willing = \<lparr>has_program = \<lambda>_. True, accepts = \<lambda>_. True, reload_ok = \<lambda>_. False, attaches = \<lambda>_ _. True,
     clsact_ok = \<lambda>_. True, ring_opens = \<lambda>_. True\<rparr>"

theorem interfaces_filtered_witness:
  "set (links_of ''ring0_xdp'' (ld_progs (fold (scan_ifaces willing) [[(''wlan0'', True)]] (load_real willing (\<lambda>_. True) (Some ''eth0'') False False []))))
      = {(''ring0_xdp'', ''eth0''), (''ring0_xdp'', ''wlan0'')}
    \<and> length (links_of ''ring0_tc'' (ld_progs (fold (scan_ifaces willing) [[(''wlan0'', True)]] (load_real willing (\<lambda>_. True) (Some ''eth0'') False False [])))) \<le> 1"
  using interfaces_filtered [of willing "[[(''wlan0'', True)]]" "\<lambda>_. True" "Some ''eth0''" False False "[]"]
  by (auto simp: willing_def)

end
