(* ===== verification/Fim.thy ===== *)
theory Fim
  imports Baseline Alist_Facts
begin

text \<open>
  The file integrity monitor, \<open>ring0d/src/fim.rs\<close>: hashes of the files of a few directories, kept in
  memory and in the \<open>fim_baseline\<close> column family. The files are a parameter; SHA-256 is the argument
  \<open>sha\<close>. The in-memory table is an association list. Sizes are natural numbers: the total stays below
  2 ^ 30 (\<open>fim_scan_exact\<close>), so the saturating sums of the code never saturate. The pauses between
  batches are left out.
\<close>

section \<open>Files\<close>

definition FIM_DIRS :: "string list" where
  "FIM_DIRS = [''/etc/pam.d'', ''/etc/security'', ''/etc/ssh'', ''/usr/bin'', ''/usr/sbin'', ''/usr/lib64'', ''/usr/lib'']"

definition MAX_FIM_BASELINE_BYTES :: nat where "MAX_FIM_BASELINE_BYTES = 512 * 1024 * 1024"

definition MAX_FIM_FILE_SIZE :: nat where "MAX_FIM_FILE_SIZE = 256 * 1024 * 1024"

text \<open>What reading a file gives: \<open>None\<close> if it cannot be opened, else its bytes and whether an error follows.\<close>

type_synonym file_read = "(bytes \<times> bool) option"

text \<open>A directory entry: is it a regular file, its size if there is metadata, and its content.\<close>

record fim_entry =
  fe_name :: string
  fe_regular :: bool
  fe_size :: "nat option"
  fe_data :: file_read

record fim_fs =
  ff_is_dir :: "string \<Rightarrow> bool"
  ff_entries :: "string \<Rightarrow> fim_entry list option"

definition is_elf_file :: "file_read \<Rightarrow> bool" where
  "is_elf_file d = (case d of Some (bs, _) \<Rightarrow> take 4 bs = [0x7F, 0x45, 0x4C, 0x46] | None \<Rightarrow> False)"

definition sha256_file :: "(bytes \<Rightarrow> bytes) \<Rightarrow> file_read \<Rightarrow> bytes option" where
  "sha256_file sha d = (case d of Some (bs, failed) \<Rightarrow> if failed then None else Some (sha bs) | None \<Rightarrow> None)"

section \<open>The engine\<close>

record fim_engine =
  fi_baseline :: "(string \<times> bytes) list"
  fi_cf :: column_family
  fi_enabled :: bool

definition entry_path :: "string \<Rightarrow> fim_entry \<Rightarrow> string" where
  "entry_path dir e = dir @ ''/'' @ fe_name e"

definition under_etc :: "string \<Rightarrow> bool" where
  "under_etc dir \<longleftrightarrow> strip_prefix ''/'' dir \<noteq> None \<and> (case path_components dir of c # _ \<Rightarrow> c = ''etc'' | [] \<Rightarrow> False)"

text \<open>The tests that skip an entry.\<close>

definition skipped :: "string \<Rightarrow> fim_entry \<Rightarrow> bool" where
  "skipped dir e \<longleftrightarrow> \<not> fe_regular e
     \<or> (case fe_size e of Some n \<Rightarrow> MAX_FIM_FILE_SIZE < n | None \<Rightarrow> False)
     \<or> \<not> under_etc dir \<and> (\<not> is_elf_file (fe_data e) \<or> find_str ''.so'' (entry_path dir e) \<noteq> None)"

fun hash_entries ::
    "(bytes \<Rightarrow> bytes) \<Rightarrow> string \<Rightarrow> nat \<Rightarrow> fim_entry list \<Rightarrow> nat \<times> nat \<times> (string \<times> bytes) list
      \<Rightarrow> nat \<times> nat \<times> (string \<times> bytes) list" where
  "hash_entries sha dir budget_used [] st = st"
| "hash_entries sha dir budget_used (e # es) (count, bytes, m) =
     (if skipped dir e then hash_entries sha dir budget_used es (count, bytes, m)
      else if MAX_FIM_BASELINE_BYTES \<le> budget_used + bytes then (count, bytes, m)
      else case sha256_file sha (fe_data e) of
        None \<Rightarrow> hash_entries sha dir budget_used es (count, bytes, m)
      | Some h \<Rightarrow> hash_entries sha dir budget_used es
          (Suc count, bytes + unwrap_or 0 (fe_size e), AList.update (entry_path dir e) h m))"

definition hash_directory ::
    "(bytes \<Rightarrow> bytes) \<Rightarrow> fim_fs \<Rightarrow> string \<Rightarrow> (string \<times> bytes) list \<Rightarrow> nat \<Rightarrow> nat \<times> nat \<times> (string \<times> bytes) list" where
  "hash_directory sha fs dir m budget_used =
     (case ff_entries fs dir of None \<Rightarrow> (0, 0, m) | Some es \<Rightarrow> hash_entries sha dir budget_used es (0, 0, m))"

fun scan_dirs ::
    "(bytes \<Rightarrow> bytes) \<Rightarrow> fim_fs \<Rightarrow> string list \<Rightarrow> nat \<times> nat \<times> (string \<times> bytes) list
      \<Rightarrow> nat \<times> nat \<times> (string \<times> bytes) list" where
  "scan_dirs sha fs [] st = st"
| "scan_dirs sha fs (dir # dirs) (count, hashed, m) =
     (if \<not> ff_is_dir fs dir then scan_dirs sha fs dirs (count, hashed, m)
      else if MAX_FIM_BASELINE_BYTES \<le> hashed then (count, hashed, m)
      else case hash_directory sha fs dir m hashed of
        (n, bytes, m) \<Rightarrow> scan_dirs sha fs dirs (count + n, hashed + bytes, m))"

definition persist_baseline :: "(string \<times> bytes) list \<Rightarrow> column_family \<Rightarrow> column_family" where
  "persist_baseline m cf = map_option (fold (\<lambda>(path, hash) db. db(ascii path \<mapsto> hash)) m) cf"

definition scan_and_baseline :: "(bytes \<Rightarrow> bytes) \<Rightarrow> fim_fs \<Rightarrow> fim_engine \<Rightarrow> nat \<times> fim_engine" where
  "scan_and_baseline sha fs f =
     (case scan_dirs sha fs FIM_DIRS (0, 0, []) of
        (count, _, m) \<Rightarrow> (count, f\<lparr>fi_baseline := m, fi_cf := persist_baseline m (fi_cf f)\<rparr>))"

text \<open>\<open>listing\<close> is what the iterator over the column family yields.\<close>

definition load_persisted_baseline :: "(bytes \<times> bytes) option list \<Rightarrow> (string \<times> bytes) list" where
  "load_persisted_baseline listing =
     fold (\<lambda>r m. case r of Some (key, val) \<Rightarrow> AList.update (from_utf8_lossy key) val m | None \<Rightarrow> m) listing []"

definition fim_new :: "column_family \<Rightarrow> (bytes \<times> bytes) option list \<Rightarrow> fim_engine" where
  "fim_new cf listing =
     \<lparr>fi_baseline = (if cf = None then [] else load_persisted_baseline listing), fi_cf = cf, fi_enabled = True\<rparr>"

definition fim_message :: "string \<Rightarrow> string" where
  "fim_message path = ''FIM: file '' @ path @ '' has been modified  -  hash mismatch''"

definition verify_file :: "(bytes \<Rightarrow> bytes) \<Rightarrow> (string \<Rightarrow> file_read) \<Rightarrow> fim_engine \<Rightarrow> string \<Rightarrow> string option" where
  "verify_file sha files f path =
     (if \<not> fi_enabled f then None
      else case map_of (fi_baseline f) path of None \<Rightarrow> None
      | Some stored \<Rightarrow> (case sha256_file sha (files path) of None \<Rightarrow> None
          | Some current \<Rightarrow> if current \<noteq> stored then Some (fim_message path) else None))"

definition fim_enable :: "bool \<Rightarrow> fim_engine \<Rightarrow> fim_engine" where
  "fim_enable b f = f\<lparr>fi_enabled := b\<rparr>"

section \<open>The budget\<close>

text \<open>The files the scan would hash if it had time for all, with hash and size, in its order.\<close>

definition dir_candidates :: "(bytes \<Rightarrow> bytes) \<Rightarrow> string \<Rightarrow> fim_entry list \<Rightarrow> (string \<times> bytes \<times> nat) list" where
  "dir_candidates sha dir = List.map_filter (\<lambda>e. if skipped dir e then None
     else map_option (\<lambda>h. (entry_path dir e, h, unwrap_or 0 (fe_size e))) (sha256_file sha (fe_data e)))"

definition candidates :: "(bytes \<Rightarrow> bytes) \<Rightarrow> fim_fs \<Rightarrow> string list \<Rightarrow> (string \<times> bytes \<times> nat) list" where
  "candidates sha fs dirs = concat (map (\<lambda>d. dir_candidates sha d (unwrap_or [] (ff_entries fs d))) (filter (ff_is_dir fs) dirs))"

text \<open>Those before the budget is used up.\<close>

fun within :: "nat \<Rightarrow> (string \<times> bytes \<times> nat) list \<Rightarrow> (string \<times> bytes \<times> nat) list" where
  "within used [] = []"
| "within used (c # cs) = (if MAX_FIM_BASELINE_BYTES \<le> used then [] else c # within (used + snd (snd c)) cs)"

definition sizes :: "(string \<times> bytes \<times> nat) list \<Rightarrow> nat" where
  "sizes cs = sum_list (map (snd \<circ> snd) cs)"

lemma sizes_simps [simp]: "sizes [] = 0" "sizes (c # cs) = snd (snd c) + sizes cs" "sizes (as @ bs) = sizes as + sizes bs"
  by (simp_all add: sizes_def)

definition record_files :: "(string \<times> bytes \<times> nat) list \<Rightarrow> (string \<times> bytes) list \<Rightarrow> (string \<times> bytes) list" where
  "record_files cs m = fold (\<lambda>(p, h, n). AList.update p h) cs m"

lemma record_files_append: "record_files (as @ bs) m = record_files bs (record_files as m)"
  by (simp add: record_files_def)

lemma within_full: "MAX_FIM_BASELINE_BYTES \<le> used \<Longrightarrow> within used cs = []"
  by (cases cs) simp_all

lemma within_append: "within used (as @ bs) = within used as @ within (used + sizes (within used as)) bs"
  by (induction as arbitrary: used) (simp_all add: within_full add.assoc)

lemma within_small:
  "\<lbrakk>list_all (\<lambda>c. snd (snd c) \<le> MAX_FIM_FILE_SIZE) cs; used < MAX_FIM_BASELINE_BYTES + MAX_FIM_FILE_SIZE\<rbrakk>
     \<Longrightarrow> used + sizes (within used cs) < MAX_FIM_BASELINE_BYTES + MAX_FIM_FILE_SIZE"
proof (induction cs arbitrary: used)
  case (Cons c cs)
  show ?case
  proof (cases "MAX_FIM_BASELINE_BYTES \<le> used")
    case False
    then show ?thesis using Cons.IH [of "used + snd (snd c)"] Cons.prems by simp
  qed (use Cons.prems in simp)
qed simp

lemma candidates_small: "list_all (\<lambda>c. snd (snd c) \<le> MAX_FIM_FILE_SIZE) (candidates sha fs dirs)"
  by (auto simp: list_all_iff candidates_def dir_candidates_def List.map_filter_def skipped_def unwrap_or_def
      split: option.splits if_splits)

lemma dir_candidates_Cons:
  "dir_candidates sha dir (e # es) =
     (if skipped dir e then [] else case sha256_file sha (fe_data e) of None \<Rightarrow> []
      | Some h \<Rightarrow> [(entry_path dir e, h, unwrap_or 0 (fe_size e))]) @ dir_candidates sha dir es"
  by (simp add: dir_candidates_def map_filter_simps split: option.split)

lemma hash_entries_within:
  "hash_entries sha dir used es (count, bytes, m) =
     (let cs = within (used + bytes) (dir_candidates sha dir es) in
      (count + length cs, bytes + sizes cs, record_files cs m))"
proof (induction es arbitrary: count bytes m)
  case Nil
  then show ?case by (simp add: dir_candidates_def record_files_def map_filter_simps)
next
  case (Cons e es)
  then show ?case
    by (auto simp: dir_candidates_Cons within_full record_files_def Let_def add.assoc split: option.split)
qed

lemma scan_dirs_within:
  "scan_dirs sha fs dirs (count, hashed, m) =
     (let cs = within hashed (candidates sha fs dirs) in (count + length cs, hashed + sizes cs, record_files cs m))"
proof (induction dirs arbitrary: count hashed m)
  case Nil
  then show ?case by (simp add: candidates_def record_files_def)
next
  case (Cons d ds)
  have cons: "candidates sha fs (d # ds) =
      (if ff_is_dir fs d then dir_candidates sha d (unwrap_or [] (ff_entries fs d)) else []) @ candidates sha fs ds"
    by (simp add: candidates_def)
  have dir: "hash_directory sha fs d m hashed =
      (let cs = within hashed (dir_candidates sha d (unwrap_or [] (ff_entries fs d))) in (length cs, sizes cs, record_files cs m))"
    by (simp add: hash_directory_def hash_entries_within unwrap_or_def dir_candidates_def record_files_def map_filter_simps
        split: option.split)
  show ?case
    by (simp add: cons dir Cons Let_def within_append within_full record_files_append add.assoc)
      (simp add: within_full record_files_def)
qed

lemma record_files_lookup: "map_of (record_files cs m) p = (map_of m ++ map_of (rev (map (\<lambda>(p, h, n). (p, h)) cs))) p"
proof (induction cs arbitrary: m)
  case (Cons c cs)
  obtain q h n where c: "c = (q, h, n)" by (metis prod_cases3)
  have "record_files (c # cs) m = record_files cs (AList.update q h m)" by (simp add: record_files_def c)
  then show ?case using Cons [of "AList.update q h m"] by (simp add: c update_conv' map_add_def split: option.split)
qed (simp add: record_files_def)

text \<open>
  Claim C38. The integrity monitor after a scan. The scan hashes the files of its directories that it does
  not skip, in order, up to the first for which half a gigabyte is already used, so never more than
  768 MB, and counts them. From then on a check of a file reports exactly the change of a hashed file
  that can still be read, while the engine is enabled.
\<close>

theorem fim_scan_exact:
  "case within 0 (candidates sha fs FIM_DIRS) of cs \<Rightarrow>
     fst (scan_and_baseline sha fs f) = length cs
     \<and> sizes cs < 768 * 1024 * 1024
     \<and> verify_file sha files (snd (scan_and_baseline sha fs f)) p =
         (case (map_of (rev (map (\<lambda>(p, h, n). (p, h)) cs)) p, sha256_file sha (files p)) of
            (Some h, Some h') \<Rightarrow> if fi_enabled f \<and> h' \<noteq> h then Some (fim_message p) else None
          | _ \<Rightarrow> None)"
proof -
  have "sizes (within 0 (candidates sha fs FIM_DIRS)) < 768 * 1024 * 1024"
    using within_small [OF candidates_small, of 0] by (simp add: MAX_FIM_BASELINE_BYTES_def MAX_FIM_FILE_SIZE_def)
  then show ?thesis
    by (simp add: scan_and_baseline_def scan_dirs_within Let_def verify_file_def record_files_lookup split: option.split)
qed

section \<open>The database\<close>

lemma ascii_inj: "ascii a = ascii b \<longleftrightarrow> a = b"
  by (metis chr8_ascii)

lemma persist_other: "p \<notin> fst ` set m \<Longrightarrow> fold (\<lambda>(path, hash) db. db(ascii path \<mapsto> hash)) m db (ascii p) = db (ascii p)"
  by (induction m arbitrary: db) (auto simp: ascii_inj)

text \<open>A file the scan does not see any more keeps its old hash in the database, from where a restart
  takes it.\<close>

lemma fim_stale:
  assumes "fi_cf f = Some db" and "map_of (fi_baseline (snd (scan_and_baseline sha fs f))) p = None"
  shows "\<exists>db'. fi_cf (snd (scan_and_baseline sha fs f)) = Some db' \<and> db' (ascii p) = db (ascii p)"
  using assms by (auto simp: scan_and_baseline_def persist_baseline_def map_of_eq_None_iff persist_other split: prod.splits)

end
