(* ===== verification/Intel.thy ===== *)
theory Intel
  imports Baseline "HOL-Library.Product_Lexorder"
begin

text \<open>
  The intelligence feeds, \<open>ring0d/src/intel.rs\<close>: address lists downloaded every hour, the count of
  YARA files and the scan that is not implemented. HTTP answers, the clock and the YARA directory are
  parameters. The channel that tells of a synchronization is the flag \<open>im_synced\<close>.
\<close>

section \<open>State\<close>

record feed_state =
  fs_name :: string
  fs_added :: u32
  fs_total :: u32
  fs_last_sync :: string
  fs_success :: bool
  fs_error :: string

record intel =
  im_yara_count :: u32
  im_blocklist :: "(u32 \<times> u8) list"
  im_states :: "feed_state list"
  im_synced :: bool
  im_cf :: column_family

definition intel_new :: "column_family \<Rightarrow> intel" where
  "intel_new cf = \<lparr>im_yara_count = 0, im_blocklist = [], im_states = [], im_synced = False, im_cf = cf\<rparr>"

section \<open>YARA files\<close>

text \<open>The extension of a file name: behind its last dot, unless that is its first character.\<close>

definition extension :: "string \<Rightarrow> string option" where
  "extension name = (case rfind_str ''.'' name of Some i \<Rightarrow> if i = 0 then None else Some (drop (Suc i) name) | None \<Rightarrow> None)"

text \<open>\<open>exists\<close>: the directory is there; \<open>created\<close>: else it could be created; \<open>names\<close>: its files, if it
  can be read.\<close>

definition load_yara_rules :: "bool \<Rightarrow> bool \<Rightarrow> string list option \<Rightarrow> intel \<Rightarrow> u32 option \<times> intel" where
  "load_yara_rules exists created names s =
     (if \<not> exists then (if created then Some 0 else None, s)
      else let n = of_nat (length (filter (\<lambda>f. extension f = Some ''yar'' \<or> extension f = Some ''yara'') (unwrap_or [] names)))
        in (Some n, s\<lparr>im_yara_count := n\<rparr>))"

definition scan_binary :: "string \<Rightarrow> string + string list" where
  "scan_binary path = Inl ''YARA engine not implemented  -  binary was not scanned''"

section \<open>Feeds\<close>

definition FEED_NAMES :: "string list" where
  "FEED_NAMES = [''feodo'', ''urlhaus'', ''sslbl'']"

definition INTEL_FEED_BYTES :: nat where "INTEL_FEED_BYTES = 64 * 1024 * 1024"

text \<open>What the server gives: an error, or the stated length and the chunks of the body, the last of which
  may be an error.\<close>

type_synonym http_answer = "string + u64 option \<times> (string + bytes) list"

fun read_chunks :: "(string + bytes) list \<Rightarrow> bytes \<Rightarrow> string + bytes" where
  "read_chunks [] body = Inr body"
| "read_chunks (Inr chunk # cs) body =
     (if INTEL_FEED_BYTES < length body + length chunk
      then Inl (''feed exceeds '' @ show_nat INTEL_FEED_BYTES @ '' byte cap'') else read_chunks cs (body @ chunk))"
| "read_chunks (Inl e # cs) body = Inl (''Failed to read response body: '' @ e)"

definition feed_body :: "http_answer \<Rightarrow> string + bytes" where
  "feed_body r =
     (case r of
        Inl e \<Rightarrow> Inl (''HTTP request failed: '' @ e)
      | Inr (content_length, chunks) \<Rightarrow>
          (case content_length of
             Some cl \<Rightarrow> if INTEL_FEED_BYTES < unat cl then Inl (''feed too large: '' @ show_nat (unat cl) @ '' bytes'')
                        else read_chunks chunks []
           | None \<Rightarrow> read_chunks chunks []))"

definition feed_lines :: "bytes \<Rightarrow> string list" where
  "feed_lines body = filter (\<lambda>l. l \<noteq> [] \<and> hd l \<noteq> CHR ''#'') (map trim (take 10000 (text_lines (from_utf8_lossy body))))"

definition feed_entry :: "string \<Rightarrow> (u32 \<times> u8) option" where
  "feed_entry line = map_option (\<lambda>ip. (ip, 32)) (parse_ipv4 (trim (hd (split_on CHR '','' line))))"

definition feed_entries :: "bytes \<Rightarrow> (u32 \<times> u8) list" where
  "feed_entries body = List.map_filter feed_entry (feed_lines body)"

definition feed_record :: "nat \<Rightarrow> string \<Rightarrow> string" where
  "feed_record n time = ''{'' @ [CHR 0x22] @ ''entries'' @ [CHR 0x22] @ '':'' @ show_nat n @ '','' @ [CHR 0x22] @ ''time''
     @ [CHR 0x22] @ '':'' @ [CHR 0x22] @ time @ [CHR 0x22] @ ''}''"

text \<open>\<open>time\<close>: the current time as the state shows it.\<close>

definition sync_single_feed :: "string \<Rightarrow> string \<Rightarrow> http_answer \<Rightarrow> intel \<Rightarrow> feed_state \<times> intel" where
  "sync_single_feed time name answer s =
     (case feed_body answer of
        Inl e \<Rightarrow> (\<lparr>fs_name = name, fs_added = 0, fs_total = 0, fs_last_sync = time, fs_success = False, fs_error = e\<rparr>, s)
      | Inr body \<Rightarrow>
          let entries = feed_entries body;
              list = (if entries = [] then im_blocklist s else remdups_adj (sort (im_blocklist s @ entries)))
          in (\<lparr>fs_name = name, fs_added = of_nat (length entries), fs_total = of_nat (length (feed_lines body)),
                fs_last_sync = time, fs_success = True, fs_error = []\<rparr>,
              s\<lparr>im_blocklist := list,
                im_cf := map_option (\<lambda>db. db(ascii (''feed:'' @ name) \<mapsto> ascii (feed_record (length entries) time))) (im_cf s)\<rparr>))"

definition sync_feeds :: "string \<Rightarrow> (string \<Rightarrow> http_answer) \<Rightarrow> intel \<Rightarrow> feed_state list \<times> intel" where
  "sync_feeds time answers s =
     (case fold (\<lambda>name (states, s). case sync_single_feed time name (answers name) s of
          (st, s) \<Rightarrow> (states @ [st], s)) FEED_NAMES ([], s) of
        (states, s) \<Rightarrow> (states, s\<lparr>im_states := states, im_synced := True\<rparr>))"

section \<open>The block list\<close>

text \<open>The addresses of an answer.\<close>

definition answer_entries :: "http_answer \<Rightarrow> (u32 \<times> u8) set" where
  "answer_entries r = (case feed_body r of Inr body \<Rightarrow> set (feed_entries body) | Inl _ \<Rightarrow> {})"

definition list_exact :: "(u32 \<times> u8) set \<Rightarrow> intel \<Rightarrow> bool" where
  "list_exact S s \<longleftrightarrow> sorted (im_blocklist s) \<and> distinct (im_blocklist s) \<and> set (im_blocklist s) = S"

lemma distinct_dedup: "sorted xs \<Longrightarrow> distinct (remdups_adj xs)"
  by (induction xs rule: remdups_adj.induct) (auto dest: antisym)

lemma sorted_dedup: "sorted xs \<Longrightarrow> sorted (remdups_adj xs) \<and> distinct (remdups_adj xs)"
  by (simp add: sorted_remdups_adj distinct_dedup)

lemma sync_single_exact:
  "list_exact S s \<Longrightarrow> list_exact (S \<union> answer_entries r) (snd (sync_single_feed time name r s))"
  using sorted_dedup [OF sorted_sort, of "im_blocklist s @ feed_entries (projr (feed_body r))"]
  by (auto simp: list_exact_def sync_single_feed_def answer_entries_def Let_def split: sum.split)

lemma sync_names_exact:
  "list_exact S s \<Longrightarrow> list_exact (S \<union> (\<Union>name \<in> set names. answer_entries (answers name)))
     (snd (fold (\<lambda>name (states, s). case sync_single_feed time name (answers name) s of (st, s) \<Rightarrow> (states @ [st], s))
        names (states, s)))"
proof (induction names arbitrary: S s states)
  case (Cons n names)
  obtain st s' where s': "sync_single_feed time n (answers n) s = (st, s')" by fastforce
  have "list_exact (S \<union> answer_entries (answers n)) s'" using sync_single_exact [OF Cons.prems] s' by (metis snd_conv)
  from Cons.IH [OF this] show ?case by (simp add: s' Un_assoc)
qed simp

lemma sync_feeds_exact:
  "list_exact S s \<Longrightarrow> list_exact (S \<union> (\<Union>name \<in> set FEED_NAMES. answer_entries (answers name))) (snd (sync_feeds time answers s))"
  using sync_names_exact [of S s answers FEED_NAMES time "[]"]
  by (auto simp: sync_feeds_def list_exact_def split: prod.split)


end
