(* ===== verification/Intel_Api.thy ===== *)
theory Intel_Api
  imports Ring0_Prelude Alist_Facts "HOL-Library.Multiset"
begin

text \<open>
  The client of two domain reputation services, \<open>ring0d/src/intel_api.rs\<close>: keys, the lookup with its
  bounded cache, and what is read from the answers. The answer of a service and the order in which a hash
  map lists its keys are parameters. A lookup is one operation here: in the code other tasks may run while
  it awaits an answer, which changes nothing for the lemmas on \<open>remember\<close>.
\<close>

section \<open>Single precision\<close>

text \<open>A positive \<open>f32\<close> below \<open>2 ^ 24\<close> is a pair of a natural \<open>m\<close> of 24 bits and an exponent \<open>e\<close> that stands
  for \<open>m / 2 ^ e\<close>. Quotients and products are rounded to 24 bits, to the nearest and to even on a tie.\<close>

fun bit_count :: "nat \<Rightarrow> nat" where
  "bit_count n = (if n = 0 then 0 else Suc (bit_count (n div 2)))"

declare bit_count.simps [simp del]

lemma bit_count_numeral [simp]:
  "bit_count 0 = 0" "bit_count (Suc 0) = 1"
  "bit_count (numeral (num.Bit0 m)) = bit_count (numeral m) + 1"
  "bit_count (numeral (num.Bit1 m)) = bit_count (numeral m) + 1"
  "bit_count (numeral num.One) = 1"
  by (simp_all add: bit_count.simps [of "numeral _"] bit_count.simps [of "Suc _"] bit_count.simps [of 0])

definition div_even :: "nat \<Rightarrow> nat \<Rightarrow> nat" where
  "div_even n d = (let q = n div d; r = n mod d in if 2 * r < d \<or> (2 * r = d \<and> even q) then q else Suc q)"

definition f32_div :: "nat \<Rightarrow> nat \<Rightarrow> nat \<times> nat" where
  "f32_div n d =
     (let k = 24 + bit_count d; s = bit_count (n * 2 ^ k div d) - 24
      in (div_even (n * 2 ^ k) (d * 2 ^ s), k - s))"

definition f32_mul :: "nat \<times> nat \<Rightarrow> nat \<Rightarrow> nat \<times> nat" where
  "f32_mul x c = (case x of (m, e) \<Rightarrow> let s = bit_count (m * c) - 24 in (div_even (m * c) (2 ^ s), e - s))"

definition f32_to_u8 :: "nat \<times> nat \<Rightarrow> u8" where
  "f32_to_u8 x = (case x of (m, e) \<Rightarrow> of_nat (min 255 (m div 2 ^ e)))"

section \<open>State\<close>

record domain_reputation =
  dr_domain :: string
  dr_threat_score :: u8
  dr_category :: string
  dr_source :: string
  dr_is_malicious :: bool

record intel_api =
  nextdns_api_key :: "string option"
  vt_api_key :: "string option"
  rep_cache :: "(string \<times> domain_reputation) list"

definition intel_api_new :: intel_api where
  "intel_api_new = \<lparr>nextdns_api_key = None, vt_api_key = None, rep_cache = []\<rparr>"

definition configure :: "string option \<Rightarrow> string option \<Rightarrow> intel_api \<Rightarrow> intel_api" where
  "configure nextdns_key vt_key s =
     (let s1 = (case nextdns_key of Some k \<Rightarrow> s\<lparr>nextdns_api_key := Some k\<rparr> | None \<Rightarrow> s)
      in case vt_key of Some k \<Rightarrow> s1\<lparr>vt_api_key := Some k\<rparr> | None \<Rightarrow> s1)"

definition cache_size :: "intel_api \<Rightarrow> nat" where
  "cache_size s = length (rep_cache s)"

section \<open>Answers\<close>

text \<open>A parsed JSON value. A number carries its value as \<open>u64\<close>, if it is one; an object lists its entries in
  the order of their keys, each key once, as the tree map of the parser keeps them.\<close>

datatype json_value =
    VNull
  | VBool bool
  | VNum "u64 option"
  | VStr string
  | VArr "json_value list"
  | VObj "(string \<times> json_value) list"

fun json_get :: "string \<Rightarrow> json_value \<Rightarrow> json_value option" where
  "json_get k (VObj kvs) = map_of kvs k"
| "json_get k _ = None"

definition json_at :: "string \<Rightarrow> json_value \<Rightarrow> json_value" where
  "json_at k v = unwrap_or VNull (json_get k v)"

fun json_u64 :: "json_value \<Rightarrow> u64 option" where
  "json_u64 (VNum n) = n"
| "json_u64 _ = None"

fun json_str :: "json_value \<Rightarrow> string option" where
  "json_str (VStr t) = Some t"
| "json_str _ = None"

fun first_value :: "json_value \<Rightarrow> json_value option" where
  "first_value (VObj ((_, v) # _)) = Some v"
| "first_value _ = None"

definition count_as_u8 :: "string \<Rightarrow> json_value \<Rightarrow> u8" where
  "count_as_u8 k v = ucast (unwrap_or 0 (Option.bind (json_get k v) json_u64))"

datatype api_answer = Unreachable string | Unparsed string | Answer json_value

text \<open>A request names its address, the header of the key, and the key.\<close>

type_synonym api_get = "string \<Rightarrow> string \<Rightarrow> string \<Rightarrow> api_answer"

definition NEXDNS_API :: string where "NEXDNS_API = ''https://api.nextdns.io/v1/domain''"
definition VT_API :: string where "VT_API = ''https://www.virustotal.com/api/v3/domains''"

definition query_nextdns :: "api_get \<Rightarrow> string \<Rightarrow> string \<Rightarrow> string + domain_reputation" where
  "query_nextdns get dn api_key =
     (case get (NEXDNS_API @ ''/'' @ dn) ''X-API-Key'' api_key of
        Unreachable e \<Rightarrow> Inl (''NextDNS HTTP: '' @ e)
      | Unparsed e \<Rightarrow> Inl (''NextDNS parse: '' @ e)
      | Answer body \<Rightarrow>
          (let score = count_as_u8 ''threatScore'' body
           in Inr \<lparr>dr_domain = dn, dr_threat_score = score,
                dr_category = unwrap_or ''Unknown'' (Option.bind (json_get ''category'' body) json_str),
                dr_source = ''NextDNS'', dr_is_malicious = 70 \<le> score\<rparr>))"

definition vt_score :: "u8 \<Rightarrow> u8" where
  "vt_score both =
     (if 0 < both then f32_to_u8 (f32_mul (f32_div (unat both) 60) 100) else 0)"

text \<open>The sum of the two counts wraps as in a release build.\<close>

definition query_virustotal :: "api_get \<Rightarrow> string \<Rightarrow> string \<Rightarrow> string + domain_reputation" where
  "query_virustotal get dn api_key =
     (case get (VT_API @ ''/'' @ dn) ''x-apikey'' api_key of
        Unreachable e \<Rightarrow> Inl (''VT HTTP: '' @ e)
      | Unparsed e \<Rightarrow> Inl (''VT parse: '' @ e)
      | Answer body \<Rightarrow>
          (let attributes = json_at ''attributes'' (json_at ''data'' body);
               stats = json_at ''last_analysis_stats'' attributes;
               score = vt_score (count_as_u8 ''malicious'' stats + count_as_u8 ''suspicious'' stats)
           in Inr \<lparr>dr_domain = dn, dr_threat_score = score,
                dr_category = unwrap_or ''Unknown'' (Option.bind (first_value (json_at ''categories'' attributes)) json_str),
                dr_source = ''VirusTotal'', dr_is_malicious = 50 \<le> score\<rparr>))"

section \<open>Lookup\<close>

definition unknown_reputation :: "string \<Rightarrow> domain_reputation" where
  "unknown_reputation dn = \<lparr>dr_domain = dn, dr_threat_score = 0, dr_category = ''Unknown'', dr_source = ''Unknown'',
     dr_is_malicious = False\<rparr>"

definition fresh_reputation :: "api_get \<Rightarrow> intel_api \<Rightarrow> string \<Rightarrow> domain_reputation" where
  "fresh_reputation get s dn =
     (let rep = (case nextdns_api_key s of
                   Some key \<Rightarrow> (case query_nextdns get dn key of Inr r \<Rightarrow> r | Inl _ \<Rightarrow> unknown_reputation dn)
                 | None \<Rightarrow> unknown_reputation dn)
      in case vt_api_key s of
           Some key \<Rightarrow>
             (case query_virustotal get dn key of
                Inr vt_rep \<Rightarrow> if dr_threat_score rep < dr_threat_score vt_rep then vt_rep else rep
              | Inl _ \<Rightarrow> rep)
         | None \<Rightarrow> rep)"

text \<open>\<open>order\<close>: the order in which the map lists its keys. A full cache loses the first quarter of them.\<close>

definition trim_cache :: "(string list \<Rightarrow> string list) \<Rightarrow> (string \<times> domain_reputation) list \<Rightarrow> (string \<times> domain_reputation) list" where
  "trim_cache order cache =
     (if 5000 \<le> length cache
      then fold AList.delete (take (length cache div 4) (order (map fst cache))) cache else cache)"

definition remember :: "(string list \<Rightarrow> string list) \<Rightarrow> string \<Rightarrow> domain_reputation \<Rightarrow> intel_api \<Rightarrow> intel_api" where
  "remember order dn rep s = s\<lparr>rep_cache := AList.update dn rep (trim_cache order (rep_cache s))\<rparr>"

definition lookup_domain ::
  "api_get \<Rightarrow> (string list \<Rightarrow> string list) \<Rightarrow> string \<Rightarrow> intel_api \<Rightarrow> domain_reputation option \<times> intel_api" where
  "lookup_domain get order dn s =
     (if dn = [] \<or> CHR ''.'' \<notin> set dn then (None, s)
      else case map_of (rep_cache s) dn of
             Some rep \<Rightarrow> (Some rep, s)
           | None \<Rightarrow> (let rep = fresh_reputation get s dn in (Some rep, remember order dn rep s)))"

datatype api_op = Configure "string option" "string option" | Lookup api_get "string list \<Rightarrow> string list" string

fun api_do :: "api_op \<Rightarrow> intel_api \<Rightarrow> intel_api" where
  "api_do (Configure nk vk) s = configure nk vk s"
| "api_do (Lookup get order dn) s = snd (lookup_domain get order dn s)"

text \<open>The hash map lists each of its keys once.\<close>

fun api_op_ok :: "api_op \<Rightarrow> bool" where
  "api_op_ok (Lookup _ order _) \<longleftrightarrow> (\<forall>ks. mset (order ks) = mset ks)"
| "api_op_ok _ \<longleftrightarrow> True"

section \<open>The score of the second service\<close>

lemma bit_count_bounds: "0 < n \<Longrightarrow> 2 ^ (bit_count n - 1) \<le> n \<and> n < 2 ^ bit_count n"
proof (induction n rule: bit_count.induct)
  case (1 n)
  show ?case
  proof (cases "n = 1")
    case False
    then have n: "0 < n div 2" "n \<noteq> 0" using 1 by auto
    then have "bit_count n = Suc (bit_count (n div 2))" "bit_count (n div 2) = Suc (bit_count (n div 2 div 2))"
      using bit_count.simps [of n] bit_count.simps [of "n div 2"] by auto
    then show ?thesis using 1(1) n div_mult_mod_eq [of n 2] by simp linarith
  qed simp
qed

lemma top_bits: "bit_count n - 24 \<noteq> 0 \<Longrightarrow> 2 ^ (bit_count n - 24) * 2 ^ 23 \<le> n"
proof -
  assume n: "bit_count n - 24 \<noteq> 0"
  then have "0 < n" by (cases n) auto
  then have "2 ^ (bit_count n - 1) \<le> n" using bit_count_bounds by blast
  moreover have "bit_count n - 1 = (bit_count n - 24) + 23" using n by simp
  ultimately show ?thesis by (simp only: power_add)
qed

lemma div_even_near:
  assumes "0 < d"
  shows "2 * n \<le> 2 * (d * div_even n d) + d" "2 * (d * div_even n d) \<le> 2 * n + d"
proof -
  have "d * (n div d) + n mod d = n" "n mod d < d" using assms by simp_all
  moreover define q r where "q = n div d" and "r = n mod d"
  ultimately have n: "n = d * q + r" "r < d" by simp_all
  have e: "div_even n d = (if 2 * r < d \<or> (2 * r = d \<and> even q) then q else Suc q)"
    by (simp add: div_even_def q_def r_def Let_def)
  show "2 * n \<le> 2 * (d * div_even n d) + d" "2 * (d * div_even n d) \<le> 2 * n + d"
    using n(2) unfolding e by (auto simp: n(1) not_less)
qed

lemma round_near:
  assumes "s = bit_count y - 24" "d = 2 ^ s"
  shows "2 ^ 24 * y \<le> 2 ^ 24 * (d * div_even y d) + y" "2 ^ 24 * (d * div_even y d) \<le> 2 ^ 24 * y + y"
proof -
  have "2 ^ 24 * y \<le> 2 ^ 24 * (d * div_even y d) + y \<and> 2 ^ 24 * (d * div_even y d) \<le> 2 ^ 24 * y + y"
  proof (cases "s = 0")
    case True
    then show ?thesis using assms by (simp add: div_even_def)
  next
    case False
    then have "d * 2 ^ 23 \<le> y" using top_bits [of y] assms by simp
    then show ?thesis using div_even_near [of d y] assms by simp
  qed
  then show "2 ^ 24 * y \<le> 2 ^ 24 * (d * div_even y d) + y" "2 ^ 24 * (d * div_even y d) \<le> 2 ^ 24 * y + y"
    by simp_all
qed

lemma f32_div_near:
  assumes "0 < t" "t < 256" "f32_div t 60 = (m, e)"
  shows "\<exists>s. e = 30 - s \<and> s < 10 \<and> t * 2 ^ 30 \<le> 60 * (m * 2 ^ s) + 64 * t \<and> 60 * (m * 2 ^ s) \<le> t * 2 ^ 30 + 64 * t"
proof -
  define x s where "x = t * 2 ^ 30 div 60" and "s = bit_count x - 24"
  have m: "m = div_even (t * 2 ^ 30) (60 * 2 ^ s)" "e = 30 - s"
    using assms(3) by (simp_all add: f32_div_def x_def s_def Let_def)
  have x: "60 * x \<le> t * 2 ^ 30" by (simp add: x_def)
  have "2 ^ 24 \<le> x" using div_le_mono [of "2 ^ 30" "t * 2 ^ 30" 60] assms(1) by (simp add: x_def)
  then have "24 \<noteq> bit_count x" "0 < x" and b: "x < 2 ^ bit_count x" using bit_count_bounds [of x] by auto
  have "24 < bit_count x"
  proof (rule ccontr)
    assume "\<not> 24 < bit_count x"
    then have "(2 :: nat) ^ bit_count x \<le> 2 ^ 24" by (intro power_increasing) auto
    then show False using b \<open>2 ^ 24 \<le> x\<close> by linarith
  qed
  then have "2 ^ s * 2 ^ 23 \<le> x" unfolding s_def by (intro top_bits) simp
  then have p: "60 * 2 ^ s \<le> 128 * t" using x by simp
  have "(2 :: nat) ^ s < 2 ^ 10" using p assms(2) by simp
  then have "s < 10" by (simp only: power_strict_increasing_iff [of 2])
  moreover have "t * 2 ^ 30 \<le> 60 * (m * 2 ^ s) + 64 * t" "60 * (m * 2 ^ s) \<le> t * 2 ^ 30 + 64 * t"
    using div_even_near [of "60 * 2 ^ s" "t * 2 ^ 30"] p unfolding m(1) by (simp_all add: algebra_simps)
  ultimately show ?thesis using m(2) by blast
qed

text \<open>The rounded percentage is within a millionth of the exact one.\<close>

lemma percent_near:
  assumes "0 < t" "t < 256"
  shows "\<exists>v. f32_to_u8 (f32_mul (f32_div t 60) 100) = of_nat (min 255 (v div 2 ^ 30))
    \<and> 5 * t * 2 ^ 30 \<le> 3 * v + 2 ^ 20 \<and> 3 * v \<le> 5 * t * 2 ^ 30 + 2 ^ 20"
proof -
  obtain m e where me: "f32_div t 60 = (m, e)" by fastforce
  obtain s where s: "e = 30 - s" "s < 10" "t * 2 ^ 30 \<le> 60 * (m * 2 ^ s) + 64 * t" "60 * (m * 2 ^ s) \<le> t * 2 ^ 30 + 64 * t"
    using f32_div_near [OF assms me] by auto
  define y z where "y = m * 100" and "z = bit_count y - 24"
  define q where "q = div_even y (2 ^ z)"
  have qy: "2 ^ 24 * y \<le> 2 ^ 24 * (2 ^ z * q) + y" "2 ^ 24 * (2 ^ z * q) \<le> 2 ^ 24 * y + y"
    using round_near [OF z_def refl] by (simp_all only: q_def)
  have ys: "y * 2 ^ s = 100 * (m * 2 ^ s)" by (simp add: y_def)
  have "z < 20"
  proof (cases "z = 0")
    case False
    then have "2 ^ z * 2 ^ 23 \<le> y" using top_bits [of y] by (simp add: z_def)
    also have "y \<le> y * 2 ^ s" by simp
    also have "\<dots> < 2 ^ 43" using ys s(4) assms(2) by simp
    finally have "(2 :: nat) ^ z < 2 ^ 20" by simp
    then show ?thesis by (simp only: power_strict_increasing_iff [of 2])
  qed simp
  define v where "v = q * 2 ^ (s + z)"
  have v: "2 ^ 24 * (100 * (m * 2 ^ s)) \<le> 2 ^ 24 * v + 100 * (m * 2 ^ s)" "2 ^ 24 * v \<le> 2 ^ 24 * (100 * (m * 2 ^ s)) + 100 * (m * 2 ^ s)"
    using mult_le_mono1 [OF qy(1), of "2 ^ s"] mult_le_mono1 [OF qy(2), of "2 ^ s"]
    by (simp_all add: y_def v_def power_add algebra_simps)
  have "v div 2 ^ 30 = q div 2 ^ (30 - s - z)"
  proof -
    have "(2 :: nat) ^ 30 = 2 ^ (30 - s - z) * 2 ^ (s + z)" using s(2) \<open>z < 20\<close> by (simp flip: power_add)
    then have "v div 2 ^ 30 = (q * 2 ^ (s + z)) div (2 ^ (30 - s - z) * 2 ^ (s + z))" by (simp only: v_def)
    then show ?thesis by (simp only: div_mult_mult2 power_not_zero [OF zero_neq_numeral [symmetric]] not_False_eq_True simp_thms)
  qed
  then have "f32_to_u8 (f32_mul (f32_div t 60) 100) = of_nat (min 255 (v div 2 ^ 30))"
    by (simp add: me f32_mul_def f32_to_u8_def Let_def q_def z_def y_def s(1))
  moreover have "5 * t * 2 ^ 30 \<le> 3 * v + 2 ^ 20" "3 * v \<le> 5 * t * 2 ^ 30 + 2 ^ 20"
    using v s(3,4) assms(2) by simp_all
  ultimately show ?thesis by blast
qed

text \<open>
  The score is the number of engines as a percentage of sixty, cut off at the point and at 255. The two
  roundings to single precision lose one only where the percentage is a whole number.
\<close>

lemma vt_score_exact:
  "min 255 (5 * unat n div 3) - (if 3 dvd unat n then 1 else 0) \<le> unat (vt_score n)"
  "unat (vt_score n) \<le> min 255 (5 * unat n div 3)"
proof -
  let ?t = "unat n"
  have "min 255 (5 * ?t div 3) - (if 3 dvd ?t then 1 else 0) \<le> unat (vt_score n) \<and> unat (vt_score n) \<le> min 255 (5 * ?t div 3)"
  proof (cases "n = 0")
    case False
    then have t: "0 < ?t" "?t < 256" using unsigned_less [of n, where ?'a = nat] by (auto simp: unat_gt_0)
    obtain v where v: "f32_to_u8 (f32_mul (f32_div ?t 60) 100) = of_nat (min 255 (v div 2 ^ 30))"
      "5 * ?t * 2 ^ 30 \<le> 3 * v + 2 ^ 20" "3 * v \<le> 5 * ?t * 2 ^ 30 + 2 ^ 20"
      using percent_near [OF t] by auto
    have "unat (vt_score n) = min 255 (v div 2 ^ 30)"
      using False v(1) by (simp add: vt_score_def word_gt_0 unat_of_nat)
    moreover have "v div 2 ^ 30 \<le> 5 * ?t div 3" using v(3) by simp
    moreover have "5 * ?t div 3 - (if 3 dvd ?t then 1 else 0) \<le> v div 2 ^ 30"
    proof -
      define k where "k = 5 * ?t div 3 - (if 3 dvd ?t then 1 else 0)"
      have "3 * k + 1 \<le> 5 * ?t \<or> k = 0" unfolding k_def by presburger
      then have "k * 2 ^ 30 \<le> v" using v(2) by auto
      then show ?thesis by (simp add: k_def [symmetric] less_eq_div_iff_mult_less_eq)
    qed
    ultimately show ?thesis by auto
  qed (simp add: vt_score_def)
  then show "min 255 (5 * unat n div 3) - (if 3 dvd unat n then 1 else 0) \<le> unat (vt_score n)"
    "unat (vt_score n) \<le> min 255 (5 * unat n div 3)" by blast+
qed

lemma vt_malicious: "50 \<le> vt_score n \<longleftrightarrow> 30 \<le> unat n"
proof -
  have "vt_score 30 = 50"
    by (simp add: vt_score_def f32_div_def f32_mul_def f32_to_u8_def div_even_def)
  moreover have "50 \<le> unat (vt_score n)" if "30 < unat n"
    using vt_score_exact(1) [of n] that by (auto split: if_splits)
  moreover have "unat (vt_score n) < 50" if "unat n < 30"
    using vt_score_exact(2) [of n] that by auto
  moreover have "n = 30" if "unat n = 30" using that by (simp add: unsigned_word_eqI)
  ultimately show ?thesis
    by (cases "unat n" "30 :: nat" rule: linorder_cases) (auto simp: word_le_nat_alt)
qed

section \<open>The cache\<close>

lemma fold_delete_keys: "map fst (fold AList.delete ks c) = filter (\<lambda>k. k \<notin> set ks) (map fst c)"
  by (induction ks arbitrary: c) (auto simp: delete_keys removeAll_filter_not_eq intro!: filter_cong)

lemma fold_delete_set: "set (fold AList.delete ks c) \<subseteq> set c"
proof (induction ks arbitrary: c)
  case (Cons k ks)
  have "set (fold AList.delete ks (AList.delete k c)) \<subseteq> set (AList.delete k c)" by (rule Cons.IH)
  also have "\<dots> \<subseteq> set c" by (auto simp: delete_filter)
  finally show ?case by simp
qed simp

lemma fold_delete_length:
  assumes "distinct ks" "distinct (map fst c)" "set ks \<subseteq> set (map fst c)"
  shows "length (fold AList.delete ks c) = length c - length ks"
proof -
  have "length (fold AList.delete ks c) = length (filter (\<lambda>k. k \<notin> set ks) (map fst c))"
    by (metis fold_delete_keys length_map)
  also have "\<dots> = card (set (map fst c) - set ks)"
    using distinct_card [OF distinct_filter [OF assms(2)], of "\<lambda>k. k \<notin> set ks"] by (simp add: set_diff_eq)
  also have "\<dots> = length c - length ks"
    using assms distinct_card [OF assms(1)] distinct_card [OF assms(2)] by (simp add: card_Diff_subset del: set_map)
  finally show ?thesis .
qed

definition reputation_ok :: "string \<times> domain_reputation \<Rightarrow> bool" where
  "reputation_ok = (\<lambda>(dn, rep). dr_domain rep = dn \<and> CHR ''.'' \<in> set dn
     \<and> (dr_is_malicious rep \<longleftrightarrow> (if dr_source rep = ''VirusTotal'' then 50 else 70) \<le> dr_threat_score rep))"

definition cache_ok :: "(string \<times> domain_reputation) list \<Rightarrow> bool" where
  "cache_ok c \<longleftrightarrow> length c \<le> 5000 \<and> distinct (map fst c) \<and> list_all reputation_ok c"

lemma trim_cache_ok:
  assumes "cache_ok c" "\<forall>ks. mset (order ks) = mset ks"
  shows "cache_ok (trim_cache order c) \<and> length (trim_cache order c) < 5000"
proof (cases "5000 \<le> length c")
  case True
  let ?ks = "take (length c div 4) (order (map fst c))"
  have o: "mset (order (map fst c)) = mset (map fst c)" using assms(2) by blast
  have c: "distinct (map fst c)" "length c = 5000" "list_all reputation_ok c" using assms(1) True by (auto simp: cache_ok_def)
  have ks: "distinct ?ks" "set ?ks \<subseteq> set (map fst c)" "length ?ks = 1250"
    using mset_eq_imp_distinct_iff [OF o] mset_eq_setD [OF o] mset_eq_length [OF o] c set_take_subset [of 1250 "order (map fst c)"]
    by (auto simp: distinct_take)
  then have "length (fold AList.delete ?ks c) < 5000" using fold_delete_length [OF ks(1) c(1) ks(2)] c(2) by simp
  moreover have "list_all reputation_ok (fold AList.delete ?ks c)"
    using fold_delete_set [of ?ks c] c(3) by (auto simp: list_all_iff)
  ultimately show ?thesis using True c(1) by (simp add: trim_cache_def cache_ok_def fold_delete_keys)
qed (use assms in \<open>simp add: trim_cache_def\<close>)

lemma remember_ok:
  assumes "cache_ok (rep_cache s)" "\<forall>ks. mset (order ks) = mset ks" "reputation_ok (dn, rep)"
  shows "cache_ok (rep_cache (remember order dn rep s))"
  using trim_cache_ok [OF assms(1,2)] assms(3) update_length [of dn rep "trim_cache order (rep_cache s)"]
  by (auto simp: remember_def cache_ok_def distinct_update list_all_update)

lemma query_reputation_ok:
  "query_nextdns get dn key = Inr rep \<Longrightarrow> CHR ''.'' \<in> set dn \<Longrightarrow> reputation_ok (dn, rep)"
  "query_virustotal get dn key = Inr rep \<Longrightarrow> CHR ''.'' \<in> set dn \<Longrightarrow> reputation_ok (dn, rep)"
  by (auto simp: query_nextdns_def query_virustotal_def reputation_ok_def Let_def split: api_answer.splits)

lemma fresh_reputation_ok: "CHR ''.'' \<in> set dn \<Longrightarrow> reputation_ok (dn, fresh_reputation get s dn)"
  by (auto simp: fresh_reputation_def Let_def intro: query_reputation_ok split: option.split sum.split)
    (simp_all add: reputation_ok_def unknown_reputation_def)

lemma lookup_domain_ok:
  "cache_ok (rep_cache s) \<Longrightarrow> \<forall>ks. mset (order ks) = mset ks \<Longrightarrow> cache_ok (rep_cache (snd (lookup_domain get order dn s)))"
  by (auto simp: lookup_domain_def Let_def intro!: remember_ok fresh_reputation_ok split: option.split)

lemma api_do_ok: "api_op_ok a \<Longrightarrow> cache_ok (rep_cache s) \<Longrightarrow> cache_ok (rep_cache (api_do a s))"
  by (cases a) (auto simp: configure_def Let_def lookup_domain_ok split: option.split)

lemma api_run_ok: "\<forall>a \<in> set ops. api_op_ok a \<Longrightarrow> cache_ok (rep_cache s) \<Longrightarrow> cache_ok (rep_cache (fold api_do ops s))"
  by (induction ops arbitrary: s) (auto simp: api_do_ok)

text \<open>
  After any sequence of configurations and lookups, whatever the services answer and in whatever order
  the map lists its keys: the cache holds at most 5000 domains, each once, and what it holds for a domain
  is about that domain, is malicious exactly from the threshold of its service on, and is what the next lookup
  returns whatever the services say by then. A lookup that answers leaves its answer in the cache.
\<close>

theorem reputation_cache_exact:
  assumes "\<forall>a \<in> set ops. api_op_ok a"
  defines "s \<equiv> fold api_do ops intel_api_new"
  shows "cache_size s \<le> 5000 \<and> distinct (map fst (rep_cache s))
    \<and> (\<forall>(dn, rep) \<in> set (rep_cache s). dr_domain rep = dn
         \<and> (dr_is_malicious rep \<longleftrightarrow> (if dr_source rep = ''VirusTotal'' then 50 else 70) \<le> dr_threat_score rep)
         \<and> (\<forall>get order. lookup_domain get order dn s = (Some rep, s)))
    \<and> (\<forall>get order dn rep s'. lookup_domain get order dn s = (Some rep, s')
         \<longrightarrow> (\<forall>get' order'. lookup_domain get' order' dn s' = (Some rep, s')))"
proof -
  have ok: "cache_ok (rep_cache s)"
    unfolding s_def by (rule api_run_ok [OF assms(1)]) (simp add: cache_ok_def intel_api_new_def)
  have entry: "dr_domain rep = dn
       \<and> (dr_is_malicious rep \<longleftrightarrow> (if dr_source rep = ''VirusTotal'' then 50 else 70) \<le> dr_threat_score rep)
       \<and> lookup_domain get order dn s = (Some rep, s)" if "(dn, rep) \<in> set (rep_cache s)" for get order dn rep
  proof -
    have "reputation_ok (dn, rep)" "map_of (rep_cache s) dn = Some rep"
      using ok that by (auto simp: cache_ok_def list_all_iff)
    then show ?thesis by (auto simp: reputation_ok_def lookup_domain_def)
  qed
  have "lookup_domain get' order' dn s' = (Some rep, s')" if "lookup_domain get order dn s = (Some rep, s')"
    for get order dn rep s' get' order'
    using that by (auto simp: lookup_domain_def Let_def remember_def update_conv' split: if_splits option.splits)
  moreover have "cache_size s \<le> 5000 \<and> distinct (map fst (rep_cache s))"
    using ok by (simp add: cache_ok_def cache_size_def)
  ultimately show ?thesis using entry by (intro conjI ballI; clarify; blast)
qed

definition ask_services :: api_get where
  "ask_services url header key = Answer (VObj [(''category'', VStr ''ads''), (''threatScore'', VNum (Some 90))])"

lemma ask_services_sample:
  "rep_cache (fold api_do [Configure (Some ''k'') None, Lookup ask_services rev ''a.b''] intel_api_new)
     = [(''a.b'', \<lparr>dr_domain = ''a.b'', dr_threat_score = 90, dr_category = ''ads'', dr_source = ''NextDNS'', dr_is_malicious = True\<rparr>)]"
proof -
  let ?s = "intel_api_new\<lparr>nextdns_api_key := Some ''k''\<rparr>"
  have "fresh_reputation ask_services ?s ''a.b''
    = \<lparr>dr_domain = ''a.b'', dr_threat_score = 90, dr_category = ''ads'', dr_source = ''NextDNS'', dr_is_malicious = True\<rparr>"
    by (simp add: fresh_reputation_def intel_api_new_def query_nextdns_def ask_services_def count_as_u8_def unwrap_or_def Let_def)
  moreover have "fold api_do [Configure (Some ''k'') None, Lookup ask_services rev ''a.b''] intel_api_new
    = snd (lookup_domain ask_services rev ''a.b'' ?s)"
    by (simp add: configure_def)
  ultimately show ?thesis
    by (simp add: lookup_domain_def remember_def trim_cache_def Let_def intel_api_new_def)
qed

theorem reputation_cache_exact_witness:
  "lookup_domain (\<lambda>_ _ _. Unreachable []) id ''a.b'' (fold api_do [Configure (Some ''k'') None, Lookup ask_services rev ''a.b''] intel_api_new)
    = (Some \<lparr>dr_domain = ''a.b'', dr_threat_score = 90, dr_category = ''ads'', dr_source = ''NextDNS'', dr_is_malicious = True\<rparr>,
       fold api_do [Configure (Some ''k'') None, Lookup ask_services rev ''a.b''] intel_api_new)"
proof -
  have "\<forall>a \<in> set [Configure (Some ''k'') None, Lookup ask_services rev ''a.b'']. api_op_ok a" by simp
  from reputation_cache_exact [OF this, THEN conjunct2, THEN conjunct2, THEN conjunct1, unfolded ask_services_sample]
  show ?thesis by (simp only: list.set ball_simps insert_iff prod.case)
qed

end
