(* ===== verification/Enrichment.thy ===== *)
theory Enrichment
  imports Rust_Text
begin

text \<open>
  The country and the name of an address, \<open>ring0d/src/enrichment.rs\<close>. The GeoIP reader, the resolver and
  the least-recently-used cache are libraries: \<open>geo\<close> is the answer of the country database if it is
  loaded, \<open>resolve\<close> that of the resolver if there is one, and the cache a value of any type with its
  \<open>get\<close> and \<open>put\<close>. Times are nanoseconds.
\<close>

section \<open>Countries\<close>

text \<open>\<open>None\<close> inside: no entry, an error or a record that cannot be decoded; code and English name may
  be missing.\<close>

definition lookup_country :: "(u32 \<Rightarrow> (string option \<times> string option) option) option \<Rightarrow> u32 \<Rightarrow> string \<times> string" where
  "lookup_country geo ip =
     (case geo of None \<Rightarrow> (''XX'', ''Unknown'')
      | Some reader \<Rightarrow> (case reader ip of None \<Rightarrow> (''XX'', ''Unknown'')
          | Some (code, name) \<Rightarrow> (unwrap_or ''XX'' code, unwrap_or ''Unknown'' name)))"

section \<open>Names\<close>

definition RDNS_CACHE_TTL_SECS :: nat where "RDNS_CACHE_TTL_SECS = 3600"

record rdns_entry =
  re_hostname :: string
  re_cached_at :: nat

record 'c rdns_cache =
  rc_get :: "u32 \<Rightarrow> 'c \<Rightarrow> rdns_entry option \<times> 'c"
  rc_put :: "u32 \<Rightarrow> rdns_entry \<Rightarrow> 'c \<Rightarrow> 'c"

definition resolved_name :: "(u32 \<Rightarrow> string list option) option \<Rightarrow> u32 \<Rightarrow> string" where
  "resolved_name resolve ip =
     (case resolve of None \<Rightarrow> show_ipv4 ip
      | Some r \<Rightarrow> (case r ip of Some (n # _) \<Rightarrow> trim_end_dots n | _ \<Rightarrow> show_ipv4 ip))"

definition fresh_entry :: "nat \<Rightarrow> rdns_entry option \<Rightarrow> string option" where
  "fresh_entry tnow found =
     (case found of
        Some e \<Rightarrow> if (tnow - re_cached_at e) div 1000000000 < RDNS_CACHE_TTL_SECS then Some (re_hostname e) else None
      | None \<Rightarrow> None)"

definition lookup_rdns ::
    "'c rdns_cache \<Rightarrow> nat \<Rightarrow> (u32 \<Rightarrow> string list option) option \<Rightarrow> u32 \<Rightarrow> 'c \<Rightarrow> string \<times> 'c" where
  "lookup_rdns c tnow resolve ip cache =
     (case rc_get c ip cache of (found, cache) \<Rightarrow>
        (case fresh_entry tnow found of
           Some hostname \<Rightarrow> (hostname, cache)
         | None \<Rightarrow>
             let hostname = resolved_name resolve ip in
             (hostname, rc_put c ip \<lparr>re_hostname = hostname, re_cached_at = tnow\<rparr> cache)))"

text \<open>What the cache promises: an entry just put is found.\<close>

definition cache_law :: "'c rdns_cache \<Rightarrow> bool" where
  "cache_law c \<longleftrightarrow> (\<forall>ip e cache. fst (rc_get c ip (rc_put c ip e cache)) = Some e)"

text \<open>A name is kept for an hour: the next lookup of the address within it returns the same name, whatever
  the resolver answers by then.\<close>

lemma rdns_kept:
  assumes "cache_law c" and "fresh_entry t (fst (rc_get c ip cache)) = None" and "t' < t + 3600 * 1000000000"
  shows "fst (lookup_rdns c t' resolve' ip (snd (lookup_rdns c t resolve ip cache))) = fst (lookup_rdns c t resolve ip cache)"
proof -
  obtain found cache' where g: "rc_get c ip cache = (found, cache')" by fastforce
  define e where "e = \<lparr>re_hostname = resolved_name resolve ip, re_cached_at = t\<rparr>"
  have first: "lookup_rdns c t resolve ip cache = (resolved_name resolve ip, rc_put c ip e cache')"
    using assms(2) g by (simp add: lookup_rdns_def e_def Let_def)
  obtain cache'' where "rc_get c ip (rc_put c ip e cache') = (Some e, cache'')"
    using assms(1) by (metis cache_law_def prod.collapse)
  moreover have "fresh_entry t' (Some e) = Some (resolved_name resolve ip)"
    using assms(3) by (simp add: fresh_entry_def e_def RDNS_CACHE_TTL_SECS_def div_less_iff_less_mult)
  ultimately have "lookup_rdns c t' resolve' ip (rc_put c ip e cache') = (resolved_name resolve ip, cache'')"
    by (simp add: lookup_rdns_def)
  then show ?thesis by (simp add: first)
qed

end
