(* ===== verification/Notify.thy ===== *)
theory Notify
  imports Ring0_Prelude
begin

text \<open>
  The desktop notifications of the client, \<open>ring0-gui/src/notify.rs\<close> and the two operations of
  \<open>ring0-gui/src/lib.rs\<close> that use it. D-Bus is a parameter: whether the session bus can be reached, whether a
  proxy can be made, and the answer to a call. Both operations run in threads of their own; their order
  here is that in which they take the lock of the notifier.
\<close>

section \<open>The notifier\<close>

record notification =
  nt_summary :: string
  nt_body :: string
  nt_urgency :: u8
  nt_actions :: "(string \<times> string) list"

text \<open>Whether there is a connection.\<close>

record dbus_notifier =
  has_conn :: bool

definition notifier_new :: dbus_notifier where
  "notifier_new = \<lparr>has_conn = False\<rparr>"

definition connect_bus :: "string + unit \<Rightarrow> dbus_notifier \<Rightarrow> bool \<times> dbus_notifier" where
  "connect_bus session n = (case session of Inr _ \<Rightarrow> (True, n\<lparr>has_conn := True\<rparr>) | Inl _ \<Rightarrow> (False, n))"

datatype hint = HByte u8 | HText string

text \<open>The arguments of \<open>Notify\<close>.\<close>

record notify_call =
  nc_app :: string
  nc_replaces :: u32
  nc_icon :: string
  nc_summary :: string
  nc_body :: string
  nc_actions :: "string list"
  nc_hints :: "string \<rightharpoonup> hint"
  nc_timeout :: int

definition app_icon :: "u8 \<Rightarrow> string" where
  "app_icon urgency = (if urgency = 2 then ''dialog-error'' else if urgency = 1 then ''dialog-warning'' else ''dialog-information'')"

definition call_of :: "notification \<Rightarrow> notify_call" where
  "call_of n = \<lparr>nc_app = ''ring0'', nc_replaces = 0, nc_icon = app_icon (nt_urgency n), nc_summary = nt_summary n,
     nc_body = nt_body n, nc_actions = concat (map (\<lambda>(k, l). [k, l]) (zip (map fst (nt_actions n)) (map snd (nt_actions n)))),
     nc_hints = [''urgency'' \<mapsto> HByte (nt_urgency n), ''category'' \<mapsto> HText ''im''], nc_timeout = -1\<rparr>"

text \<open>The calls made, and the result.\<close>

definition send_notification ::
  "string + unit \<Rightarrow> (notify_call \<Rightarrow> string + u32) \<Rightarrow> dbus_notifier \<Rightarrow> notification \<Rightarrow> notify_call list \<times> (string + unit)" where
  "send_notification proxy bus n notif =
     (if \<not> has_conn n then ([], Inr ())
      else case proxy of
             Inl e \<Rightarrow> ([], Inl e)
           | Inr _ \<Rightarrow> ([call_of notif], case bus (call_of notif) of Inl e \<Rightarrow> Inl e | Inr _ \<Rightarrow> Inr ()))"

section \<open>The operations of the bridge\<close>

definition urgency_of :: "u32 \<Rightarrow> u8" where
  "urgency_of severity = (if severity \<le> 1 then 0 else if severity = 2 then 1 else 2)"

definition sendDesktopNotification ::
  "string + unit \<Rightarrow> (notify_call \<Rightarrow> string + u32) \<Rightarrow> u32 \<Rightarrow> string \<Rightarrow> string \<Rightarrow> dbus_notifier option \<Rightarrow> notify_call list" where
  "sendDesktopNotification proxy bus severity title message slot =
     (let notif = \<lparr>nt_summary = title, nt_body = message, nt_urgency = urgency_of severity, nt_actions = []\<rparr>
      in case slot of Some n \<Rightarrow> fst (send_notification proxy bus n notif) | None \<Rightarrow> [])"

definition initDbusNotifications :: "string + unit \<Rightarrow> dbus_notifier option \<Rightarrow> dbus_notifier option" where
  "initDbusNotifications session slot =
     (case connect_bus session notifier_new of (True, n) \<Rightarrow> Some n | (False, _) \<Rightarrow> slot)"

section \<open>What is called\<close>

datatype notify_op = InitBus "string + unit" | Notify "string + unit" "notify_call \<Rightarrow> string + u32" u32 string string

fun notify_do :: "notify_op \<Rightarrow> dbus_notifier option \<times> notify_call list \<Rightarrow> dbus_notifier option \<times> notify_call list" where
  "notify_do (InitBus session) (slot, calls) = (initDbusNotifications session slot, calls)"
| "notify_do (Notify proxy bus severity title message) (slot, calls) =
     (slot, calls @ sendDesktopNotification proxy bus severity title message slot)"

definition bus_up :: "notify_op \<Rightarrow> bool" where
  "bus_up x \<longleftrightarrow> (case x of InitBus (Inr _) \<Rightarrow> True | _ \<Rightarrow> False)"

definition desktop_call :: "notify_op \<Rightarrow> notify_call option" where
  "desktop_call x = (case x of
     Notify (Inr _) _ severity title message \<Rightarrow> Some
       \<lparr>nc_app = ''ring0'', nc_replaces = 0,
        nc_icon = (if severity \<le> 1 then ''dialog-information'' else if severity = 2 then ''dialog-warning'' else ''dialog-error''),
        nc_summary = title, nc_body = message, nc_actions = [],
        nc_hints = [''urgency'' \<mapsto> HByte (if severity \<le> 1 then 0 else if severity = 2 then 1 else 2), ''category'' \<mapsto> HText ''im''],
        nc_timeout = -1\<rparr>
   | _ \<Rightarrow> None)"

lemma init_no_call [simp]: "desktop_call (InitBus s) = None" "bus_up (InitBus (Inr u))"
  by (simp_all add: desktop_call_def bus_up_def)

lemma send_up:
  "sendDesktopNotification proxy bus sev title msg (Some \<lparr>has_conn = True\<rparr>) =
     (case desktop_call (Notify proxy bus sev title msg) of Some c \<Rightarrow> [c] | None \<Rightarrow> [])"
  by (cases proxy) (simp_all add: sendDesktopNotification_def send_notification_def call_of_def app_icon_def urgency_of_def
    desktop_call_def Let_def)

lemma run_up: "fold notify_do ops (Some \<lparr>has_conn = True\<rparr>, cs) = (Some \<lparr>has_conn = True\<rparr>, cs @ List.map_filter desktop_call ops)"
proof (induction ops arbitrary: cs)
  case (Cons x ops)
  then show ?case
  proof (cases x)
    case (InitBus s)
    then show ?thesis using Cons
      by (cases s) (simp_all add: initDbusNotifications_def connect_bus_def notifier_new_def map_filter_simps desktop_call_def)
  next
    case (Notify p b s t m)
    then show ?thesis
      using Cons by (cases "desktop_call (Notify p b s t m)") (simp_all add: send_up map_filter_simps)
  qed
qed (simp add: map_filter_simps)

text \<open>
  The user gets a notification exactly for each request after the first time the bus could be reached, as
  long as a proxy can be made, with the icon and the urgency of its severity and without buttons; what
  comes before is lost.
\<close>

theorem notifications_exact:
  "snd (fold notify_do ops (None, [])) = List.map_filter desktop_call (dropWhile (Not \<circ> bus_up) ops)"
proof (induction ops)
  case (Cons x ops)
  show ?case
  proof (cases "bus_up x")
    case True
    then obtain u where "x = InitBus (Inr u)" by (auto simp: bus_up_def split: notify_op.splits sum.splits)
    then show ?thesis
      by (simp add: run_up initDbusNotifications_def connect_bus_def notifier_new_def map_filter_simps)
  next
    case False
    have "notify_do x (None, []) = (None, [])"
      using False by (cases x) (auto simp: bus_up_def initDbusNotifications_def connect_bus_def
        sendDesktopNotification_def Let_def split: sum.splits)
    then show ?thesis using Cons False by simp
  qed
qed (simp add: map_filter_simps)

end
