(* ===== verification/Daemon_State.thy ===== *)
theory Daemon_State
  imports Ipc Prompt Containment Trust Detectors Fastpath Contextual Baseline Governor Rules Rootkit
    Threat_Blocklist Lineage Dpi Risk Correlation Wire
begin

text \<open>
  The daemon (\<open>ring0d/src/main.rs\<close>): its state as the record of its components, what it does to
  the outside as a list of effects, and the connect pipeline. Everything a handler reads from outside
  (files of \<open>/proc\<close>, clocks, answers of the kernel, of \<open>rpm\<close> and of the network) is an
  environment; one handler sees one environment. The encoding of alert records (\<open>alert.rs\<close>) is not
  part of the repository: \<open>e_recode\<close> is what decoding an encoded record yields.
\<close>

section \<open>Environment, effects, state\<close>

type_synonym alert_rec = "u32 \<times> u8 \<times> string"

record denv =
  e_os :: os_env
  e_mono :: nat
  e_wall :: u64
  e_cwd :: string
  e_daemon_pid :: u32
  e_trust :: trust_env
  e_sha :: "bytes \<Rightarrow> bytes"
  e_acc :: kacc
  e_iter :: iteration
  e_entropy :: "string \<Rightarrow> string"
  e_country :: "u32 \<Rightarrow> string \<times> string"
  e_rdns :: "u32 \<Rightarrow> string"
  e_tilde :: "string \<Rightarrow> string"
  e_glob :: "string \<Rightarrow> (string \<Rightarrow> bool) option"
  e_hs :: hyperscan
  e_flatpak :: "string option \<times> string option"
  e_yara :: "string \<Rightarrow> string list option"
  e_read :: "string \<Rightarrow> string option"
  e_parse_rules :: "string \<Rightarrow> rule_config option"
  e_yaml :: "rule \<Rightarrow> string option"
  e_yaml_ok :: "string \<Rightarrow> bool"
  e_rules_written :: bool
  e_recode :: "alert_rec \<Rightarrow> alert_rec option"
  e_clk_tck :: int
  e_self_stat :: "string option"
  e_if_index :: "string \<Rightarrow> u32 option"
  e_interfaces :: "(string \<times> bool) list"

definition e_fs :: "denv \<Rightarrow> procfs" where
  "e_fs env = os_fs (e_os env)"

datatype out_event =
    OPacket u64 u32 u32 u16 u16 u8 u32 u8
  | OExec u32 u32 u32 string string
  | OFile u32 u32 string string
  | OConnect u32 u32 string u32 u16 u8
  | ODns u64 string u16
  | OAlert u32 u8 string
  | OPrompt u64 connect_info nat
  | OStatus "string list" nat nat nat

datatype effect =
    StoredAlert alert_rec
  | StoredRaw out_event
  | Sent out_event
  | SentRecord alert_rec
  | Captured bytes u64
  | Exported u64 u8 string
  | Os os_action

record daemon =
  d_ebpf :: emgr
  d_dpi :: dpi_engine
  d_lineage :: lineage_tree
  d_mode :: response_mode
  d_rules :: rule_engine
  d_corr :: corr
  d_self :: self_defense
  d_baseline :: baseline
  d_rootkit :: rootkit
  d_governor :: governor
  d_trust :: trust_engine
  d_fastpath :: fastpath
  d_prompt :: prompt_engine
  d_threat :: "unit threat_blocklist"
  d_contextual :: contextual
  d_privesc :: "privesc_attempt list"
  d_sandbox :: desktop_sandbox
  d_sockets :: "socket_entry list"
  d_inodes :: inode_cache
  d_binpaths :: binpath_cache
  d_commands :: "daemon_cmd list"
  d_payload :: "sync_payload option"
  event_count :: u64
  alert_throttle :: "(u32 \<times> nat) list"
  connect_throttle :: "(u32 \<times> u64) list"
  effects :: "effect list"

text \<open>
  What the start finds: the manager as it was loaded, the environment variables, the files. Reading
  the rules or the threat list may fail; without a single pattern that compiles there is no daemon.
\<close>

record startup =
  su_manager :: emgr
  su_lsm_attached :: bool
  su_lsm_enforce :: bool
  su_response :: "string option"
  su_rules_path :: string
  su_threat_file :: "string option"
  su_ac_build :: "string set \<Rightarrow> unit option"
  su_baseline_cf :: column_family
  su_baseline_listing :: "(bytes \<times> bytes) option list"
  su_connector :: bool

definition daemon_new :: "denv \<Rightarrow> startup \<Rightarrow> daemon option" where
  "daemon_new env su =
     (case dpi_new (e_hs env) of
        None \<Rightarrow> None
      | Some dpi \<Rightarrow> Some
          \<lparr>d_ebpf = (if su_lsm_attached su \<and> su_lsm_enforce su then enable_lsm_enforcement (su_manager su)
                     else su_manager su),
           d_dpi = dpi, d_lineage = lineage_new, d_mode = response_from_env (su_response su),
           d_rules = (case rules_load (e_tilde env) (e_read env) (e_parse_rules env) (su_rules_path su) of
              Inr r \<Rightarrow> r | Inl err \<Rightarrow> rules_empty),
           d_corr = corr_new, d_self = lock_ebpf_maps (self_defense_new (e_daemon_pid env)),
           d_baseline = baseline_new (e_mono env) (su_baseline_cf su) (su_baseline_listing su),
           d_rootkit = rootkit_new (su_connector su), d_governor = governor_new (e_mono env),
           d_trust = trust_new, d_fastpath = [], d_prompt = prompt_new (e_read env (su_rules_path su)),
           d_threat = snd (load_local_file (su_ac_build su) (su_threat_file su) threat_new),
           d_contextual = contextual_new, d_privesc = [], d_sandbox = \<lparr>ds_apps = [], ds_anomalies = []\<rparr>,
           d_sockets = [], d_inodes = [], d_binpaths = [], d_commands = [], d_payload = None, event_count = 0,
           alert_throttle = [], connect_throttle = [], effects = []\<rparr>)"

definition emit :: "effect list \<Rightarrow> daemon \<Rightarrow> daemon" where
  "emit es d = d\<lparr>effects := effects d @ es\<rparr>"

text \<open>An alert that is stored and broadcast as an event, or as the decoded record.\<close>

definition raise_event :: "u32 \<Rightarrow> u8 \<Rightarrow> string \<Rightarrow> daemon \<Rightarrow> daemon" where
  "raise_event rid sev msg = emit [StoredAlert (rid, sev, msg), Sent (OAlert rid sev msg)]"

definition broadcast_alert_record :: "denv \<Rightarrow> alert_rec \<Rightarrow> daemon \<Rightarrow> daemon" where
  "broadcast_alert_record env a =
     (case e_recode env a of Some (rid, sev, msg) \<Rightarrow> emit [Sent (OAlert rid sev msg)] | None \<Rightarrow> id)"

definition raise_record :: "denv \<Rightarrow> alert_rec \<Rightarrow> daemon \<Rightarrow> daemon" where
  "raise_record env a d = broadcast_alert_record env a (emit [StoredAlert a] d)"

definition os_effects :: "os_action list \<Rightarrow> daemon \<Rightarrow> daemon" where
  "os_effects as = emit (map Os as)"

section \<open>The alert limiter\<close>

definition ALERT_MIN_INTERVAL :: nat where "ALERT_MIN_INTERVAL = 5 * 1000000000"

definition alert_table :: "nat \<Rightarrow> u32 \<Rightarrow> (u32 \<times> nat) list \<Rightarrow> bool \<times> (u32 \<times> nat) list" where
  "alert_table tnow rid m =
     (if (case map_of m rid of Some prev \<Rightarrow> tnow - prev < ALERT_MIN_INTERVAL | None \<Rightarrow> False) then (False, m)
      else
        let m = AList.update rid tnow m in
        (True, if 256 < length m then
                 (let m' = filter (\<lambda>(k, prev). tnow - prev < ALERT_MIN_INTERVAL) m
                  in if 256 < length m' then [] else m')
               else m))"

definition alert_due :: "denv \<Rightarrow> u32 \<Rightarrow> daemon \<Rightarrow> bool \<times> daemon" where
  "alert_due env rid d = (case alert_table (e_mono env) rid (alert_throttle d) of
     (b, m) \<Rightarrow> (b, d\<lparr>alert_throttle := m\<rparr>))"

text \<open>Run an action if the alert is due.\<close>

definition when_due :: "denv \<Rightarrow> u32 \<Rightarrow> (daemon \<Rightarrow> daemon) \<Rightarrow> daemon \<Rightarrow> daemon" where
  "when_due env rid f d = (case alert_due env rid d of (b, d) \<Rightarrow> if b then f d else d)"

section \<open>The connect pipeline\<close>

definition binary_of :: "denv \<Rightarrow> u32 \<Rightarrow> string" where
  "binary_of env pid = (case pf_exe (e_fs env) pid of Some p \<Rightarrow> p | None \<Rightarrow> ''unknown'')"

definition ip_port :: "u32 \<Rightarrow> u16 \<Rightarrow> string" where
  "ip_port ip port = show_ipv4 ip @ '':'' @ show_nat (unat port)"

text \<open>The flow of a trusted connection is offloaded to the kernel, and mirrored if that worked.\<close>

definition offload_flow :: "denv \<Rightarrow> u32 \<Rightarrow> u32 \<Rightarrow> u16 \<Rightarrow> u8 \<Rightarrow> daemon \<Rightarrow> daemon" where
  "offload_flow env pid dip dp proto d =
     (case resolve_flow_for_dst (e_fs env) (e_mono env) pid dip dp proto (d_inodes d) of
        (flow, inodes) \<Rightarrow>
          let d = d\<lparr>d_inodes := inodes\<rparr> in
          (case flow of
             None \<Rightarrow> d
           | Some key \<Rightarrow>
               (case mark_flow_established (e_acc env) key (d_ebpf d) of
                  (Inr _, m) \<Rightarrow> d\<lparr>d_ebpf := m, d_fastpath := mark_flow_safe (key, e_mono env) (d_fastpath d)\<rparr>
                | (Inl _, m) \<Rightarrow> d\<lparr>d_ebpf := m\<rparr>)))"

definition connection_info :: "denv \<Rightarrow> u32 \<Rightarrow> string \<Rightarrow> u32 \<Rightarrow> u16 \<Rightarrow> u8 \<Rightarrow> connect_info" where
  "connection_info env pid binary dip dp proto =
     (let ppid = (case ppid_of (e_fs env) pid of Some p \<Rightarrow> p | None \<Rightarrow> 0) in
      \<lparr>ci_pid = pid, ci_ppid = ppid, ci_binary = binary, ci_parent = binary_of env ppid, ci_dst_ip = dip,
       ci_dst_port = dp, ci_protocol = proto, ci_country = e_country env dip, ci_rdns = e_rdns env dip\<rparr>)"

definition prompt_user :: "denv \<Rightarrow> u32 \<Rightarrow> string \<Rightarrow> u32 \<Rightarrow> u16 \<Rightarrow> u8 \<Rightarrow> daemon \<Rightarrow> daemon" where
  "prompt_user env pid binary dip dp proto d =
     (let ci = connection_info env pid binary dip dp proto in
      case create_prompt (e_iter env) (e_mono env) ci (d_prompt d) of
        (i, p) \<Rightarrow> emit [Sent (OPrompt i ci 15)] (d\<lparr>d_prompt := p\<rparr>))"

definition tls_budget_of :: "trust_status \<Rightarrow> u32" where
  "tls_budget_of t = (if is_trusted t then 4096 else TLS_UNTRUSTED_BUDGET)"

definition apply_trust :: "denv \<Rightarrow> u32 \<Rightarrow> string \<Rightarrow> u32 \<Rightarrow> u16 \<Rightarrow> u8 \<Rightarrow> daemon \<Rightarrow> daemon" where
  "apply_trust env pid binary dip dp proto d =
     (case verify_impl (e_trust env) (e_sha env) binary (d_trust d) of
        (status, te) \<Rightarrow>
          let d = d\<lparr>d_trust := te, d_ebpf := set_pid_budget (e_acc env) pid (tls_budget_of status) (d_ebpf d)\<rparr> in
          if should_block_connection (d_contextual d) pid binary then
            raise_event 4003 2 (''Contextual block: '' @ ip_port dip dp @ '' by PID '' @ show_u32 pid) d
          else if is_trusted status then offload_flow env pid dip dp proto d
          else prompt_user env pid binary dip dp proto d)"

definition check_sandbox :: "denv \<Rightarrow> u32 \<Rightarrow> string \<Rightarrow> daemon \<Rightarrow> daemon" where
  "check_sandbox env pid binary d =
     (let cmdline = (case cmdline_of (e_fs env) pid of Some c \<Rightarrow> c | None \<Rightarrow> ''unknown'');
          s = snd (resolve_pid (fst (e_flatpak env)) (snd (e_flatpak env)) pid binary cmdline (d_sandbox d)) in
      case check_network_anomaly (e_wall env) pid binary s of
        (None, s) \<Rightarrow> d\<lparr>d_sandbox := s\<rparr>
      | (Some a, s) \<Rightarrow> raise_event 1001 3 (sa_description a) (d\<lparr>d_sandbox := s\<rparr>))"

definition connect_slow :: "denv \<Rightarrow> u32 \<Rightarrow> string \<Rightarrow> u32 \<Rightarrow> u16 \<Rightarrow> u8 \<Rightarrow> out_event \<Rightarrow> daemon \<Rightarrow> daemon" where
  "connect_slow env pid binary dip dp proto evt d =
     (let d = (case check_connection_anomaly dip dp (d_baseline d) of
            (None, b) \<Rightarrow> d\<lparr>d_baseline := b\<rparr>
          | (Some a, b) \<Rightarrow> raise_event 8002 2 a (d\<lparr>d_baseline := b\<rparr>));
          d = emit [StoredRaw evt] (check_sandbox env pid binary d)
      in apply_trust env pid binary dip dp proto d)"

text \<open>\<open>secs_of\<close>: the wall clock in seconds.\<close>

definition secs_of :: "denv \<Rightarrow> u64" where
  "secs_of env = e_wall env div 1000000000"

definition track_connect :: "denv \<Rightarrow> u32 \<Rightarrow> u32 \<Rightarrow> u16 \<Rightarrow> u8 \<Rightarrow> daemon \<Rightarrow> daemon" where
  "track_connect env pid dip dp proto d =
     d\<lparr>d_sockets := push_socket \<lparr>so_pid = pid, so_dst_ip = dip, so_dst_port = dp, so_protocol = proto\<rparr> (d_sockets d),
       d_corr := Correlation.push_connect (e_wall env) (e_wall env) pid dip dp (d_corr d),
       d_lineage := record_connect (e_wall env) pid dip dp (d_lineage d),
       d_baseline := record_connection dip dp (d_baseline d)\<rparr>"

definition handle_connect ::
    "denv \<Rightarrow> u32 \<Rightarrow> u32 \<Rightarrow> u32 \<Rightarrow> u16 \<Rightarrow> u8 \<Rightarrow> string option \<Rightarrow> daemon \<Rightarrow> daemon" where
  "handle_connect env pid uid dip dp proto binary_hint d =
     (let binary = (case binary_hint of Some b \<Rightarrow> if b \<noteq> [] then b else binary_of env pid | None \<Rightarrow> binary_of env pid);
          evt = OConnect pid uid binary dip dp proto;
          d = emit [Sent evt] (track_connect env pid dip dp proto d) in
      if (case map_of (connect_throttle d) pid of Some prev \<Rightarrow> sat_sub (secs_of env) prev < 5 | None \<Rightarrow> False) then d
      else connect_slow env pid binary dip dp proto evt
             (d\<lparr>connect_throttle := AList.update pid (secs_of env) (connect_throttle d)\<rparr>))"

end
