(* ===== verification/Daemon_Events.thy ===== *)
theory Daemon_Events
  imports Daemon_State
begin

text \<open>
  The ring handlers of the daemon (\<open>ring0d/src/main.rs\<close>): what it does with each event of the
  kernel programs. Decoding is that of \<open>Wire\<close>; \<open>None\<close> as a result is a panic of the handler,
  which ends the daemon.
\<close>

section \<open>Dispatch\<close>

definition on_outcome :: "'a outcome \<Rightarrow> ('a \<Rightarrow> daemon \<Rightarrow> daemon) \<Rightarrow> daemon \<Rightarrow> daemon option" where
  "on_outcome x f d = (case x of Skip \<Rightarrow> Some d | Panic \<Rightarrow> None | Got v \<Rightarrow> Some (f v d))"

definition count_event :: "daemon \<Rightarrow> daemon" where
  "count_event d = d\<lparr>event_count := event_count d + 1\<rparr>"

section \<open>Packets\<close>

definition on_packet :: "denv \<Rightarrow> bytes \<Rightarrow> daemon \<Rightarrow> daemon option" where
  "on_packet env raw = on_outcome (decode_packet raw) (\<lambda>(ts, src, dst, sp, dp, proto, pid, action) d.
     let evt = OPacket ts src dst sp dp proto pid action;
         d = emit [StoredRaw evt, Sent evt] d;
         d = (if action = 1 then snd (alert_due env 10002 d) else d);
         d = emit [Captured raw ts] d;
         d = (if 0 < pid then d\<lparr>d_binpaths := snd (binary_path_cached (e_fs env) (e_mono env) pid (d_binpaths d))\<rparr> else d) in
     if check_ports (d_threat d) sp dp then
       when_due env 4000 (raise_event 4000 3 (''blocked port traffic '' @ ip_port dst dp)) d
     else d)"

section \<open>Executions and files\<close>

definition kill_blocked :: "denv \<Rightarrow> u32 \<Rightarrow> daemon \<Rightarrow> daemon" where
  "kill_blocked env pid d =
     (case starttime (e_fs env) pid of
        None \<Rightarrow> d
      | Some ev \<Rightarrow>
          if starttime (e_fs env) pid = Some ev then
            (case try_i32 pid of Some p \<Rightarrow> os_effects [Signal p SIGKILL] d | None \<Rightarrow> d)
          else d)"

definition raise_process_rule :: "denv \<Rightarrow> string \<Rightarrow> string \<Rightarrow> u32 \<Rightarrow> daemon \<Rightarrow> daemon" where
  "raise_process_rule env binary parent rid d =
     when_due env (200 + rid)
       (raise_record env (rid, 3, process_rule_name (d_rules d) rid @ '': '' @ binary @ '' spawned by '' @ parent)) d"

definition on_process_exec :: "denv \<Rightarrow> bytes \<Rightarrow> daemon \<Rightarrow> daemon option" where
  "on_process_exec env raw = on_outcome (decode_process_exec raw) (\<lambda>(pid, event_ppid, uid, comm) d.
     let fs = e_fs env;
         ppid = (case ppid_of fs pid of Some p \<Rightarrow> p | None \<Rightarrow> event_ppid);
         binary = (case pf_exe fs pid of Some p \<Rightarrow> p | None \<Rightarrow> comm);
         cmdline = (case cmdline_of fs pid of Some c \<Rightarrow> c | None \<Rightarrow> ''unknown'');
         parent_binary = pf_exe fs ppid;
         evt = OExec pid ppid uid binary cmdline;
         d = emit [Sent evt] d;
         d = d\<lparr>d_baseline := Baseline.record_exec binary parent_binary (d_baseline d)\<rparr>;
         d = (case check_exec_anomaly (e_entropy env) binary parent_binary (d_baseline d) of
                (None, b) \<Rightarrow> d\<lparr>d_baseline := b\<rparr>
              | (Some a, b) \<Rightarrow> raise_event 8001 2 a (d\<lparr>d_baseline := b\<rparr>));
         d = d\<lparr>d_corr := push_exec (e_wall env) (e_wall env) pid ppid binary cmdline (d_corr d),
               d_lineage := Lineage.record_exec (pf_stat fs) (e_wall env) (e_cwd env) pid ppid binary cmdline (d_lineage d)\<rparr>;
         d = (case parent_binary of
                Some pb \<Rightarrow> fold (raise_process_rule env binary pb) (check_process_anomaly (d_rules d) binary (Some pb)) d
              | None \<Rightarrow> d);
         d = (if binary_blocked (d_ebpf d) binary then
                kill_blocked env pid (raise_event 9001 4 (''blocked binary executed: '' @ binary) d)
              else d)
     in emit [StoredRaw evt, Sent evt] d)"

definition on_file_access :: "denv \<Rightarrow> bytes \<Rightarrow> daemon \<Rightarrow> daemon option" where
  "on_file_access env raw = on_outcome (decode_file_access raw) (\<lambda>(pid, uid, path) d.
     let binary = binary_of env pid;
         d = d\<lparr>d_corr := push_file (e_wall env) (e_wall env) pid path (d_corr d)\<rparr>;
         d = fold (\<lambda>rid. raise_event rid 3 (binary @ '': '' @ path))
               (check_file_access (e_tilde env) (e_glob env) (d_rules d) path True) d;
         evt = OFile pid uid binary path
     in emit [StoredRaw evt, Sent evt] d)"

definition on_connect :: "denv \<Rightarrow> bytes \<Rightarrow> daemon \<Rightarrow> daemon option" where
  "on_connect env raw = on_outcome (decode_connect raw)
     (\<lambda>(pid, uid, dip, dp, proto). handle_connect env pid uid dip dp proto None)"

section \<open>Attacks on the daemon\<close>

definition self_defense_alert :: "self_defense_event \<Rightarrow> alert_rec" where
  "self_defense_alert e = (0, 3, ''self-defense: PID '' @ show_u32 (sde_attacker_pid e) @ '' '' @ sde_syscall e)"

definition report_self_defense :: "denv \<Rightarrow> self_defense_event option \<times> self_defense \<Rightarrow> daemon \<Rightarrow> daemon" where
  "report_self_defense env r d =
     (let d = d\<lparr>d_self := snd r\<rparr> in case fst r of Some e \<Rightarrow> raise_record env (self_defense_alert e) d | None \<Rightarrow> d)"

definition on_kill_event :: "denv \<Rightarrow> bytes \<Rightarrow> daemon \<Rightarrow> daemon option" where
  "on_kill_event env raw = on_outcome (decode_kill raw) (\<lambda>(attacker, target, sg) d.
     report_self_defense env (ingest_kill_attempt (e_wall env) attacker target sg (d_self d)) d)"

definition on_unlink_event :: "denv \<Rightarrow> bytes \<Rightarrow> daemon \<Rightarrow> daemon option" where
  "on_unlink_event env raw = on_outcome (decode_unlink raw) (\<lambda>(pid, path) d.
     report_self_defense env (ingest_unlink_attempt (e_wall env) pid path (d_self d)) d)"

section \<open>Names and payloads\<close>

definition on_dns_event :: "denv \<Rightarrow> bytes \<Rightarrow> daemon \<Rightarrow> daemon option" where
  "on_dns_event env raw d = on_outcome (decode_dns raw) (\<lambda>(ts, query_type, domain).
     emit [StoredRaw (ODns ts domain query_type), Sent (ODns ts domain query_type)]) (count_event d)"

definition enforce_high_risk :: "denv \<Rightarrow> u32 \<Rightarrow> u32 option \<Rightarrow> daemon \<Rightarrow> daemon" where
  "enforce_high_risk env pid dst_ip d =
     (case d_mode d of
        Notify \<Rightarrow> d
      | BlockNetwork \<Rightarrow>
          (case dst_ip of Some ip \<Rightarrow> d\<lparr>d_ebpf := snd (block_ip (e_acc env) (V4 ip) (d_ebpf d))\<rparr> | None \<Rightarrow> d)
      | Freeze \<Rightarrow> os_effects (snd (quarantine_pid_checked (e_os env) pid None)) d
      | KillProcess \<Rightarrow> os_effects (snd (kill_tree (e_os env) pid)) d)"

definition show_int :: "int \<Rightarrow> string" where
  "show_int i = (if i < 0 then ''-'' @ show_nat (nat (- i)) else show_nat (nat i))"

definition risk_message :: "risk_result \<Rightarrow> u32 \<Rightarrow> string \<Rightarrow> u32 option \<Rightarrow> u16 \<Rightarrow> string" where
  "risk_message r pid binary dst_ip dst_port =
     ''risk='' @ show_int (score r) @ '' ('' @
       (case rr_verdict r of HighRisk \<Rightarrow> ''HIGH'' | Flagged \<Rightarrow> ''suspicious'' | VPass \<Rightarrow> ''pass'') @
     '') pid='' @ show_u32 pid @ '' binary='' @ after_last CHR ''/'' binary @ '' dst='' @
       (case dst_ip of Some ip \<Rightarrow> show_u32 ip | None \<Rightarrow> []) @
       (if dst_port \<noteq> 0 then '':'' @ show_nat (unat dst_port) else [])"

text \<open>The alert limiter stands in front of the enforcement too.\<close>

definition respond_to_risk :: "denv \<Rightarrow> u32 \<Rightarrow> string \<Rightarrow> u32 option \<Rightarrow> u16 \<Rightarrow> risk_result \<Rightarrow> daemon \<Rightarrow> daemon" where
  "respond_to_risk env pid binary dst_ip dst_port r d =
     (if rr_verdict r = VPass then d
      else when_due env 11001 (\<lambda>d.
        let d = raise_record env (11001, if rr_verdict r = HighRisk then 4 else 2,
                  risk_message r pid binary dst_ip dst_port) d in
        if rr_verdict r = HighRisk then enforce_high_risk env pid dst_ip d else d) d)"

definition on_tls_event :: "denv \<Rightarrow> bytes \<Rightarrow> daemon \<Rightarrow> daemon option" where
  "on_tls_event env raw d = on_outcome (decode_tls raw) (\<lambda>(payload, pid, direction) d.
     case scan_payload (e_hs env) (secs_of env) payload (d_dpi d) of
       (hits, dpi) \<Rightarrow>
         let d = fold (\<lambda>m. raise_record env (rule_id m, severity m,
                     signature_name m @ '' [pid '' @ show_u32 pid @ '': '' @ binary_of env pid @ '']''))
                   hits (d\<lparr>d_dpi := dpi\<rparr>);
             binary = (case lookup_proc (d_lineage d) pid of Some i \<Rightarrow> pi_binary i | None \<Rightarrow> binary_of env pid) in
         case verify_impl (e_trust env) (e_sha env) binary (d_trust d) of
           (status, te) \<Rightarrow>
             let d = d\<lparr>d_trust := te\<rparr>;
                 (dst_ip, dst_port) = (case latest_connection (d_lineage d) pid of
                    Some c \<Rightarrow> (Some (cr_dst_ip c), cr_dst_port c) | None \<Rightarrow> (None, 0));
                 r = risk_score (d_lineage d) pid dst_ip dst_port (direction = 0) payload hits (\<not> is_trusted status)
             in respond_to_risk env pid binary dst_ip dst_port r d) (count_event d)"

definition BPF_DPI_RULE_IDS :: "u32 list" where
  "BPF_DPI_RULE_IDS = [5001, 5008, 5009, 5010, 5013, 5017, 5018, 5005, 5006, 5007]"

definition decode_dpi :: "bytes \<Rightarrow> (u32 \<times> u32 \<times> u32 \<times> u16 \<times> u8) outcome" where
  "decode_dpi raw =
     (if length raw < 36 then Skip
      else outcome_of (do { i \<leftarrow> rd32 raw 20; src \<leftarrow> rd32 raw 24; dst \<leftarrow> rd32 raw 28; dp \<leftarrow> rd16 raw 32;
             proto \<leftarrow> rd8 raw 34; Some (i, src, dst, dp, proto) }))"

definition on_dpi_event :: "denv \<Rightarrow> bytes \<Rightarrow> daemon \<Rightarrow> daemon option" where
  "on_dpi_event env raw d = on_outcome (decode_dpi raw) (\<lambda>(i, src, dst, dp, proto) d.
     let rid = (if unat i < length BPF_DPI_RULE_IDS then BPF_DPI_RULE_IDS ! unat i else i);
         name = (case dpi_signature_name rid of Some n \<Rightarrow> n | None \<Rightarrow> ''unknown pattern'');
         msg = ''DPI match rule='' @ show_u32 rid @ '' ('' @ name @ '') '' @ show_ipv4 src @ '' -> '' @ ip_port dst dp
           @ (if proto = 17 then ''/udp'' else ''/tcp'')
     in when_due env (5000 + rid) (raise_record env (5000 + rid, 2, msg)) d) (count_event d)"

text \<open>The main ring.\<close>

definition on_raw_event :: "denv \<Rightarrow> bytes \<Rightarrow> daemon \<Rightarrow> daemon option" where
  "on_raw_event env raw d =
     (let d = count_event d in
      if length raw < 16 then Some d
      else if \<not> event_len_ok (raw ! 0) (length raw) then Some d
      else if raw ! 0 = 0 then on_packet env raw d
      else if raw ! 0 = 1 then on_process_exec env raw d
      else if raw ! 0 = 2 then on_file_access env raw d
      else if raw ! 0 = 3 then on_connect env raw d
      else if raw ! 0 = 4 then on_kill_event env raw d
      else if raw ! 0 = 5 then on_unlink_event env raw d
      else if raw ! 0 = 6 then on_tls_event env raw d
      else if raw ! 0 = 7 then on_dns_event env raw d
      else if raw ! 0 = 30 then on_dpi_event env raw d
      else Some d)"

section \<open>The other rings\<close>

definition lsm_message :: "lsm_fields \<Rightarrow> string" where
  "lsm_message f =
     (if lf_event_type f = 0 then ''LSM blocked file open: '' @ lf_path f @ '' (pid '' @ show_u32 (lf_pid f) @ '')''
      else if lf_event_type f = 1 then ''LSM blocked binary execution: pid '' @ show_u32 (lf_pid f)
      else if lf_event_type f = 2 then ''LSM blocked connect: '' @ ip_port (lf_dst_ip f) (lf_dst_port f)
             @ '' (pid '' @ show_u32 (lf_pid f) @ '')''
      else ''LSM blocked unknown event type '' @ show_nat (unat (lf_event_type f)))"

definition on_lsm_event :: "denv \<Rightarrow> bytes \<Rightarrow> daemon \<Rightarrow> daemon option" where
  "on_lsm_event env raw d = on_outcome (decode_lsm raw) (\<lambda>f.
     if lf_denied f = 1 then raise_record env (9000 + ucast (lf_event_type f), 4, lsm_message f)
     else if lf_event_type f = 2 then
       handle_connect env (lf_pid f) (lf_uid f) (lf_dst_ip f) (lf_dst_port f) 6 (Some (lf_path f))
     else (\<lambda>d. d)) (count_event d)"

text \<open>The start time is read when the event is handled, right before it is compared.\<close>

definition quarantine_now :: "denv \<Rightarrow> u32 \<Rightarrow> daemon \<Rightarrow> daemon" where
  "quarantine_now env pid = os_effects (snd (quarantine_pid_checked (e_os env) pid (starttime (e_fs env) pid)))"

definition on_privesc_event :: "denv \<Rightarrow> bytes \<Rightarrow> daemon \<Rightarrow> daemon option" where
  "on_privesc_event env raw d = on_outcome (decode_privesc raw) (\<lambda>e d. case e of
       PSetuid pid uid new_uid \<Rightarrow>
         let d = d\<lparr>d_privesc := snd (ingest_setuid_event (e_wall env) pid uid new_uid (d_privesc d))\<rparr>;
             d = when_due env 2001 (raise_record env (2001, 4, ''setuid escalation PID '' @ show_u32 pid @ '' ''
                   @ show_u32 uid @ ''->'' @ show_u32 new_uid)) d
         in quarantine_now env pid d
     | PPtrace pid uid target \<Rightarrow>
         let d = d\<lparr>d_privesc := snd (ingest_ptrace_attempt (e_wall env) pid uid target (d_privesc d))\<rparr>
         in when_due env 2002 (raise_record env (2002, 4,
              if target \<noteq> 0 then ''ptrace PID '' @ show_u32 pid @ '' -> '' @ show_u32 target
              else ''ptrace access attempt PID '' @ show_u32 pid)) d
     | PCap pid uid cap \<Rightarrow>
         let d = d\<lparr>d_privesc := snd (ingest_capable_check (e_wall env) pid uid cap (d_privesc d))\<rparr>
         in when_due env 2003 (raise_record env (2003, 3, ''capable PID '' @ show_u32 pid @ '' cap='' @ show_u32 cap)) d)
     (count_event d)"

definition report_finding :: "denv \<Rightarrow> u32 \<Rightarrow> rootkit_finding option \<Rightarrow> daemon \<Rightarrow> daemon" where
  "report_finding env rid f = (case f of Some x \<Rightarrow> raise_record env (rid, 3, rf_description x) | None \<Rightarrow> id)"

definition on_rootkit_event :: "denv \<Rightarrow> bytes \<Rightarrow> daemon \<Rightarrow> daemon option" where
  "on_rootkit_event env raw d = on_outcome (decode_rootkit raw) (\<lambda>e d. case e of
       RMmap pid prot flags len \<Rightarrow> report_finding env 7001 (ingest_wx_mmap_event (e_wall env) pid prot flags len) d
     | RModule pid name flags \<Rightarrow>
         report_finding env 7002 (ingest_module_event (e_wall env) (pf_exe (e_fs env) pid) pid name flags) d
     | RMemfd pid name flags \<Rightarrow>
         let d = report_finding env 7000 (ingest_memfd_event (e_wall env) pid name flags) d in
         (case pf_exe (e_fs env) pid of
            Some binary \<Rightarrow>
              (case e_yara env binary of
                 Some matches \<Rightarrow> fold (\<lambda>m. raise_record env (7003, 3, m)) matches d
               | None \<Rightarrow> d)
          | None \<Rightarrow> d)) (count_event d)"

end
