(* ===== verification/Daemon_Loop.thy ===== *)
theory Daemon_Loop
  imports Daemon_Events
begin

text \<open>
  The commands, the periodic work and the main loop of the daemon (\<open>ring0d/src/main.rs\<close>).
\<close>

section \<open>Periodic work\<close>

definition tick_rootkit_scan :: "denv \<Rightarrow> daemon \<Rightarrow> daemon" where
  "tick_rootkit_scan env d =
     (case scan_hidden_pids (e_wall env) (e_mono env) (proc_dir (e_os env)) (e_fs env) (d_rootkit d) of
        (findings, r) \<Rightarrow>
          emit (map (\<lambda>f. StoredAlert (7004, if rf_hidden f then 4 else 2,
                  ''['' @ rf_alert_type f @ ''] '' @ rf_description f)) findings) (d\<lparr>d_rootkit := r\<rparr>))"

definition tick_governor :: "denv \<Rightarrow> daemon \<Rightarrow> daemon" where
  "tick_governor env d =
     (let g = snd (governor_tick (e_clk_tck env) (e_self_stat env) (e_mono env) (d_governor d)) in
      d\<lparr>d_governor := g, d_ebpf := set_sampling_enabled (sampling_enabled g) (d_ebpf d)\<rparr>)"

definition report_correlation :: "denv \<Rightarrow> correlation_alert \<Rightarrow> daemon \<Rightarrow> daemon" where
  "report_correlation env a d =
     (let rec = (ca_pattern_id a, ca_severity a,
            ''['' @ ca_mitre_technique a @ ''] '' @ ca_pattern_name a @ ''  -  '' @ ca_description a);
          d = emit [StoredAlert rec, SentRecord rec] d in
      if 3 \<le> ca_severity a then
        emit [Exported (ca_id a) (ca_severity a) (''['' @ show_u32 (ca_pattern_id a) @ ''] '' @ ca_pattern_name a
                @ ''  -  '' @ ca_description a)] (quarantine_now env (ca_root_pid a) d)
      else d)"

definition eval_correlations :: "denv \<Rightarrow> daemon \<Rightarrow> daemon" where
  "eval_correlations env d = (case corr_eval (e_wall env) (d_corr d) of
     (alerts, c) \<Rightarrow> fold (report_correlation env) alerts (d\<lparr>d_corr := c\<rparr>))"

definition SYNC_CHUNK :: nat where "SYNC_CHUNK = 2048"

function chunks :: "nat \<Rightarrow> 'a list \<Rightarrow> 'a list list" where
  "chunks n xs = (if n = 0 \<or> xs = [] then [] else take n xs # chunks n (drop n xs))"
  by auto
termination by (relation "measure (\<lambda>(n, xs). length xs)") auto

declare chunks.simps [simp del]

definition sync_cidr_chunk :: "kacc \<Rightarrow> (u32 \<times> u8) list \<Rightarrow> nat \<times> emgr \<Rightarrow> nat \<times> emgr" where
  "sync_cidr_chunk acc chunk cm = (case sync_blocked_cidrs acc chunk (snd cm) of (n, m) \<Rightarrow> (fst cm + n, m))"

definition sync_port_chunk :: "kacc \<Rightarrow> u16 list \<Rightarrow> nat \<times> emgr \<Rightarrow> nat \<times> emgr" where
  "sync_port_chunk acc chunk cm = (case sync_blocked_ports acc chunk (snd cm) of (n, m) \<Rightarrow> (fst cm + n, m))"

definition apply_payload :: "kacc \<Rightarrow> sync_payload \<Rightarrow> emgr \<Rightarrow> (nat \<times> nat \<times> nat) \<times> emgr" where
  "apply_payload acc p m =
     (case fold (sync_cidr_chunk acc) (chunks SYNC_CHUNK (sp_cidrs p)) (0, m) of (c, m) \<Rightarrow>
      case sync_dns_domains (take 190000 (sp_domains p)) m of (n, m) \<Rightarrow>
      case fold (sync_port_chunk acc) (chunks SYNC_CHUNK (sp_ports p)) (0, m) of (k, m) \<Rightarrow> ((c, n, k), m))"

definition apply_blocklist_payload :: "denv \<Rightarrow> daemon \<Rightarrow> daemon" where
  "apply_blocklist_payload env d =
     (case d_payload d of
        None \<Rightarrow> d
      | Some p \<Rightarrow> d\<lparr>d_payload := None, d_ebpf := snd (apply_payload (e_acc env) p (d_ebpf d)),
                    d_dpi := set_dynamic_patterns (e_hs env) (sp_dpi_patterns p) (d_dpi d)\<rparr>)"

datatype tick = CorrTick | BaselineTick | ForensicsTick | RootkitTick | IntelTick | GovernorTick
  | FastpathTick | PromptTick | BlocklistTick

definition reap_throttles :: "denv \<Rightarrow> daemon \<Rightarrow> daemon" where
  "reap_throttles env d =
     d\<lparr>connect_throttle := filter (\<lambda>(k, prev). sat_sub (secs_of env) 120 \<le> prev) (connect_throttle d),
       alert_throttle := filter (\<lambda>(k, prev). e_mono env - 120 * 1000000000 \<le> prev) (alert_throttle d)\<rparr>"

fun on_tick :: "denv \<Rightarrow> tick \<Rightarrow> daemon \<Rightarrow> daemon" where
  "on_tick env CorrTick d =
     (let d = eval_correlations env d in
      d\<lparr>d_lineage := maybe_prune (pf_stat (e_fs env)) (e_wall env) (secs_of env) (d_lineage d)\<rparr>)"
| "on_tick env BaselineTick d = d\<lparr>d_baseline := tick_baseline (e_mono env) (d_baseline d)\<rparr>"
| "on_tick env ForensicsTick d = d"
| "on_tick env RootkitTick d = tick_rootkit_scan env d"
| "on_tick env IntelTick d = d\<lparr>d_ebpf := clear_pid_budgets (clear_tls_budgets (d_ebpf d))\<rparr>"
| "on_tick env GovernorTick d =
     (let d = tick_governor env d in d\<lparr>d_ebpf := scan_interfaces (e_if_index env) (e_interfaces env) (d_ebpf d)\<rparr>)"
| "on_tick env FastpathTick d =
     (let d = reap_throttles env (d\<lparr>d_fastpath := purge_idle_flows (e_mono env) (d_fastpath d)\<rparr>) in
      d\<lparr>d_ebpf := clear_pid_budgets (d_ebpf d)\<rparr>)"
| "on_tick env PromptTick d = d\<lparr>d_prompt := check_timeouts (e_mono env) (d_prompt d)\<rparr>"
| "on_tick env BlocklistTick d = apply_blocklist_payload env d"

section \<open>Commands\<close>

definition action_of :: "string \<Rightarrow> prompt_action" where
  "action_of s = (if s = ''allow_once'' then AllowOnce else if s = ''allow_always'' then AllowAlways
     else if s = ''block'' then Block else if s = ''block_always'' then BlockAlways else Block)"

definition scope_of :: "string \<Rightarrow> prompt_scope" where
  "scope_of s = (if s = ''exact_ip'' then ExactIp else if s = ''domain'' then Domain
     else if s = ''port'' then Port else if s = ''process'' then prompt_scope.Process else ExactIp)"

text \<open>The commands a decision sends go to the channel the main loop reads.\<close>

definition decide_prompt :: "denv \<Rightarrow> u64 \<Rightarrow> string \<Rightarrow> string \<Rightarrow> u32 \<Rightarrow> daemon \<Rightarrow> daemon" where
  "decide_prompt env i action scope caller d =
     (if (case pending_get i (d_prompt d) of Some p \<Rightarrow> cp_pid p = caller | None \<Rightarrow> False) then d
      else case resolve_prompt (e_yaml env) (e_yaml_ok env) (e_rules_written env) i
                  (action_of action, scope_of scope) ((d_prompt d)\<lparr>sent := []\<rparr>) of
        (_, e) \<Rightarrow> d\<lparr>d_prompt := e\<lparr>sent := []\<rparr>, d_commands := d_commands d @ sent e\<rparr>)"

definition kill_process :: "denv \<Rightarrow> u32 \<Rightarrow> daemon \<Rightarrow> daemon" where
  "kill_process env pid d =
     (case try_i32 pid of
        None \<Rightarrow> d
      | Some p \<Rightarrow>
          if \<not> 0 < p then d
          else if pid = 0 \<or> pid = 1 \<or> pid = e_daemon_pid env then d
          else os_effects [Signal p SIGKILL] d)"

definition send_status :: "bool \<Rightarrow> daemon \<Rightarrow> daemon" where
  "send_status full d =
     (let filters = take 500 (blocked_ips (d_ebpf d)) in
      emit [Sent (OStatus filters (blocked_domain_count (d_ebpf d))
              (length (if full then blocked_ips (d_ebpf d) else filters)) (blocked_port_count (d_ebpf d)))] d)"

fun handle_command :: "denv \<Rightarrow> daemon_cmd \<Rightarrow> daemon \<Rightarrow> daemon" where
  "handle_command env (BlockIp ip) d = d\<lparr>d_ebpf := snd (block_ip (e_acc env) ip (d_ebpf d))\<rparr>"
| "handle_command env (UnblockIp ip) d = d\<lparr>d_ebpf := unblock_ip ip (d_ebpf d)\<rparr>"
| "handle_command env (BlockPort p) d =
     d\<lparr>d_ebpf := snd (block_port (e_acc env) p (d_ebpf d)), d_threat := threat_block_port p (d_threat d)\<rparr>"
| "handle_command env (UnblockPort p) d =
     d\<lparr>d_ebpf := unblock_port p (d_ebpf d), d_threat := threat_unblock_port p (d_threat d)\<rparr>"
| "handle_command env (daemon_cmd.KillProcess pid) d = kill_process env pid d"
| "handle_command env (Quarantine pid) d = os_effects (snd (quarantine_pid (e_os env) pid)) d"
| "handle_command env ReloadRules d =
     d\<lparr>d_rules := snd (rules_reload (e_tilde env) (e_read env) (e_parse_rules env) (d_rules d))\<rparr>"
| "handle_command env RunRootkitScan d = tick_rootkit_scan env d"
| "handle_command env (SubmitPromptDecision i action scope caller) d = decide_prompt env i action scope caller d"
| "handle_command env (MarkFlowAllowed ip port proto pid) d = offload_flow env pid ip port proto d"
| "handle_command env Status d = send_status True d"
| "handle_command env PowerStatus d = send_status False d"
| "handle_command env _ d = d"

section \<open>The main loop\<close>

datatype input = InCommand daemon_cmd | InRing bytes | InLsm bytes | InRootkit bytes | InPrivesc bytes | InTick tick

fun handle :: "denv \<Rightarrow> input \<Rightarrow> daemon \<Rightarrow> daemon option" where
  "handle env (InCommand c) d = Some (handle_command env c d)"
| "handle env (InRing raw) d = on_raw_event env raw d"
| "handle env (InLsm raw) d = on_lsm_event env raw d"
| "handle env (InRootkit raw) d = on_rootkit_event env raw d"
| "handle env (InPrivesc raw) d = on_privesc_event env raw d"
| "handle env (InTick t) d = Some (on_tick env t d)"

definition cleanup :: "daemon \<Rightarrow> daemon" where
  "cleanup d = d\<lparr>d_ebpf := detach (d_ebpf d)\<rparr>"

text \<open>
  The loop either waits in its \<open>select\<close> or runs a handler. \<open>notify_waiters\<close> wakes whoever waits at
  that moment and stores nothing; the signal task ends with the first signal other than SIGUSR1
  (\<open>listening\<close> becomes false).
\<close>

datatype phase = Waiting | Handling input | Stopped | Crashed

record loop_state =
  phase :: phase
  listening :: bool
  dm :: daemon

definition notify_waiters :: "loop_state \<Rightarrow> loop_state" where
  "notify_waiters s = (if phase s = Waiting then s\<lparr>phase := Stopped, dm := cleanup (dm s)\<rparr> else s)"

inductive loop_step :: "loop_state \<Rightarrow> loop_state \<Rightarrow> bool" where
  receive: "phase s = Waiting \<Longrightarrow> loop_step s (s\<lparr>phase := Handling i\<rparr>)"
| finish: "phase s = Handling i \<Longrightarrow> handle env i (dm s) = Some d \<Longrightarrow> i \<noteq> InCommand Shutdown \<Longrightarrow>
    loop_step s (s\<lparr>phase := Waiting, dm := d\<rparr>)"
| shutdown: "phase s = Handling (InCommand Shutdown) \<Longrightarrow> loop_step s ((notify_waiters s)\<lparr>phase := Waiting\<rparr>)"
| crash: "phase s = Handling i \<Longrightarrow> handle env i (dm s) = None \<Longrightarrow> loop_step s (s\<lparr>phase := Crashed\<rparr>)"
| signal: "listening s \<Longrightarrow> phase s \<notin> {Stopped, Crashed} \<Longrightarrow> loop_step s ((notify_waiters s)\<lparr>listening := False\<rparr>)"

inductive loop_run :: "loop_state \<Rightarrow> loop_state \<Rightarrow> bool" where
  start: "loop_run s s"
| step: "loop_run s t \<Longrightarrow> loop_step t u \<Longrightarrow> loop_run s u"

end
