(* ===== verification/Daemon_Facts.thy ===== *)
theory Daemon_Facts
  imports Daemon_Loop
begin

text \<open>
  What the daemon keeps: every handler preserves the bounds and invariants of all its components,
  touches the kernel only through the operations of \<open>Ebpf_Manager\<close>, and never panics on what the
  kernel programs emit.
\<close>

section \<open>The state invariant\<close>

definition trust_bounded :: "trust_engine \<Rightarrow> bool" where
  "trust_bounded e \<longleftrightarrow> length (status_cache e) \<le> 8192 \<and> length (path_memo e) \<le> 8192"

definition daemon_ok :: "daemon \<Rightarrow> bool" where
  "daemon_ok d \<longleftrightarrow> lineage_ok (d_lineage d) \<and> prompts_ok (d_prompt d) \<and> trust_bounded (d_trust d)
    \<and> length (d_fastpath d) \<le> MAX_FLOWS \<and> length (sd_events (d_self d)) \<le> 2048
    \<and> length (d_privesc d) \<le> 4096 \<and> length (ds_anomalies (d_sandbox d)) \<le> 2048
    \<and> length (d_sockets d) \<le> 16384 \<and> length (d_binpaths d) \<le> 16384 \<and> length (alert_throttle d) \<le> 256
    \<and> governor_ok (d_governor d) \<and> rules_ok (d_rules d)"

lemma daemon_ok_frame [simp]:
  "daemon_ok (d\<lparr>effects := es\<rparr>) = daemon_ok d" "daemon_ok (d\<lparr>event_count := n\<rparr>) = daemon_ok d"
  "daemon_ok (d\<lparr>d_ebpf := m\<rparr>) = daemon_ok d" "daemon_ok (d\<lparr>d_dpi := dp\<rparr>) = daemon_ok d"
  "daemon_ok (d\<lparr>d_corr := c\<rparr>) = daemon_ok d" "daemon_ok (d\<lparr>d_baseline := b\<rparr>) = daemon_ok d"
  "daemon_ok (d\<lparr>d_rootkit := r\<rparr>) = daemon_ok d" "daemon_ok (d\<lparr>d_threat := th\<rparr>) = daemon_ok d"
  "daemon_ok (d\<lparr>d_inodes := i\<rparr>) = daemon_ok d" "daemon_ok (d\<lparr>d_commands := cs\<rparr>) = daemon_ok d"
  "daemon_ok (d\<lparr>d_payload := p\<rparr>) = daemon_ok d" "daemon_ok (d\<lparr>connect_throttle := ct\<rparr>) = daemon_ok d"
  by (simp_all add: daemon_ok_def)

lemma daemon_ok_upd:
  "daemon_ok d \<Longrightarrow> lineage_ok l \<Longrightarrow> daemon_ok (d\<lparr>d_lineage := l\<rparr>)"
  "daemon_ok d \<Longrightarrow> prompts_ok p \<Longrightarrow> daemon_ok (d\<lparr>d_prompt := p\<rparr>)"
  "daemon_ok d \<Longrightarrow> trust_bounded t \<Longrightarrow> daemon_ok (d\<lparr>d_trust := t\<rparr>)"
  "daemon_ok d \<Longrightarrow> length f \<le> MAX_FLOWS \<Longrightarrow> daemon_ok (d\<lparr>d_fastpath := f\<rparr>)"
  "daemon_ok d \<Longrightarrow> length (sd_events s) \<le> 2048 \<Longrightarrow> daemon_ok (d\<lparr>d_self := s\<rparr>)"
  "daemon_ok d \<Longrightarrow> length pe \<le> 4096 \<Longrightarrow> daemon_ok (d\<lparr>d_privesc := pe\<rparr>)"
  "daemon_ok d \<Longrightarrow> length (ds_anomalies sb) \<le> 2048 \<Longrightarrow> daemon_ok (d\<lparr>d_sandbox := sb\<rparr>)"
  "daemon_ok d \<Longrightarrow> length so \<le> 16384 \<Longrightarrow> daemon_ok (d\<lparr>d_sockets := so\<rparr>)"
  "daemon_ok d \<Longrightarrow> length bp \<le> 16384 \<Longrightarrow> daemon_ok (d\<lparr>d_binpaths := bp\<rparr>)"
  "daemon_ok d \<Longrightarrow> length th \<le> 256 \<Longrightarrow> daemon_ok (d\<lparr>alert_throttle := th\<rparr>)"
  "daemon_ok d \<Longrightarrow> governor_ok g \<Longrightarrow> daemon_ok (d\<lparr>d_governor := g\<rparr>)"
  "daemon_ok d \<Longrightarrow> rules_ok r \<Longrightarrow> daemon_ok (d\<lparr>d_rules := r\<rparr>)"
  by (simp_all add: daemon_ok_def)

lemma daemon_okD:
  assumes "daemon_ok d"
  shows "lineage_ok (d_lineage d)" "prompts_ok (d_prompt d)" "trust_bounded (d_trust d)"
    "length (d_fastpath d) \<le> MAX_FLOWS" "length (sd_events (d_self d)) \<le> 2048"
    "length (d_privesc d) \<le> 4096" "length (ds_anomalies (d_sandbox d)) \<le> 2048"
    "length (d_sockets d) \<le> 16384" "length (d_binpaths d) \<le> 16384" "length (alert_throttle d) \<le> 256"
    "governor_ok (d_governor d)" "rules_ok (d_rules d)"
  using assms by (simp_all add: daemon_ok_def)

section \<open>Bounds of the components, per operation\<close>

lemma trust_bounded_verify: "trust_bounded e \<Longrightarrow> trust_bounded (snd (verify_impl env sha p e))"
  using verify_cases [of env sha p e]
  by (auto simp: verify_content_def trust_bounded_def capped_update_length Let_def split: option.split)

lemma alert_table_bound: "length m \<le> 256 \<Longrightarrow> length (snd (alert_table t rid m)) \<le> 256"
  by (simp add: alert_table_def Let_def)

lemma update_bound: "length c < n \<Longrightarrow> length (AList.update k x c) \<le> n"
  using update_length [of k x c] by (simp split: if_splits)

lemma binpath_bound: "length c \<le> 16384 \<Longrightarrow> length (snd (binary_path_cached fs t pid c)) \<le> 16384"
  using update_bound [of c 16384 pid] update_bound [of "[]" 16384 pid]
  by (auto simp: binary_path_cached_def Let_def split: option.split prod.split)

lemma attempt_bounds:
  "length l \<le> 4096 \<Longrightarrow> length (snd (ingest_setuid_event t p a b l)) \<le> 4096"
  "length l \<le> 4096 \<Longrightarrow> length (snd (ingest_ptrace_attempt t p a b l)) \<le> 4096"
  "length l \<le> 4096 \<Longrightarrow> length (snd (ingest_capable_check t p a b l)) \<le> 4096"
  by (simp_all add: ingest_setuid_event_def ingest_ptrace_attempt_def ingest_capable_check_def Let_def
      privesc_history.push_le)

lemma self_bounds:
  "length (sd_events s) \<le> 2048 \<Longrightarrow> length (sd_events (snd (ingest_kill_attempt t a b c s))) \<le> 2048"
  "length (sd_events s) \<le> 2048 \<Longrightarrow> length (sd_events (snd (ingest_unlink_attempt t a p s))) \<le> 2048"
  by (simp_all add: ingest_kill_attempt_def ingest_unlink_attempt_def Let_def self_defense_history.push_le)

lemma sandbox_bounds:
  "ds_anomalies (snd (resolve_pid md info pid b c s)) = ds_anomalies s"
  "length (ds_anomalies s) \<le> 2048 \<Longrightarrow> length (ds_anomalies (snd (check_network_anomaly t pid b s))) \<le> 2048"
  by (auto simp: resolve_pid_def check_network_anomaly_def Let_def anomaly_history.push_le split: option.split)

section \<open>Handlers as runs of the kernel manager\<close>

lemma ring0_run_trans: "ring0_run lpm b c \<Longrightarrow> ring0_run lpm a b \<Longrightarrow> ring0_run lpm a c"
  by (induction rule: ring0_run.induct) (auto intro: ring0_run.intros)

lemma manager_ops:
  "ring0_run lpm m (snd (block_ip acc ip m))" "ring0_run lpm m (unblock_ip ip m)"
  "ring0_run lpm m (snd (sync_blocked_cidrs acc cs m))" "ring0_run lpm m (snd (block_port acc p m))"
  "ring0_run lpm m (unblock_port p m)" "ring0_run lpm m (snd (sync_blocked_ports acc ps m))"
  "ring0_run lpm m (snd (sync_dns_domains ds m))" "ring0_run lpm m (set_sampling_enabled b m)"
  "ring0_run lpm m (snd (mark_flow_established acc f m))" "ring0_run lpm m (set_pid_budget acc pid bu m)"
  "ring0_run lpm m (clear_pid_budgets m)" "ring0_run lpm m (clear_tls_budgets m)"
  "ring0_run lpm m (scan_interfaces idx ifcs m)" "ring0_run lpm m (detach m)"
  using ring0_run.daemon [OF ring0_run.start [of lpm m], of acc "OpBlockIp ip"]
    ring0_run.daemon [OF ring0_run.start [of lpm m], of acc "OpUnblockIp ip"]
    ring0_run.daemon [OF ring0_run.start [of lpm m], of acc "OpSyncCidrs cs"]
    ring0_run.daemon [OF ring0_run.start [of lpm m], of acc "OpBlockPort p"]
    ring0_run.daemon [OF ring0_run.start [of lpm m], of acc "OpUnblockPort p"]
    ring0_run.daemon [OF ring0_run.start [of lpm m], of acc "OpSyncPorts ps"]
    ring0_run.daemon [OF ring0_run.start [of lpm m], of acc "OpSyncDns ds"]
    ring0_run.daemon [OF ring0_run.start [of lpm m], of acc "OpSetSampling b"]
    ring0_run.daemon [OF ring0_run.start [of lpm m], of acc "OpMarkFlow f"]
    ring0_run.daemon [OF ring0_run.start [of lpm m], of acc "OpSetPidBudget pid bu"]
    ring0_run.daemon [OF ring0_run.start [of lpm m], of acc OpClearPidBudgets]
    ring0_run.daemon [OF ring0_run.start [of lpm m], of acc OpClearTlsBudgets]
    ring0_run.daemon [OF ring0_run.start [of lpm m], of acc "OpScan idx ifcs"]
    ring0_run.daemon [OF ring0_run.start [of lpm m], of acc OpDetach]
  by simp_all

text \<open>A step of the daemon that keeps the invariant and acts on the kernel as its manager may.\<close>

definition good :: "lpm_get \<Rightarrow> daemon \<Rightarrow> daemon \<Rightarrow> bool" where
  "good lpm d d' \<longleftrightarrow> ring0_run lpm (d_ebpf d) (d_ebpf d') \<and> (daemon_ok d \<longrightarrow> daemon_ok d')"

lemma good_refl [simp, intro]: "good lpm d d"
  by (simp add: good_def ring0_run.start)

lemma good_trans: "good lpm a b \<Longrightarrow> good lpm b c \<Longrightarrow> good lpm a c"
  by (auto simp: good_def intro: ring0_run_trans)

lemma good_keep: "d_ebpf d' = d_ebpf d \<Longrightarrow> (daemon_ok d \<Longrightarrow> daemon_ok d') \<Longrightarrow> good lpm d d'"
  by (simp add: good_def ring0_run.start)

lemma good_ebpf: "ring0_run lpm (d_ebpf d) m \<Longrightarrow> good lpm d (d\<lparr>d_ebpf := m\<rparr>)"
  by (simp add: good_def)

lemma good_fold: "(\<And>x d. good lpm d (f x d)) \<Longrightarrow> good lpm d (fold f xs d)"
  by (induction xs arbitrary: d) (auto intro: good_trans)

lemma good_emit: "good lpm d (emit es d)" "good lpm d (raise_event rid sev msg d)" "good lpm d (os_effects as d)"
  "good lpm d (broadcast_alert_record env a d)" "good lpm d (count_event d)" "good lpm d (raise_record env a d)"
  by (auto simp: emit_def raise_event_def os_effects_def broadcast_alert_record_def raise_record_def count_event_def
      intro!: good_keep split: option.split)

lemma good_due: "good lpm d (snd (alert_due env rid d))"
  by (rule good_keep) (auto simp: alert_due_def case_prod_beta intro!: daemon_ok_upd alert_table_bound daemon_okD)

lemma good_when_due: "(\<And>d. good lpm d (f d)) \<Longrightarrow> good lpm d (when_due env rid f d)"
  using good_due [of lpm d env rid] by (auto simp: when_due_def case_prod_beta intro: good_trans)


text \<open>Rules that peel one operation off a handler.\<close>

named_theorems peel

lemma peel_frame [peel]:
  assumes "good lpm d e"
  shows "good lpm d (e\<lparr>d_dpi := dp\<rparr>)" "good lpm d (e\<lparr>d_corr := c\<rparr>)" "good lpm d (e\<lparr>d_baseline := b\<rparr>)"
    "good lpm d (e\<lparr>d_rootkit := r\<rparr>)" "good lpm d (e\<lparr>d_threat := th\<rparr>)" "good lpm d (e\<lparr>d_inodes := i\<rparr>)"
    "good lpm d (e\<lparr>d_commands := cs\<rparr>)" "good lpm d (e\<lparr>d_payload := p\<rparr>)" "good lpm d (e\<lparr>connect_throttle := ct\<rparr>)"
  using assms by (simp_all add: good_def)

lemma peel_bounded [peel]:
  assumes "good lpm d e"
  shows "(daemon_ok e \<Longrightarrow> lineage_ok l) \<Longrightarrow> good lpm d (e\<lparr>d_lineage := l\<rparr>)"
    "(daemon_ok e \<Longrightarrow> prompts_ok p) \<Longrightarrow> good lpm d (e\<lparr>d_prompt := p\<rparr>)"
    "(daemon_ok e \<Longrightarrow> trust_bounded t) \<Longrightarrow> good lpm d (e\<lparr>d_trust := t\<rparr>)"
    "(daemon_ok e \<Longrightarrow> length f \<le> MAX_FLOWS) \<Longrightarrow> good lpm d (e\<lparr>d_fastpath := f\<rparr>)"
    "(daemon_ok e \<Longrightarrow> length (sd_events s) \<le> 2048) \<Longrightarrow> good lpm d (e\<lparr>d_self := s\<rparr>)"
    "(daemon_ok e \<Longrightarrow> length pe \<le> 4096) \<Longrightarrow> good lpm d (e\<lparr>d_privesc := pe\<rparr>)"
    "(daemon_ok e \<Longrightarrow> length (ds_anomalies sb) \<le> 2048) \<Longrightarrow> good lpm d (e\<lparr>d_sandbox := sb\<rparr>)"
    "(daemon_ok e \<Longrightarrow> length so \<le> 16384) \<Longrightarrow> good lpm d (e\<lparr>d_sockets := so\<rparr>)"
    "(daemon_ok e \<Longrightarrow> length bp \<le> 16384) \<Longrightarrow> good lpm d (e\<lparr>d_binpaths := bp\<rparr>)"
    "(daemon_ok e \<Longrightarrow> length th \<le> 256) \<Longrightarrow> good lpm d (e\<lparr>alert_throttle := th\<rparr>)"
    "(daemon_ok e \<Longrightarrow> governor_ok g) \<Longrightarrow> good lpm d (e\<lparr>d_governor := g\<rparr>)"
    "(daemon_ok e \<Longrightarrow> rules_ok r) \<Longrightarrow> good lpm d (e\<lparr>d_rules := r\<rparr>)"
  using assms by (auto simp: good_def intro: daemon_ok_upd)

lemma peel_ebpf [peel]:
  "good lpm d e \<Longrightarrow> ring0_run lpm (d_ebpf e) m \<Longrightarrow> good lpm d (e\<lparr>d_ebpf := m\<rparr>)"
  by (auto intro: good_trans good_ebpf)

lemma peel_act [peel]:
  assumes "good lpm d e"
  shows "good lpm d (emit es e)" "good lpm d (raise_event rid sev msg e)" "good lpm d (os_effects as e)"
    "good lpm d (broadcast_alert_record env a e)" "good lpm d (raise_record env a e)" "good lpm d (count_event e)"
    "good lpm d (snd (alert_due env rid e))"
  using assms by (auto intro: good_trans good_emit good_due)

lemma peel_due [peel]: "good lpm d e \<Longrightarrow> (\<And>d. good lpm d (f d)) \<Longrightarrow> good lpm d (when_due env rid f e)"
  by (rule good_trans, assumption) (rule good_when_due)

lemma peel_fold [peel]: "good lpm d e \<Longrightarrow> (\<And>x d. good lpm d (g x d)) \<Longrightarrow> good lpm d (fold g xs e)"
  by (rule good_trans, assumption) (rule good_fold)

text \<open>The same through the control structure of a handler, which keeps its local names unexpanded.\<close>

lemma good_let: "good lpm d e \<Longrightarrow> (\<And>x. good lpm d x \<Longrightarrow> good lpm d (f x)) \<Longrightarrow> good lpm d (let x = e in f x)"
  by simp

lemma good_let_value:
  fixes s :: string and os :: "string option" and p :: u32 and ev :: out_event and fs :: procfs
  shows "(\<And>x. good lpm d (f1 x)) \<Longrightarrow> good lpm d (let x = s in f1 x)"
    "(\<And>x. good lpm d (f2 x)) \<Longrightarrow> good lpm d (let x = os in f2 x)"
    "(\<And>x. good lpm d (f3 x)) \<Longrightarrow> good lpm d (let x = p in f3 x)"
    "(\<And>x. good lpm d (f4 x)) \<Longrightarrow> good lpm d (let x = ev in f4 x)"
    "(\<And>x. good lpm d (f5 x)) \<Longrightarrow> good lpm d (let x = fs in f5 x)"
  by simp_all

lemma good_cases:
  "(a \<Longrightarrow> good lpm d x) \<Longrightarrow> (\<not> a \<Longrightarrow> good lpm d y) \<Longrightarrow> good lpm d (if a then x else y)"
  "(v = None \<Longrightarrow> good lpm d x) \<Longrightarrow> (\<And>z. v = Some z \<Longrightarrow> good lpm d (g z)) \<Longrightarrow>
     good lpm d (case v of None \<Rightarrow> x | Some z \<Rightarrow> g z)"
  "(\<And>u w. v' = (u, w) \<Longrightarrow> good lpm d (h u w)) \<Longrightarrow> good lpm d (case v' of (u, w) \<Rightarrow> h u w)"
  by (auto split: option.split prod.split)

lemmas walk = good_let good_let_value good_cases

section \<open>The connect pipeline\<close>

lemmas ok_parts = daemon_ok_def flow_defs

lemma mark_flow_safe_bound: "length fl \<le> MAX_FLOWS \<Longrightarrow> length (mark_flow_safe x fl) \<le> MAX_FLOWS"
  using flow_do_length [of fl "FlowSafe (fst x) (snd x)"] by simp

lemma offload_good: "good lpm d e \<Longrightarrow> good lpm d (offload_flow env pid dip dp proto e)"
  using manager_ops(9) [of lpm "d_ebpf e" "e_acc env"]
  by (auto simp: offload_flow_def Let_def split: prod.split option.split sum.split
      intro!: peel mark_flow_safe_bound dest: daemon_okD) (metis snd_conv)+

lemma create_prompt_ok: "iter_ok iter \<Longrightarrow> prompts_ok p \<Longrightarrow> prompts_ok (snd (create_prompt iter tm ci p))"
  by (simp add: create_cases)

lemma prompt_user_good:
  "iter_ok (e_iter env) \<Longrightarrow> good lpm d e \<Longrightarrow> good lpm d (prompt_user env pid binary dip dp proto e)"
  using create_prompt_ok [of "e_iter env" "d_prompt e" "e_mono env" "connection_info env pid binary dip dp proto"]
  by (auto simp: prompt_user_def Let_def split: prod.split intro!: peel dest: daemon_okD)

lemma trust_good:
  "good lpm d e \<Longrightarrow> good lpm d (e\<lparr>d_trust := snd (verify_impl env sha p (d_trust e))\<rparr>)"
  by (intro peel trust_bounded_verify) (simp_all add: daemon_ok_def)

lemma apply_trust_good:
  assumes "iter_ok (e_iter env)" "good lpm d e"
  shows "good lpm d (apply_trust env pid binary dip dp proto e)"
proof -
  obtain st te where v: "verify_impl (e_trust env) (e_sha env) binary (d_trust e) = (st, te)" by force
  have "good lpm d (e\<lparr>d_trust := te, d_ebpf := m\<rparr>)" if "ring0_run lpm (d_ebpf e) m" for m
    using peel_ebpf [OF trust_good [OF assms(2), of "e_trust env" "e_sha env" binary]] that v by simp
  then have *: "good lpm d (e\<lparr>d_trust := te, d_ebpf := set_pid_budget (e_acc env) pid b (d_ebpf e)\<rparr>)" for b
    by (simp add: manager_ops)
  show ?thesis
    by (simp add: apply_trust_def v Let_def peel * offload_good prompt_user_good assms)
qed

lemma check_sandbox_good: "good lpm d e \<Longrightarrow> good lpm d (check_sandbox env pid binary e)"
  using sandbox_bounds
  by (auto simp: check_sandbox_def Let_def split: prod.split option.split intro!: peel dest: daemon_okD)
    (metis daemon_okD(7) sandbox_bounds snd_conv)+

lemma connect_slow_good:
  assumes "iter_ok (e_iter env)" "good lpm d e"
  shows "good lpm d (connect_slow env pid binary dip dp proto evt e)"
  using assms by (auto simp: connect_slow_def Let_def split: prod.split option.split
      intro!: apply_trust_good check_sandbox_good peel)

lemma track_connect_good: "good lpm d e \<Longrightarrow> good lpm d (track_connect env pid dip dp proto e)"
  unfolding track_connect_def
  by (intro peel) (auto simp: daemon_ok_def push_socket_len record_connect_ok)

lemma handle_connect_good:
  assumes "iter_ok (e_iter env)" "good lpm d e"
  shows "good lpm d (handle_connect env pid uid dip dp proto hint e)"
  using assms by (auto simp: handle_connect_def Let_def intro!: connect_slow_good track_connect_good peel)

end
