(* ===== verification/Daemon_Invariant.thy ===== *)
theory Daemon_Invariant
  imports Daemon_Facts
begin

text \<open>
  Every handler of the daemon keeps the bounds of all components and acts on the kernel through the
  operations of its manager only; the claims lift this to runs of the main loop with kernel steps
  between the handlers.
\<close>

section \<open>The ring handlers\<close>

lemma on_packet_good: "on_packet env raw d = Some d' \<Longrightarrow> good lpm d d'"
  by (auto simp: on_packet_def on_outcome_def Let_def split: outcome.splits prod.splits if_splits
      intro!: peel binpath_bound dest: daemon_okD(9))

lemma kill_blocked_good: "good lpm d e \<Longrightarrow> good lpm d (kill_blocked env pid e)"
  by (auto simp: kill_blocked_def split: option.split intro: peel)

lemma outcome_good:
  "on_outcome x f d = Some d' \<Longrightarrow> (\<And>v. good lpm d (f v d)) \<Longrightarrow> good lpm d d'"
  by (auto simp: on_outcome_def split: outcome.splits)

lemma on_process_exec_good: "on_process_exec env raw d = Some d' \<Longrightarrow> good lpm d d'"
  unfolding on_process_exec_def raise_process_rule_def
  by (erule outcome_good, simp only: split_paired_all prod.case)
    (intro walk peel good_refl kill_blocked_good record_exec_ok daemon_okD, simp_all)

lemma on_file_access_good: "on_file_access env raw d = Some d' \<Longrightarrow> good lpm d d'"
  by (auto simp: on_file_access_def on_outcome_def Let_def split: outcome.splits prod.splits intro!: peel)

lemma on_connect_good: "iter_ok (e_iter env) \<Longrightarrow> on_connect env raw d = Some d' \<Longrightarrow> good lpm d d'"
  by (auto simp: on_connect_def on_outcome_def handle_connect_good split: outcome.splits prod.splits)

lemma report_self_defense_good:
  "good lpm d e \<Longrightarrow> (daemon_ok e \<Longrightarrow> length (sd_events (snd r)) \<le> 2048) \<Longrightarrow> good lpm d (report_self_defense env r e)"
  by (auto simp: report_self_defense_def Let_def split: option.split intro!: peel)

lemma on_kill_event_good: "on_kill_event env raw d = Some d' \<Longrightarrow> good lpm d d'"
  by (auto simp: on_kill_event_def on_outcome_def split: outcome.splits prod.splits
      intro!: report_self_defense_good self_bounds dest: daemon_okD(5))

lemma on_unlink_event_good: "on_unlink_event env raw d = Some d' \<Longrightarrow> good lpm d d'"
  by (auto simp: on_unlink_event_def on_outcome_def split: outcome.splits prod.splits
      intro!: report_self_defense_good self_bounds dest: daemon_okD(5))

lemma on_dns_event_good: "on_dns_event env raw d = Some d' \<Longrightarrow> good lpm d d'"
  by (auto simp: on_dns_event_def on_outcome_def split: outcome.splits prod.splits intro!: peel)

lemma enforce_high_risk_good: "good lpm d e \<Longrightarrow> good lpm d (enforce_high_risk env pid dst e)"
  by (auto simp: enforce_high_risk_def manager_ops split: response_mode.split option.split intro!: peel)

lemma respond_to_risk_good: "good lpm d e \<Longrightarrow> good lpm d (respond_to_risk env pid b dip dp r e)"
  by (auto simp: respond_to_risk_def Let_def intro!: peel enforce_high_risk_good)

lemma trust_good_eq:
  "verify_impl env sha p (d_trust e) = (st, te) \<Longrightarrow> good lpm d e \<Longrightarrow> good lpm d (e\<lparr>d_trust := te\<rparr>)"
  using trust_good [of lpm d e env sha p] by simp

lemma on_tls_event_good: "on_tls_event env raw d = Some d' \<Longrightarrow> good lpm d d'"
  by (auto simp: on_tls_event_def on_outcome_def Let_def split: outcome.splits prod.splits
      intro!: respond_to_risk_good peel_fold peel_act peel_frame good_refl intro: trust_good_eq)

lemma on_dpi_event_good: "on_dpi_event env raw d = Some d' \<Longrightarrow> good lpm d d'"
  by (auto simp: on_dpi_event_def on_outcome_def Let_def split: outcome.splits prod.splits intro!: peel)

lemma good_count: "good lpm (count_event d) d' \<Longrightarrow> good lpm d d'"
  by (rule good_trans [OF good_emit(5)])

lemma on_raw_event_good: "iter_ok (e_iter env) \<Longrightarrow> on_raw_event env raw d = Some d' \<Longrightarrow> good lpm d d'"
  by (rule good_count)
    (auto simp: on_raw_event_def Let_def on_packet_good on_process_exec_good on_file_access_good on_connect_good
      on_kill_event_good on_unlink_event_good on_tls_event_good on_dns_event_good on_dpi_event_good split: if_splits)

lemma on_lsm_event_good: "iter_ok (e_iter env) \<Longrightarrow> on_lsm_event env raw d = Some d' \<Longrightarrow> good lpm d d'"
  by (auto simp: on_lsm_event_def on_outcome_def split: outcome.splits if_splits intro!: peel handle_connect_good)

lemma quarantine_now_good: "good lpm d e \<Longrightarrow> good lpm d (quarantine_now env pid e)"
  by (simp add: quarantine_now_def peel)

lemma on_privesc_event_good: "on_privesc_event env raw d = Some d' \<Longrightarrow> good lpm d d'"
  by (auto simp: on_privesc_event_def on_outcome_def Let_def split: outcome.splits privesc_in.splits
      intro!: peel quarantine_now_good attempt_bounds dest: daemon_okD(6))

lemma report_finding_good: "good lpm d e \<Longrightarrow> good lpm d (report_finding env rid f e)"
  by (auto simp: report_finding_def split: option.split intro!: peel)

lemma on_rootkit_event_good: "on_rootkit_event env raw d = Some d' \<Longrightarrow> good lpm d d'"
  by (auto simp: on_rootkit_event_def on_outcome_def Let_def split: outcome.splits rootkit_in.splits option.splits
      intro!: peel report_finding_good)

section \<open>Periodic work and commands\<close>

lemma tick_rootkit_scan_good: "good lpm d e \<Longrightarrow> good lpm d (tick_rootkit_scan env e)"
  unfolding tick_rootkit_scan_def by (intro walk peel)

lemma report_correlation_good: "good lpm d e \<Longrightarrow> good lpm d (report_correlation env a e)"
  by (auto simp: report_correlation_def Let_def intro!: peel quarantine_now_good)

lemma eval_correlations_good: "good lpm d e \<Longrightarrow> good lpm d (eval_correlations env e)"
  unfolding eval_correlations_def by (intro walk peel report_correlation_good good_refl)

lemma tick_governor_good: "good lpm d e \<Longrightarrow> good lpm d (tick_governor env e)"
  by (auto simp: tick_governor_def Let_def manager_ops intro!: peel governor_tick_ok dest: daemon_okD(11))

lemma run_fold:
  assumes step: "\<And>x cm. ring0_run lpm (snd cm) (snd (f x cm))"
  shows "ring0_run lpm (snd cm) (snd (fold f xs cm))"
proof (induction xs arbitrary: cm)
  case (Cons x xs)
  show ?case using ring0_run_trans [OF Cons step] by simp
qed (simp add: ring0_run.start)

lemma sync_chunks_run:
  "ring0_run lpm (snd cm) (snd (fold (sync_cidr_chunk acc) css cm))"
  "ring0_run lpm (snd cm) (snd (fold (sync_port_chunk acc) pss cm))"
  by (rule run_fold, simp add: sync_cidr_chunk_def sync_port_chunk_def case_prod_beta manager_ops)+

lemma apply_payload_run: "ring0_run lpm m (snd (apply_payload acc p m))"
proof -
  obtain c m1 where 1: "fold (sync_cidr_chunk acc) (chunks SYNC_CHUNK (sp_cidrs p)) (0, m) = (c, m1)" by force
  obtain n m2 where 2: "sync_dns_domains (take 190000 (sp_domains p)) m1 = (n, m2)" by force
  obtain k m3 where 3: "fold (sync_port_chunk acc) (chunks SYNC_CHUNK (sp_ports p)) (0, m2) = (k, m3)" by force
  have "ring0_run lpm m m1" using sync_chunks_run(1) [of lpm "(0, m)"] 1 by (metis snd_conv)
  moreover have "ring0_run lpm m1 m2" using manager_ops(7) [of lpm m1] 2 by (metis snd_conv)
  moreover have "ring0_run lpm m2 m3" using sync_chunks_run(2) [of lpm "(0, m2)"] 3 by (metis snd_conv)
  ultimately show ?thesis by (auto simp: apply_payload_def 1 2 3 intro: ring0_run_trans)
qed

lemma apply_blocklist_good: "good lpm d e \<Longrightarrow> good lpm d (apply_blocklist_payload env e)"
  by (auto simp: apply_blocklist_payload_def intro!: peel apply_payload_run split: option.split)

lemma filter_bound: "length xs \<le> n \<Longrightarrow> length (filter P xs) \<le> n"
  using length_filter_le [of P xs] by linarith

lemma purge_bound: "length fl \<le> MAX_FLOWS \<Longrightarrow> length (purge_idle_flows n fl) \<le> MAX_FLOWS"
  by (simp add: purge_idle_flows_def filter_bound)

lemma on_tick_good: "good lpm d (on_tick env t d)"
proof (cases t)
  case CorrTick
  then show ?thesis by (auto simp: Let_def intro!: peel eval_correlations_good maybe_prune_ok dest: daemon_okD(1))
next
  case GovernorTick
  then show ?thesis by (simp add: Let_def peel tick_governor_good manager_ops)
next
  case FastpathTick
  then show ?thesis
    by (auto simp: Let_def reap_throttles_def manager_ops intro!: peel purge_bound filter_bound dest: daemon_okD)
next
  case IntelTick
  then show ?thesis by (auto intro!: peel ring0_run_trans [OF manager_ops(11) manager_ops(12)])
next
  case PromptTick
  then show ?thesis by (auto intro!: peel timeouts_keep dest: daemon_okD(2))
qed (auto intro!: peel tick_rootkit_scan_good apply_blocklist_good)

lemma kill_process_good: "good lpm d e \<Longrightarrow> good lpm d (kill_process env pid e)"
  by (auto simp: kill_process_def intro: peel split: option.split)

lemma decide_prompt_good: "good lpm d (decide_prompt env i action scope caller d)"
proof -
  have "prompts_ok (p\<lparr>sent := s\<rparr>) = prompts_ok p" for p s by (simp add: prompts_ok_def)
  then show ?thesis
    by (auto simp: decide_prompt_def intro!: peel split: prod.split dest: daemon_okD(2))
      (metis daemon_okD(2) resolve_ok snd_conv)+
qed

lemma handle_command_good: "good lpm d (handle_command env c d)"
  by (cases c) (auto simp: manager_ops send_status_def Let_def
      intro!: peel kill_process_good tick_rootkit_scan_good decide_prompt_good offload_good rules_steps(3) dest: daemon_okD(12))

theorem handle_good: "iter_ok (e_iter env) \<Longrightarrow> handle env i d = Some d' \<Longrightarrow> good lpm d d'"
  by (cases i) (auto simp: handle_command_good on_raw_event_good on_lsm_event_good on_rootkit_event_good
      on_privesc_event_good on_tick_good)

end
