(* ===== verification/Daemon_Claims.thy ===== *)
theory Daemon_Claims
  imports Daemon_Invariant Kernel_Tls
begin

text \<open>
  What holds of the daemon as a whole: its handlers and the kernel programs run interleaved, the
  commands of clients, the ways a handler ends, and the end of the main loop.
\<close>

section \<open>The whole system\<close>

text \<open>Handlers of the daemon in any environment, interleaved with runs of the kernel programs.\<close>

inductive system_run :: "lpm_get \<Rightarrow> daemon \<Rightarrow> daemon \<Rightarrow> bool" for lpm where
  start: "system_run lpm d d"
| handler: "system_run lpm d d1 \<Longrightarrow> iter_ok (e_iter env) \<Longrightarrow> handle env i d1 = Some d2 \<Longrightarrow> system_run lpm d d2"
| kernel: "system_run lpm d d1 \<Longrightarrow> ebpf (d_ebpf d1) = Some k \<Longrightarrow> kernel_step lpm k k' \<Longrightarrow>
    system_run lpm d (d1\<lparr>d_ebpf := (d_ebpf d1)\<lparr>ebpf := Some k'\<rparr>\<rparr>)"

lemma system_run_good: "system_run lpm d d' \<Longrightarrow> good lpm d d'"
proof (induction rule: system_run.induct)
  case (kernel d d1 k k')
  have "ring0_run lpm (d_ebpf d1) ((d_ebpf d1)\<lparr>ebpf := Some k'\<rparr>)"
    by (rule ring0_run.kernel [OF ring0_run.start kernel.hyps(2,3)])
  then show ?case using kernel.IH by (rule peel_ebpf [rotated])
qed (auto intro: good_trans handle_good)

lemma daemon_new_ok: "daemon_new env su = Some d \<Longrightarrow> daemon_ok d"
  by (auto simp: daemon_new_def daemon_ok_def lineage_new_ok prompts_ok_def prompt_new_def trust_bounded_def trust_new_def
      self_defense_new_def lock_ebpf_maps_def governor_new_ok intro: rules_steps split: option.splits sum.splits)

text \<open>
  Claim C1. Refinement: whatever a handler does, and however handlers and kernel programs interleave,
  the daemon acts on the kernel as a run of the operations of its map manager.
\<close>

theorem daemon_refines_manager:
  assumes "system_run lpm d d'"
  shows "ring0_run lpm (d_ebpf d) (d_ebpf d')"
  using system_run_good [OF assms] by (simp add: good_def)


text \<open>
  Claim C3. At any time of any run, an address whose outbound packets the kernel drops because a user
  blocked it is in the answer to the status command, if the answer is not cut at 500 entries.
\<close>

theorem status_shows_blocks:
  assumes "system_run lpm d d'" and "mgr_ok (d_ebpf d)" and "lpm_documented lpm"
    and "ebpf (d_ebpf d') = Some k" and "user_dst_blocked lpm a (net k)"
    and "length (blocked_ips (d_ebpf d')) \<le> 500"
  shows "\<exists>filters nd ni np. handle env (InCommand Status) d' =
      Some (emit [Sent (OStatus filters nd ni np)] d') \<and> show_ipv4 a \<in> set filters"
proof -
  have "ring0_run lpm (d_ebpf d) (d_ebpf d')" using system_run_good [OF assms(1)] by (simp add: good_def)
  then have "show_ipv4 a \<in> set (blocked_ips (d_ebpf d'))"
    using assms(2-5) by (rule user_blocks_reported)
  then show ?thesis using assms(6) by (simp add: send_status_def Let_def) blast
qed

section \<open>The ways a handler ends\<close>

lemma outcome_panic:
  "on_outcome x f d = None \<longleftrightarrow> x = Panic" "(\<exists>y. on_outcome x f d = Some y) \<longleftrightarrow> x \<noteq> Panic"
  by (cases x; simp add: on_outcome_def)+

lemma no_panic [simp]:
  "decode_packet raw \<noteq> Panic" "decode_process_exec raw \<noteq> Panic" "decode_file_access raw \<noteq> Panic"
  "decode_connect raw \<noteq> Panic" "decode_kill raw \<noteq> Panic" "decode_unlink raw \<noteq> Panic" "decode_dpi raw \<noteq> Panic"
  by (simp_all add: decode_packet_def decode_process_exec_def decode_file_access_def decode_connect_def
      decode_kill_def decode_unlink_def decode_dpi_def rd_defs Let_def)

lemma no_panic_dns [simp]: "decode_dns raw \<noteq> Panic"
  by (simp add: decode_dns_def rd_defs SIZE_DNS_def Let_def)

lemma no_panic_tls: "event_len_ok 6 (length raw) \<Longrightarrow> decode_tls raw \<noteq> Panic"
  by (simp add: decode_tls_def event_len_ok_def event_size_def EVENT_SIZE_eval rd_defs Let_def)

lemma raw_event_returns: "on_raw_event env raw d \<noteq> None"
  using no_panic_tls [of raw]
  by (auto simp: on_raw_event_def Let_def on_packet_def on_process_exec_def on_file_access_def on_connect_def
      on_kill_event_def on_unlink_event_def on_tls_event_def on_dns_event_def on_dpi_event_def outcome_panic
      split: if_splits)

lemma lsm_panic: "decode_lsm raw = Panic \<longleftrightarrow> raw = []"
  by (cases raw) (auto simp: decode_lsm_def rd_defs)

lemma rootkit_panic: "decode_rootkit raw = Panic \<longleftrightarrow> raw = []"
  by (cases raw) (auto simp: decode_rootkit_def rd_defs Let_def)

lemma size_28: "event_size k = Some n \<Longrightarrow> 28 \<le> n"
  by (simp add: event_size_def EVENT_SIZE_eval nth_Cons' split: if_splits)

lemma privesc_panic:
  "decode_privesc raw = Panic \<longleftrightarrow> length raw < 24 \<and> (raw = [] \<or> event_size (raw ! 0) = None)"
proof (cases "raw = []")
  case False
  then have rd: "rd8 raw 0 = Some (raw ! 0)" by (simp add: rd_defs)
  show ?thesis
  proof (cases "event_size (raw ! 0)")
    case None
    then have "raw ! 0 \<notin> {KIND_SETUID, KIND_PTRACE, KIND_CAP}"
      by (auto simp: event_size_def EVENT_SIZE_eval abi_consts)
    then show ?thesis using None False rd
      by (auto simp: decode_privesc_def event_len_ok_def rd_defs split: option.splits)
  next
    case (Some n)
    have k: "raw ! 0 = KIND_PTRACE \<Longrightarrow> n = 32" using Some by (simp add: event_size_def EVENT_SIZE_eval abi_consts)
    show ?thesis
      using Some size_28 [OF Some] k False rd
      by (auto simp: decode_privesc_def event_len_ok_def rd_defs split: option.splits)
  qed
qed (simp add: decode_privesc_def rd_defs)

text \<open>
  Claim C7. A handler of the daemon returns for every input except these, on which it panics and takes
  the daemon down: an empty entry in one of the three detection rings, and in the privilege ring an
  entry below 24 bytes whose kind has no size. In particular no entry of the main ring, no command and
  no tick can stop it.
\<close>

theorem handler_panics_iff:
  "handle env i d = None \<longleftrightarrow> (case i of
      InLsm raw \<Rightarrow> raw = [] | InRootkit raw \<Rightarrow> raw = []
    | InPrivesc raw \<Rightarrow> length raw < 24 \<and> (raw = [] \<or> event_size (raw ! 0) = None)
    | _ \<Rightarrow> False)"
  by (cases i) (simp_all add: on_lsm_event_def on_rootkit_event_def on_privesc_event_def outcome_panic
      lsm_panic rootkit_panic privesc_panic raw_event_returns [simplified])

section \<open>The end of the main loop\<close>

inductive_cases loop_stepE: "loop_step s t"

lemma notify_handling [simp]: "phase s \<noteq> Waiting \<Longrightarrow> notify_waiters s = s"
  by (simp add: notify_waiters_def)

lemma stopped_by_signal: "loop_step s t \<Longrightarrow> phase t = Stopped \<Longrightarrow> phase s \<noteq> Stopped \<Longrightarrow> phase s = Waiting \<and> listening s"
  by (erule loop_stepE) (auto simp: notify_waiters_def split: if_splits)

lemma listening_anti: "loop_step s t \<Longrightarrow> listening t \<Longrightarrow> listening s"
  by (erule loop_stepE) (auto simp: notify_waiters_def split: if_splits)

lemma deaf_run: "loop_run s t \<Longrightarrow> \<not> listening s \<Longrightarrow> phase s \<noteq> Stopped \<Longrightarrow> \<not> listening t \<and> phase t \<noteq> Stopped"
  by (induction rule: loop_run.induct) (auto dest: stopped_by_signal listening_anti)

text \<open>
  Claim C12. The end of the daemon can be missed. A termination signal that arrives while a handler runs
  is consumed (the signal task ends) without stopping anything, and from then on no run whatsoever
  reaches the stopped state; the shutdown command itself never stops the loop, since it notifies
  while its own handler runs.
\<close>

theorem shutdown_lost:
  assumes "phase s = Handling i" and "listening s" and "loop_run (s\<lparr>listening := False\<rparr>) t"
  shows "loop_step s (s\<lparr>listening := False\<rparr>) \<and> phase t \<noteq> Stopped
    \<and> (i = InCommand Shutdown \<longrightarrow> loop_step s u \<longrightarrow> phase u \<noteq> Stopped \<and> dm u = dm s)"
proof -
  have "loop_step s ((notify_waiters s)\<lparr>listening := False\<rparr>)"
    by (rule loop_step.signal) (simp_all add: assms)
  moreover have "phase t \<noteq> Stopped" using deaf_run [OF assms(3)] assms(1) by simp
  moreover have "loop_step s u \<Longrightarrow> i = InCommand Shutdown \<Longrightarrow> phase u \<noteq> Stopped \<and> dm u = dm s"
    using assms(1) by (auto elim!: loop_stepE)
  ultimately show ?thesis using assms(1) by simp
qed

section \<open>The feeds in chunks\<close>

lemma chunks_concat: "0 < n \<Longrightarrow> concat (chunks n xs) = xs"
proof (induction n xs rule: chunks.induct)
  case (1 n xs)
  then show ?case
    by (cases "xs = []") (simp add: chunks.simps, simp add: chunks.simps [of n xs])
qed

lemma chunks_nonempty: "0 < n \<Longrightarrow> xs \<noteq> [] \<Longrightarrow> chunks n xs \<noteq> []"
  by (subst chunks.simps) simp

lemma sync_trie_append:
  "sync_trie acc (xs @ ys) t = (case sync_trie acc xs t of (a, t1) \<Rightarrow> case sync_trie acc ys t1 of (b, t2) \<Rightarrow> (a + b, t2))"
  by (induction xs arbitrary: t) (auto simp: case_prod_beta)

lemma sync_ports_append:
  "sync_ports acc (xs @ ys) t = (case sync_ports acc xs t of (a, t1) \<Rightarrow> case sync_ports acc ys t1 of (b, t2) \<Rightarrow> (a + b, t2))"
  by (induction xs arbitrary: t) (auto simp: case_prod_beta)

abbreviation dedup :: "'a list \<Rightarrow> 'a list \<Rightarrow> 'a list" where
  "dedup \<equiv> fold (\<lambda>y l. if y \<in> set l then l else l @ [y])"

lemma dedup_distinct: "distinct l \<Longrightarrow> distinct (dedup zs l)"
  by (induction zs arbitrary: l) auto

lemma dedup_id: "distinct (l @ zs) \<Longrightarrow> dedup zs l = l @ zs"
  by (induction zs arbitrary: l) auto

lemma add_new_append: "add_new (add_new m xs) ys = add_new m (xs @ ys)"
proof -
  have "distinct (add_new m xs)" by (simp add: add_new_def dedup_distinct)
  then have "dedup (add_new m xs) [] = add_new m xs" using dedup_id [of "[]"] by simp
  then show ?thesis unfolding add_new_def by simp
qed

lemma sync_cidrs_append:
  "sync_blocked_cidrs acc (xs @ ys) m = (case sync_blocked_cidrs acc xs m of (a, m1) \<Rightarrow>
     case sync_blocked_cidrs acc ys m1 of (b, m2) \<Rightarrow> (a + b, m2))"
  by (simp add: sync_blocked_cidrs_def sync_trie_append add_new_append Let_def case_prod_beta upd_net_def split: option.split)

lemma sync_ports_list_append:
  "sync_blocked_ports acc (xs @ ys) m = (case sync_blocked_ports acc xs m of (a, m1) \<Rightarrow>
     case sync_blocked_ports acc ys m1 of (b, m2) \<Rightarrow> (a + b, m2))"
  by (simp add: sync_blocked_ports_def sync_ports_append add_new_append Let_def case_prod_beta upd_net_def split: option.split)

lemma cidr_chunks: "css \<noteq> [] \<Longrightarrow> fold (sync_cidr_chunk acc) css (n, m) =
    (case sync_blocked_cidrs acc (concat css) m of (k, m') \<Rightarrow> (n + k, m'))"
proof (induction css arbitrary: n m)
  case (Cons c css)
  then show ?case
    by (cases "css = []") (simp_all add: sync_cidr_chunk_def sync_cidrs_append case_prod_beta)
qed simp

lemma port_chunks: "pss \<noteq> [] \<Longrightarrow> fold (sync_port_chunk acc) pss (n, m) =
    (case sync_blocked_ports acc (concat pss) m of (k, m') \<Rightarrow> (n + k, m'))"
proof (induction pss arbitrary: n m)
  case (Cons c pss)
  then show ?case
    by (cases "pss = []") (simp_all add: sync_port_chunk_def sync_ports_list_append case_prod_beta)
qed simp


section \<open>A concrete daemon\<close>

definition env0 :: denv where
  "env0 = \<lparr>e_os = kill_env, e_mono = 4000000000, e_wall = 7000000000, e_cwd = ''/'', e_daemon_pid = 900,
     e_trust = copy_env, e_sha = id, e_acc = acc_all, e_iter = id, e_entropy = \<lambda>s. ''0'', e_country = \<lambda>a. ([], []),
     e_rdns = \<lambda>a. [], e_tilde = id, e_glob = \<lambda>g. None,
     e_hs = \<lparr>hs_compile = \<lambda>p. True, hs_build = \<lambda>d. True, hs_scan = \<lambda>d s. []\<rparr>, e_flatpak = (None, None),
     e_yara = \<lambda>f. None, e_read = \<lambda>f. None, e_parse_rules = \<lambda>s. None, e_yaml = \<lambda>r. None, e_yaml_ok = \<lambda>s. False,
     e_rules_written = False, e_recode = Some, e_clk_tck = 100, e_self_stat = None, e_if_index = \<lambda>i. None,
     e_interfaces = []\<rparr>"

definition su0 :: startup where
  "su0 = \<lparr>su_manager = mgr0, su_lsm_attached = True, su_lsm_enforce = False, su_response = Some ''block'',
     su_rules_path = ''/etc/ring0/rules.yaml'', su_threat_file = None, su_ac_build = \<lambda>s. None, su_baseline_cf = None,
     su_baseline_listing = [], su_connector = False\<rparr>"

definition daemon0 :: daemon where
  "daemon0 = the (daemon_new env0 su0)"

lemma dpi0: "\<exists>dpi. dpi_new (e_hs env0) = Some dpi"
  by (simp add: dpi_new_def env0_def compile_all_def SIGNATURES_def)

lemma daemon0_simps [simp]:
  "daemon_new env0 su0 = Some daemon0" "d_ebpf daemon0 = mgr0" "d_mode daemon0 = BlockNetwork" "d_rules daemon0 = rules_empty"
  "iter_ok (e_iter env0)" "e_acc env0 = acc_all" "e_recode env0 = Some" "e_mono env0 = 4000000000"
  using dpi0 by (auto simp: daemon0_def daemon_new_def su0_def response_from_env_def rules_load_def parse_file_def
      env0_def iter_ok_def)

lemma run0: "system_run lpm daemon0 (daemon0\<lparr>d_ebpf := snd (block_ip acc_all (V4 7) mgr0)\<rparr>)"
  using system_run.handler [OF system_run.start, of env0 "InCommand (BlockIp (V4 7))" daemon0] by simp

theorem daemon_refines_manager_witness: "ring0_run lpm_ref mgr0 (snd (block_ip acc_all (V4 7) mgr0))"
  using daemon_refines_manager [OF run0, of lpm_ref] by simp


theorem status_shows_blocks_witness:
  "\<exists>filters nd ni np. handle env0 (InCommand Status) (daemon0\<lparr>d_ebpf := snd (block_ip acc_all (V4 7) mgr0)\<rparr>) =
     Some (emit [Sent (OStatus filters nd ni np)] (daemon0\<lparr>d_ebpf := snd (block_ip acc_all (V4 7) mgr0)\<rparr>))
   \<and> show_ipv4 7 \<in> set filters"
proof -
  have "length (blocked_ips (snd (block_ip acc_all (V4 7) mgr0))) \<le> 500"
    by (simp add: blocked_ips_def block_ip_def acc_all_def Let_def mirror_ip_def mgr0_def load_def)
  then show ?thesis
    using status_shows_blocks [OF run0 _ lpm_ref_documented, of _ 7 env0] block_ip_ok [OF block_ip_all mgr0_simps(1), of 7]
    by (simp add: user_dst_blocked_def lookup_insert lpm_ref_documented)
qed

theorem shutdown_lost_witness:
  "(let s = \<lparr>phase = Handling (InCommand Shutdown), listening = True, dm = daemon0\<rparr>;
        t = \<lparr>phase = Waiting, listening = False, dm = daemon0\<rparr> in
    loop_step s (s\<lparr>listening := False\<rparr>) \<and> loop_run (s\<lparr>listening := False\<rparr>) t \<and> phase t \<noteq> Stopped)"
proof -
  let ?s = "\<lparr>phase = Handling (InCommand Shutdown), listening = True, dm = daemon0\<rparr>"
  let ?t = "\<lparr>phase = Waiting, listening = False, dm = daemon0\<rparr>"
  have "loop_step (?s\<lparr>listening := False\<rparr>) ?t"
    using loop_step.shutdown [of "?s\<lparr>listening := False\<rparr>"] by simp
  then have run: "loop_run (?s\<lparr>listening := False\<rparr>) ?t" by (rule loop_run.step [OF loop_run.start])
  show ?thesis using shutdown_lost [OF _ _ run, of "InCommand Shutdown"] run by (simp add: Let_def)
qed

definition feed0 :: sync_payload where
  "feed0 = \<lparr>sp_cidrs = replicate 5000 (0x0A000000, 8), sp_domains = [], sp_ports = [4444], sp_dpi_patterns = []\<rparr>"


end
