(* ===== verification/Daemon_Effects.thy ===== *)
theory Daemon_Effects
  imports Daemon_Claims Baseline
begin

text \<open>
  What the handlers of the daemon do to the outside: which alerts, signals and kernel changes an
  event or a command can cause.
\<close>

section \<open>What a handler adds to the effects\<close>

definition causes :: "(effect \<Rightarrow> bool) \<Rightarrow> daemon \<Rightarrow> daemon \<Rightarrow> bool" where
  "causes P d d' \<longleftrightarrow> (\<exists>es. effects d' = effects d @ es \<and> list_all P es)"

lemma causes_refl [simp, intro]: "causes P d d"
  by (simp add: causes_def)

lemma causes_trans: "causes P a b \<Longrightarrow> causes P b c \<Longrightarrow> causes P a c"
  by (auto simp: causes_def)

lemma causes_same: "causes P d e \<Longrightarrow> effects d' = effects e \<Longrightarrow> causes P d d'"
  by (simp add: causes_def)

lemma causes_emit: "causes P d e \<Longrightarrow> list_all P es \<Longrightarrow> causes P d (emit es e)"
  by (auto simp: causes_def emit_def)

lemma causes_fold: "causes P d e \<Longrightarrow> (\<And>x e. x \<in> set xs \<Longrightarrow> causes P e (f x e)) \<Longrightarrow> causes P d (fold f xs e)"
proof (induction xs arbitrary: e)
  case (Cons x xs)
  have "causes P d (f x e)" using causes_trans [OF Cons.prems(1) Cons.prems(2)] by simp
  then show ?case using Cons.IH Cons.prems(2) by simp
qed simp


lemma causes_raise:
  "causes P d e \<Longrightarrow> P (StoredAlert (i, s, m)) \<Longrightarrow> P (Sent (OAlert i s m)) \<Longrightarrow> causes P d (raise_event i s m e)"
  by (simp add: raise_event_def causes_emit)

lemma causes_raise_record:
  "causes P d e \<Longrightarrow> P (StoredAlert a) \<Longrightarrow> (\<And>i s m. e_recode env a = Some (i, s, m) \<Longrightarrow> P (Sent (OAlert i s m))) \<Longrightarrow>
   causes P d (raise_record env a e)"
  by (auto simp: raise_record_def broadcast_alert_record_def causes_emit split: option.split)

lemma alert_due_frame [simp]:
  "effects (snd (alert_due env i d)) = effects d" "d_ebpf (snd (alert_due env i d)) = d_ebpf d"
  by (simp_all add: alert_due_def case_prod_beta)

lemma causes_when_due: "causes P d e \<Longrightarrow> (\<And>e. causes P e (f e)) \<Longrightarrow> causes P d (when_due env i f e)"
proof -
  assume e: "causes P d e" and f: "\<And>e. causes P e (f e)"
  have "causes P d (snd (alert_due env i e))" by (rule causes_same [OF e]) simp
  then show ?thesis using causes_trans [OF _ f] by (simp add: when_due_def case_prod_beta)
qed

section \<open>Commands of clients without privileges\<close>

fun is_message :: "effect \<Rightarrow> bool" where
  "is_message (Sent e) = True"
| "is_message _ = False"

text \<open>Nothing changes but the messages sent to clients.\<close>

definition only_messages :: "daemon \<Rightarrow> daemon \<Rightarrow> bool" where
  "only_messages d d' \<longleftrightarrow> d' = d\<lparr>effects := effects d'\<rparr> \<and> causes is_message d d'"

lemma only_messages_refl: "only_messages d d"
  by (simp add: only_messages_def)

lemma only_messages_status: "only_messages d (send_status b d)"
  by (simp add: only_messages_def send_status_def emit_def Let_def causes_def)

text \<open>What a decision puts into the channel: nothing for an unknown prompt or one of the caller's own process.\<close>

definition decided_commands :: "daemon \<Rightarrow> u64 \<Rightarrow> string \<Rightarrow> u32 \<Rightarrow> daemon_cmd list" where
  "decided_commands d i a caller = (case map_of (pending (d_prompt d)) i of
     Some q \<Rightarrow> if cp_pid q = caller then [] else Prompt.effect q (action_of a) | None \<Rightarrow> [])"

lemma decide_effect:
  "\<exists>p. decide_prompt env i a s caller d = d\<lparr>d_prompt := p, d_commands := d_commands d @ decided_commands d i a caller\<rparr>"
proof -
  obtain r e where r: "resolve_prompt (e_yaml env) (e_yaml_ok env) (e_rules_written env) i (action_of a, scope_of s)
      ((d_prompt d)\<lparr>sent := []\<rparr>) = (r, e)" by force
  have "sent e = (case map_of (pending (d_prompt d)) i of None \<Rightarrow> [] | Some p \<Rightarrow> Prompt.effect p (action_of a))"
    using resolve_sends [of "e_yaml env" "e_yaml_ok env" "e_rules_written env" i "(action_of a, scope_of s)"
        "(d_prompt d)\<lparr>sent := []\<rparr>"] r by (simp only: snd_conv fst_conv) simp
  then show ?thesis
    by (auto simp: decide_prompt_def r pending_get_def decided_commands_def split: option.split
        intro: exI [of _ "d_prompt d"])
qed


section \<open>The response to risk\<close>

fun no_action :: "effect \<Rightarrow> bool" where
  "no_action (Os a) = False"
| "no_action _ = True"

lemma due_recent:
  "map_of (alert_throttle d) i = Some prev \<Longrightarrow> e_mono env < prev + ALERT_MIN_INTERVAL \<Longrightarrow> alert_due env i d = (False, d)"
  by (auto simp: alert_due_def alert_table_def ALERT_MIN_INTERVAL_def)

lemma respond_recent:
  "map_of (alert_throttle d) 11001 = Some prev \<Longrightarrow> e_mono env < prev + ALERT_MIN_INTERVAL \<Longrightarrow>
   respond_to_risk env pid b dip dp r d = d"
  by (simp add: respond_to_risk_def when_due_def due_recent)

text \<open>Raising records leaves the rest of the state alone.\<close>

lemma raise_record_frame [simp]:
  "d_ebpf (raise_record env a d) = d_ebpf d" "alert_throttle (raise_record env a d) = alert_throttle d"
  "d_lineage (raise_record env a d) = d_lineage d" "d_trust (raise_record env a d) = d_trust d"
  by (simp_all add: raise_record_def broadcast_alert_record_def emit_def split: option.split)

lemma fold_frame: "(\<And>x d. f (g x d) = f d) \<Longrightarrow> f (fold g xs d) = f d"
  by (induction xs arbitrary: d) auto


section \<open>The baseline alerts\<close>

fun not_alert :: "u32 \<Rightarrow> effect \<Rightarrow> bool" where
  "not_alert i (StoredAlert (j, s, m)) = (i \<noteq> j)"
| "not_alert i (Sent (OAlert j s m)) = (i \<noteq> j)"
| "not_alert i _ = True"

lemma causes_offload: "causes P d e \<Longrightarrow> causes P d (offload_flow env pid dip dp proto e)"
  by (erule causes_same) (simp add: offload_flow_def Let_def split: prod.split option.split sum.split)

lemma causes_prompt_user: "causes (not_alert i) d e \<Longrightarrow> causes (not_alert i) d (prompt_user env pid b dip dp proto e)"
  by (auto simp: prompt_user_def Let_def intro!: causes_emit intro: causes_same split: prod.split)

lemma causes_apply_trust:
  assumes "causes (not_alert 8002) d e"
  shows "causes (not_alert 8002) d (apply_trust env pid b dip dp proto e)"
proof -
  have frame: "causes (not_alert 8002) d (e\<lparr>d_trust := t, d_ebpf := m\<rparr>)" for t m
    by (rule causes_same [OF assms]) simp
  then show ?thesis
    by (simp add: apply_trust_def Let_def causes_offload causes_prompt_user causes_raise split: prod.split)
qed

lemma causes_sandbox: "causes (not_alert 8002) d e \<Longrightarrow> causes (not_alert 8002) d (check_sandbox env pid b e)"
  by (auto simp: check_sandbox_def Let_def intro!: causes_raise intro: causes_same split: prod.split option.split)

lemma connect_no_anomaly: "causes (not_alert 8002) d (handle_connect env pid uid dip dp proto hint d)"
proof -
  have slow: "causes (not_alert 8002) d (connect_slow env pid b dip dp proto evt e)"
    if "causes (not_alert 8002) d e" "d_baseline e = record_connection dip dp (d_baseline d)"
      "not_alert 8002 (StoredRaw evt)" for b evt e
    using that causes_same [OF that(1)]
    by (simp add: connect_slow_def recorded_connection_quiet Let_def causes_apply_trust causes_emit causes_sandbox)
  have track: "causes (not_alert 8002) d (track_connect env pid dip dp proto d)"
    "d_baseline (track_connect env pid dip dp proto d) = record_connection dip dp (d_baseline d)"
    by (simp_all add: track_connect_def causes_def)
  have sent: "causes (not_alert 8002) d (emit [Sent (OConnect pid uid b dip dp proto)] (track_connect env pid dip dp proto d))" for b
    by (simp add: causes_emit track)
  have thr: "causes (not_alert 8002) d ((emit [Sent (OConnect pid uid b dip dp proto)]
      (track_connect env pid dip dp proto d))\<lparr>connect_throttle := ct\<rparr>)" for b ct
    by (rule causes_same [OF sent]) simp
  have base: "d_baseline (emit es e) = d_baseline e" for es e by (simp add: emit_def)
  show ?thesis
    by (simp add: handle_connect_def Let_def sent slow [OF thr] base track)
qed

lemma process_anomaly_ids: "set (check_process_anomaly r b p) \<subseteq> pr_id ` set (rc_process (re_config r))"
  by (auto simp: check_process_anomaly_def process_hits_iff)

text \<open>The exec handler, one statement after the other.\<close>

definition quiet :: "daemon \<Rightarrow> daemon \<Rightarrow> bool" where
  "quiet d x \<longleftrightarrow> causes (not_alert 8001) d x \<and> d_rules x = d_rules d"

lemma quiet_emit: "quiet d x \<Longrightarrow> list_all (not_alert 8001) es \<Longrightarrow> quiet d (emit es x)"
  by (auto simp: quiet_def intro: causes_emit) (simp add: emit_def)

lemma quiet_frame:
  assumes "quiet d x"
  shows "quiet d (x\<lparr>d_corr := c, d_lineage := l\<rparr>)" "quiet d (x\<lparr>d_baseline := b\<rparr>)" "quiet d (snd (alert_due env i x))"
  using assms by (auto simp: quiet_def causes_def alert_due_def case_prod_beta)

lemma quiet_raise:
  "quiet d x \<Longrightarrow> i \<noteq> 8001 \<Longrightarrow> quiet d (raise_event i s m x)"
  "quiet d x \<Longrightarrow> fst a \<noteq> 8001 \<Longrightarrow> (\<And>a b. e_recode env a = Some b \<Longrightarrow> b = a) \<Longrightarrow> quiet d (raise_record env a x)"
proof -
  show "quiet d x \<Longrightarrow> i \<noteq> 8001 \<Longrightarrow> quiet d (raise_event i s m x)"
    by (simp add: raise_event_def quiet_emit)
  assume x: "quiet d x" "fst a \<noteq> 8001" and r: "\<And>a b. e_recode env a = Some b \<Longrightarrow> b = a"
  obtain i s m where a: "a = (i, s, m)" by (cases a)
  have "quiet d (emit [StoredAlert a] x)" using x a by (simp add: quiet_emit)
  then show "quiet d (raise_record env a x)"
    using r [of a] x(2) a
    by (cases "e_recode env a") (auto simp: raise_record_def broadcast_alert_record_def quiet_emit)
qed

lemma quiet_rule:
  assumes "quiet d x" "i \<noteq> 8001" "\<And>a b. e_recode env a = Some b \<Longrightarrow> b = a"
  shows "quiet d (raise_process_rule env b p i x)"
  using assms by (simp add: raise_process_rule_def when_due_def case_prod_beta quiet_frame quiet_raise)

lemma quiet_rules:
  assumes "quiet d x" "\<And>a b. e_recode env a = Some b \<Longrightarrow> b = a" "8001 \<notin> set is"
  shows "quiet d (fold (raise_process_rule env b p) is x)"
  using assms by (induction "is" arbitrary: x) (auto simp: quiet_rule)

lemma quiet_kill: "quiet d x \<Longrightarrow> quiet d (kill_blocked env pid x)"
  by (auto simp: kill_blocked_def os_effects_def intro!: quiet_emit split: option.split)

lemma quiet_let: "quiet d e \<Longrightarrow> (\<And>x. quiet d x \<Longrightarrow> quiet d (f x)) \<Longrightarrow> quiet d (let x = e in f x)"
  by simp

lemma quiet_let_record:
  "quiet d e \<Longrightarrow> (\<And>x. quiet d x \<Longrightarrow> d_baseline x = Baseline.record_exec b p bl \<Longrightarrow> quiet d (f x)) \<Longrightarrow>
   quiet d (let x = e\<lparr>d_baseline := Baseline.record_exec b p bl\<rparr> in f x)"
  by (simp add: quiet_frame)

lemma quiet_let_value:
  fixes s :: string and os :: "string option" and p :: u32 and ev :: out_event and fs :: procfs
  shows "(\<And>x. quiet d (f1 x)) \<Longrightarrow> quiet d (let x = s in f1 x)"
    "(\<And>x. quiet d (f2 x)) \<Longrightarrow> quiet d (let x = os in f2 x)"
    "(\<And>x. quiet d (f3 x)) \<Longrightarrow> quiet d (let x = p in f3 x)"
    "(not_alert 8001 (Sent ev) \<Longrightarrow> quiet d (f4 ev)) \<Longrightarrow> not_alert 8001 (Sent ev) \<Longrightarrow> quiet d (let x = ev in f4 x)"
    "(\<And>x. quiet d (f5 x)) \<Longrightarrow> quiet d (let x = fs in f5 x)"
  by simp_all

lemma outcome_quiet: "on_outcome x f d = Some d' \<Longrightarrow> (\<And>v. quiet d (f v d)) \<Longrightarrow> quiet d d \<Longrightarrow> quiet d d'"
  by (auto simp: on_outcome_def split: outcome.splits)

lemma quiet_check:
  "quiet d x \<Longrightarrow> d_baseline x = Baseline.record_exec b p bl \<Longrightarrow>
   quiet d (case check_exec_anomaly ent b p (d_baseline x) of
      (None, b') \<Rightarrow> x\<lparr>d_baseline := b'\<rparr> | (Some a, b') \<Rightarrow> raise_event 8001 2 a (x\<lparr>d_baseline := b'\<rparr>))"
  by (simp add: recorded_exec_quiet quiet_frame)

lemma quiet_parent:
  assumes "quiet d x" "8001 \<notin> pr_id ` set (rc_process (re_config (d_rules d)))"
    "\<And>a b. e_recode env a = Some b \<Longrightarrow> b = a"
  shows "quiet d (case par of
      Some pb \<Rightarrow> fold (raise_process_rule env b pb) (check_process_anomaly (d_rules x) b (Some pb)) x | None \<Rightarrow> x)"
proof -
  have "8001 \<notin> set (check_process_anomaly (d_rules x) b p)" for p
    using assms(1,2) subsetD [OF process_anomaly_ids, of 8001 "d_rules d" b p] by (auto simp: quiet_def)
  then show ?thesis using assms(1,3) by (cases par) (auto intro!: quiet_rules)
qed

lemma exec_no_anomaly:
  assumes ids: "8001 \<notin> pr_id ` set (rc_process (re_config (d_rules d)))"
    and rec: "\<And>a b. e_recode env a = Some b \<Longrightarrow> b = a" and ev: "on_process_exec env raw d = Some d'"
  shows "causes (not_alert 8001) d d'"
proof -
  have start: "quiet d d" by (simp add: quiet_def)
  have final: "quiet d (emit [StoredRaw ev, Sent ev] x)" if "quiet d x" "not_alert 8001 (Sent ev)" for x ev
    using that by (simp add: quiet_emit)
  have sent: "quiet d (emit [Sent ev] x)" if "quiet d x" "not_alert 8001 (Sent ev)" for x ev
    using that by (simp add: quiet_emit)
  have branch: "quiet d (if c then kill_blocked env pid (raise_event 9001 4 m x) else x)" if "quiet d x" for c pid m x
    using that by (simp add: quiet_kill quiet_raise)
  have "quiet d d'"
    using ev unfolding on_process_exec_def
    apply (rule outcome_quiet [OF _ _ start])
    apply (simp only: split_paired_all prod.case)
    apply (intro quiet_let_record quiet_let_value quiet_let start final sent branch quiet_check quiet_parent quiet_frame(1) ids)
    by (simp_all add: rec)
  then show ?thesis by (simp add: quiet_def)
qed

text \<open>
  Claim C11. The learned baseline raises no alert: each execution and each connection is recorded as
  known before it is looked up, so the anomaly alerts 8001 and 8002 never arise from them, in learning
  mode or after it (unless a rule of the user has that number).
\<close>

theorem anomaly_alerts_never:
  assumes "8001 \<notin> pr_id ` set (rc_process (re_config (d_rules d)))"
    and "\<And>a b. e_recode env a = Some b \<Longrightarrow> b = a" and "on_process_exec env raw d = Some d'"
  shows "causes (not_alert 8001) d d' \<and> causes (not_alert 8002) d (handle_connect env pid uid dip dp proto hint d)"
  using exec_no_anomaly [OF assms] connect_no_anomaly by blast

section \<open>From the connect hook to the daemon\<close>

text \<open>
  Claim C9. The event of the connect hook, written by the kernel and handled by the daemon: a blocked
  destination is reported as a blocked connection and nothing else happens, whether the hook denied
  the connection or, in audit mode, allowed it; any other destination enters the connect pipeline.
\<close>

theorem connect_event_handled:
  assumes "connect_dest e = Some dst" and "\<not> connect_limited e s" and "granted e"
  shows "\<exists>ev. LSM_EVENTS (snd (ring0_lsm_socket_connect lpm e s)) = LSM_EVENTS s @ [ev]
    \<and> fst (ring0_lsm_socket_connect lpm e s) = (if is_lsm_enforced s \<and> dest_blocked lpm s dst then - 1 else 0)
    \<and> on_lsm_event env (encode_event pad ev) d = Some
        (if dest_blocked lpm s dst then
           raise_record env (9002, 4, ''LSM blocked connect: '' @ ip_port (fst dst) (snd dst) @ '' (pid ''
             @ show_u32 (ctx_pid e) @ '')'') (count_event d)
         else handle_connect env (ctx_pid e) (cur_uid e) (fst dst) (snd dst) 6 (Some []) (count_event d))"
proof -
  let ?ev = "LsmEvent (now e) (ctx_pid e) (cur_uid e) 2 (if dest_blocked lpm s dst then 1 else 0)
    (replicate 96 0) (fst dst) (snd dst)"
  have path: "lossy_buf (replicate 96 0) = []" by (simp add: lossy_buf_def nul_pos_def)
  have "on_lsm_event env (encode_event pad ?ev) d = Some
      (if dest_blocked lpm s dst then
         raise_record env (9002, 4, ''LSM blocked connect: '' @ ip_port (fst dst) (snd dst) @ '' (pid ''
           @ show_u32 (ctx_pid e) @ '')'') (count_event d)
       else handle_connect env (ctx_pid e) (cur_uid e) (fst dst) (snd dst) 6 (Some []) (count_event d))"
    by (subst on_lsm_event_def, subst lsm_rt) (simp_all add: on_outcome_def path lsm_message_def)
  then show ?thesis using assms by (intro exI [of _ ?ev]) (simp add: socket_connect_eq emit_lsm_def)
qed

section \<open>Killing on command\<close>

text \<open>
  A kill command sends exactly one signal, to exactly the named process, and none at all for a
  process number that does not fit the signed type, for 0 and 1, and for the daemon itself.
\<close>

theorem kill_command_exact:
  "handle env (InCommand (daemon_cmd.KillProcess pid)) d = Some
     (if pid = 0 \<or> pid = 1 \<or> pid = e_daemon_pid env \<or> 2147483648 \<le> unat pid then d
      else emit [Os (Signal (sint pid) SIGKILL)] d)"
proof (cases "pid < 0x80000000")
  case True
  then have "0 \<le> sint pid" by (simp add: sint_nonneg)
  moreover have "sint pid = 0 \<longleftrightarrow> pid = 0" using sint_inj [of pid 0] by simp
  ultimately have "0 < sint pid \<longleftrightarrow> pid \<noteq> 0" by linarith
  then show ?thesis
    using True by (auto simp: kill_process_def try_i32_def os_effects_def word_less_nat_alt)
qed (simp add: kill_process_def try_i32_def word_less_nat_alt)

section \<open>Concrete runs\<close>



theorem anomaly_alerts_never_witness:
  "case on_process_exec env0 (replicate 44 0) daemon0 of None \<Rightarrow> False | Some d' \<Rightarrow> causes (not_alert 8001) daemon0 d'"
proof -
  obtain d' where d': "on_process_exec env0 (replicate 44 0) daemon0 = Some d'"
    using outcome_panic(2) [of "decode_process_exec (replicate 44 0)"] by (auto simp: on_process_exec_def)
  from anomaly_alerts_never [OF _ _ d'] d' show ?thesis by (simp add: rules_empty_def)
qed

text \<open>In audit mode, with the port of the connection blocked.\<close>

definition audit0 :: ksys where
  "audit0 = (ksys0 (net0\<lparr>BLOCKED_PORTS := [443 \<mapsto> 1]\<rparr>))\<lparr>LSM_ENFORCE := Map.empty\<rparr>"

theorem connect_event_handled_witness:
  "\<exists>ev. LSM_EVENTS (snd (ring0_lsm_socket_connect lpm_ref (senv0 1000) audit0)) = [ev]
     \<and> fst (ring0_lsm_socket_connect lpm_ref (senv0 1000) audit0) = 0
     \<and> on_lsm_event env0 (encode_event (\<lambda>i. 0) ev) daemon0 = Some (raise_record env0
         (9002, 4, ''LSM blocked connect: '' @ ip_port 0x0A010203 443 @ '' (pid '' @ show_u32 41 @ '')'')
         (count_event daemon0))"
proof -
  have k: "\<not> connect_limited (senv0 1000) audit0" "granted (senv0 1000)" "LSM_EVENTS audit0 = []"
    "\<not> is_lsm_enforced audit0" "dest_blocked lpm_ref audit0 (0x0A010203, 443)"
    by (simp_all add: audit0_def connect_limited_def senv0_def ksys0_def is_lsm_enforced_def dest_blocked_def)
  show ?thesis
    using connect_event_handled [OF senv0_dest k(1,2), of lpm_ref env0 "\<lambda>i. 0" daemon0] k(3-5) by simp
qed

end
