(* ===== verification/Telemetry.thy ===== *)
theory Telemetry
  imports Daemon_Loop Messages
begin

text \<open>
  What leaves the daemon (\<open>ring0d/src/main.rs\<close>): the frames its broadcasts are built into, the figures of the
  status answer, and the paths it starts from. A \<open>telemetry\<close> is what one broadcast reads beside the state of
  the model: the clock, the governor's figure, its own \<open>/proc\<close> entry, the store's count of lost records, the power
  state. Floating-point fields are bits: \<open>tl_f64\<close> yields those of a rate.
\<close>

section \<open>The daemon's own figures\<close>

definition read_vm_rss :: "string option \<Rightarrow> u64" where
  "read_vm_rss status =
     (case status of
        None \<Rightarrow> 0
      | Some s \<Rightarrow>
          (case find (\<lambda>l. strip_prefix ''VmRSS:'' l \<noteq> None) (text_lines s) of
             None \<Rightarrow> 0
           | Some line \<Rightarrow>
               (let kb = (case split_whitespace (unwrap_or [] (strip_prefix ''VmRSS:'' line)) of
                            w # _ \<Rightarrow> unwrap_or 0 (parse_u64 w) | [] \<Rightarrow> 0)
                in of_nat kb * 1024)))"

text \<open>Events per second since the last status answer; \<open>tnow\<close> in nanoseconds.\<close>

type_synonym last_status = "(u64 \<times> nat) option"

definition events_per_sec :: "u64 \<Rightarrow> nat \<Rightarrow> last_status \<Rightarrow> rat \<times> last_status" where
  "events_per_sec cur tnow prev =
     (case prev of
        Some (seen, at_time) \<Rightarrow>
          (let dt = tnow - at_time in
           if 0 < dt then of_nat (unat (sat_sub cur seen)) * 1000000000 / of_nat dt else 0)
      | None \<Rightarrow> 0,
      Some (cur, tnow))"

text \<open>A file of the system's configuration directory, else of the repository's, else the former again.\<close>

definition bundled_config_path :: "(string \<Rightarrow> bool) \<Rightarrow> string \<Rightarrow> string \<Rightarrow> string" where
  "bundled_config_path exists manifest_dir name =
     (let system = ''/etc/ring0/'' @ name; bundled = manifest_dir @ ''/config/'' @ name
      in if exists system then system else if exists bundled then bundled else system)"

section \<open>Broadcasts\<close>

record telemetry =
  tl_now :: u64
  tl_cpu :: u32
  tl_rate :: rat
  tl_f64 :: "rat \<Rightarrow> u64"
  tl_self_status :: "string option"
  tl_dropped :: u64
  tl_on_battery :: bool
  tl_fim_throttled :: bool

definition status_bytes :: "codec \<Rightarrow> telemetry \<Rightarrow> string list \<Rightarrow> nat \<Rightarrow> nat \<Rightarrow> nat \<Rightarrow> bytes" where
  "status_bytes c t filters domains cidrs ports =
     build_status_event c filters (tl_cpu t) (read_vm_rss (tl_self_status t)) (tl_f64 t (tl_rate t))
       (of_nat domains) (of_nat cidrs) (of_nat ports) (tl_dropped t) (tl_on_battery t) (tl_fim_throttled t)"

definition prompt_bytes :: "codec \<Rightarrow> u64 \<Rightarrow> connect_info \<Rightarrow> nat \<Rightarrow> bytes" where
  "prompt_bytes c i ci timeout =
     build_connection_prompt_event c i (ci_pid ci) (ci_ppid ci) (ci_binary ci) (ci_parent ci) (ci_dst_ip ci)
       (ci_dst_port ci) (ci_protocol ci) (fst (ci_country ci)) (snd (ci_country ci)) (ci_rdns ci) (of_nat timeout)"

fun out_bytes :: "codec \<Rightarrow> telemetry \<Rightarrow> out_event \<Rightarrow> bytes" where
  "out_bytes c t (OPacket ts src dst sp dp proto pid action) = build_packet_event c ts src dst sp dp proto pid action"
| "out_bytes c t (OExec pid ppid uid binary cmdline) = build_process_exec_event c (tl_now t) pid ppid uid binary cmdline"
| "out_bytes c t (OFile pid uid binary path) = build_file_access_event c (tl_now t) pid uid binary path"
| "out_bytes c t (OConnect pid uid binary dip dp proto) = build_connect_event c (tl_now t) pid uid binary dip dp proto"
| "out_bytes c t (ODns ts name query_type) = build_dns_event c ts 0 name query_type 0"
| "out_bytes c t (OAlert rid sev msg) = build_alert_event c (tl_now t) rid sev msg"
| "out_bytes c t (OPrompt i ci timeout) = prompt_bytes c i ci timeout"
| "out_bytes c t (OStatus filters domains cidrs ports) = status_bytes c t filters domains cidrs ports"

text \<open>What the main loop hands to the clients; the encoding \<open>recs\<close> of an alert record is not in the repository.\<close>

definition broadcast_frames :: "codec \<Rightarrow> (alert_rec \<Rightarrow> bytes) \<Rightarrow> (telemetry \<times> effect) list \<Rightarrow> bytes list" where
  "broadcast_frames c recs es = List.map_filter (\<lambda>(t, e). case e of
     Sent x \<Rightarrow> Some (out_bytes c t x) | SentRecord a \<Rightarrow> Some (recs a) | _ \<Rightarrow> None) es"

section \<open>The messages the clients decode\<close>

fun out_message :: "telemetry \<Rightarrow> out_event \<Rightarrow> ring0_event" where
  "out_message t (OPacket ts src dst sp dp proto pid action) = packet_event ts src dst sp dp proto pid action"
| "out_message t (OExec pid ppid uid binary cmdline) = EvProcessExec (Some
     \<lparr>xm_timestamp = tl_now t, xm_pid = pid, xm_ppid = ppid, xm_uid = uid, xm_binary = Text binary, xm_cmdline = Text cmdline\<rparr>)"
| "out_message t (OFile pid uid binary path) = EvFileAccess (Some
     \<lparr>fm_timestamp = tl_now t, fm_pid = pid, fm_uid = uid, fm_binary = Text binary, fm_path = Text path\<rparr>)"
| "out_message t (OConnect pid uid binary dip dp proto) = EvConnect (Some
     \<lparr>cm_timestamp = tl_now t, cm_pid = pid, cm_uid = uid, cm_binary = Text binary, cm_dst_ip = IpV4 dip, cm_dst_port = dp,
      cm_protocol = Some (if proto = 17 then Udp else Tcp)\<rparr>)"
| "out_message t (ODns ts name query_type) = EvDns (Some
     \<lparr>dm_timestamp = ts, dm_pid = 0, dm_domain = Text name, dm_query_type = query_type, dm_dga_score = 0\<rparr>)"
| "out_message t (OAlert rid sev msg) = alert_event (tl_now t) rid sev msg"
| "out_message t (OPrompt i ci timeout) = EvConnectionPrompt (Some
     \<lparr>qm_prompt_id = i, qm_pid = ci_pid ci, qm_ppid = ci_ppid ci, qm_binary = Text (ci_binary ci),
      qm_parent = Text (ci_parent ci), qm_dst_ip = ci_dst_ip ci, qm_dst_port = ci_dst_port ci, qm_protocol = ci_protocol ci,
      qm_country_code = Text (fst (ci_country ci)), qm_country_name = Text (snd (ci_country ci)), qm_rdns = Text (ci_rdns ci),
      qm_timeout = of_nat timeout\<rparr>)"
| "out_message t (OStatus filters domains cidrs ports) = EvStatus (Some
     \<lparr>sm_filters = Some (map Text filters), sm_cpu = tl_cpu t, sm_ram = read_vm_rss (tl_self_status t),
      sm_eps = tl_f64 t (tl_rate t), sm_domains = of_nat domains, sm_cidrs = of_nat cidrs, sm_ports = of_nat ports,
      sm_dropped = tl_dropped t, sm_on_battery = tl_on_battery t, sm_fim_throttled = tl_fim_throttled t\<rparr>)"

lemma out_bytes_message: "out_bytes c t x = cap_event c (out_message t x)"
  by (cases x) (simp_all add: build_packet_event_def build_process_exec_event_def build_file_access_event_def
    build_connect_event_def build_dns_event_def build_alert_event_def prompt_bytes_def build_connection_prompt_event_def
    status_bytes_def build_status_event_def)

end
