(* ===== verification/System_Paths.thy ===== *)
theory System_Paths
  imports Ctl Client_Link Daemon_Claims
begin

text \<open>
  Ways through the whole system. An operator's command: from the command line client
  (\<open>ring0ctl/src/main.rs\<close>) over the socket and the gate (\<open>ring0d/src/ipc.rs\<close>) to the handler of the main
  loop (\<open>ring0d/src/main.rs\<close>), the maps (\<open>ring0d/src/ebpf.rs\<close>) and the verdict of the kernel programs
  (\<open>ring0-ebpf/src/main.rs\<close>), and the answer back. A feed: from the text of a list
  (\<open>ring0d/src/sucadara.rs\<close>) to the same verdict.
\<close>

section \<open>A command of the operator\<close>

text \<open>The connection handler on the bytes of one peer, and the main loop on what it passes on.\<close>

definition served :: "codec \<Rightarrow> u32 option \<Rightarrow> ucred \<Rightarrow> string option \<Rightarrow> bytes \<Rightarrow> ipc_event list \<Rightarrow> ipc_state" where
  "served c gid cred status s tail = ipc_run (rd_command c) gid (map (Frame cred status) (read_frames s) @ tail)"

definition main_loop :: "denv \<Rightarrow> ipc_state \<Rightarrow> daemon \<Rightarrow> daemon" where
  "main_loop env st = fold (\<lambda>(cred, cmd). handle_command env cmd) (to_main st)"

definition answers :: "codec \<Rightarrow> ipc_state \<Rightarrow> bytes" where
  "answers c st = concat (map (\<lambda>(cred, r). write_frame (reply_frame c (\<lambda>_. None) (\<lambda>_ _. []) [] [] r)) (replies st))"

lemma cmd_block_sends:
  "parse_ip ip \<noteq> None \<Longrightarrow> fst (cmd_block l ip incoming e) = write_frame (cap_command (ct_codec l) (WBlockIp (Text ip)))"
  by (auto simp: cmd_block_def cmd_ip_def send_command_no_response_def)

text \<open>One privileged command of a peer, followed by the end of the question to polkit, should there be one.\<close>

lemma served_privileged:
  assumes "command_kept c w" "0 < length (cap_command c w)" "length (cap_command c w) \<le> 65536"
    and "parse_command (cr_pid cred) w = Some cmd" "is_privileged_command cmd"
    and st: "st = served c gid cred status (write_frame (cap_command c w)) [AuthDone 0 tnow ok t]"
  shows "if peer_is_privileged gid status cred \<or> ok
    then to_main st = [(cred, cmd)] \<and> replies st = [(cred, AckOk)]
    else to_main st = [] \<and> replies st = [(cred, AckDenied)]"
proof -
  have frames: "read_frames (write_frame (cap_command c w)) = [cap_command c w]"
    using frames_roundtrip [of "[cap_command c w]" "[]"] assms(2,3) by simp
  have parse: "parse_command_frame (rd_command c) (cap_command c w) (cr_pid cred) = Some cmd"
    using assms(1,4) by (simp add: parse_command_frame_def command_kept_def)
  have serve: "serve_command a cred cmd s = (if a then answer cred AckOk (forward cred cmd s)
      else s\<lparr>asking := asking s @ [(cred, cmd)]\<rparr>)" for a s
    using assms(5) by (cases cmd) (simp_all add: serve_command_def)
  show ?thesis
    by (simp add: st served_def frames ipc_run_def parse serve ipc_start_def answer_def forward_def finish_auth_def
        check_authorization_def Let_def)
qed

lemma ack_read:
  assumes "list_all broadcast_frame bs" "list_all (\<lambda>m. length m \<le> 65536) bs" "length bs < ACK_ROUNDS" "parse_ip ip \<noteq> None"
    and "replies st = [(cred, if yes then AckOk else AckDenied)]"
  shows "snd (cmd_block l ip (concat (map write_frame bs) @ answers c st) e) = (if yes then Inr () else Inl DeniedByDaemon)"
proof -
  have "answers c st = write_frame (ascii (if yes then ''OK'' else ''DENIED'')) @ []"
    using assms(5) by (cases yes) (simp_all add: answers_def reply_frame_def)
  moreover have "\<not> list_ex (\<lambda>m. 65536 < length m) (take ACK_ROUNDS bs)"
    using assms(2) by (fastforce simp: list_ex_iff list_all_iff not_less dest: in_set_takeD)
  ultimately show ?thesis
    using await_ack_stream [OF assms(1), of ACK_ROUNDS yes "[]" e] assms(3,4)
    by (auto simp: cmd_block_def cmd_ip_def send_command_no_response_def simp del: await_ack.simps)
qed

lemma main_loop_block:
  "to_main st = [(cred, BlockIp a)] \<Longrightarrow> d_ebpf (main_loop env st d) = snd (block_ip (e_acc env) a (d_ebpf d))"
  "to_main st = [] \<Longrightarrow> main_loop env st d = d"
  by (simp_all add: main_loop_def)

text \<open>
  Claim C4. A block command, from the command line to the kernel. The operator blocks an IPv4 address; other
  frames may come in front of the daemon's answer. If the peer is root or in the admin group, or polkit says yes,
  the client reports success, and if the daemon's map takes the address, from then on the kernel's check drops
  every packet to it, whatever its ports and protocol and also inside a tunnel, the connect hook finds it
  blocked, and the status lists it. Else the client reports the refusal and the daemon has not changed.
\<close>

theorem block_reaches_kernel:
  assumes "lpm_documented lpm" and "command_kept c (WBlockIp (Text ip))"
    and "0 < length (cap_command c (WBlockIp (Text ip)))" "length (cap_command c (WBlockIp (Text ip))) \<le> 65536"
    and "ct_codec l = c" and "parse_ip ip = Some (V4 a)" and "ebpf (d_ebpf d) = Some k"
    and "list_all broadcast_frame bs" "list_all (\<lambda>m. length m \<le> 65536) bs" "length bs < ACK_ROUNDS"
    and "st = served c gid cred status (fst (cmd_block l ip [] Silent)) [AuthDone 0 tnow ok t]"
  shows "let result = snd (cmd_block l ip (concat (map write_frame bs) @ answers c st) e); d' = main_loop env st d in
    if peer_is_privileged gid status cred \<or> ok
    then result = Inr () \<and> (fst (block_ip (e_acc env) (V4 a) (d_ebpf d)) = Inr () \<longrightarrow>
      (case ebpf (d_ebpf d') of None \<Rightarrow> False | Some k' \<Rightarrow>
         (\<forall>si sp dp proto wg. check_blocked lpm (net k') si a sp dp proto wg = XDP_DROP) \<and> (\<forall>p. dest_blocked lpm k' (a, p)))
      \<and> show_ipv4 a \<in> set (blocked_ips (d_ebpf d')))
    else result = Inl DeniedByDaemon \<and> d' = d"
proof -
  have ip: "parse_ip ip \<noteq> None" and cmd: "parse_command (cr_pid cred) (WBlockIp (Text ip)) = Some (BlockIp (V4 a))"
    using assms(6) by (simp_all add: ip_field_def)
  have st: "st = served c gid cred status (write_frame (cap_command c (WBlockIp (Text ip)))) [AuthDone 0 tnow ok t]"
    using assms(5,11) cmd_block_sends [OF ip] by simp
  note served = served_privileged [OF assms(2-4) cmd _ st]
  note result = ack_read [OF assms(8-10) ip, of st cred _ l c e]
  show ?thesis
  proof (cases "peer_is_privileged gid status cred \<or> ok")
    case True
    then have m: "to_main st = [(cred, BlockIp (V4 a))]" and r: "replies st = [(cred, AckOk)]" using served by auto
    have "(case ebpf (d_ebpf (main_loop env st d)) of None \<Rightarrow> False | Some k' \<Rightarrow>
         (\<forall>si sp dp proto wg. check_blocked lpm (net k') si a sp dp proto wg = XDP_DROP) \<and> (\<forall>p. dest_blocked lpm k' (a, p)))
      \<and> show_ipv4 a \<in> set (blocked_ips (d_ebpf (main_loop env st d)))"
      if "fst (block_ip (e_acc env) (V4 a) (d_ebpf d)) = Inr ()"
    proof -
      have "block_ip (e_acc env) (V4 a) (d_ebpf d) = (Inr (), d_ebpf (main_loop env st d))"
        using that main_loop_block(1) [OF m] by (simp add: prod_eq_iff)
      from block_ip_ok [OF this assms(7)] assms(1) show ?thesis
        by (auto simp: check_blocked_cases user_dst_blocked_def lookup_insert dest_blocked_def blocked_ips_def)
    qed
    then show ?thesis using True result [of True] r by (simp add: Let_def)
  next
    case False
    then have m: "to_main st = []" and r: "replies st = [(cred, AckDenied)]" using served by auto
    then show ?thesis using False result [of False] main_loop_block(2) [OF m] by (simp add: Let_def)
  qed
qed

definition path_codec :: codec where
  "path_codec = (ct_codec sample_ctl)\<lparr>rd_command := \<lambda>_. Some (WBlockIp (Text (show_ipv4 7)))\<rparr>"

text \<open>Root blocks 0.0.0.7, a broadcast event in front of the answer.\<close>

theorem block_reaches_kernel_witness:
  "let l = sample_ctl\<lparr>ct_codec := path_codec\<rparr>; cred = \<lparr>cr_pid = 50, cr_uid = 0, cr_gid = 0\<rparr>;
       st = served path_codec None cred None (fst (cmd_block l (show_ipv4 7) [] Silent)) [AuthDone 0 1 False 2] in
   snd (cmd_block l (show_ipv4 7) (concat (map write_frame [[7, 7]]) @ answers path_codec st) Silent) = Inr ()
   \<and> show_ipv4 7 \<in> set (blocked_ips (d_ebpf (main_loop env0 st daemon0)))"
proof -
  define l where "l = sample_ctl\<lparr>ct_codec := path_codec\<rparr>"
  define cred where "cred = \<lparr>cr_pid = 50, cr_uid = 0, cr_gid = 0 :: u32\<rparr>"
  have c: "command_kept path_codec (WBlockIp (Text (show_ipv4 7)))" "0 < length (cap_command path_codec (WBlockIp (Text (show_ipv4 7))))"
    "length (cap_command path_codec (WBlockIp (Text (show_ipv4 7)))) \<le> 65536" "ct_codec l = path_codec"
    by (simp_all add: command_kept_def path_codec_def sample_ctl_def l_def)
  have bs: "list_all broadcast_frame [[7, 7]]" "list_all (\<lambda>m. length m \<le> 65536) [[7, 7 :: u8]]" "length [[7, 7 :: u8]] < ACK_ROUNDS"
    by (simp_all add: broadcast_frame_def ascii_def ACK_ROUNDS_def)
  have ip: "parse_ip (show_ipv4 7) = Some (V4 7)" and k: "ebpf (d_ebpf daemon0) = Some (ksys0 net0)"
    by (simp_all add: parse_ip_def)
  have ok: "fst (block_ip (e_acc env0) (V4 7) (d_ebpf daemon0)) = Inr ()"
    by (subst daemon0_simps(2), subst daemon0_simps(6), subst block_ip_all) simp
  have yes: "peer_is_privileged None None cred" by (simp add: peer_is_privileged_def cred_def)
  note blocked = block_reaches_kernel [OF lpm_ref_documented c ip k bs refl, where env = env0 and gid = None and cred = cred
      and status = None and tnow = 1 and ok = False and t = 2 and e = Silent,
      unfolded Let_def if_P [OF disjI1 [OF yes]]]
  show ?thesis
    unfolding l_def [symmetric] cred_def [symmetric] Let_def
    by (rule conjI [OF conjunct1 [OF blocked] conjunct2 [OF mp [OF conjunct2 [OF blocked] ok]]])
qed

section \<open>A feed\<close>

text \<open>What an insertion of ranges or ports into the kernel's maps can add, whether or not all of it fits.\<close>

lemma sync_trie_only:
  "lpm_documented lpm \<Longrightarrow> lpm (snd (sync_trie acc cs t)) (32, swap32 a) \<Longrightarrow>
     lpm t (32, swap32 a) \<or> (\<exists>c \<in> set cs. unat (snd c) \<le> 32 \<and> in_cidr c a)"
proof (induction cs arbitrary: t)
  case (Cons c cs)
  have ins: "lpm (trie_insert (cidr_key c) t) (32, swap32 a) \<longleftrightarrow>
      unat (snd c) \<le> 32 \<and> in_cidr c a \<or> lpm t (32, swap32 a)"
    using Cons.prems(1) by (simp add: lpm_documented_def covers_insert lpm_covers_cidr)
  have "snd (sync_trie acc (c # cs) t) = snd (sync_trie acc cs (if trie_ok acc t (cidr_key c) then trie_insert (cidr_key c) t else t))"
    by (simp add: case_prod_beta)
  then have "lpm (if trie_ok acc t (cidr_key c) then trie_insert (cidr_key c) t else t) (32, swap32 a)
      \<or> (\<exists>c \<in> set cs. unat (snd c) \<le> 32 \<and> in_cidr c a)"
    using Cons.IH [OF Cons.prems(1)] Cons.prems(2) by simp
  then show ?case
    using ins by (cases "trie_ok acc t (cidr_key c)") (simp_all only: if_True if_False list.set bex_simps, blast+)
qed simp

lemma sync_ports_only: "snd (sync_ports acc ps t) q \<noteq> None \<Longrightarrow> t q \<noteq> None \<or> q \<in> set ps"
proof (induction ps arbitrary: t)
  case (Cons p ps)
  have "snd (sync_ports acc (p # ps) t) = snd (sync_ports acc ps (if port_ok acc p then t(p \<mapsto> 1) else t))"
    by (simp add: case_prod_beta)
  then have "(if port_ok acc p then t(p \<mapsto> 1) else t) q \<noteq> None \<or> q \<in> set ps"
    using Cons.IH Cons.prems by simp
  then show ?case by (auto split: if_splits)
qed simp

lemma cidr_chunks_ebpf: "ebpf (snd (fold (sync_cidr_chunk acc) css (n, m))) = ebpf (snd (sync_blocked_cidrs acc (concat css) m))"
  by (cases "css = []") (simp_all add: cidr_chunks case_prod_beta sync_blocked_cidrs_def upd_net_def split: option.split)

lemma port_chunks_ebpf: "ebpf (snd (fold (sync_port_chunk acc) css (n, m))) = ebpf (snd (sync_blocked_ports acc (concat css) m))"
  by (cases "css = []") (simp_all add: port_chunks case_prod_beta sync_blocked_ports_def upd_net_def split: option.split)

lemma chunks_sync: "concat (chunks SYNC_CHUNK xs) = xs"
  by (simp add: chunks_concat SYNC_CHUNK_def)

lemma apply_payload_ebpf:
  assumes "ebpf m = Some k"
  shows "ebpf (snd (apply_payload acc p m)) = Some (upd_net (\<lambda>x. x\<lparr>BLOCKED_IPS := snd (sync_trie acc (sp_cidrs p) (BLOCKED_IPS (net k))),
     BLOCKED_PORTS := snd (sync_ports acc (sp_ports p) (BLOCKED_PORTS (net k)))\<rparr>) k)"
proof -
  obtain c m1 where 1: "fold (sync_cidr_chunk acc) (chunks SYNC_CHUNK (sp_cidrs p)) (0, m) = (c, m1)" by force
  obtain n m2 where 2: "sync_dns_domains (take 190000 (sp_domains p)) m1 = (n, m2)" by force
  have "ebpf m1 = Some (upd_net (\<lambda>x. x\<lparr>BLOCKED_IPS := snd (sync_trie acc (sp_cidrs p) (BLOCKED_IPS (net k)))\<rparr>) k)"
    using cidr_chunks_ebpf [of acc "chunks SYNC_CHUNK (sp_cidrs p)" 0 m] assms
    by (simp add: 1 chunks_sync sync_blocked_cidrs_def case_prod_beta)
  moreover have "ebpf m2 = ebpf m1" using 2 by (auto simp: sync_dns_domains_def)
  ultimately show ?thesis
    using port_chunks_ebpf [of acc "chunks SYNC_CHUNK (sp_ports p)" 0 m2]
    by (simp add: apply_payload_def 1 2 chunks_sync sync_blocked_ports_def upd_net_def case_prod_beta [of _ "sync_ports a b c" for a b c]
        split: prod.split) auto
qed

text \<open>
  Claim C5. A feed, from its text to the kernel. A payload made of the lists and the rule set that were fetched is applied by the
  tick of the main loop. Whatever the texts hold and whatever the maps take, the kernel's check drops no packet it did
  not drop before, unless the packet is outside a tunnel and either a TCP packet whose source is in a range of the payload
  or has a port of the payload, which is never one of the protected ports; no address is blocked outbound. And if the maps
  take everything, each line of an address list that is a range with a prefix length from 1 to 32 makes the check drop
  all TCP packets out of that range.
\<close>

theorem feed_reaches_kernel:
  assumes "lpm_documented lpm" and "fetch_all ord dns ips rules = Some (r, p)" "lists_all ord"
    and "ebpf (d_ebpf d) = Some k" and "d_payload d = Some p"
  shows "case ebpf (d_ebpf (on_tick env BlocklistTick d)) of None \<Rightarrow> False | Some k' \<Rightarrow>
      (\<forall>si di sp dp proto wg. check_blocked lpm (net k') si di sp dp proto wg = XDP_DROP
         \<and> check_blocked lpm (net k) si di sp dp proto wg = XDP_PASS \<longrightarrow> \<not> wg \<and>
         (proto = 6 \<and> (\<exists>c \<in> set (sp_cidrs p). unat (snd c) \<le> 32 \<and> in_cidr c si)
          \<or> sp \<in> set (sp_ports p) \<and> is_blockable_port sp \<or> dp \<in> set (sp_ports p) \<and> is_blockable_port dp))
    \<and> (\<forall>a. user_dst_blocked lpm a (net k') = user_dst_blocked lpm a (net k))
    \<and> ((\<forall>t key. trie_ok (e_acc env) t key) \<longrightarrow>
       (\<forall>feed ip len si di sp dp. Some feed \<in> set ips \<and> show_ipv4 ip @ ''/'' @ show_nat (unat len) \<in> set (text_lines feed)
          \<and> 1 \<le> len \<and> len \<le> 32 \<and> in_cidr (ip, len) si
          \<longrightarrow> check_blocked lpm (net k') si di sp dp 6 False = XDP_DROP))"
proof -
  let ?k = "upd_net (\<lambda>x. x\<lparr>BLOCKED_IPS := snd (sync_trie (e_acc env) (sp_cidrs p) (BLOCKED_IPS (net k))),
     BLOCKED_PORTS := snd (sync_ports (e_acc env) (sp_ports p) (BLOCKED_PORTS (net k)))\<rparr>) k"
  have k': "ebpf (d_ebpf (on_tick env BlocklistTick d)) = Some ?k"
    using apply_payload_ebpf [OF assms(4)] assms(5) by (simp add: apply_blocklist_payload_def)
  have user: "user_dst_blocked lpm a (net ?k) = user_dst_blocked lpm a (net k)" for a
    by (simp add: user_dst_blocked_def)
  have ports: "q \<in> set (sp_ports p) \<and> is_blockable_port q" if "BLOCKED_PORTS (net ?k) q \<noteq> None" "BLOCKED_PORTS (net k) q = None" for q
    using sync_ports_only [of "e_acc env" "sp_ports p" "BLOCKED_PORTS (net k)" q] payload_holds(1) [OF assms(2,3)] that by auto
  have "\<not> wg \<and> (proto = 6 \<and> (\<exists>c \<in> set (sp_cidrs p). unat (snd c) \<le> 32 \<and> in_cidr c si)
          \<or> sp \<in> set (sp_ports p) \<and> is_blockable_port sp \<or> dp \<in> set (sp_ports p) \<and> is_blockable_port dp)"
    if "check_blocked lpm (net ?k) si di sp dp proto wg = XDP_DROP" "check_blocked lpm (net k) si di sp dp proto wg = XDP_PASS"
    for si di sp dp proto wg
  proof -
    have new: "\<not> user_dst_blocked lpm di (net k)" "\<not> wg \<Longrightarrow> \<not> (proto = 6 \<and> lpm (BLOCKED_IPS (net k)) (32, swap32 si))"
      "\<not> wg \<Longrightarrow> BLOCKED_PORTS (net k) sp = None" "\<not> wg \<Longrightarrow> BLOCKED_PORTS (net k) dp = None"
      using that(2) check_blocked_cases [of lpm "net k" si di sp dp proto wg] by auto
    have "\<not> wg \<and> (proto = 6 \<and> lpm (BLOCKED_IPS (net ?k)) (32, swap32 si) \<or> BLOCKED_PORTS (net ?k) sp \<noteq> None
        \<or> BLOCKED_PORTS (net ?k) dp \<noteq> None)"
      using that(1) new(1) unfolding check_blocked_cases user by blast
    then show ?thesis
      using new(2-4) ports sync_trie_only [OF assms(1), of "e_acc env" "sp_cidrs p" "BLOCKED_IPS (net k)" si] by auto
  qed
  moreover have "check_blocked lpm (net ?k) si di sp dp 6 False = XDP_DROP"
    if "\<forall>t key. trie_ok (e_acc env) t key" "Some feed \<in> set ips" "show_ipv4 ip @ ''/'' @ show_nat (unat len) \<in> set (text_lines feed)"
      "1 \<le> len" "len \<le> 32" "in_cidr (ip, len) si" for feed ip len si di sp dp
  proof -
    have "(ip, len) \<in> set (sp_cidrs p)"
      using payload_holds(2) [OF assms(2,3) that(2,3)] address_entries [of ip len 0 no_sets] that(4,5) by (auto simp: add_cidr_def)
    then show ?thesis
      using sync_trie_lookup [OF assms(1) that(1), of "sp_cidrs p" "BLOCKED_IPS (net k)" si] that(5,6)
      by (auto simp: check_blocked_cases word_le_nat_alt)
  qed
  ultimately show ?thesis using k' user by (simp del: upd_net_simps) blast
qed

definition list_order :: set_order where
  "list_order = \<lparr>order_cidrs = \<lambda>s. filter (\<lambda>c. c \<in> s) (List.product (map word_of_nat [0..<2 ^ 32]) (map word_of_nat [0..<256])),
     order_domains = \<lambda>s. [], order_ports = \<lambda>s. filter (\<lambda>p. p \<in> s) (map word_of_nat [0..<65536])\<rparr>"

lemma all_words: "set (map word_of_nat [0..<2 ^ LENGTH('a)]) = (UNIV :: 'a::len word set)"
proof -
  have "w \<in> word_of_nat ` {0..<2 ^ LENGTH('a)}" for w :: "'a word"
    using unsigned_less [of w, where ?'a = nat] by (intro image_eqI [of _ _ "unat w"]) simp_all
  then show ?thesis by auto
qed

lemma list_order_lists: "lists_all list_order"
proof -
  have "set (map word_of_nat [0..<2 ^ 32]) = (UNIV :: u32 set)" "set (map word_of_nat [0..<256]) = (UNIV :: u8 set)"
    "set (map word_of_nat [0..<65536]) = (UNIV :: u16 set)"
    using all_words [where ?'a = 32] all_words [where ?'a = 8] all_words [where ?'a = 16] by simp_all
  then show ?thesis by (simp only: lists_all_def list_order_def set_order.simps set_filter set_product) auto
qed

lemma one_range: "\<exists>r p. fetch_all list_order [] [Some (show_ipv4 0x0A000000 @ ''/'' @ show_nat (unat (8 :: u8)))] None = Some (r, p)"
  by (simp add: fetch_all_def Let_def case_prod_beta)

text \<open>The range 10.0.0.0/8 of a list.\<close>

theorem feed_reaches_kernel_witness:
  "\<exists>p. case ebpf (d_ebpf (on_tick env0 BlocklistTick (daemon0\<lparr>d_payload := Some p\<rparr>))) of None \<Rightarrow> False | Some k' \<Rightarrow>
     check_blocked lpm_ref (net k') 0x0A010203 1 80 443 6 False = XDP_DROP"
proof -
  let ?line = "show_ipv4 0x0A000000 @ ''/'' @ show_nat (unat (8 :: u8))"
  obtain r p where p: "fetch_all list_order [] [Some ?line] None = Some (r, p)" using one_range by blast
  have line: "text_lines ?line = [?line]" by code_simp
  have "?line \<in> set (text_lines ?line)" unfolding line by simp
  then have mem: "show_ipv4 0x0A000000 @ CHR ''/'' # show_nat 8 \<in> set (text_lines (show_ipv4 0x0A000000 @ CHR ''/'' # show_nat 8))"
    by simp
  have inside: "in_cidr (0x0A000000, 8) 0x0A010203" by code_simp
  have all: "\<forall>t key. trie_ok (e_acc env0) t key" by (simp add: acc_all_def)
  have k: "ebpf (d_ebpf (daemon0\<lparr>d_payload := Some p\<rparr>)) = Some (ksys0 net0)" "d_payload (daemon0\<lparr>d_payload := Some p\<rparr>) = Some p"
    by simp_all
  note reached = feed_reaches_kernel [OF lpm_ref_documented p list_order_lists k, of env0]
  have "case ebpf (d_ebpf (on_tick env0 BlocklistTick (daemon0\<lparr>d_payload := Some p\<rparr>))) of None \<Rightarrow> False | Some k' \<Rightarrow>
     check_blocked lpm_ref (net k') 0x0A010203 1 80 443 6 False = XDP_DROP"
  proof (cases "ebpf (d_ebpf (on_tick env0 BlocklistTick (daemon0\<lparr>d_payload := Some p\<rparr>)))")
    case None
    then show ?thesis using reached by (simp only: option.case)
  next
    case (Some k')
    have "check_blocked lpm_ref (net k') 0x0A010203 1 80 443 6 False = XDP_DROP"
      by (rule reached [unfolded Some option.case, THEN conjunct2, THEN conjunct2, THEN mp, OF all, rule_format, of ?line "0x0A000000" 8])
        (simp add: mem inside)
    then show ?thesis by (simp only: Some option.case)
  qed
  then show ?thesis by (rule exI)
qed

end
