(* ===== verification/Prompt_Path.thy ===== *)
theory Prompt_Path
  imports System_Paths Telemetry Daemon_Effects
begin

text \<open>
  From the daemon to the user and back: the broadcasts of the main loop (\<open>ring0d/src/main.rs\<close>) as the desktop
  client shows them (\<open>ring0-gui/src/lib.rs\<close>), and a connection prompt, shown, decided and enforced.
\<close>

section \<open>Broadcasts\<close>

text \<open>A broadcast the client can take: an event the format keeps, or a record that is none.\<close>

definition effect_carried :: "gui_libs \<Rightarrow> (alert_rec \<Rightarrow> bytes) \<Rightarrow> telemetry \<times> effect \<Rightarrow> bool" where
  "effect_carried g recs = (\<lambda>(t, e). case e of
     Sent x \<Rightarrow> carried g (out_message t x)
   | SentRecord a \<Rightarrow> 0 < length (recs a) \<and> length (recs a) \<le> 2 ^ 20 \<and> deserialize_to_json g (recs a) = None
   | _ \<Rightarrow> True)"

definition effect_shown :: "gui_libs \<Rightarrow> telemetry \<times> effect \<Rightarrow> string option" where
  "effect_shown g = (\<lambda>(t, e). case e of Sent x \<Rightarrow> shown g (out_message t x) | _ \<Rightarrow> None)"

lemma frames_carried:
  "list_all (effect_carried g recs) es \<Longrightarrow>
     list_all (\<lambda>m. 0 < length m \<and> length m \<le> 2 ^ 20) (broadcast_frames (gl_codec g) recs es)
     \<and> List.map_filter (deserialize_to_json g) (broadcast_frames (gl_codec g) recs es) = List.map_filter (effect_shown g) es"
proof (induction es)
  case (Cons e es)
  then show ?case
    by (cases e; cases "snd e") (simp_all add: broadcast_frames_def map_filter_simps effect_carried_def effect_shown_def
      out_bytes_message carried_def shown_def event_shown split: option.split)
qed (simp add: broadcast_frames_def map_filter_simps)


section \<open>A prompt\<close>

text \<open>The destinations of the prompts a process has; at most one.\<close>

definition asked_before :: "u32 \<Rightarrow> daemon \<Rightarrow> u32 list" where
  "asked_before pid d = map (cp_dst_ip \<circ> snd) (filter (\<lambda>x. cp_pid (snd x) = pid) (pending (d_prompt d)))"

lemma filter_one: "distinct (map f xs) \<Longrightarrow> x \<in> set xs \<Longrightarrow> filter (\<lambda>y. f y = f x) xs = [x]"
  by (induction xs) (auto simp: filter_empty_conv image_iff)

lemma prompt_made:
  assumes "iter_ok (e_iter env)" "prompts_ok (d_prompt d)" "c = connection_info env pid binary dip dp proto"
    and "create_prompt (e_iter env) (e_mono env) c (d_prompt d) = (i, q)"
  shows "\<exists>p. map_of (pending q) i = Some p \<and> cp_pid p = pid \<and> cp_dst_ip p = (case asked_before pid d of x # _ \<Rightarrow> x | [] \<Rightarrow> dip)"
proof -
  let ?e = "d_prompt d"
  have c: "ci_pid c = pid" "ci_dst_ip c = dip" by (simp_all add: assms(3) connection_info_def Let_def)
  show ?thesis
  proof (cases "find (\<lambda>(i, p). cp_pid p = ci_pid c) (e_iter env (pending ?e))")
    case None
    then have "asked_before pid d = []"
      using iter_set [OF assms(1), of "pending ?e"] by (fastforce simp: find_None_iff asked_before_def filter_empty_conv c)
    then show ?thesis
      using assms(4) None by (auto simp: create_prompt_def Let_def mk_prompt_def update_conv c split: if_splits list.splits prod.splits)
  next
    case (Some x)
    obtain j p where jp: "x = (j, p)" by force
    have "x \<in> set (e_iter env (pending ?e))" using Some by (metis find_Some_iff nth_mem)
    then have x: "x = (j, p)" "(j, p) \<in> set (pending ?e)" "cp_pid p = pid"
      using Some iter_set [OF assms(1), of "pending ?e"] jp by (simp_all add: c) (auto simp: find_Some_iff c)
    have "filter (\<lambda>y. cp_pid (snd y) = pid) (pending ?e) = [(j, p)]"
      using filter_one [of "cp_pid \<circ> snd" "pending ?e" "(j, p)"] assms(2) x(2,3) by (simp add: prompts_ok_def)
    then show ?thesis
      using assms(4) Some x by (auto simp: create_prompt_def Let_def asked_before_def update_conv)
  qed
qed

text \<open>The decision of a client, over the socket and the gate, into the main loop. No privilege is asked for.\<close>

definition decided_by :: "gui_libs \<Rightarrow> u64 \<Rightarrow> bridge \<Rightarrow> u32 option \<Rightarrow> ucred \<Rightarrow> string option \<Rightarrow> gui_op \<Rightarrow> ipc_state" where
  "decided_by g tnow b gid cred status x =
     served (gl_codec g) gid cred status (written (gui_do g tnow x (snd (connectDaemon True b)))) []"

lemma decision_forwarded:
  assumes "fits_frame g tnow (GSubmitPromptDecision i a s)"
  shows "to_main (decided_by g tnow b gid cred status (GSubmitPromptDecision i a s)) = [(cred, SubmitPromptDecision i a s (cr_pid cred))]"
proof -
  let ?x = "GSubmitPromptDecision i a s"
  let ?f = "cap_command (gl_codec g) (gui_command tnow ?x)"
  have "br_stream (snd (connectDaemon True b)) = Some []" by (simp add: connectDaemon_def Let_def)
  then have "written (gui_do g tnow ?x (snd (connectDaemon True b))) = write_frame ?f"
    using gui_do_all [of "snd (connectDaemon True b)" "[]" g tnow "[?x]"] by (simp add: written_def unwrap_or_def)
  moreover have "read_frames (write_frame ?f) = [?f]"
    using frames_roundtrip [of "[?f]" "[]"] assms by (simp add: fits_frame_def)
  moreover have "parse_command_frame (rd_command (gl_codec g)) ?f (cr_pid cred) = Some (SubmitPromptDecision i a s (cr_pid cred))"
    using assms by (simp only: parse_command_frame_def fits_frame_def command_kept_def option.simps bind.simps gui_parsed gui_meaning.simps)
  ultimately show ?thesis
    by (simp add: decided_by_def served_def ipc_run_def serve_command_def ipc_start_def forward_def Let_def)
qed

text \<open>
  Claim C6. A connection prompt, shown, decided and enforced. The daemon asks about a connection: exactly one message goes
  out, and the client shows it with the number of the prompt and the destination of the connection. A user's block reaches
  the main loop from any local process: one that made the connection itself changes nothing, any other queues exactly the command
  to block an address, which the kernel enforces once the loop has taken it, if its map has room. That address is the
  destination shown only if the process had no undecided prompt; else it is that of the older prompt.
\<close>

theorem prompt_shown_decided_enforced:
  assumes "iter_ok (e_iter env)" "prompts_ok (d_prompt d)" and "lpm_documented lpm" and "ebpf (d_ebpf d) = Some k"
    and "i = fst (create_prompt (e_iter env) (e_mono env) (connection_info env pid binary dip dp proto) (d_prompt d))"
    and "event_kept (gl_codec g) (out_message t (OPrompt i (connection_info env pid binary dip dp proto) 15))"
    and "fits_frame g tnow (GSubmitPromptDecision i ''block'' scope)"
    and "st = decided_by g tnow b gid cred status (GSubmitPromptDecision i ''block'' scope)"
  shows "let d1 = prompt_user env pid binary dip dp proto d; d2 = main_loop env' st d1;
      dst = (case asked_before pid d of x # _ \<Rightarrow> x | [] \<Rightarrow> dip) in
    (\<exists>ci. effects d1 = effects d @ [Sent (OPrompt i ci 15)] \<and> ci_pid ci = pid \<and> ci_dst_ip ci = dip \<and> ci_dst_port ci = dp
       \<and> (\<exists>kvs. deserialize_to_json g (out_bytes (gl_codec g) t (OPrompt i ci 15)) = Some (json_text g (JObj kvs))
         \<and> map_of kvs ''type'' = Some (JStr ''connectionPrompt'') \<and> map_of kvs ''promptId'' = Some (jw i)
         \<and> map_of kvs ''pid'' = Some (jw pid) \<and> map_of kvs ''dstIp'' = Some (jw dip) \<and> map_of kvs ''dstPort'' = Some (jw dp)))
    \<and> (if cr_pid cred = pid then d2 = d1
       else d_commands d2 = d_commands d1 @ [BlockIp (V4 dst)] \<and> d_ebpf d2 = d_ebpf d
         \<and> (fst (block_ip (e_acc env'') (V4 dst) (d_ebpf d)) = Inr () \<longrightarrow>
            (case ebpf (d_ebpf (handle_command env'' (BlockIp (V4 dst)) d2)) of None \<Rightarrow> False
             | Some k' \<Rightarrow> (\<forall>si sp dp proto wg. check_blocked lpm (net k') si dst sp dp proto wg = XDP_DROP))))"
proof -
  let ?ci = "connection_info env pid binary dip dp proto"
  let ?d1 = "prompt_user env pid binary dip dp proto d" and ?d2 = "main_loop env' st (prompt_user env pid binary dip dp proto d)"
  let ?dst = "case asked_before pid d of x # _ \<Rightarrow> x | [] \<Rightarrow> dip"
  obtain q where q: "create_prompt (e_iter env) (e_mono env) ?ci (d_prompt d) = (i, q)" using assms(5) by (metis prod.collapse)
  have d1: "?d1 = emit [Sent (OPrompt i ?ci 15)] (d\<lparr>d_prompt := q\<rparr>)" by (simp add: prompt_user_def q)
  have ci: "ci_pid ?ci = pid" "ci_dst_ip ?ci = dip" "ci_dst_port ?ci = dp" by (simp_all add: connection_info_def Let_def)
  obtain p where p: "map_of (pending q) i = Some p" "cp_pid p = pid" "cp_dst_ip p = ?dst"
    using prompt_made [OF assms(1,2) refl q] by blast
  have "\<exists>kvs. event_json (out_message t (OPrompt i ?ci 15)) = Some (JObj kvs)
      \<and> map_of kvs ''type'' = Some (JStr ''connectionPrompt'') \<and> map_of kvs ''promptId'' = Some (jw i)
      \<and> map_of kvs ''pid'' = Some (jw pid) \<and> map_of kvs ''dstIp'' = Some (jw dip) \<and> map_of kvs ''dstPort'' = Some (jw dp)"
    by (simp add: ci)
  then have shows_it: "\<exists>kvs. deserialize_to_json g (out_bytes (gl_codec g) t (OPrompt i ?ci 15)) = Some (json_text g (JObj kvs))
      \<and> map_of kvs ''type'' = Some (JStr ''connectionPrompt'') \<and> map_of kvs ''promptId'' = Some (jw i)
      \<and> map_of kvs ''pid'' = Some (jw pid) \<and> map_of kvs ''dstIp'' = Some (jw dip) \<and> map_of kvs ''dstPort'' = Some (jw dp)"
    unfolding out_bytes_message event_shown [OF assms(6)] by auto
  have d2: "?d2 = decide_prompt env' i ''block'' scope (cr_pid cred) ?d1"
    by (simp add: main_loop_def assms(8) decision_forwarded [OF assms(7)])
  have "?d2 = ?d1" if "cr_pid cred = pid"
    unfolding d2 using that p(1,2) by (simp add: decide_prompt_def d1 emit_def pending_get_def)
  moreover have "d_commands ?d2 = d_commands ?d1 @ [BlockIp (V4 ?dst)] \<and> d_ebpf ?d2 = d_ebpf d" if "cr_pid cred \<noteq> pid"
  proof -
    have "decided_commands ?d1 i ''block'' (cr_pid cred) = [BlockIp (V4 ?dst)]"
      using that p by (auto simp: decided_commands_def d1 emit_def action_of_def effect_def)
    moreover obtain e where "?d2 = ?d1\<lparr>d_prompt := e, d_commands := d_commands ?d1 @ decided_commands ?d1 i ''block'' (cr_pid cred)\<rparr>"
      using decide_effect [of env' i "''block''" scope "cr_pid cred" ?d1] unfolding d2 by blast
    ultimately show ?thesis by (simp add: d1 emit_def)
  qed
  moreover have "case ebpf (snd (block_ip (e_acc env'') (V4 ?dst) (d_ebpf d))) of None \<Rightarrow> False
      | Some k' \<Rightarrow> (\<forall>si sp dp proto wg. check_blocked lpm (net k') si ?dst sp dp proto wg = XDP_DROP)"
    if "fst (block_ip (e_acc env'') (V4 ?dst) (d_ebpf d)) = Inr ()"
  proof -
    have "block_ip (e_acc env'') (V4 ?dst) (d_ebpf d) = (Inr (), snd (block_ip (e_acc env'') (V4 ?dst) (d_ebpf d)))"
      using that by (metis prod.collapse)
    from block_ip_ok [OF this assms(4)] assms(3) show ?thesis
      by (simp add: check_blocked_cases user_dst_blocked_def lookup_insert)
  qed
  moreover have "effects ?d1 = effects d @ [Sent (OPrompt i ?ci 15)]" by (simp add: d1 emit_def)
  ultimately show ?thesis using shows_it ci unfolding Let_def handle_command.simps by fastforce
qed

section \<open>Concrete runs\<close>

definition telemetry0 :: telemetry where
  "telemetry0 = \<lparr>tl_now = 0, tl_cpu = 0, tl_rate = 0, tl_f64 = \<lambda>_. 0, tl_self_status = None, tl_dropped = 0,
     tl_on_battery = False, tl_fim_throttled = False\<rparr>"


definition asked0 :: connect_info where
  "asked0 = connection_info env0 41 ''/bin/nc'' 0x0A010203 443 6"

definition prompt_libs :: gui_libs where
  "prompt_libs = \<lparr>gl_codec = sample_codec\<lparr>cap_event := \<lambda>_. [5], rd_event := \<lambda>_. Some (out_message telemetry0 (OPrompt 1 asked0 15)),
       cap_command := \<lambda>_. [3], rd_command := \<lambda>_. Some (WSubmitPromptDecision (Some (1, Text ''block'', Text ''exact_ip'')))\<rparr>,
     json_text = \<lambda>_. ''{}''\<rparr>"

text \<open>A process asks for its first connection; another process, without privileges, blocks it.\<close>

theorem prompt_shown_decided_enforced_witness:
  "let st = decided_by prompt_libs 0 bridge_default (Some 990) \<lparr>cr_pid = 700, cr_uid = 1000, cr_gid = 1000\<rparr> None
        (GSubmitPromptDecision 1 ''block'' ''exact_ip'');
       d1 = prompt_user env0 41 ''/bin/nc'' 0x0A010203 443 6 daemon0 in
   d_commands (main_loop env0 st d1) = d_commands d1 @ [BlockIp (V4 0x0A010203)]"
proof -
  have new: "d_prompt daemon0 = prompt_new None"
    using dpi0 by (auto simp: daemon0_def daemon_new_def su0_def env0_def)
  have ok: "prompts_ok (d_prompt daemon0)" and none: "asked_before 41 daemon0 = []"
    by (simp_all add: new prompt_new_def prompts_ok_def asked_before_def)
  have k: "ebpf (d_ebpf daemon0) = Some (ksys0 net0)" by simp
  have i: "1 = fst (create_prompt (e_iter env0) (e_mono env0) (connection_info env0 41 ''/bin/nc'' 0x0A010203 443 6) (d_prompt daemon0))"
    by (simp add: new prompt_new_def create_prompt_def Let_def env0_def MAX_PENDING_PROMPTS_def)
  have event: "event_kept (gl_codec prompt_libs) (out_message telemetry0 (OPrompt 1 (connection_info env0 41 ''/bin/nc'' 0x0A010203 443 6) 15))"
    by (simp add: event_kept_def prompt_libs_def asked0_def)
  have fits: "fits_frame prompt_libs 0 (GSubmitPromptDecision 1 ''block'' ''exact_ip'')"
    by (simp add: fits_frame_def command_kept_def prompt_libs_def)
  define cred :: ucred where "cred = \<lparr>cr_pid = 700, cr_uid = 1000, cr_gid = 1000\<rparr>"
  have "cr_pid cred \<noteq> 41" by (simp add: cred_def)
  then show ?thesis
    using prompt_shown_decided_enforced [OF daemon0_simps(5) ok lpm_ref_documented k i event fits refl, of env0 bridge_default "Some 990" cred None env0]
    unfolding Let_def none cred_def [symmetric] by (simp only: if_False list.case)
qed

end
